(* ===== verification/Prelude.thy ===== *)
theory Prelude
  imports Main "HOL-Library.Char_ord" "HOL-Library.List_Lexorder"
begin

text \<open>
  Shared vocabulary of the development: the two results a fallible step can have
  (\<open>Inl\<close> an error, \<open>Inr\<close> a value), sequencing of such steps, BigInt division as
  JavaScript defines it, and generic list lemmas the components share.  The named
  collections gather the facts that the component proofs hand to the simplifier.
\<close>

named_theorems js_defs \<open>definitions of JavaScript string and number primitives\<close>
named_theorems result_simps \<open>equations about sequencing of fallible steps\<close>
named_theorems table_simps \<open>laws of the keyed tables\<close>

section \<open>Fallible steps\<close>

text \<open>
  \<open>rbind\<close> is the sequencing of a step that may throw: a thrown error skips the rest.
\<close>

fun rbind :: "'e + 'a \<Rightarrow> ('a \<Rightarrow> 'e + 'b) \<Rightarrow> 'e + 'b" where
  "rbind (Inl e) f = Inl e"
| "rbind (Inr a) f = f a"

lemma rbind_Inr_iff [result_simps]:
  "rbind r f = Inr b \<longleftrightarrow> (\<exists>a. r = Inr a \<and> f a = Inr b)"
  by (cases r) auto

lemma rbind_Inl_iff [result_simps]:
  "rbind r f = Inl e \<longleftrightarrow> r = Inl e \<or> (\<exists>a. r = Inr a \<and> f a = Inl e)"
  by (cases r) auto

lemma rbind_cong [fundef_cong]:
  "r = r' \<Longrightarrow> (\<And>a. r' = Inr a \<Longrightarrow> f a = g a) \<Longrightarrow> rbind r f = rbind r' g"
  by (cases r') auto

text \<open>\<open>require p e\<close> is a guard: \<open>if (!p) throw e\<close>.\<close>

definition require :: "bool \<Rightarrow> 'e \<Rightarrow> 'e + unit" where
  "require p e = (if p then Inr () else Inl e)"

lemma require_iff [simp]:
  "require p e = Inr u \<longleftrightarrow> p" "require p e = Inl e' \<longleftrightarrow> \<not> p \<and> e' = e"
  by (auto simp: require_def)

text \<open>\<open>option_or m d\<close> is the nullish coalescing \<open>m ?? d\<close>.\<close>

definition option_or :: "'a option \<Rightarrow> 'a \<Rightarrow> 'a" where
  "option_or m d = (case m of None \<Rightarrow> d | Some a \<Rightarrow> a)"

lemma option_or_simps [simp]: "option_or None d = d" "option_or (Some a) d = a"
  by (simp_all add: option_or_def)

text \<open>
  \<open>result_map f [x1, \<dots>]\<close> runs a step on each element in order and stops at the first
  error, as a \<open>map\<close> whose callback throws does.
\<close>

fun result_map :: "('a \<Rightarrow> 'e + 'b) \<Rightarrow> 'a list \<Rightarrow> 'e + 'b list" where
  "result_map f [] = Inr []"
| "result_map f (x # xs) = rbind (f x) (\<lambda>y. rbind (result_map f xs) (\<lambda>ys. Inr (y # ys)))"

lemma result_map_Inr_iff:
  "result_map f xs = Inr ys \<longleftrightarrow> list_all2 (\<lambda>x y. f x = Inr y) xs ys"
proof (induction xs arbitrary: ys)
  case Nil
  then show ?case by auto
next
  case (Cons x xs)
  then show ?case by (cases ys) (auto simp: result_simps)
qed

section \<open>BigInt division\<close>

text \<open>
  JavaScript's \<open>BigInt\<close> division truncates towards zero and its remainder takes the sign of
  the dividend.  Isabelle's \<open>div\<close> rounds towards minus infinity, so both are written out.
  Division by zero raises in JavaScript; every caller divides by a positive constant or by a
  value it has tested, which the theorems about the callers show.
\<close>

definition tdiv :: "int \<Rightarrow> int \<Rightarrow> int" where
  "tdiv a b = sgn a * sgn b * (\<bar>a\<bar> div \<bar>b\<bar>)"

definition tmod :: "int \<Rightarrow> int \<Rightarrow> int" where
  "tmod a b = a - b * tdiv a b"

lemma tdiv_nonneg [simp]: "0 \<le> a \<Longrightarrow> 0 < b \<Longrightarrow> tdiv a b = a div b"
  by (cases "a = 0") (auto simp: tdiv_def)

lemma tmod_nonneg [simp]: "0 \<le> a \<Longrightarrow> 0 < b \<Longrightarrow> tmod a b = a mod b"
  by (simp add: tmod_def minus_mult_div_eq_mod)

lemma tdiv_neg: "a < 0 \<Longrightarrow> 0 < b \<Longrightarrow> tdiv a b = - ((- a) div b)"
  by (simp add: tdiv_def)

lemma tdiv_minus: "tdiv (- a) b = - tdiv a b"
  by (simp add: tdiv_def)

text \<open>\<open>Math.ceil(n / 1000)\<close>.\<close>

definition ceil_seconds :: "int \<Rightarrow> int" where
  "ceil_seconds ms = - ((- ms) div 1000)"

section \<open>Lists\<close>

lemma takeWhile_all [simp]: "\<forall>x\<in>set xs. P x \<Longrightarrow> takeWhile P xs = xs"
  by (simp add: takeWhile_eq_all_conv)

lemma dropWhile_all [simp]: "\<forall>x\<in>set xs. P x \<Longrightarrow> dropWhile P xs = []"
  by simp

lemma takeWhile_stop: "\<forall>x\<in>set xs. P x \<Longrightarrow> \<not> P y \<Longrightarrow> takeWhile P (xs @ y # ys) = xs"
  by (induction xs) auto

lemma dropWhile_stop: "\<forall>x\<in>set xs. P x \<Longrightarrow> \<not> P y \<Longrightarrow> dropWhile P (xs @ y # ys) = y # ys"
  by (induction xs) auto

lemma takeWhile_dropWhile_span:
  "\<forall>x\<in>set xs. P x \<Longrightarrow> (case ys of [] \<Rightarrow> True | y # _ \<Rightarrow> \<not> P y) \<Longrightarrow>
     takeWhile P (xs @ ys) = xs \<and> dropWhile P (xs @ ys) = ys"
  by (cases ys) (auto simp: takeWhile_stop dropWhile_stop)

lemma filter_eq_self_iff: "filter P xs = xs \<longleftrightarrow> (\<forall>x\<in>set xs. P x)"
  by (simp add: filter_id_conv)

text \<open>A fold that only ever adds keeps a lower bound; used for running maxima and counters.\<close>

lemma foldl_invariant:
  "P a \<Longrightarrow> (\<And>b x. P b \<Longrightarrow> x \<in> set xs \<Longrightarrow> P (f b x)) \<Longrightarrow> P (foldl f a xs)"
  by (induction xs arbitrary: a) auto

end
