(* ===== verification/JsString.thy ===== *)
theory JsString
  imports Prelude
begin

text \<open>
  The JavaScript string operations the program uses, on \<open>string\<close> (a list of code units; the
  model covers the code units below 256).  Decimal rendering and parsing of \<open>BigInt\<close>s, the
  regular expressions over digits, \<open>trim\<close>, \<open>split\<close>, \<open>padStart\<close>, \<open>padEnd\<close>, \<open>startsWith\<close>,
  \<open>includes\<close> and the case conversions, each with the laws the components use.
\<close>

abbreviation cu :: "char \<Rightarrow> nat" where
  "cu c \<equiv> of_char c"

section \<open>Decimal digits\<close>

definition is_digit :: "char \<Rightarrow> bool" where
  "is_digit c \<longleftrightarrow> 48 \<le> cu c \<and> cu c \<le> 57"

definition digit_val :: "char \<Rightarrow> int" where
  "digit_val c = int (cu c) - 48"

definition digit_char :: "nat \<Rightarrow> char" where
  "digit_char n = char_of (48 + n)"

lemma code_digit_char: "n < 10 \<Longrightarrow> cu (digit_char n) = 48 + n"
  by (simp add: digit_char_def of_char_of take_bit_eq_mod)

lemma is_digit_digit_char [simp]: "n < 10 \<Longrightarrow> is_digit (digit_char n)"
  by (simp add: is_digit_def code_digit_char)

lemma digit_val_digit_char [simp]: "n < 10 \<Longrightarrow> digit_val (digit_char n) = int n"
  by (simp add: digit_val_def code_digit_char)

lemma digit_char_digit_val: "is_digit c \<Longrightarrow> digit_char (nat (digit_val c)) = c"
  by (simp add: is_digit_def digit_val_def digit_char_def nat_diff_distrib)

lemma digit_val_bounds: "is_digit c \<Longrightarrow> 0 \<le> digit_val c \<and> digit_val c \<le> 9"
  by (auto simp: is_digit_def digit_val_def)

definition all_digits :: "string \<Rightarrow> bool" where
  "all_digits s \<longleftrightarrow> list_all is_digit s"

lemma all_digits_simps [simp]:
  "all_digits []" "all_digits (c # s) \<longleftrightarrow> is_digit c \<and> all_digits s"
  "all_digits (s @ t) \<longleftrightarrow> all_digits s \<and> all_digits t"
  by (auto simp: all_digits_def)

lemma all_digits_set: "all_digits s \<longleftrightarrow> (\<forall>c\<in>set s. is_digit c)"
  by (simp add: all_digits_def list_all_iff)

lemma all_digits_replicate_0 [simp]: "all_digits (replicate n (CHR ''0''))"
  by (induction n) (auto simp: is_digit_def)

text \<open>\<open>BigInt(s)\<close> on a string of digits.\<close>

definition digits_val :: "string \<Rightarrow> int" where
  "digits_val s = foldl (\<lambda>a c. 10 * a + digit_val c) 0 s"

lemma foldl_digits_shift:
  "foldl (\<lambda>a c. 10 * a + digit_val c) a s = a * 10 ^ length s + digits_val s"
proof (induction s arbitrary: a)
  case Nil
  then show ?case by (simp add: digits_val_def)
next
  case (Cons c s)
  have "digits_val (c # s) = digit_val c * 10 ^ length s + digits_val s"
    using Cons [of "digit_val c"] by (simp add: digits_val_def)
  then show ?case using Cons [of "10 * a + digit_val c"] by (simp add: algebra_simps)
qed

lemma digits_val_Nil [simp]: "digits_val [] = 0"
  by (simp add: digits_val_def)

lemma digits_val_Cons: "digits_val (c # s) = digit_val c * 10 ^ length s + digits_val s"
  using foldl_digits_shift [of "digit_val c" s] by (simp add: digits_val_def)

lemma digits_val_append: "digits_val (s @ t) = digits_val s * 10 ^ length t + digits_val t"
  by (induction s) (auto simp: digits_val_Cons algebra_simps power_add)

lemma digits_val_snoc [simp]: "digits_val (s @ [c]) = 10 * digits_val s + digit_val c"
  by (simp add: digits_val_append digits_val_Cons)

lemma digits_val_replicate_0 [simp]: "digits_val (replicate n (CHR ''0'')) = 0"
  by (induction n) (auto simp: digits_val_Cons digit_val_def)

lemma digits_val_bounds: "all_digits s \<Longrightarrow> 0 \<le> digits_val s \<and> digits_val s < 10 ^ length s"
proof (induction s rule: rev_induct)
  case Nil
  then show ?case by simp
next
  case (snoc c s)
  then have "0 \<le> digits_val s" "digits_val s < 10 ^ length s" "0 \<le> digit_val c" "digit_val c \<le> 9"
    using digit_val_bounds [of c] by auto
  then show ?case by (auto simp: algebra_simps)
qed

lemma digits_val_nonneg: "all_digits s \<Longrightarrow> 0 \<le> digits_val s"
  using digits_val_bounds by blast

lemma last_digit_unique:
  fixes a b c d :: int
  assumes "10 * a + c = 10 * b + d" "0 \<le> c" "c \<le> 9" "0 \<le> d" "d \<le> 9"
  shows "c = d \<and> a = b"
proof -
  have "c mod 10 = (10 * a + c) mod 10" by simp
  also have "\<dots> = d mod 10" using assms(1) by simp
  finally show ?thesis using assms by simp
qed

text \<open>Two digit strings of one length denote the same number only if they are equal.\<close>

lemma digits_val_inj:
  "all_digits s \<Longrightarrow> all_digits t \<Longrightarrow> length s = length t \<Longrightarrow> digits_val s = digits_val t \<Longrightarrow> s = t"
proof (induction s arbitrary: t rule: rev_induct)
  case Nil
  then show ?case by simp
next
  case (snoc c s)
  then obtain d u where t: "t = u @ [d]" by (cases t rule: rev_cases) auto
  have d: "is_digit c" "is_digit d" "all_digits s" "all_digits u" "length s = length u"
    using snoc.prems(1-3) t by auto
  have "10 * digits_val s + digit_val c = 10 * digits_val u + digit_val d"
    using snoc.prems(4) unfolding t by (simp only: digits_val_snoc)
  moreover have "0 \<le> digit_val c" "digit_val c \<le> 9" "0 \<le> digit_val d" "digit_val d \<le> 9"
    using digit_val_bounds d by auto
  ultimately have cd: "digit_val c = digit_val d" "digits_val s = digits_val u"
    using last_digit_unique by blast+
  have "c = d"
    using digit_char_digit_val [OF d(1)] digit_char_digit_val [OF d(2)] unfolding cd(1) by (rule box_equals [OF refl])
  then show ?case using snoc.IH [OF d(3-5) cd(2)] t by simp
qed

section \<open>Rendering integers\<close>

fun show_nat :: "nat \<Rightarrow> string" where
  "show_nat n = (if n < 10 then [digit_char n] else show_nat (n div 10) @ [digit_char (n mod 10)])"

declare show_nat.simps [simp del]

text \<open>\<open>BigInt.prototype.toString\<close>.\<close>

definition show_int :: "int \<Rightarrow> string" where
  "show_int n = (if n < 0 then CHR ''-'' # show_nat (nat (- n)) else show_nat (nat n))"

lemma all_digits_show_nat [simp]: "all_digits (show_nat n)"
proof (induction n rule: show_nat.induct)
  case (1 n)
  then show ?case by (subst show_nat.simps) auto
qed

lemma show_nat_not_Nil [simp]: "show_nat n \<noteq> []"
  by (subst show_nat.simps) simp

lemma digits_val_show_nat [simp]: "digits_val (show_nat n) = int n"
proof (induction n rule: show_nat.induct)
  case (1 n)
  then show ?case
    by (subst show_nat.simps) (auto simp: digits_val_Cons zdiv_int zmod_int)
qed

lemma show_nat_inj [simp]: "show_nat m = show_nat n \<longleftrightarrow> m = n"
  by (metis digits_val_show_nat of_nat_eq_iff)

lemma length_show_nat: "n < 10 ^ k \<Longrightarrow> 0 < k \<Longrightarrow> length (show_nat n) \<le> k"
proof (induction n arbitrary: k rule: show_nat.induct)
  case (1 n)
  show ?case
  proof (cases "n < 10")
    case True
    then show ?thesis using 1 by (subst show_nat.simps) simp
  next
    case False
    then have "k \<noteq> 1" using 1 by auto
    then obtain j where k: "k = Suc j" "0 < j" using 1 by (cases k) auto
    then have "n div 10 < 10 ^ j" using 1 by (auto simp: div_less_iff_less_mult mult.commute)
    then have "length (show_nat (n div 10)) \<le> j" using 1 False k by blast
    then show ?thesis using False k by (subst show_nat.simps) simp
  qed
qed

lemma show_nat_hd_digit: "\<exists>c s. show_nat n = c # s \<and> is_digit c"
proof -
  obtain c s where "show_nat n = c # s" by (cases "show_nat n") auto
  then show ?thesis using all_digits_show_nat [of n] by auto
qed

lemma show_int_inj [simp]: "show_int m = show_int n \<longleftrightarrow> m = n"
proof -
  have "show_nat a \<noteq> CHR ''-'' # s" for a s
    using show_nat_hd_digit [of a] by (auto simp: is_digit_def)
  then show ?thesis by (auto simp: show_int_def dest: sym)
qed

text \<open>Evaluation of renderings of numerals.\<close>

lemma digit_char_vals:
  "digit_char 0 = CHR ''0''" "digit_char 1 = CHR ''1''" "digit_char (Suc 0) = CHR ''1''"
  "digit_char 2 = CHR ''2''" "digit_char 3 = CHR ''3''" "digit_char 4 = CHR ''4''"
  "digit_char 5 = CHR ''5''" "digit_char 6 = CHR ''6''" "digit_char 7 = CHR ''7''"
  "digit_char 8 = CHR ''8''" "digit_char 9 = CHR ''9''"
  by code_simp+

lemmas show_eval = show_int_def show_nat.simps digit_char_vals

text \<open>\<open>BigInt(s)\<close> where \<open>s\<close> matches \<open>/^-?\d+$/\<close>; other strings raise a \<open>SyntaxError\<close>.\<close>

definition is_int_text :: "string \<Rightarrow> bool" where
  "is_int_text s = (case s of [] \<Rightarrow> False
     | c # t \<Rightarrow> if c = CHR ''-'' then t \<noteq> [] \<and> all_digits t else all_digits s)"

definition int_text_val :: "string \<Rightarrow> int" where
  "int_text_val s = (case s of [] \<Rightarrow> 0
     | c # t \<Rightarrow> if c = CHR ''-'' then - digits_val t else digits_val s)"

text \<open>\<open>/^\d+$/\<close>.\<close>

definition is_digit_text :: "string \<Rightarrow> bool" where
  "is_digit_text s \<longleftrightarrow> s \<noteq> [] \<and> all_digits s"

lemma is_int_text_show_int [simp]: "is_int_text (show_int n)"
proof (cases "n < 0")
  case True
  then show ?thesis by (simp add: is_int_text_def show_int_def)
next
  case False
  obtain c s where cs: "show_nat (nat n) = c # s" "is_digit c"
    using show_nat_hd_digit by blast
  then have "c \<noteq> CHR ''-''" by (auto simp: is_digit_def)
  then show ?thesis using False cs all_digits_show_nat [of "nat n"]
    by (simp add: is_int_text_def show_int_def)
qed

lemma int_text_val_show_int [simp]: "int_text_val (show_int n) = n"
proof (cases "n < 0")
  case True
  then show ?thesis by (simp add: int_text_val_def show_int_def)
next
  case False
  obtain c s where cs: "show_nat (nat n) = c # s" "is_digit c"
    using show_nat_hd_digit by blast
  then have "c \<noteq> CHR ''-''" by (auto simp: is_digit_def)
  then show ?thesis using False cs digits_val_show_nat [of "nat n"]
    by (simp add: int_text_val_def show_int_def)
qed

lemma is_digit_text_show_int [simp]: "0 \<le> n \<Longrightarrow> is_digit_text (show_int n)"
  by (simp add: is_digit_text_def show_int_def)

lemma digits_val_show_int [simp]: "0 \<le> n \<Longrightarrow> digits_val (show_int n) = n"
  by (simp add: show_int_def)

section \<open>Padding, splitting, trimming\<close>

definition padEnd :: "nat \<Rightarrow> char \<Rightarrow> string \<Rightarrow> string" where
  "padEnd n c s = s @ replicate (n - length s) c"

definition padStart :: "nat \<Rightarrow> char \<Rightarrow> string \<Rightarrow> string" where
  "padStart n c s = replicate (n - length s) c @ s"

lemma length_padEnd [simp]: "length (padEnd n c s) = max n (length s)"
  by (simp add: padEnd_def)

lemma length_padStart [simp]: "length (padStart n c s) = max n (length s)"
  by (simp add: padStart_def)

lemma all_digits_pad [simp]:
  "all_digits s \<Longrightarrow> all_digits (padEnd n (CHR ''0'') s)"
  "all_digits s \<Longrightarrow> all_digits (padStart n (CHR ''0'') s)"
  by (auto simp: padEnd_def padStart_def)

lemma digits_val_padStart [simp]: "digits_val (padStart n (CHR ''0'') s) = digits_val s"
  by (simp add: padStart_def digits_val_append)

text \<open>\<open>s.split(c)\<close> for a one-character separator; never the empty list.\<close>

fun split_on :: "char \<Rightarrow> string \<Rightarrow> string list" where
  "split_on c [] = [[]]"
| "split_on c (d # s) =
     (if d = c then [] # split_on c s
      else (case split_on c s of [] \<Rightarrow> [[d]] | w # ws \<Rightarrow> (d # w) # ws))"

lemma split_on_not_Nil [simp]: "split_on c s \<noteq> []"
  by (induction s) (auto split: list.splits)

lemma split_on_no_sep: "c \<notin> set s \<Longrightarrow> split_on c s = [s]"
  by (induction s) auto

lemma split_on_sep: "c \<notin> set s \<Longrightarrow> split_on c (s @ c # t) = s # split_on c t"
  by (induction s) auto

text \<open>\<open>ws.join(c)\<close> for a one-character separator, the inverse of \<open>split\<close>.\<close>

fun join_on :: "char \<Rightarrow> string list \<Rightarrow> string" where
  "join_on c [] = []"
| "join_on c [w] = w"
| "join_on c (w # v # ws) = w @ c # join_on c (v # ws)"

lemma join_on_split_on [simp]: "join_on c (split_on c s) = s"
proof (induction s)
  case Nil
  then show ?case by simp
next
  case (Cons d s)
  obtain w ws where ws: "split_on c s = w # ws" by (cases "split_on c s") auto
  then show ?case using Cons by (cases ws) auto
qed

lemma split_on_join_on:
  "ws \<noteq> [] \<Longrightarrow> \<forall>w\<in>set ws. c \<notin> set w \<Longrightarrow> split_on c (join_on c ws) = ws"
  by (induction c ws rule: join_on.induct) (auto simp: split_on_no_sep split_on_sep)

lemma split_on_pieces: "w \<in> set (split_on c s) \<Longrightarrow> c \<notin> set w"
proof (induction s arbitrary: w)
  case Nil
  then show ?case by simp
next
  case (Cons d s)
  obtain v ws where ws: "split_on c s = v # ws" by (cases "split_on c s") auto
  then show ?case using Cons by (auto split: if_splits)
qed

text \<open>\<open>String.prototype.trim\<close>: the white space and line terminators below 256.\<close>

definition is_space :: "char \<Rightarrow> bool" where
  "is_space c \<longleftrightarrow> cu c \<in> {9, 10, 11, 12, 13, 32, 160}"

definition trim :: "string \<Rightarrow> string" where
  "trim s = rev (dropWhile is_space (rev (dropWhile is_space s)))"

lemma trim_id: "s = [] \<or> (\<not> is_space (hd s) \<and> \<not> is_space (last s)) \<Longrightarrow> trim s = s"
proof (cases s)
  case (Cons c t)
  assume *: "s = [] \<or> (\<not> is_space (hd s) \<and> \<not> is_space (last s))"
  obtain u d where "s = u @ [d]" using Cons by (metis append_butlast_last_id list.discI)
  moreover have "dropWhile is_space s = s" using * Cons by simp
  ultimately show ?thesis using * by (simp add: trim_def)
qed (simp add: trim_def)

lemma trim_no_space: "\<forall>c\<in>set s. \<not> is_space c \<Longrightarrow> trim s = s"
  by (rule trim_id) (cases "s = []", auto)

lemma is_digit_not_space: "is_digit c \<Longrightarrow> \<not> is_space c"
  by (auto simp: is_digit_def is_space_def)

definition startsWith :: "string \<Rightarrow> string \<Rightarrow> bool" where
  "startsWith s p \<longleftrightarrow> take (length p) s = p"

lemma startsWith_append [simp]: "startsWith (p @ s) p"
  by (simp add: startsWith_def)

lemma startsWith_iff: "startsWith s p \<longleftrightarrow> (\<exists>t. s = p @ t)"
  by (metis append_eq_conv_conj append_take_drop_id startsWith_def)

text \<open>\<open>s.includes(p)\<close>.\<close>

fun str_includes :: "string \<Rightarrow> string \<Rightarrow> bool" where
  "str_includes [] p = (p = [])"
| "str_includes (c # s) p = (startsWith (c # s) p \<or> str_includes s p)"

lemma str_includes_iff: "str_includes s p \<longleftrightarrow> (\<exists>a b. s = a @ p @ b)"
proof (induction s)
  case Nil
  then show ?case by simp
next
  case (Cons c s)
  then show ?case by (auto simp: startsWith_iff) (metis append_Cons append_Nil append_eq_Cons_conv)+
qed

section \<open>Case conversion\<close>

text \<open>
  \<open>toLowerCase\<close> and \<open>toUpperCase\<close> on the code units below 256.  The two code units whose
  upper-case form lies outside that range (181 and 255) are left as they are.
\<close>

definition lower_char :: "char \<Rightarrow> char" where
  "lower_char c = (if (65 \<le> cu c \<and> cu c \<le> 90) \<or> (192 \<le> cu c \<and> cu c \<le> 222 \<and> cu c \<noteq> 215)
     then char_of (cu c + 32) else c)"

definition toLowerCase :: "string \<Rightarrow> string" where
  "toLowerCase s = map lower_char s"

definition upper_chars :: "char \<Rightarrow> string" where
  "upper_chars c = (if (97 \<le> cu c \<and> cu c \<le> 122) \<or> (224 \<le> cu c \<and> cu c \<le> 254 \<and> cu c \<noteq> 247)
     then [char_of (cu c - 32)] else if cu c = 223 then ''SS'' else [c])"

definition toUpperCase :: "string \<Rightarrow> string" where
  "toUpperCase s = concat (map upper_chars s)"

lemma lower_char_idem [simp]: "lower_char (lower_char c) = lower_char c"
  by (auto simp: lower_char_def of_char_of take_bit_eq_mod)

lemma toLowerCase_idem [simp]: "toLowerCase (toLowerCase s) = toLowerCase s"
  by (simp add: toLowerCase_def)

end
