(* ===== verification/Base64.thy ===== *)
theory Base64
  imports JsString
begin

text \<open>
  The byte encodings of the console: \<open>btoa\<close> and \<open>atob\<close> of the platform, and the URL-safe form
  of \<open>admin-web/src/lib/auth/session.ts\<close>.  A byte string is a string whose code units are the
  bytes, as \<open>btoa\<close> and \<open>atob\<close> use it.
\<close>

section \<open>Groups of bits\<close>

definition b64_alphabet :: string where
  "b64_alphabet = ''ABCDEFGHIJKLMNOPQRSTUVWXYZabcdefghijklmnopqrstuvwxyz0123456789+/''"

definition b64_char :: "nat \<Rightarrow> char" where
  "b64_char n = b64_alphabet ! n"

definition b64_val :: "char \<Rightarrow> nat option" where
  "b64_val c =
     (if 65 \<le> cu c \<and> cu c \<le> 90 then Some (cu c - 65)
      else if 97 \<le> cu c \<and> cu c \<le> 122 then Some (cu c - 71)
      else if 48 \<le> cu c \<and> cu c \<le> 57 then Some (cu c + 4)
      else if cu c = 43 then Some 62
      else if cu c = 47 then Some 63
      else None)"

fun sextets :: "nat list \<Rightarrow> nat list" where
  "sextets [] = []"
| "sextets [a] = [a div 4, (a mod 4) * 16]"
| "sextets [a, b] = [a div 4, (a mod 4) * 16 + b div 16, (b mod 16) * 4]"
| "sextets (a # b # c # bytes) =
     a div 4 # ((a mod 4) * 16 + b div 16) # ((b mod 16) * 4 + c div 64) # c mod 64 # sextets bytes"

fun octets :: "nat list \<Rightarrow> nat list option" where
  "octets [] = Some []"
| "octets [w] = None"
| "octets [w, x] = Some [w * 4 + x div 16]"
| "octets [w, x, y] = Some [w * 4 + x div 16, (x mod 16) * 16 + y div 4]"
| "octets (w # x # y # z # ss) = map_option (\<lambda>bytes. (w * 4 + x div 16) # ((x mod 16) * 16 + y div 4) # ((y mod 4) * 64 + z) # bytes) (octets ss)"

lemma byte_parts:
  fixes b :: nat
  assumes "b < 256"
  shows "b div 16 < 16" "b div 64 < 4" "b div 4 < 64"
    "b div 16 div 16 = 0" "b div 16 mod 16 = b div 16" "b div 64 div 4 = 0" "b div 64 mod 4 = b div 64"
  using assms by (simp_all add: less_mult_imp_div_less)

lemma octets_sextets: "\<forall>b\<in>set bytes. b < 256 \<Longrightarrow> octets (sextets bytes) = Some bytes"
  by (induction bytes rule: sextets.induct) (simp_all add: byte_parts div_mult_mod_eq)

lemma sextet_bound:
  fixes a b :: nat
  shows "b < 256 \<Longrightarrow> a mod 4 * 16 + b div 16 < 64" "b < 256 \<Longrightarrow> a mod 16 * 4 + b div 64 < 64"
    "a mod 4 * 16 < 64" "a mod 16 * 4 < 64"
proof -
  have *: "a mod 4 < 4" "a mod 16 < 16" by simp_all
  show "b < 256 \<Longrightarrow> a mod 4 * 16 + b div 16 < 64" "b < 256 \<Longrightarrow> a mod 16 * 4 + b div 64 < 64"
    "a mod 4 * 16 < 64" "a mod 16 * 4 < 64"
    using * byte_parts(1,2) [of b] by linarith+
qed

lemma sextets_range: "\<forall>b\<in>set bytes. b < 256 \<Longrightarrow> \<forall>s\<in>set (sextets bytes). s < 64"
  by (induction bytes rule: sextets.induct) (simp_all add: byte_parts sextet_bound)

section \<open>The platform functions\<close>

definition byte_vals :: "string \<Rightarrow> nat list" where
  "byte_vals s = map cu s"

definition of_bytes :: "nat list \<Rightarrow> string" where
  "of_bytes ns = map char_of ns"

definition padding :: "nat \<Rightarrow> string" where
  "padding n = replicate ((4 - n mod 4) mod 4) (CHR ''='')"

definition b64_body :: "string \<Rightarrow> string" where
  "b64_body s = map b64_char (sextets (byte_vals s))"

definition btoa :: "string \<Rightarrow> string" where
  "btoa s = b64_body s @ padding (length (b64_body s))"

definition b64_space :: "char \<Rightarrow> bool" where
  "b64_space c \<longleftrightarrow> cu c \<in> {9, 10, 12, 13, 32}"

text \<open>One or two trailing equals signs go when the length is a multiple of four.\<close>

definition strip_padding :: "string \<Rightarrow> string" where
  "strip_padding s =
     (if length s mod 4 \<noteq> 0 then s
      else case rev s of
        c # d # r \<Rightarrow> if c = CHR ''='' \<and> d = CHR ''='' then rev r else if c = CHR ''='' then rev (d # r) else s
      | _ \<Rightarrow> s)"

fun b64_values :: "string \<Rightarrow> nat list option" where
  "b64_values [] = Some []"
| "b64_values (c # s) = (case (b64_val c, b64_values s) of (Some n, Some ns) \<Rightarrow> Some (n # ns) | _ \<Rightarrow> None)"

definition atob :: "string \<Rightarrow> string option" where
  "atob s = (case b64_values (strip_padding (filter (\<lambda>c. \<not> b64_space c) s)) of
     None \<Rightarrow> None | Some ns \<Rightarrow> map_option of_bytes (octets ns))"

section \<open>The URL-safe form\<close>

definition replace_char :: "char \<Rightarrow> char \<Rightarrow> string \<Rightarrow> string" where
  "replace_char c d s = map (\<lambda>x. if x = c then d else x) s"

definition base64UrlEncode :: "string \<Rightarrow> string" where
  "base64UrlEncode bytes =
     rev (dropWhile (\<lambda>c. c = CHR ''='') (rev (replace_char (CHR ''/'') (CHR ''_'') (replace_char (CHR ''+'') (CHR ''-'') (btoa bytes)))))"

definition base64UrlDecode :: "string \<Rightarrow> string option" where
  "base64UrlDecode v =
     (let normalized = replace_char (CHR ''_'') (CHR ''/'') (replace_char (CHR ''-'') (CHR ''+'') v)
      in atob (normalized @ padding (length normalized)))"

section \<open>Round trip\<close>

lemma b64_alphabet_length: "length b64_alphabet = 64"
  by (simp add: b64_alphabet_def)

lemma b64_alphabet_vals: "map b64_val b64_alphabet = map Some [0..<64]"
  by (simp add: b64_alphabet_def b64_val_def upt_rec)

lemma b64_alphabet_plain:
  "list_all (\<lambda>c. \<not> b64_space c \<and> c \<notin> {CHR ''='', CHR ''-'', CHR ''_'', CHR ''.'', CHR ''$''}) b64_alphabet"
  by (simp add: b64_alphabet_def b64_space_def)

lemma b64_chars:
  assumes "n < 64"
  shows "b64_val (b64_char n) = Some n" "\<not> b64_space (b64_char n)"
    "b64_char n \<notin> {CHR ''='', CHR ''-'', CHR ''_'', CHR ''.'', CHR ''$''}"
proof -
  have n: "n < length b64_alphabet" using assms by (simp add: b64_alphabet_length)
  have "map b64_val b64_alphabet ! n = Some n" unfolding b64_alphabet_vals using assms by simp
  then show "b64_val (b64_char n) = Some n" using n by (simp add: b64_char_def)
  have "b64_char n \<in> set b64_alphabet" using n by (simp add: b64_char_def)
  then show "\<not> b64_space (b64_char n)" "b64_char n \<notin> {CHR ''='', CHR ''-'', CHR ''_'', CHR ''.'', CHR ''$''}"
    using b64_alphabet_plain unfolding list_all_iff by blast+
qed

text \<open>The body of an encoding: characters of the alphabet only, never one too few for a byte.\<close>

definition b64_text :: "string \<Rightarrow> bool" where
  "b64_text s \<longleftrightarrow> list_all (\<lambda>c. b64_val c \<noteq> None \<and> \<not> b64_space c \<and> c \<notin> {CHR ''='', CHR ''-'', CHR ''_'', CHR ''.'', CHR ''$''}) s"

lemma byte_vals_range: "\<forall>b\<in>set (byte_vals s). b < 256"
  by (simp add: byte_vals_def)

lemma b64_body_text: "b64_text (b64_body s)"
  using sextets_range [OF byte_vals_range [of s]] b64_chars by (auto simp: b64_body_def b64_text_def list_all_iff)

lemma b64_values_body: "\<forall>n\<in>set ns. n < 64 \<Longrightarrow> b64_values (map b64_char ns) = Some ns"
  by (induction ns) (simp_all add: b64_chars)

lemma sextets_length: "length (sextets bytes) mod 4 \<noteq> 1"
  by (induction bytes rule: sextets.induct) simp_all

lemma atob_body: "filter (\<lambda>c. \<not> b64_space c) s = t \<Longrightarrow> strip_padding t = b64_body bytes \<Longrightarrow> atob s = Some bytes"
proof -
  assume "filter (\<lambda>c. \<not> b64_space c) s = t" "strip_padding t = b64_body bytes"
  moreover have "b64_values (b64_body bytes) = Some (sextets (byte_vals bytes))"
    unfolding b64_body_def by (rule b64_values_body [OF sextets_range [OF byte_vals_range]])
  moreover have "octets (sextets (byte_vals bytes)) = Some (byte_vals bytes)" by (rule octets_sextets [OF byte_vals_range])
  moreover have "of_bytes (byte_vals bytes) = bytes" by (simp add: of_bytes_def byte_vals_def o_def)
  ultimately show ?thesis by (simp add: atob_def)
qed

lemma strip_padding_pad:
  assumes "\<forall>c\<in>set s. c \<noteq> CHR ''=''" "length s mod 4 \<noteq> 1"
  shows "strip_padding (s @ padding (length s)) = s"
proof -
  have "length s mod 4 = 0 \<or> length s mod 4 = 2 \<or> length s mod 4 = 3"
    using assms(2) by presburger
  then show ?thesis
  proof (elim disjE)
    assume "length s mod 4 = 0"
    then show ?thesis using assms(1) by (auto simp: padding_def strip_padding_def split: list.split)
  next
    assume m: "length s mod 4 = 2"
    then have "(length s + 2) mod 4 = 0" by presburger
    then show ?thesis using m by (simp add: padding_def strip_padding_def numeral_2_eq_2)
  next
    assume m: "length s mod 4 = 3"
    then have "(length s + 1) mod 4 = 0" by presburger
    moreover have "rev s \<noteq> []" using m by auto
    ultimately show ?thesis using m assms(1) by (auto simp: padding_def strip_padding_def split: list.split)
  qed
qed

lemma b64_text_plain: "b64_text s \<Longrightarrow> c \<in> {CHR ''='', CHR ''-'', CHR ''_'', CHR ''.'', CHR ''$''} \<Longrightarrow> c \<notin> set s"
  by (auto simp: b64_text_def list_all_iff)

lemma b64_body_length: "length (b64_body bytes) mod 4 \<noteq> 1"
  using sextets_length by (simp add: b64_body_def)

lemma atob_padded: "atob (b64_body bytes @ padding (length (b64_body bytes))) = Some bytes"
proof (rule atob_body)
  have "\<forall>c\<in>set (padding n). \<not> b64_space c" for n by (simp add: padding_def b64_space_def)
  then show "filter (\<lambda>c. \<not> b64_space c) (b64_body bytes @ padding (length (b64_body bytes)))
      = b64_body bytes @ padding (length (b64_body bytes))"
    using b64_body_text [of bytes] by (auto simp: b64_text_def list_all_iff)
  show "strip_padding (b64_body bytes @ padding (length (b64_body bytes))) = b64_body bytes"
    using b64_text_plain [OF b64_body_text] b64_body_length by (intro strip_padding_pad) auto
qed

lemma atob_btoa: "atob (btoa bytes) = Some bytes"
  by (simp add: btoa_def atob_padded)

definition url_safe :: "string \<Rightarrow> string" where
  "url_safe s = replace_char (CHR ''/'') (CHR ''_'') (replace_char (CHR ''+'') (CHR ''-'') s)"

lemma url_safe_append: "url_safe (s @ t) = url_safe s @ url_safe t"
  by (simp add: url_safe_def replace_char_def)

lemma url_safe_back: "b64_text s \<Longrightarrow> replace_char (CHR ''_'') (CHR ''/'') (replace_char (CHR ''-'') (CHR ''+'') (url_safe s)) = s"
proof -
  assume "b64_text s"
  then have "CHR ''-'' \<notin> set s" "CHR ''_'' \<notin> set s" using b64_text_plain by blast+
  then show ?thesis by (induction s) (force simp: url_safe_def replace_char_def)+
qed

lemma url_safe_set: "c \<in> {CHR ''='', CHR ''.'', CHR ''$''} \<Longrightarrow> c \<in> set (url_safe s) \<longleftrightarrow> c \<in> set s"
  by (auto simp: url_safe_def replace_char_def)

lemma base64UrlEncode_body: "base64UrlEncode bytes = url_safe (b64_body bytes)"
proof -
  let ?u = "url_safe (b64_body bytes)"
  have "CHR ''='' \<notin> set ?u" using b64_text_plain [OF b64_body_text] by (simp add: url_safe_set)
  then have "dropWhile (\<lambda>c. c = CHR ''='') (rev ?u) = rev ?u" by (cases "rev ?u") (auto simp: rev_eq_Cons_iff)
  moreover have "rev (url_safe (padding n)) = padding n" "\<forall>c\<in>set (padding n). c = CHR ''=''" for n
    by (simp_all add: url_safe_def replace_char_def padding_def)
  ultimately show ?thesis
    using dropWhile_append2 [of "padding (length (b64_body bytes))" "\<lambda>c. c = CHR ''=''" "rev ?u"]
    by (simp add: base64UrlEncode_def btoa_def url_safe_append flip: url_safe_def)
qed

lemma base64UrlEncode_plain: "CHR ''.'' \<notin> set (base64UrlEncode bytes)"
  using b64_text_plain [OF b64_body_text] by (simp add: base64UrlEncode_body url_safe_set)

theorem base64Url_roundtrip: "base64UrlDecode (base64UrlEncode bytes) = Some bytes"
proof -
  have "length (url_safe (b64_body bytes)) = length (b64_body bytes)" by (simp add: url_safe_def replace_char_def)
  then show ?thesis
    by (simp add: base64UrlDecode_def base64UrlEncode_body url_safe_back b64_body_text Let_def atob_padded)
qed

end
