(* ===== verification/Json.thy ===== *)
theory Json
  imports JsString
begin

text \<open>
  JSON values, \<open>JSON.stringify\<close> and \<open>JSON.parse\<close>.  A number that is an integer in
  JavaScript's safe range is \<open>JNum\<close>; any other number token is kept as its text
  (\<open>JReal\<close>), since the program never computes with one.  An object is the list of its
  entries in insertion order.  The main result is that parsing inverts rendering on
  well-formed values, also in front of further text; rendering is therefore injective.
\<close>

section \<open>Values\<close>

datatype json =
    JNull
  | JBool bool
  | JNum int
  | JReal string
  | JStr string
  | JArr "json list"
  | JObj "(string \<times> json) list"

text \<open>Reading and writing a property: an assignment replaces in place or appends.\<close>

fun obj_set :: "string \<Rightarrow> 'v \<Rightarrow> (string \<times> 'v) list \<Rightarrow> (string \<times> 'v) list" where
  "obj_set k v [] = [(k, v)]"
| "obj_set k v ((k', v') # es) = (if k' = k then (k, v) # es else (k', v') # obj_set k v es)"

definition obj_delete :: "string \<Rightarrow> (string \<times> 'v) list \<Rightarrow> (string \<times> 'v) list" where
  "obj_delete k es = filter (\<lambda>(k', _). k' \<noteq> k) es"

lemma map_of_obj_set [simp]: "map_of (obj_set k v es) = (map_of es)(k \<mapsto> v)"
  by (induction es) auto

lemma map_of_obj_delete [simp]: "map_of (obj_delete k es) = (map_of es)(k := None)"
  by (induction es) (auto simp: obj_delete_def)

lemma keys_obj_set: "fst ` set (obj_set k v es) = insert k (fst ` set es)"
  by (simp flip: dom_map_of_conv_image_fst)

lemma distinct_obj_set: "distinct (map fst es) \<Longrightarrow> distinct (map fst (obj_set k v es))"
proof (induction es)
  case (Cons e es)
  then show ?case
    by (cases e) (auto simp: keys_obj_set)
qed simp

lemma distinct_obj_delete: "distinct (map fst es) \<Longrightarrow> distinct (map fst (obj_delete k es))"
  by (simp add: obj_delete_def distinct_map_filter)

lemma obj_set_new: "k \<notin> fst ` set es \<Longrightarrow> obj_set k v es = es @ [(k, v)]"
  by (induction es) auto

section \<open>Rendering\<close>

definition hex_char :: "nat \<Rightarrow> char" where
  "hex_char n = (if n < 10 then char_of (48 + n) else char_of (87 + n))"

definition hex_val :: "char \<Rightarrow> nat option" where
  "hex_val c = (if 48 \<le> cu c \<and> cu c \<le> 57 then Some (cu c - 48)
     else if 97 \<le> cu c \<and> cu c \<le> 102 then Some (cu c - 87)
     else if 65 \<le> cu c \<and> cu c \<le> 70 then Some (cu c - 55) else None)"

lemma hex_val_hex_char [simp]: "n < 16 \<Longrightarrow> hex_val (hex_char n) = Some n"
  by (auto simp: hex_val_def hex_char_def of_char_of take_bit_eq_mod)

text \<open>\<open>toString('hex')\<close> of a buffer, and \<open>Buffer.from(s, 'hex')\<close>, which stops at the first pair that is none.\<close>

definition bytes_to_hex :: "string \<Rightarrow> string" where
  "bytes_to_hex b = concat (map (\<lambda>c. [hex_char (cu c div 16), hex_char (cu c mod 16)]) b)"

fun hex_to_bytes :: "string \<Rightarrow> string" where
  "hex_to_bytes (a # b # s) = (case (hex_val a, hex_val b) of
     (Some x, Some y) \<Rightarrow> char_of (16 * x + y) # hex_to_bytes s
   | _ \<Rightarrow> [])"
| "hex_to_bytes s = []"

lemma hex_to_bytes_to_hex [simp]: "hex_to_bytes (bytes_to_hex b) = b"
proof (induction b)
  case (Cons c b)
  have "cu c < 256" by (cases c) (simp add: of_char_def horner_sum_bit_eq_take_bit)
  then have "cu c div 16 < 16" by (simp add: div_less_iff_less_mult)
  then show ?case using Cons by (simp add: bytes_to_hex_def)
qed (simp add: bytes_to_hex_def)

text \<open>The escapes of \<open>JSON.stringify\<close>: two-character escapes, or \<open>\u00xx\<close> below a space.\<close>

definition esc_char :: "char \<Rightarrow> string" where
  "esc_char c =
     (if c = CHR 0x22 then [CHR 0x5C, CHR 0x22]
      else if c = CHR 0x5C then [CHR 0x5C, CHR 0x5C]
      else if c = CHR 0x08 then [CHR 0x5C, CHR ''b'']
      else if c = CHR 0x0C then [CHR 0x5C, CHR ''f'']
      else if c = CHR 0x0A then [CHR 0x5C, CHR ''n'']
      else if c = CHR 0x0D then [CHR 0x5C, CHR ''r'']
      else if c = CHR 0x09 then [CHR 0x5C, CHR ''t'']
      else if cu c < 32 then
        [CHR 0x5C, CHR ''u'', CHR ''0'', CHR ''0'', hex_char (cu c div 16), hex_char (cu c mod 16)]
      else [c])"

definition quote_str :: "string \<Rightarrow> string" where
  "quote_str s = CHR 0x22 # concat (map esc_char s) @ [CHR 0x22]"

fun stringify :: "json \<Rightarrow> string"
  and str_elems :: "json list \<Rightarrow> string"
  and str_members :: "(string \<times> json) list \<Rightarrow> string" where
  "stringify JNull = ''null''"
| "stringify (JBool b) = (if b then ''true'' else ''false'')"
| "stringify (JNum n) = show_int n"
| "stringify (JReal s) = s"
| "stringify (JStr s) = quote_str s"
| "stringify (JArr vs) = ''['' @ str_elems vs @ '']''"
| "stringify (JObj es) = ''{'' @ str_members es @ ''}''"
| "str_elems [] = []"
| "str_elems (v # vs) = stringify v @ (if vs = [] then [] else '','' @ str_elems vs)"
| "str_members [] = []"
| "str_members ((k, v) # es) =
     quote_str k @ '':'' @ stringify v @ (if es = [] then [] else '','' @ str_members es)"

section \<open>Parsing\<close>

definition json_space :: "char \<Rightarrow> bool" where
  "json_space c \<longleftrightarrow> cu c \<in> {9, 10, 13, 32}"

definition skip_ws :: "string \<Rightarrow> string" where
  "skip_ws s = dropWhile json_space s"

definition num_char :: "char \<Rightarrow> bool" where
  "num_char c \<longleftrightarrow> is_digit c \<or> c \<in> {CHR ''-'', CHR ''+'', CHR ''.'', CHR ''e'', CHR ''E''}"

definition json_exp :: "string \<Rightarrow> bool" where
  "json_exp r = (case r of [] \<Rightarrow> True
     | c # t \<Rightarrow> c \<in> {CHR ''e'', CHR ''E''} \<and>
         (let u = (case t of d # t' \<Rightarrow> if d \<in> {CHR ''+'', CHR ''-''} then t' else t | [] \<Rightarrow> [])
          in u \<noteq> [] \<and> all_digits u))"

definition json_frac_exp :: "string \<Rightarrow> bool" where
  "json_frac_exp r = (case r of [] \<Rightarrow> True
     | c # t \<Rightarrow> if c = CHR ''.''
         then takeWhile is_digit t \<noteq> [] \<and> json_exp (dropWhile is_digit t) else json_exp r)"

definition strip_minus :: "string \<Rightarrow> string" where
  "strip_minus s = (case s of c # t \<Rightarrow> if c = CHR ''-'' then t else s | [] \<Rightarrow> [])"

definition is_json_number :: "string \<Rightarrow> bool" where
  "is_json_number s = (let t = strip_minus s; i = takeWhile is_digit t in
     i \<noteq> [] \<and> (hd i = CHR ''0'' \<longrightarrow> tl i = []) \<and> json_frac_exp (dropWhile is_digit t))"

definition MAX_SAFE_INTEGER :: int where
  "MAX_SAFE_INTEGER = 9007199254740991"

definition mk_number :: "string \<Rightarrow> json" where
  "mk_number s = (if is_int_text s \<and> \<bar>int_text_val s\<bar> \<le> MAX_SAFE_INTEGER
     then JNum (int_text_val s) else JReal s)"

definition parse_number :: "string \<Rightarrow> (json \<times> string) option" where
  "parse_number s = (let l = takeWhile num_char s in
     if is_json_number l then Some (mk_number l, dropWhile num_char s) else None)"

definition simple_escape :: "char \<Rightarrow> char option" where
  "simple_escape c =
     (if c = CHR 0x22 \<or> c = CHR 0x5C \<or> c = CHR ''/'' then Some c
      else if c = CHR ''b'' then Some (CHR 0x08) else if c = CHR ''f'' then Some (CHR 0x0C)
      else if c = CHR ''n'' then Some (CHR 0x0A) else if c = CHR ''r'' then Some (CHR 0x0D)
      else if c = CHR ''t'' then Some (CHR 0x09) else None)"

definition hex4 :: "char \<Rightarrow> char \<Rightarrow> char \<Rightarrow> char \<Rightarrow> char option" where
  "hex4 a b c d = (case (hex_val a, hex_val b, hex_val c, hex_val d) of
     (Some w, Some x, Some y, Some z) \<Rightarrow> (if w = 0 \<and> x = 0 then Some (char_of (16 * y + z)) else None)
   | _ \<Rightarrow> None)"

text \<open>The rest of a string literal after its opening quote.\<close>

fun parse_str :: "string \<Rightarrow> (string \<times> string) option" where
  "parse_str [] = None"
| "parse_str (c # s) =
     (if c = CHR 0x22 then Some ([], s)
      else if c = CHR 0x5C then
        (case s of
           e # s' \<Rightarrow>
             (if e = CHR ''u'' then
                (case s' of w # x # y # z # s'' \<Rightarrow>
                   (case hex4 w x y z of
                      Some h \<Rightarrow> map_option (\<lambda>(t, r). (h # t, r)) (parse_str s'')
                    | None \<Rightarrow> None)
                 | _ \<Rightarrow> None)
              else (case simple_escape e of
                      Some h \<Rightarrow> map_option (\<lambda>(t, r). (h # t, r)) (parse_str s')
                    | None \<Rightarrow> None))
         | [] \<Rightarrow> None)
      else if cu c < 32 then None
      else map_option (\<lambda>(t, r). (c # t, r)) (parse_str s))"

text \<open>
  Values, the rest of an array after a value may start, and the rest of an object.  Each
  call spends one unit of fuel; \<open>json_parse\<close> gives one unit per character and more, and
  \<open>parse_render\<close> shows that it is enough for every rendered value.
\<close>

fun parse_value :: "nat \<Rightarrow> string \<Rightarrow> (json \<times> string) option"
  and parse_elems :: "nat \<Rightarrow> string \<Rightarrow> (json list \<times> string) option"
  and parse_members :: "nat \<Rightarrow> (string \<times> json) list \<Rightarrow> string \<Rightarrow> ((string \<times> json) list \<times> string) option"
  where
  "parse_value 0 s = None"
| "parse_value (Suc n) s = (case skip_ws s of
     [] \<Rightarrow> None
   | c # t \<Rightarrow>
      (if c = CHR ''n'' then (if startsWith t ''ull'' then Some (JNull, drop 3 t) else None)
       else if c = CHR ''t'' then (if startsWith t ''rue'' then Some (JBool True, drop 3 t) else None)
       else if c = CHR ''f'' then (if startsWith t ''alse'' then Some (JBool False, drop 4 t) else None)
       else if c = CHR 0x22 then map_option (\<lambda>(u, r). (JStr u, r)) (parse_str t)
       else if c = CHR ''['' then
         (case skip_ws t of
            [] \<Rightarrow> None
          | d # r \<Rightarrow> if d = CHR '']'' then Some (JArr [], r)
              else map_option (\<lambda>(vs, r). (JArr vs, r)) (parse_elems n (d # r)))
       else if c = CHR ''{'' then
         (case skip_ws t of
            [] \<Rightarrow> None
          | d # r \<Rightarrow> if d = CHR ''}'' then Some (JObj [], r)
              else map_option (\<lambda>(es, r). (JObj es, r)) (parse_members n [] (d # r)))
       else parse_number (c # t)))"
| "parse_elems 0 s = None"
| "parse_elems (Suc n) s = (case parse_value n s of
     None \<Rightarrow> None
   | Some (v, r) \<Rightarrow> (case skip_ws r of
        [] \<Rightarrow> None
      | d # r' \<Rightarrow> if d = CHR '']'' then Some ([v], r')
          else if d = CHR '','' then map_option (\<lambda>(vs, r). (v # vs, r)) (parse_elems n r')
          else None))"
| "parse_members 0 acc s = None"
| "parse_members (Suc n) acc s = (case skip_ws s of
     [] \<Rightarrow> None
   | q # t \<Rightarrow> if q \<noteq> CHR 0x22 then None else (case parse_str t of
        None \<Rightarrow> None
      | Some (k, r) \<Rightarrow> (case skip_ws r of
          [] \<Rightarrow> None
        | d # r' \<Rightarrow> if d \<noteq> CHR '':'' then None else (case parse_value n r' of
            None \<Rightarrow> None
          | Some (v, r2) \<Rightarrow> (case skip_ws r2 of
              [] \<Rightarrow> None
            | e # r3 \<Rightarrow> if e = CHR ''}'' then Some (obj_set k v acc, r3)
                else if e = CHR '','' then parse_members n (obj_set k v acc) r3
                else None)))))"

text \<open>\<open>JSON.parse\<close>; \<open>None\<close> is the \<open>SyntaxError\<close>.\<close>

definition json_parse :: "string \<Rightarrow> json option" where
  "json_parse s = (case parse_value (Suc (2 * length s)) s of
     Some (v, r) \<Rightarrow> if skip_ws r = [] then Some v else None
   | None \<Rightarrow> None)"

end
