(* ===== verification/JsonRoundtrip.thy ===== *)
theory JsonRoundtrip
  imports Json
begin

text \<open>
  \<open>JSON.parse\<close> inverts \<open>JSON.stringify\<close> on the values a JavaScript program can hold: numbers
  in range or kept as their token, objects with distinct keys.
\<close>

section \<open>Well-formed values\<close>

fun json_wf :: "json \<Rightarrow> bool" and elems_wf :: "json list \<Rightarrow> bool"
  and members_wf :: "(string \<times> json) list \<Rightarrow> bool" where
  "json_wf JNull = True"
| "json_wf (JBool b) = True"
| "json_wf (JNum n) = (\<bar>n\<bar> \<le> MAX_SAFE_INTEGER)"
| "json_wf (JReal s) = (is_json_number s \<and> mk_number s = JReal s)"
| "json_wf (JStr s) = True"
| "json_wf (JArr vs) = elems_wf vs"
| "json_wf (JObj es) = (distinct (map fst es) \<and> members_wf es)"
| "elems_wf [] = True"
| "elems_wf (v # vs) = (json_wf v \<and> elems_wf vs)"
| "members_wf [] = True"
| "members_wf ((k, v) # es) = (json_wf v \<and> members_wf es)"

lemma elems_wf_iff: "elems_wf vs \<longleftrightarrow> (\<forall>v\<in>set vs. json_wf v)"
  by (induction vs) auto

lemma members_wf_iff: "members_wf es \<longleftrightarrow> (\<forall>(k, v)\<in>set es. json_wf v)"
  by (induction es) auto

section \<open>Tokens\<close>

lemma all_digits_takeWhile [simp]: "all_digits (takeWhile is_digit s)"
  by (auto simp: all_digits_set dest: set_takeWhileD)

lemma json_exp_num_chars: "json_exp r \<Longrightarrow> c \<in> set r \<Longrightarrow> num_char c"
  by (auto simp: json_exp_def num_char_def all_digits_set Let_def split: list.splits if_splits)

lemma in_span: "c \<in> set t \<Longrightarrow> c \<in> set (takeWhile P t) \<or> c \<in> set (dropWhile P t)"
  by (metis Un_iff set_append takeWhile_dropWhile_id)

lemma json_frac_exp_num_chars: "json_frac_exp r \<Longrightarrow> c \<in> set r \<Longrightarrow> num_char c"
proof (cases r)
  case (Cons d t)
  assume *: "json_frac_exp r" "c \<in> set r"
  show ?thesis
  proof (cases "d = CHR ''.''")
    case True
    have e: "json_exp (dropWhile is_digit t)" using *(1) Cons True by (simp add: json_frac_exp_def)
    consider "c = d" | "c \<in> set (takeWhile is_digit t)" | "c \<in> set (dropWhile is_digit t)"
      using *(2) Cons in_span [of c t is_digit] by auto
    then show ?thesis
      using e True by cases (auto simp: num_char_def dest: set_takeWhileD json_exp_num_chars)
  next
    case False
    then show ?thesis using * Cons by (auto simp: json_frac_exp_def dest: json_exp_num_chars)
  qed
qed simp

lemma is_json_number_num_chars: "is_json_number s \<Longrightarrow> c \<in> set s \<Longrightarrow> num_char c"
proof -
  assume *: "is_json_number s" "c \<in> set s"
  let ?t = "strip_minus s"
  have "c = CHR ''-'' \<or> c \<in> set ?t"
    using *(2) by (cases s) (auto simp: strip_minus_def)
  then consider "c = CHR ''-''" | "c \<in> set (takeWhile is_digit ?t)" | "c \<in> set (dropWhile is_digit ?t)"
    using in_span [of c ?t is_digit] by blast
  moreover have "json_frac_exp (dropWhile is_digit ?t)"
    using *(1) by (simp add: is_json_number_def Let_def)
  ultimately show ?thesis
    by cases (auto simp: num_char_def dest: set_takeWhileD json_frac_exp_num_chars)
qed

lemma is_json_number_hd:
  "is_json_number s \<Longrightarrow> \<exists>c t. s = c # t \<and> (is_digit c \<or> c = CHR ''-'')"
proof (cases s)
  case Nil
  assume "is_json_number s"
  then show ?thesis using Nil by (simp add: is_json_number_def strip_minus_def)
next
  case (Cons c t)
  assume "is_json_number s"
  then show ?thesis using Cons
    by (auto simp: is_json_number_def strip_minus_def Let_def split: if_splits)
qed

lemma show_nat_leading_zero: "hd (show_nat n) = CHR ''0'' \<Longrightarrow> n = 0"
proof (induction n rule: show_nat.induct)
  case (1 n)
  show ?case
  proof (cases "n < 10")
    case True
    then have "digit_char n = CHR ''0''" using 1(2) by (simp add: show_nat.simps [of n])
    then have "digit_val (digit_char n) = 0" by (simp add: digit_val_def)
    then show ?thesis using True by simp
  next
    case False
    then have "hd (show_nat (n div 10)) = CHR ''0''"
      using 1(2) by (simp add: show_nat.simps [of n] hd_append)
    then have "n div 10 = 0" using 1(1) False by simp
    then show ?thesis using False by simp
  qed
qed

lemma strip_minus_show_int: "strip_minus (show_int n) = show_nat (nat \<bar>n\<bar>)"
proof (cases "n < 0")
  case False
  obtain c s where cs: "show_nat (nat n) = c # s" "is_digit c" using show_nat_hd_digit by blast
  then have "c \<noteq> CHR ''-''" by (auto simp: is_digit_def)
  then show ?thesis using False cs by (simp add: show_int_def strip_minus_def)
qed (simp add: show_int_def strip_minus_def)

lemma is_json_number_show_int [simp]: "is_json_number (show_int n)"
proof -
  let ?s = "show_nat (nat \<bar>n\<bar>)"
  have d: "takeWhile is_digit ?s = ?s" "dropWhile is_digit ?s = []"
    using all_digits_show_nat [of "nat \<bar>n\<bar>"] by (auto simp: all_digits_set)
  have "hd ?s = CHR ''0'' \<longrightarrow> tl ?s = []"
    using show_nat_leading_zero [of "nat \<bar>n\<bar>"] by (auto simp: show_nat.simps [of 0])
  then show ?thesis
    by (simp add: is_json_number_def strip_minus_show_int d json_frac_exp_def)
qed

lemma mk_number_show_int: "\<bar>n\<bar> \<le> MAX_SAFE_INTEGER \<Longrightarrow> mk_number (show_int n) = JNum n"
  by (simp add: mk_number_def)

definition delimited :: "string \<Rightarrow> bool" where
  "delimited r \<longleftrightarrow> (case r of [] \<Rightarrow> True | c # _ \<Rightarrow> \<not> num_char c)"

lemma parse_number_token:
  "is_json_number s \<Longrightarrow> delimited r \<Longrightarrow> parse_number (s @ r) = Some (mk_number s, r)"
  using takeWhile_dropWhile_span [of s num_char r] is_json_number_num_chars [of s]
  by (auto simp: parse_number_def delimited_def)

lemma digit_not_marker:
  "is_digit c \<or> c = CHR ''-'' \<Longrightarrow>
     \<not> json_space c \<and> c \<notin> {CHR ''n'', CHR ''t'', CHR ''f'', CHR 0x22, CHR ''['', CHR ''{'', CHR '']''}"
  by (auto simp: is_digit_def json_space_def)

lemma parse_value_number:
  assumes "is_json_number s" "delimited r"
  shows "parse_value (Suc n) (s @ r) = Some (mk_number s, r)"
proof -
  obtain c t where s: "s = c # t" "is_digit c \<or> c = CHR ''-''"
    using is_json_number_hd [OF assms(1)] by blast
  note m = digit_not_marker [OF s(2)]
  have "skip_ws (s @ r) = c # t @ r" using s m by (simp add: skip_ws_def)
  then show ?thesis using m parse_number_token [OF assms] s by simp
qed

section \<open>Strings\<close>

lemma hex4_esc:
  "cu c < 32 \<Longrightarrow> hex4 (CHR ''0'') (CHR ''0'') (hex_char (cu c div 16)) (hex_char (cu c mod 16)) = Some c"
proof -
  assume "cu c < 32"
  then have "cu c div 16 < 16" by simp
  moreover have "hex_val (CHR ''0'') = Some 0" by (simp add: hex_val_def)
  ultimately show ?thesis by (simp add: hex4_def)
qed

lemma parse_str_esc_char:
  "parse_str s = Some (t, r) \<Longrightarrow> parse_str (esc_char c @ s) = Some (c # t, r)"
proof -
  assume s: "parse_str s = Some (t, r)"
  consider "c \<in> {CHR 0x22, CHR 0x5C, CHR 0x08, CHR 0x0C, CHR 0x0A, CHR 0x0D, CHR 0x09}"
    | (ctrl) "c \<notin> {CHR 0x22, CHR 0x5C, CHR 0x08, CHR 0x0C, CHR 0x0A, CHR 0x0D, CHR 0x09}" "cu c < 32"
    | (plain) "c \<notin> {CHR 0x22, CHR 0x5C, CHR 0x08, CHR 0x0C, CHR 0x0A, CHR 0x0D, CHR 0x09}" "\<not> cu c < 32"
    by blast
  then show ?thesis
  proof cases
    case 1
    then show ?thesis using s by (auto simp: esc_char_def simple_escape_def)
  next
    case ctrl
    then show ?thesis using s hex4_esc [of c] by (simp add: esc_char_def)
  next
    case plain
    then show ?thesis using s by (simp add: esc_char_def)
  qed
qed

lemma parse_str_quoted: "parse_str (concat (map esc_char s) @ CHR 0x22 # r) = Some (s, r)"
  by (induction s) (auto dest: parse_str_esc_char)

section \<open>Values\<close>

lemma show_int_start: "\<exists>c t. show_int n = c # t \<and> (is_digit c \<or> c = CHR ''-'')"
  by (rule is_json_number_hd) simp

lemma stringify_start:
  assumes "json_wf v"
  shows "\<exists>c t. stringify v = c # t \<and> \<not> json_space c \<and> c \<noteq> CHR '']''"
proof (cases v)
  case (JNum n)
  obtain c t where "show_int n = c # t" "is_digit c \<or> c = CHR ''-''" using show_int_start by blast
  then show ?thesis using JNum digit_not_marker [of c] by auto
next
  case (JReal s)
  obtain c t where "s = c # t" "is_digit c \<or> c = CHR ''-''"
    using is_json_number_hd [of s] assms JReal by auto
  then show ?thesis using JReal digit_not_marker [of c] by auto
qed (auto simp: quote_str_def json_space_def)

lemma length_stringify_pos: "json_wf v \<Longrightarrow> 0 < length (stringify v)"
  using stringify_start by fastforce

lemma str_elems_start:
  "elems_wf vs \<Longrightarrow> vs \<noteq> [] \<Longrightarrow> \<exists>c t. str_elems vs = c # t \<and> \<not> json_space c \<and> c \<noteq> CHR '']''"
  using stringify_start by (cases vs) fastforce+

lemma str_members_start: "es \<noteq> [] \<Longrightarrow> \<exists>t. str_members es = CHR 0x22 # t"
  by (cases es) (auto simp: quote_str_def)

lemma skip_ws_id: "\<not> json_space c \<Longrightarrow> skip_ws (c # s) = c # s"
  by (simp add: skip_ws_def)

lemma punctuation_not_space [simp]:
  "\<not> json_space (CHR 0x22)" "\<not> json_space (CHR '','')" "\<not> json_space (CHR '':'')"
  "\<not> json_space (CHR '']'')" "\<not> json_space (CHR ''}'')" "\<not> json_space (CHR ''['')"
  "\<not> json_space (CHR ''{'')" "\<not> json_space (CHR ''n'')" "\<not> json_space (CHR ''t'')" "\<not> json_space (CHR ''f'')"
  by (simp_all add: json_space_def)

lemma delimited_punctuation [simp]:
  "delimited (CHR '','' # s)" "delimited (CHR '']'' # s)" "delimited (CHR ''}'' # s)" "delimited []"
  by (simp_all add: delimited_def num_char_def is_digit_def)

text \<open>One step of the parser over a rendered array, object, element or member.\<close>

lemma parse_array:
  assumes "elems_wf vs" "vs \<noteq> [] \<Longrightarrow> parse_elems m (str_elems vs @ CHR '']'' # r) = Some (vs, r)"
  shows "parse_value (Suc m) (stringify (JArr vs) @ r) = Some (JArr vs, r)"
proof (cases "vs = []")
  case True
  then show ?thesis by (simp add: skip_ws_id)
next
  case False
  obtain c t where "str_elems vs = c # t" "\<not> json_space c" "c \<noteq> CHR '']''"
    using str_elems_start [OF assms(1) False] by blast
  then show ?thesis using assms(2) [OF False] by (simp add: skip_ws_id)
qed

lemma parse_object:
  assumes "es \<noteq> [] \<Longrightarrow> parse_members m [] (str_members es @ CHR ''}'' # r) = Some (es, r)"
  shows "parse_value (Suc m) (stringify (JObj es) @ r) = Some (JObj es, r)"
proof (cases "es = []")
  case True
  then show ?thesis by (simp add: skip_ws_id)
next
  case False
  obtain t where "str_members es = CHR 0x22 # t" using str_members_start [OF False] by blast
  then show ?thesis using assms [OF False] by (simp add: skip_ws_id)
qed

lemma parse_element:
  assumes "parse_value m (stringify v @ tail) = Some (v, tail)"
    and "tail = (if vs = [] then CHR '']'' # r else CHR '','' # str_elems vs @ CHR '']'' # r)"
    and "vs \<noteq> [] \<Longrightarrow> parse_elems m (str_elems vs @ CHR '']'' # r) = Some (vs, r)"
  shows "parse_elems (Suc m) (str_elems (v # vs) @ CHR '']'' # r) = Some (v # vs, r)"
  using assms by (cases "vs = []") (simp_all add: skip_ws_id)

lemma parse_member:
  assumes "parse_value m (stringify v @ tail) = Some (v, tail)"
    and "tail = (if es = [] then CHR ''}'' # r else CHR '','' # str_members es @ CHR ''}'' # r)"
    and "es \<noteq> [] \<Longrightarrow> parse_members m (acc @ [(k, v)]) (str_members es @ CHR ''}'' # r) = Some ((acc @ [(k, v)]) @ es, r)"
    and "k \<notin> fst ` set acc"
  shows "parse_members (Suc m) acc (str_members ((k, v) # es) @ CHR ''}'' # r) = Some (acc @ (k, v) # es, r)"
proof -
  have "str_members ((k, v) # es) @ CHR ''}'' # r
      = CHR 0x22 # concat (map esc_char k) @ CHR 0x22 # CHR '':'' # stringify v @ tail"
    by (simp add: quote_str_def assms(2))
  then have "parse_members (Suc m) acc (str_members ((k, v) # es) @ CHR ''}'' # r)
      = (case skip_ws tail of [] \<Rightarrow> None
         | e # r3 \<Rightarrow> if e = CHR ''}'' then Some (acc @ [(k, v)], r3)
             else if e = CHR '','' then parse_members m (acc @ [(k, v)]) r3 else None)"
    by (simp add: skip_ws_id parse_str_quoted assms(1) obj_set_new [OF assms(4)] split: list.split)
  then show ?thesis using assms(2,3) by (cases "es = []") (simp_all add: skip_ws_id)
qed

lemma parse_render:
  "json_wf v \<Longrightarrow> delimited r \<Longrightarrow> 2 * length (stringify v) \<le> n \<Longrightarrow>
     parse_value n (stringify v @ r) = Some (v, r)"
  "elems_wf vs \<Longrightarrow> vs \<noteq> [] \<Longrightarrow> 2 * length (str_elems vs) + 1 \<le> n \<Longrightarrow>
     parse_elems n (str_elems vs @ CHR '']'' # r) = Some (vs, r)"
  "members_wf es \<Longrightarrow> es \<noteq> [] \<Longrightarrow> distinct (map fst (acc @ es)) \<Longrightarrow> 2 * length (str_members es) + 1 \<le> n \<Longrightarrow>
     parse_members n acc (str_members es @ CHR ''}'' # r) = Some (acc @ es, r)"
proof (induction v and vs and es arbitrary: n r and n r and n r acc
    rule: stringify_str_elems_str_members.induct)
  case 1
  then obtain m where "n = Suc m" by (cases n) auto
  then show ?case by (simp add: skip_ws_id startsWith_def)
next
  case (2 b)
  then obtain m where "n = Suc m" by (cases n) (auto split: if_splits)
  then show ?case by (simp add: skip_ws_id startsWith_def)
next
  case (3 k)
  then obtain m where "n = Suc m" using length_stringify_pos [of "JNum k"] by (cases n) auto
  then show ?case
    using parse_value_number [OF is_json_number_show_int, of r m k] 3 by (simp add: mk_number_show_int)
next
  case (4 s)
  then obtain m where "n = Suc m" using length_stringify_pos [of "JReal s"] by (cases n) auto
  then show ?case using parse_value_number [of s r m] 4 by simp
next
  case (5 s)
  then obtain m where "n = Suc m" by (cases n) (auto simp: quote_str_def)
  then show ?case using parse_str_quoted [of s r] by (simp add: skip_ws_id quote_str_def)
next
  case (6 vs)
  then obtain m where m: "n = Suc m" by (cases n) auto
  show ?case unfolding m by (rule parse_array) (use 6 m in simp_all)
next
  case (7 es)
  then obtain m where m: "n = Suc m" by (cases n) auto
  show ?case unfolding m by (rule parse_object) (use 7 m in simp_all)
next
  case 8
  then show ?case by simp
next
  case (9 v vs)
  then obtain m where m: "n = Suc m" by (cases n) auto
  show ?case unfolding m by (rule parse_element [OF _ refl]) (use 9 m in simp_all)
next
  case 10
  then show ?case by simp
next
  case (11 k v es)
  then obtain m where m: "n = Suc m" by (cases n) auto
  show ?case unfolding m by (rule parse_member [OF _ refl]) (use 11 m in auto)
qed

theorem json_parse_stringify:
  assumes "json_wf v"
  shows "json_parse (stringify v) = Some v"
proof -
  have p: "parse_value (Suc (2 * length (stringify v))) (stringify v) = Some (v, [])"
    by (rule parse_render(1) [OF assms, of "[]", unfolded append_Nil2]) simp_all
  show ?thesis unfolding json_parse_def p by (simp add: skip_ws_def)
qed

text \<open>Rendering is injective, also in front of text that cannot extend a number.\<close>

theorem stringify_inj:
  assumes "json_wf v" "json_wf w" "stringify v = stringify w"
  shows "v = w"
proof -
  have "Some v = json_parse (stringify w)"
    using json_parse_stringify [OF assms(1)] by (simp only: assms(3))
  also have "\<dots> = Some w" by (rule json_parse_stringify [OF assms(2)])
  finally show ?thesis by (rule option.inject [THEN iffD1])
qed

end
