(* ===== verification/Errors.thy ===== *)
theory Errors
  imports Json
begin

text \<open>
  \<open>backend/src/lib/errors.ts\<close>: the error taxonomy.  \<open>failure\<close> is what a \<open>throw\<close> may carry in
  this code base: an \<open>AppError\<close>, or a plain \<open>Error\<close> with its message.
\<close>

datatype ErrorCode =
    VALIDATION_FAILED
  | NOT_FOUND
  | CONFLICT
  | UNAUTHORIZED
  | COMPLIANCE_REFUSED
  | INSUFFICIENT_COLLATERAL
  | REGION_UNAVAILABLE
  | CHAIN_UNAVAILABLE
  | PROVIDER_UNAVAILABLE
  | INTERNAL

fun errorCodeName :: "ErrorCode \<Rightarrow> string" where
  "errorCodeName VALIDATION_FAILED = ''VALIDATION_FAILED''"
| "errorCodeName NOT_FOUND = ''NOT_FOUND''"
| "errorCodeName CONFLICT = ''CONFLICT''"
| "errorCodeName UNAUTHORIZED = ''UNAUTHORIZED''"
| "errorCodeName COMPLIANCE_REFUSED = ''COMPLIANCE_REFUSED''"
| "errorCodeName INSUFFICIENT_COLLATERAL = ''INSUFFICIENT_COLLATERAL''"
| "errorCodeName REGION_UNAVAILABLE = ''REGION_UNAVAILABLE''"
| "errorCodeName CHAIN_UNAVAILABLE = ''CHAIN_UNAVAILABLE''"
| "errorCodeName PROVIDER_UNAVAILABLE = ''PROVIDER_UNAVAILABLE''"
| "errorCodeName INTERNAL = ''INTERNAL''"

record AppError =
  ae_code :: ErrorCode
  ae_message :: string
  ae_status :: nat
  ae_details :: "(string \<times> json) list"

definition new_AppError :: "ErrorCode \<Rightarrow> string \<Rightarrow> nat \<Rightarrow> (string \<times> json) list \<Rightarrow> AppError" where
  "new_AppError code message status details =
     \<lparr>ae_code = code, ae_message = message, ae_status = status, ae_details = details\<rparr>"

datatype failure = AppErr AppError | PlainErr string

definition validationFailed :: "(string \<times> json) list \<Rightarrow> AppError" where
  "validationFailed details =
     new_AppError VALIDATION_FAILED ''Request failed validation'' 400 details"

definition notFound :: "string \<Rightarrow> string \<Rightarrow> AppError" where
  "notFound what ident =
     new_AppError NOT_FOUND (what @ '' not found'') 404 [(''id'', JStr ident)]"

definition conflict :: "string \<Rightarrow> (string \<times> json) list \<Rightarrow> AppError" where
  "conflict message details = new_AppError CONFLICT message 409 details"

definition unauthorized :: "string \<Rightarrow> AppError" where
  "unauthorized message = new_AppError UNAUTHORIZED message 401 []"

definition providerUnavailable :: "string \<Rightarrow> string \<Rightarrow> AppError" where
  "providerUnavailable provider cause =
     new_AppError PROVIDER_UNAVAILABLE ''Identity provider unavailable'' 503
       [(''provider'', JStr provider), (''cause'', JStr cause)]"

definition chainUnavailable :: "string \<Rightarrow> string \<Rightarrow> AppError" where
  "chainUnavailable operation cause =
     new_AppError CHAIN_UNAVAILABLE ''Soroban RPC unavailable'' 503
       [(''operation'', JStr operation), (''cause'', JStr cause)]"

definition COMPLIANCE_STATUS :: "(string \<times> nat) list" where
  "COMPLIANCE_STATUS = [
     (''AttestationMissing'', 403),
     (''AttestationExpired'', 403),
     (''AttestationRevoked'', 403),
     (''TierTooLow'', 403),
     (''DailyLimitExceeded'', 429),
     (''TransfersPaused'', 503),
     (''UnknownCorridor'', 400),
     (''InvalidAmount'', 400),
     (''InvalidThresholds'', 400),
     (''NotInitialized'', 500),
     (''EscrowNotSet'', 500)]"

definition complianceRefused :: "string \<Rightarrow> string \<Rightarrow> AppError" where
  "complianceRefused variant message =
     (let status = option_or (map_of COMPLIANCE_STATUS variant) 403
      in new_AppError COMPLIANCE_REFUSED message status [(''variant'', JStr variant)])"

fun isAppError :: "failure \<Rightarrow> bool" where
  "isAppError (AppErr e) = True"
| "isAppError (PlainErr m) = False"

lemma new_AppError_sel [simp]:
  "ae_code (new_AppError c m s d) = c" "ae_message (new_AppError c m s d) = m"
  "ae_status (new_AppError c m s d) = s" "ae_details (new_AppError c m s d) = d"
  by (simp_all add: new_AppError_def)

lemmas error_constructors = validationFailed_def notFound_def conflict_def unauthorized_def
  providerUnavailable_def chainUnavailable_def complianceRefused_def Let_def

lemma errorCodeName_inj: "errorCodeName c = errorCodeName d \<Longrightarrow> c = d"
  by (cases c; cases d) simp_all

end
