(* ===== verification/Store.thy ===== *)
theory Store
  imports Errors
begin

text \<open>
  Tables of the off-chain database.  A table is the list of its rows under their key, in
  insertion order; the operations are the ones the services call through the database client
  (\<open>findUnique\<close>, \<open>findMany\<close>, \<open>create\<close>, \<open>update\<close>, \<open>updateMany\<close>, \<open>upsert\<close>), each a single
  statement.  A unique key that exists already makes \<open>create\<close> fail, a missing one makes
  \<open>update\<close> fail, as the schema (\<open>backend/prisma/schema.prisma\<close>) demands.  The laws the services
  rely on are the locale \<open>keyed_table\<close>, interpreted on these operations.
\<close>

section \<open>Operations\<close>

type_synonym ('k, 'r) table = "('k \<times> 'r) list"

definition find_unique :: "('k, 'r) table \<Rightarrow> 'k \<Rightarrow> 'r option" where
  "find_unique t k = map_of t k"

definition find_many :: "('r \<Rightarrow> bool) \<Rightarrow> ('k, 'r) table \<Rightarrow> 'r list" where
  "find_many P t = filter P (map snd t)"

definition find_first :: "('r \<Rightarrow> bool) \<Rightarrow> ('k, 'r) table \<Rightarrow> 'r option" where
  "find_first P t = List.find P (map snd t)"

definition create_row :: "'k \<Rightarrow> 'r \<Rightarrow> ('k, 'r) table \<Rightarrow> failure + ('k, 'r) table" where
  "create_row k r t = (if find_unique t k = None then Inr (t @ [(k, r)])
     else Inl (PlainErr ''Unique constraint failed''))"

definition modify_row :: "'k \<Rightarrow> ('r \<Rightarrow> 'r) \<Rightarrow> ('k, 'r) table \<Rightarrow> ('k, 'r) table" where
  "modify_row k f t = map (\<lambda>(k', r). (k', if k' = k then f r else r)) t"

definition update_row :: "'k \<Rightarrow> ('r \<Rightarrow> 'r) \<Rightarrow> ('k, 'r) table \<Rightarrow> failure + ('k, 'r) table" where
  "update_row k f t = (if find_unique t k = None
     then Inl (PlainErr ''An operation failed because it depends on one or more records that were required but not found'')
     else Inr (modify_row k f t))"

definition upsert_row :: "'k \<Rightarrow> 'r \<Rightarrow> ('r \<Rightarrow> 'r) \<Rightarrow> ('k, 'r) table \<Rightarrow> ('k, 'r) table" where
  "upsert_row k r f t = (if find_unique t k = None then t @ [(k, r)] else modify_row k f t)"

definition update_many :: "('r \<Rightarrow> bool) \<Rightarrow> ('r \<Rightarrow> 'r) \<Rightarrow> ('k, 'r) table \<Rightarrow> ('k, 'r) table" where
  "update_many P f t = map (\<lambda>(k, r). (k, if P r then f r else r)) t"

definition count_rows :: "('r \<Rightarrow> bool) \<Rightarrow> ('k, 'r) table \<Rightarrow> nat" where
  "count_rows P t = length (find_many P t)"

text \<open>What a row with a dangling reference makes \<open>create\<close> throw.\<close>

definition foreign_key_error :: failure where
  "foreign_key_error = PlainErr ''Foreign key constraint failed''"

definition table_ok :: "('k, 'r) table \<Rightarrow> bool" where
  "table_ok t \<longleftrightarrow> distinct (map fst t)"

section \<open>Laws\<close>

lemma find_unique_Nil [simp]: "find_unique [] k = None"
  by (simp add: find_unique_def)

lemma map_of_snoc: "map_of t k = None \<Longrightarrow> map_of (t @ [(k, r)]) = (map_of t)(k \<mapsto> r)"
  by (rule ext) (auto simp: map_add_def split: option.splits)

lemma find_modify_row [table_simps]:
  "find_unique (modify_row k f t) k' = (if k' = k then map_option f (find_unique t k) else find_unique t k')"
  by (induction t) (auto simp: find_unique_def modify_row_def)

lemma find_create_row [table_simps]:
  "create_row k r t = Inr t' \<Longrightarrow> find_unique t' k' = (if k' = k then Some r else find_unique t k')"
  by (auto simp: create_row_def find_unique_def map_add_def split: if_splits option.splits)

lemma create_row_Inr_iff: "create_row k r t = Inr t' \<longleftrightarrow> find_unique t k = None \<and> t' = t @ [(k, r)]"
  by (auto simp: create_row_def)

lemma update_row_Inr_iff: "update_row k f t = Inr t' \<longleftrightarrow> find_unique t k \<noteq> None \<and> t' = modify_row k f t"
  by (auto simp: update_row_def)

lemma find_update_row:
  "update_row k f t = Inr t' \<Longrightarrow>
     find_unique t' k' = (if k' = k then map_option f (find_unique t k) else find_unique t k')"
  by (auto simp: update_row_Inr_iff find_modify_row)

lemma find_upsert_row [table_simps]:
  "find_unique (upsert_row k r f t) k' =
     (if k' = k then Some (case find_unique t k of None \<Rightarrow> r | Some q \<Rightarrow> f q) else find_unique t k')"
  by (auto simp: upsert_row_def find_modify_row split: option.splits)
     (simp_all add: find_unique_def map_add_def split: option.splits)

lemma find_update_many [table_simps]:
  "find_unique (update_many P f t) k = map_option (\<lambda>r. if P r then f r else r) (find_unique t k)"
  by (induction t) (auto simp: find_unique_def update_many_def)

lemma keys_modify_row [simp]: "map fst (modify_row k f t) = map fst t"
  by (induction t) (auto simp: modify_row_def)

lemma keys_update_many [simp]: "map fst (update_many P f t) = map fst t"
  by (induction t) (auto simp: update_many_def)

lemma find_unique_None_iff: "find_unique t k = None \<longleftrightarrow> k \<notin> set (map fst t)"
  by (simp add: find_unique_def map_of_eq_None_iff)

lemma table_ok_modify [simp]: "table_ok (modify_row k f t) \<longleftrightarrow> table_ok t"
  by (simp add: table_ok_def)

lemma table_ok_update_many [simp]: "table_ok (update_many P f t) \<longleftrightarrow> table_ok t"
  by (simp add: table_ok_def)

lemma table_ok_create: "table_ok t \<Longrightarrow> create_row k r t = Inr t' \<Longrightarrow> table_ok t'"
  by (auto simp: create_row_Inr_iff table_ok_def find_unique_None_iff)

lemma table_ok_upsert: "table_ok t \<Longrightarrow> table_ok (upsert_row k r f t)"
  by (auto simp: upsert_row_def table_ok_def find_unique_None_iff)

lemma find_many_set: "table_ok t \<Longrightarrow> set (find_many P t) = {r. P r \<and> (\<exists>k. find_unique t k = Some r)}"
  by (auto simp: find_many_def find_unique_def table_ok_def intro: map_of_is_SomeI dest!: map_of_SomeD) force+

section \<open>The interface\<close>

locale keyed_table =
  fixes lookup :: "'t \<Rightarrow> 'k \<Rightarrow> 'r option"
    and ok :: "'t \<Rightarrow> bool"
    and create :: "'k \<Rightarrow> 'r \<Rightarrow> 't \<Rightarrow> 'e + 't"
    and update :: "'k \<Rightarrow> ('r \<Rightarrow> 'r) \<Rightarrow> 't \<Rightarrow> 'e + 't"
    and upsert :: "'k \<Rightarrow> 'r \<Rightarrow> ('r \<Rightarrow> 'r) \<Rightarrow> 't \<Rightarrow> 't"
  assumes create_ok: "ok t \<Longrightarrow> create k r t = Inr t' \<Longrightarrow> ok t'"
    and lookup_create: "create k r t = Inr t' \<Longrightarrow> lookup t' = (lookup t)(k \<mapsto> r)"
    and create_refused: "(\<exists>e. create k r t = Inl e) \<longleftrightarrow> lookup t k \<noteq> None"
    and update_ok: "ok t \<Longrightarrow> update k f t = Inr t' \<Longrightarrow> ok t'"
    and lookup_update: "update k f t = Inr t' \<Longrightarrow> lookup t' = (lookup t)(k := map_option f (lookup t k))"
    and update_refused: "(\<exists>e. update k f t = Inl e) \<longleftrightarrow> lookup t k = None"
    and upsert_ok: "ok t \<Longrightarrow> ok (upsert k r f t)"
    and lookup_upsert:
      "lookup (upsert k r f t) = (lookup t)(k \<mapsto> (case lookup t k of None \<Rightarrow> r | Some q \<Rightarrow> f q))"
begin

lemma create_same_key_refused:
  assumes "create k r t = Inr t'"
  shows "\<exists>e. create k s t' = Inl e"
  using create_refused [of k s t'] lookup_create [OF assms] by simp

lemma update_keeps_others: "update k f t = Inr t' \<Longrightarrow> k' \<noteq> k \<Longrightarrow> lookup t' k' = lookup t k'"
  by (simp add: lookup_update)

text \<open>An upsert that keeps an existing row is idempotent: replaying it changes nothing.\<close>

lemma upsert_keep_replay: "lookup (upsert k s (\<lambda>q. q) (upsert k r (\<lambda>q. q) t)) = lookup (upsert k r (\<lambda>q. q) t)"
  by (simp add: lookup_upsert)

lemma upsert_keep_present: "lookup t k = Some q \<Longrightarrow> lookup (upsert k r (\<lambda>q. q) t) = lookup t"
  by (auto simp: lookup_upsert)

end

interpretation tbl: keyed_table find_unique table_ok create_row update_row upsert_row
proof unfold_locales
  fix t :: "('k, 'r) table" and t' k r and f :: "'r \<Rightarrow> 'r"
  show "table_ok t \<Longrightarrow> create_row k r t = Inr t' \<Longrightarrow> table_ok t'" by (rule table_ok_create)
  show "create_row k r t = Inr t' \<Longrightarrow> find_unique t' = (find_unique t)(k \<mapsto> r)"
    by (rule ext) (simp add: find_create_row)
  show "(\<exists>e. create_row k r t = Inl e) \<longleftrightarrow> find_unique t k \<noteq> None" by (simp add: create_row_def)
  show "table_ok t \<Longrightarrow> update_row k f t = Inr t' \<Longrightarrow> table_ok t'" by (auto simp: update_row_Inr_iff)
  show "update_row k f t = Inr t' \<Longrightarrow> find_unique t' = (find_unique t)(k := map_option f (find_unique t k))"
    by (rule ext) (simp add: find_update_row)
  show "(\<exists>e. update_row k f t = Inl e) \<longleftrightarrow> find_unique t k = None" by (auto simp: update_row_def)
  show "table_ok t \<Longrightarrow> table_ok (upsert_row k r f t)" by (rule table_ok_upsert)
  show "find_unique (upsert_row k r f t) =
      (find_unique t)(k \<mapsto> (case find_unique t k of None \<Rightarrow> r | Some q \<Rightarrow> f q))"
    by (rule ext) (simp add: find_upsert_row)
qed

end
