(* ===== verification/Effects.thy ===== *)
theory Effects
  imports Store
begin

text \<open>
  Sequencing of asynchronous service steps.  A step reads and writes a state and either
  returns or throws; what it wrote before a throw stays written, since the services use no
  surrounding transaction.  Also the HTTP response a route handler sends.
\<close>

type_synonym ('s, 'a) act = "'s \<Rightarrow> (failure + 'a) \<times> 's"

definition ret :: "'a \<Rightarrow> ('s, 'a) act" where
  "ret a s = (Inr a, s)"

definition throw :: "failure \<Rightarrow> ('s, 'a) act" where
  "throw e s = (Inl e, s)"

definition andThen :: "('s, 'a) act \<Rightarrow> ('a \<Rightarrow> ('s, 'b) act) \<Rightarrow> ('s, 'b) act" where
  "andThen m f s = (case m s of (Inl e, s') \<Rightarrow> (Inl e, s') | (Inr a, s') \<Rightarrow> f a s')"

text \<open>A computation that only computes: a thrown error leaves the state alone.\<close>

definition of_result :: "failure + 'a \<Rightarrow> ('s, 'a) act" where
  "of_result r s = (r, s)"

definition get_state :: "('s \<Rightarrow> 'a) \<Rightarrow> ('s, 'a) act" where
  "get_state f s = (Inr (f s), s)"

definition modify_state :: "('s \<Rightarrow> 's) \<Rightarrow> ('s, unit) act" where
  "modify_state f s = (Inr (), f s)"

text \<open>A database statement: a new table state, or a failure that writes nothing.\<close>

definition statement :: "('s \<Rightarrow> failure + 's) \<Rightarrow> ('s, unit) act" where
  "statement f s = (case f s of Inl e \<Rightarrow> (Inl e, s) | Inr s' \<Rightarrow> (Inr (), s'))"

definition guard :: "bool \<Rightarrow> failure \<Rightarrow> ('s, unit) act" where
  "guard p e s = (if p then (Inr (), s) else (Inl e, s))"

definition found :: "'a option \<Rightarrow> failure \<Rightarrow> ('s, 'a) act" where
  "found m e s = (case m of None \<Rightarrow> (Inl e, s) | Some a \<Rightarrow> (Inr a, s))"

text \<open>\<open>try m catch h\<close>: the handler runs in the state the failed step left.\<close>

definition try_catch :: "('s, 'a) act \<Rightarrow> (failure \<Rightarrow> ('s, 'a) act) \<Rightarrow> ('s, 'a) act" where
  "try_catch m h s = (case m s of (Inl e, s') \<Rightarrow> h e s' | (Inr a, s') \<Rightarrow> (Inr a, s'))"

text \<open>\<open>for (const x of xs) await f(x)\<close>: stops at the first throw.\<close>

fun for_each :: "('a \<Rightarrow> 'b \<Rightarrow> ('s, 'b) act) \<Rightarrow> 'a list \<Rightarrow> 'b \<Rightarrow> ('s, 'b) act" where
  "for_each f [] b = ret b"
| "for_each f (x # xs) b = andThen (f x b) (for_each f xs)"

named_theorems act_simps \<open>running of service steps\<close>

lemma act_run [act_simps]:
  "ret a s = (Inr a, s)" "throw e s = (Inl e, s)" "of_result r s = (r, s)"
  "get_state g s = (Inr (g s), s)"
  by (simp_all add: ret_def throw_def of_result_def get_state_def)

lemma andThen_Inr: "m s = (Inr a, s') \<Longrightarrow> andThen m f s = f a s'"
  by (simp add: andThen_def)

lemma andThen_Inl: "m s = (Inl e, s') \<Longrightarrow> andThen m f s = (Inl e, s')"
  by (simp add: andThen_def)

lemma andThen_run [act_simps]:
  "andThen (ret a) f s = f a s" "andThen (throw e) f s = (Inl e, s)"
  "andThen (get_state g) f s = f (g s) s"
  "andThen (of_result (Inr a)) f s = f a s" "andThen (of_result (Inl e)) f s = (Inl e, s)"
  "andThen (found (Some a) e) f s = f a s" "andThen (found None e) f s = (Inl e, s)"
  by (simp_all add: andThen_def act_run found_def)

lemma andThen_run_unit [act_simps]:
  "andThen (modify_state h) f s = f () (h s)"
  "andThen (guard p e) f s = (if p then f () s else (Inl e, s))"
  "andThen (statement g) f s = (case g s of Inl e \<Rightarrow> (Inl e, s) | Inr s' \<Rightarrow> f () s')"
  by (simp_all add: andThen_def modify_state_def guard_def statement_def split: sum.splits)

lemma act_run_unit [act_simps]: "modify_state h s = (Inr (), h s)"
  by (simp add: modify_state_def)

lemma andThen_Inr_iff:
  "andThen m f s = (Inr b, s'') \<longleftrightarrow> (\<exists>a s'. m s = (Inr a, s') \<and> f a s' = (Inr b, s''))"
  by (auto simp: andThen_def split: prod.splits sum.splits)

lemma andThen_Inl_iff:
  "andThen m f s = (Inl e, s'') \<longleftrightarrow>
     m s = (Inl e, s'') \<or> (\<exists>a s'. m s = (Inr a, s') \<and> f a s' = (Inl e, s''))"
  by (auto simp: andThen_def split: prod.splits sum.splits)

lemma andThen_iff:
  "andThen m f s = (r, s'') \<longleftrightarrow>
     (\<exists>e. m s = (Inl e, s'') \<and> r = Inl e) \<or> (\<exists>a s'. m s = (Inr a, s') \<and> f a s' = (r, s''))"
  by (auto simp: andThen_def split: prod.splits sum.splits)

lemma guard_Inr_iff [simp]: "guard p e s = (Inr u, s') \<longleftrightarrow> p \<and> s' = s"
  by (auto simp: guard_def)

lemma guard_Inl_iff [simp]: "guard p e s = (Inl e', s') \<longleftrightarrow> \<not> p \<and> e' = e \<and> s' = s"
  by (auto simp: guard_def)

lemma found_Inr_iff [simp]: "found m e s = (Inr a, s') \<longleftrightarrow> m = Some a \<and> s' = s"
  by (auto simp: found_def split: option.splits)

lemma found_Inl_iff [simp]: "found m e s = (Inl e', s') \<longleftrightarrow> m = None \<and> e' = e \<and> s' = s"
  by (auto simp: found_def split: option.splits)

lemma statement_Inr_iff: "statement f s = (Inr u, s') \<longleftrightarrow> f s = Inr s'"
  by (auto simp: statement_def split: sum.splits)

lemma statement_Inl_iff: "statement f s = (Inl e, s') \<longleftrightarrow> f s = Inl e \<and> s' = s"
  by (auto simp: statement_def split: sum.splits)

lemma statement_run_iff:
  "statement f s = (r, s') \<longleftrightarrow> (\<exists>e. f s = Inl e \<and> r = Inl e \<and> s' = s) \<or> (f s = Inr s' \<and> r = Inr ())"
  by (auto simp: statement_def split: sum.splits)

lemma of_result_iff [simp]: "of_result r s = (x, s') \<longleftrightarrow> r = x \<and> s' = s"
  by (auto simp: of_result_def)

lemma ret_iff [simp]: "ret a s = (Inr b, s') \<longleftrightarrow> b = a \<and> s' = s" "ret a s \<noteq> (Inl e, s')"
  by (auto simp: ret_def)

lemma throw_iff [simp]: "throw e s = (Inl e', s') \<longleftrightarrow> e' = e \<and> s' = s" "throw e s \<noteq> (Inr b, s')"
  by (auto simp: throw_def)

lemma get_state_iff [simp]: "get_state g s = (Inr a, s') \<longleftrightarrow> a = g s \<and> s' = s" "get_state g s \<noteq> (Inl e, s')"
  by (auto simp: get_state_def)

lemma modify_state_iff [simp]: "modify_state g s = (Inr a, s') \<longleftrightarrow> s' = g s" "modify_state g s \<noteq> (Inl e, s')"
  by (auto simp: modify_state_def)

text \<open>Inversion of every kind of step, for an arbitrary outcome.\<close>

lemma ret_run_iff: "ret a s = (r, s') \<longleftrightarrow> r = Inr a \<and> s' = s"
  by (auto simp: ret_def)

lemma throw_run_iff: "throw e s = (r, s') \<longleftrightarrow> r = Inl e \<and> s' = s"
  by (auto simp: throw_def)

lemma guard_run_iff: "guard p e s = (r, s') \<longleftrightarrow> s' = s \<and> r = (if p then Inr () else Inl e)"
  by (auto simp: guard_def)

lemma found_run_iff: "found m e s = (r, s') \<longleftrightarrow> s' = s \<and> r = (case m of None \<Rightarrow> Inl e | Some a \<Rightarrow> Inr a)"
  by (auto simp: found_def split: option.splits)

lemma get_state_run_iff: "get_state g s = (r, s') \<longleftrightarrow> r = Inr (g s) \<and> s' = s"
  by (auto simp: get_state_def)

lemma modify_state_run_iff: "modify_state g s = (r, s') \<longleftrightarrow> r = Inr () \<and> s' = g s"
  by (auto simp: modify_state_def)

lemmas act_iffs = andThen_iff ret_run_iff throw_run_iff guard_run_iff found_run_iff get_state_run_iff
  modify_state_run_iff of_result_iff

text \<open>An invariant of every pass of a loop is one of the loop, also when a pass throws.\<close>

lemma for_each_invariant:
  assumes "I s" and "\<And>x b s. x \<in> set xs \<Longrightarrow> I s \<Longrightarrow> I (snd (f x b s))"
  shows "I (snd (for_each f xs b s))"
  using assms
proof (induction xs arbitrary: b s)
  case Nil
  then show ?case by (simp add: act_run)
next
  case (Cons x xs)
  have step: "I (snd (f x b s))" using Cons.prems by simp
  show ?case
  proof (cases "f x b s")
    case (Pair r s')
    then show ?thesis
      using Cons.IH [of s'] Cons.prems step by (cases r) (simp_all add: andThen_def)
  qed
qed

text \<open>
  \<open>preserves R m\<close>: however the step \<open>m\<close> ends, it relates the state it starts in to the one it leaves
  by \<open>R\<close>.  A transitive relation carries over to sequences, a reflexive one to steps that only compute.
\<close>

definition preserves :: "('s \<Rightarrow> 's \<Rightarrow> bool) \<Rightarrow> ('s, 'a) act \<Rightarrow> bool" where
  "preserves R m \<longleftrightarrow> (\<forall>s. R s (snd (m s)))"

lemma preserves_andThen:
  assumes "transp R" "preserves R m" "\<And>a. preserves R (f a)"
  shows "preserves R (andThen m f)"
  unfolding preserves_def
proof
  fix s
  have m: "R s (snd (m s))" using assms(2) by (simp add: preserves_def)
  show "R s (snd (andThen m f s))"
  proof (cases "m s")
    case (Pair r t)
    then have "R t (snd (f a t))" for a using assms(3) by (simp add: preserves_def)
    then show ?thesis using m Pair transpD [OF assms(1)] by (cases r) (auto simp: andThen_def)
  qed
qed

lemma preserves_basic:
  assumes "reflp R"
  shows "preserves R (ret a)" "preserves R (throw e)" "preserves R (of_result r)" "preserves R (get_state g)"
    "preserves R (guard p e)" "preserves R (found m e)"
  using reflpD [OF assms]
  by (simp_all add: preserves_def ret_def throw_def of_result_def get_state_def guard_def found_def split: option.splits)

lemma preserves_for_each:
  assumes "reflp R" "transp R" "\<And>x b. x \<in> set xs \<Longrightarrow> preserves R (f x b)"
  shows "preserves R (for_each f xs b)"
  using assms(3) by (induction xs arbitrary: b) (simp_all add: preserves_basic [OF assms(1)] preserves_andThen [OF assms(2)])

section \<open>Responses\<close>

text \<open>
  What \<open>res.json\<close> throws on a body that holds a \<open>BigInt\<close>: the repository installs no
  \<open>toJSON\<close> for it.
\<close>

definition bigint_error :: failure where
  "bigint_error = PlainErr ''Do not know how to serialize a BigInt''"

record Response =
  res_status :: nat
  res_headers :: "(string \<times> string) list"
  res_body :: json

definition res_json :: "json \<Rightarrow> Response" where
  "res_json b = \<lparr>res_status = 200, res_headers = [], res_body = b\<rparr>"

definition res_status_json :: "nat \<Rightarrow> json \<Rightarrow> Response" where
  "res_status_json s b = \<lparr>res_status = s, res_headers = [], res_body = b\<rparr>"

end
