(* ===== verification/Constants.thy ===== *)
theory Constants
  imports Prelude
begin

text \<open>
  \<open>backend/src/config/constants.ts\<close>: the constants the backend duplicates from the contracts.
  A \<open>Record\<close> literal is the list of its entries, read with \<open>map_of\<close>.
\<close>

definition SECONDS_PER_LEDGER :: int where "SECONDS_PER_LEDGER = 5"

definition MAX_FEE_BPS :: int where "MAX_FEE_BPS = 500"

definition MIN_COLLATERAL_RATIO_BPS :: int where "MIN_COLLATERAL_RATIO_BPS = 10000"

definition MAX_COLLATERAL_RATIO_BPS :: int where "MAX_COLLATERAL_RATIO_BPS = 100000"

definition MAX_UTILIZATION_CAP_BPS :: int where "MAX_UTILIZATION_CAP_BPS = 9500"

section \<open>Event topics\<close>

definition EVENT_TOPICS :: "(string \<times> string) list" where
  "EVENT_TOPICS = [
     (''transferCreated'', ''tr_create''), (''transferClaimed'', ''tr_claim''),
     (''transferRefunded'', ''tr_refnd''), (''transferCancelled'', ''tr_cncl''),
     (''escrowConfig'', ''esc_cfg''), (''escrowWiring'', ''esc_wire''),
     (''escrowAdmin'', ''esc_adm''), (''agentRegistered'', ''agent_reg''),
     (''agentStatus'', ''agent_st''), (''bondTopUp'', ''bond_up''),
     (''bondWithdraw'', ''bond_down''), (''agentSlashed'', ''slash''),
     (''regionConfigured'', ''region''), (''corridorMapped'', ''corridor''),
     (''registryAdmin'', ''admin''), (''attestationPublished'', ''kyc_pub''),
     (''attestationRevoked'', ''kyc_rev''), (''thresholdsUpdated'', ''kyc_tier''),
     (''attestationOperator'', ''kyc_oper''), (''compliancePause'', ''kyc_paus''),
     (''complianceEscrow'', ''kyc_escr''), (''transferCommitted'', ''kyc_comm''),
     (''poolRegion'', ''lp_region''), (''poolDeposit'', ''lp_dep''),
     (''poolWithdraw'', ''lp_wdraw''), (''poolDraw'', ''lp_draw''),
     (''poolRepay'', ''lp_repay''), (''poolConfig'', ''lp_cfg''), (''poolWire'', ''lp_wire''),
     (''poolAdmin'', ''lp_admin'')]"

section \<open>Error names\<close>

definition COMPLIANCE_ERROR_NAMES :: "(nat \<times> string) list" where
  "COMPLIANCE_ERROR_NAMES = [
     (1, ''NotInitialized''), (2, ''AlreadyInitialized''), (3, ''Unauthorized''),
     (4, ''NotAnAttester''), (5, ''NotEscrow''), (6, ''InvalidAmount''),
     (7, ''UnknownCorridor''), (8, ''InvalidThresholds''), (9, ''TransfersPaused''),
     (10, ''AttestationMissing''), (11, ''AttestationExpired''), (12, ''AttestationRevoked''),
     (13, ''TierTooLow''), (14, ''DailyLimitExceeded''), (15, ''InvalidExpiry''),
     (16, ''Overflow''), (17, ''EscrowNotSet'')]"

definition ESCROW_ERROR_NAMES :: "(nat \<times> string) list" where
  "ESCROW_ERROR_NAMES = [
     (1, ''NotInitialized''), (2, ''AlreadyInitialized''), (3, ''Unauthorized''),
     (4, ''Paused''), (5, ''InvalidAmount''), (6, ''InvalidExpiry''), (7, ''ExpiryTooFar''),
     (8, ''TransferNotFound''), (9, ''TransferNotPending''), (10, ''TransferExpired''),
     (11, ''TransferNotExpired''), (12, ''InvalidClaimCode''), (13, ''AgentNotAuthorized''),
     (14, ''ComplianceRefused''), (15, ''ComplianceCallFailed''), (16, ''RegistryCallFailed''),
     (17, ''FeeTooHigh''), (18, ''InvalidConfig''), (19, ''Overflow''),
     (20, ''SenderCannotClaim'')]"

definition AGENT_REGISTRY_ERROR_NAMES :: "(nat \<times> string) list" where
  "AGENT_REGISTRY_ERROR_NAMES = [
     (1, ''NotInitialized''), (2, ''AlreadyInitialized''), (3, ''Unauthorized''),
     (4, ''InvalidAmount''), (5, ''UnknownRegion''), (6, ''RegionInactive''),
     (7, ''RegionFull''), (8, ''BondBelowMinimum''), (9, ''AgentAlreadyRegistered''),
     (10, ''AgentNotRegistered''), (11, ''InsufficientBond''),
     (12, ''BondLockedWhileAuthorized''), (13, ''InvalidStatusTransition''),
     (14, ''BondTokenMismatch''), (15, ''RegionAlreadyExists''), (16, ''SlashExceedsBond''),
     (17, ''UnknownCorridor''), (18, ''InvalidAdmin''), (19, ''Overflow'')]"

definition LIQUIDITY_ERROR_NAMES :: "(nat \<times> string) list" where
  "LIQUIDITY_ERROR_NAMES = [
     (1, ''NotInitialized''), (2, ''AlreadyInitialized''), (3, ''Unauthorized''),
     (4, ''Paused''), (5, ''InvalidAmount''), (6, ''UnknownRegion''), (7, ''RegionInactive''),
     (8, ''RegionAlreadyOpen''), (9, ''AgentNotAuthorized''), (10, ''InsufficientCollateral''),
     (11, ''UtilizationCapExceeded''), (12, ''InsufficientLiquidity''),
     (13, ''InsufficientShares''), (14, ''RepaymentExceedsExposure''), (15, ''ZeroShares''),
     (16, ''InvalidConfig''), (17, ''RegistryCallFailed''), (18, ''Overflow'')]"

definition NETWORK_LABELS :: "(string \<times> string) list" where
  "NETWORK_LABELS = [
     (''testnet'', ''Stellar Testnet''), (''futurenet'', ''Stellar Futurenet''),
     (''mainnet'', ''Stellar Mainnet (PUBLIC)''), (''local'', ''Local Sandbox'')]"

end
