(* ===== verification/Contracts.thy ===== *)
theory Contracts
  imports Constants
begin

text \<open>
  The on-chain truths the TypeScript code duplicates, from the Rust sources under
  \<open>contracts/\<close>: the \<open>#[contracterror]\<close> enums with their discriminants, the topic symbols the
  contracts publish, and the checked \<open>i128\<close> arithmetic of the fee and of the bond requirement.
  The theorems elsewhere compare the backend against these definitions.
\<close>

section \<open>Checked 128-bit arithmetic\<close>

definition in_i128 :: "int \<Rightarrow> bool" where
  "in_i128 n \<longleftrightarrow> - (2 ^ 127) \<le> n \<and> n < 2 ^ 127"

definition checked_mul :: "int \<Rightarrow> int \<Rightarrow> int option" where
  "checked_mul a b = (if in_i128 (a * b) then Some (a * b) else None)"

text \<open>Rust's \<open>checked_div\<close> truncates towards zero; it fails on zero and on overflow.\<close>

definition checked_div :: "int \<Rightarrow> int \<Rightarrow> int option" where
  "checked_div a b = (if b = 0 \<or> \<not> in_i128 (tdiv a b) then None else Some (tdiv a b))"

definition ok_or :: "'a option \<Rightarrow> 'e \<Rightarrow> 'e + 'a" where
  "ok_or m e = (case m of None \<Rightarrow> Inl e | Some a \<Rightarrow> Inr a)"

text \<open>\<open>fee_for\<close> of the escrow; the error is the name of the variant.\<close>

definition fee_for :: "int \<Rightarrow> int \<Rightarrow> string + int" where
  "fee_for amount fee_bps =
     rbind (ok_or (checked_mul amount fee_bps) ''Overflow'') (\<lambda>p.
       ok_or (checked_div p 10000) ''Overflow'')"

text \<open>\<open>bond_requirement\<close> of the liquidity pool, with the configured ratio as an argument.\<close>

definition bond_requirement :: "int \<Rightarrow> int \<Rightarrow> string + int" where
  "bond_requirement collateral_ratio_bps exposure =
     rbind (ok_or (checked_mul exposure collateral_ratio_bps) ''Overflow'') (\<lambda>p.
       ok_or (checked_div p 10000) ''Overflow'')"

section \<open>Verification tiers\<close>

datatype KycTier_rs = Tier_None | Tier_Standard | Tier_Enhanced

fun rank :: "KycTier_rs \<Rightarrow> nat" where
  "rank Tier_None = 0"
| "rank Tier_Standard = 1"
| "rank Tier_Enhanced = 2"

record TierThresholds =
  tt_corridor_id :: string
  tt_tier1_max :: int
  tt_tier2_max :: int
  tt_daily_limit :: int

definition required_tier :: "TierThresholds \<Rightarrow> int \<Rightarrow> KycTier_rs" where
  "required_tier t amount =
     (if amount \<le> tt_tier1_max t then Tier_None
      else if amount \<le> tt_tier2_max t then Tier_Standard
      else Tier_Enhanced)"

definition thresholds_is_valid :: "TierThresholds \<Rightarrow> bool" where
  "thresholds_is_valid t \<longleftrightarrow>
     tt_tier1_max t \<ge> 0 \<and> tt_tier2_max t \<ge> tt_tier1_max t \<and>
     tt_daily_limit t > 0 \<and> tt_daily_limit t \<ge> tt_tier2_max t"

section \<open>Contract errors\<close>

definition ComplianceError_rs :: "(string \<times> nat) list" where
  "ComplianceError_rs = [
     (''NotInitialized'', 1), (''AlreadyInitialized'', 2), (''Unauthorized'', 3),
     (''NotAnAttester'', 4), (''NotEscrow'', 5), (''InvalidAmount'', 6),
     (''UnknownCorridor'', 7), (''InvalidThresholds'', 8), (''TransfersPaused'', 9),
     (''AttestationMissing'', 10), (''AttestationExpired'', 11), (''AttestationRevoked'', 12),
     (''TierTooLow'', 13), (''DailyLimitExceeded'', 14), (''InvalidExpiry'', 15),
     (''Overflow'', 16), (''EscrowNotSet'', 17)]"

definition EscrowError_rs :: "(string \<times> nat) list" where
  "EscrowError_rs = [
     (''NotInitialized'', 1), (''AlreadyInitialized'', 2), (''Unauthorized'', 3),
     (''Paused'', 4), (''InvalidAmount'', 5), (''InvalidExpiry'', 6), (''ExpiryTooFar'', 7),
     (''TransferNotFound'', 8), (''TransferNotPending'', 9), (''TransferExpired'', 10),
     (''TransferNotExpired'', 11), (''InvalidClaimCode'', 12), (''AgentNotAuthorized'', 13),
     (''ComplianceRefused'', 14), (''ComplianceCallFailed'', 15), (''RegistryCallFailed'', 16),
     (''FeeTooHigh'', 17), (''InvalidConfig'', 18), (''Overflow'', 19),
     (''SenderCannotClaim'', 20)]"

definition AgentRegistryError_rs :: "(string \<times> nat) list" where
  "AgentRegistryError_rs = [
     (''NotInitialized'', 1), (''AlreadyInitialized'', 2), (''Unauthorized'', 3),
     (''InvalidAmount'', 4), (''UnknownRegion'', 5), (''RegionInactive'', 6),
     (''RegionFull'', 7), (''BondBelowMinimum'', 8), (''AgentAlreadyRegistered'', 9),
     (''AgentNotRegistered'', 10), (''InsufficientBond'', 11),
     (''BondLockedWhileAuthorized'', 12), (''InvalidStatusTransition'', 13),
     (''BondTokenMismatch'', 14), (''RegionAlreadyExists'', 15), (''SlashExceedsBond'', 16),
     (''UnknownCorridor'', 17), (''InvalidAdmin'', 18), (''Overflow'', 19)]"

definition LiquidityError_rs :: "(string \<times> nat) list" where
  "LiquidityError_rs = [
     (''NotInitialized'', 1), (''AlreadyInitialized'', 2), (''Unauthorized'', 3),
     (''Paused'', 4), (''InvalidAmount'', 5), (''UnknownRegion'', 6), (''RegionInactive'', 7),
     (''RegionAlreadyOpen'', 8), (''AgentNotAuthorized'', 9), (''InsufficientCollateral'', 10),
     (''UtilizationCapExceeded'', 11), (''InsufficientLiquidity'', 12),
     (''InsufficientShares'', 13), (''RepaymentExceedsExposure'', 14), (''ZeroShares'', 15),
     (''InvalidConfig'', 16), (''RegistryCallFailed'', 17), (''Overflow'', 18)]"

section \<open>Published topics\<close>

text \<open>The first topic symbol of every \<open>env.events().publish\<close> call, one list per contract.\<close>

definition escrow_topics_rs :: "string list" where
  "escrow_topics_rs = [''tr_create'', ''tr_claim'', ''tr_refnd'', ''tr_cncl'',
     ''esc_cfg'', ''esc_wire'', ''esc_adm'']"

definition registry_topics_rs :: "string list" where
  "registry_topics_rs = [''agent_reg'', ''agent_st'', ''bond_up'', ''bond_down'', ''slash'',
     ''region'', ''corridor'', ''admin'']"

definition compliance_topics_rs :: "string list" where
  "compliance_topics_rs = [''kyc_pub'', ''kyc_rev'', ''kyc_tier'', ''kyc_oper'', ''kyc_paus'',
     ''kyc_escr'', ''kyc_comm'']"

definition liquidity_topics_rs :: "string list" where
  "liquidity_topics_rs = [''lp_region'', ''lp_dep'', ''lp_wdraw'', ''lp_draw'', ''lp_repay'',
     ''lp_cfg'', ''lp_wire'', ''lp_admin'']"

section \<open>Entry points\<close>

text \<open>The parameter types of the entry points the backend and the deployment call, from the contract traits.\<close>

datatype ScType =
    TAddress
  | TSymbol
  | TI128
  | TU32
  | TU64
  | TBytes32
  | TBool
  | TEnum "string list"
  | TStruct "(string \<times> ScType) list"

definition KycTier_variants :: "string list" where
  "KycTier_variants = [''None'', ''Standard'', ''Enhanced'']"

definition TierThresholds_fields :: "(string \<times> ScType) list" where
  "TierThresholds_fields = [(''corridor_id'', TSymbol), (''tier1_max'', TI128), (''tier2_max'', TI128),
     (''daily_limit'', TI128)]"

definition compliance_abi :: "(string \<times> ScType list) list" where
  "compliance_abi = [
     (''initialize'', [TAddress]),
     (''publish_attestation'', [TAddress, TAddress, TEnum KycTier_variants, TBytes32, TSymbol, TSymbol, TU64]),
     (''revoke_attestation'', [TAddress, TAddress, TSymbol]),
     (''set_tier_thresholds'', [TStruct TierThresholds_fields]),
     (''set_escrow'', [TAddress]),
     (''set_operator'', [TAddress, TBool]),
     (''check_transfer_allowed'', [TAddress, TI128, TSymbol]),
     (''explain_transfer'', [TAddress, TI128, TSymbol])]"

definition registry_abi :: "(string \<times> ScType list) list" where
  "registry_abi = [
     (''initialize'', [TAddress, TAddress, TAddress]),
     (''add_region'', [TSymbol, TI128, TU32]),
     (''map_corridor'', [TSymbol, TSymbol]),
     (''authorize_agent'', [TAddress]),
     (''suspend_agent'', [TAddress, TSymbol]),
     (''revoke_agent'', [TAddress, TSymbol]),
     (''slash_agent'', [TAddress, TI128, TSymbol]),
     (''is_authorized'', [TAddress, TSymbol]),
     (''get_bond'', [TAddress])]"

definition liquidity_abi :: "(string \<times> ScType list) list" where
  "liquidity_abi = [
     (''initialize'', [TAddress, TAddress, TAddress, TU32, TU32]),
     (''draw_liquidity'', [TAddress, TSymbol, TI128]),
     (''repay_liquidity'', [TAddress, TSymbol, TI128]),
     (''get_pool_health'', [TSymbol]),
     (''required_bond_for'', [TAddress, TSymbol, TI128]),
     (''open_region'', [TSymbol, TU32])]"

definition escrow_abi :: "(string \<times> ScType list) list" where
  "escrow_abi = [
     (''initialize'', [TAddress, TAddress, TAddress, TAddress, TU32, TU64])]"

end
