(* ===== verification/Money.thy ===== *)
theory Money
  imports Errors Contracts
begin

text \<open>
  \<open>backend/src/lib/money.ts\<close>: exact monetary arithmetic.  A \<open>bigint\<close> is an \<open>int\<close>; a JavaScript
  number given as basis points is \<open>Whole n\<close> when it is an integer and \<open>NotInteger t\<close> otherwise
  (a fraction, NaN or an infinity, with \<open>t\<close> its rendering).
\<close>

section \<open>Definitions\<close>

definition STROOPS_PER_UNIT :: int where "STROOPS_PER_UNIT = 10000000"

text \<open>\<open>/^\d+(\.\d+)?$/\<close>.\<close>

definition is_decimal_text :: "string \<Rightarrow> bool" where
  "is_decimal_text s = (let w = takeWhile is_digit s; r = dropWhile is_digit s in
     w \<noteq> [] \<and> (case r of [] \<Rightarrow> True | c # f \<Rightarrow> c = CHR ''.'' \<and> f \<noteq> [] \<and> all_digits f))"

text \<open>\<open>toStroops\<close>.  The tested pattern leaves at most one dot, so \<open>split\<close> gives one or two parts.\<close>

definition toStroops :: "string \<Rightarrow> failure + int" where
  "toStroops amount =
     (let trimmed = trim amount in
      if \<not> is_decimal_text trimmed
      then Inl (PlainErr (''Not a valid decimal amount: '' @ [CHR 0x22] @ amount @ [CHR 0x22]))
      else
        (let parts = split_on (CHR ''.'') trimmed;
             whole = hd parts;
             fraction = (case tl parts of [] \<Rightarrow> [] | f # _ \<Rightarrow> f)
         in if length fraction > 7
            then Inl (PlainErr (''Amount has more than 7 decimal places: '' @ [CHR 0x22] @ amount @ [CHR 0x22]))
            else Inr (digits_val whole * STROOPS_PER_UNIT + digits_val (padEnd 7 (CHR ''0'') fraction))))"

text \<open>\<open>s.replace(/\.?0+$/, '')\<close>: the trailing zeros, and the dot before them.\<close>

definition strip_zeros :: "string \<Rightarrow> string" where
  "strip_zeros s =
     (let z = takeWhile (\<lambda>c. c = CHR ''0'') (rev s); r = dropWhile (\<lambda>c. c = CHR ''0'') (rev s)
      in if z = [] then s
         else rev (case r of c # r' \<Rightarrow> if c = CHR ''.'' then r' else r | [] \<Rightarrow> []))"

definition fromStroops :: "int \<Rightarrow> string" where
  "fromStroops stroops =
     (let negative = stroops < 0;
          absolute = (if negative then - stroops else stroops);
          whole = tdiv absolute STROOPS_PER_UNIT;
          fraction = tmod absolute STROOPS_PER_UNIT;
          rendered = strip_zeros (show_int whole @ ''.'' @ padStart 7 (CHR ''0'') (show_int fraction))
      in if negative then ''-'' @ (if rendered = [] then ''0'' else rendered)
         else if rendered = [] then ''0'' else rendered)"

datatype jsnum = Whole int | NotInteger string

fun show_jsnum :: "jsnum \<Rightarrow> string" where
  "show_jsnum (Whole n) = show_int n"
| "show_jsnum (NotInteger t) = t"

definition MAX_BPS :: int where "MAX_BPS = 100000"

definition assertSafeBps :: "jsnum \<Rightarrow> failure + int" where
  "assertSafeBps bps = (case bps of
     Whole n \<Rightarrow> if n < 0 \<or> n > MAX_BPS then Inl (PlainErr (''Basis points out of range: '' @ show_jsnum bps))
       else Inr n
   | NotInteger t \<Rightarrow> Inl (PlainErr (''Basis points out of range: '' @ show_jsnum bps)))"

definition applyBps :: "int \<Rightarrow> jsnum \<Rightarrow> failure + int" where
  "applyBps amount bps = rbind (assertSafeBps bps) (\<lambda>n. Inr (tdiv (amount * n) 10000))"

definition bigintToJson :: "int \<Rightarrow> string" where
  "bigintToJson value = show_int value"

section \<open>Parsing\<close>

lemma is_decimal_text_parts:
  assumes "is_digit_text w" "all_digits f"
  shows "is_decimal_text (if f = [] then w else w @ CHR ''.'' # f)"
  using assms by (auto simp: is_decimal_text_def is_digit_text_def Let_def all_digits_set
    takeWhile_stop dropWhile_stop is_digit_def)

lemma is_decimal_text_cases:
  assumes "is_decimal_text s"
  obtains w f where "is_digit_text w" "all_digits f" "s = (if f = [] then w else w @ CHR ''.'' # f)"
proof -
  let ?w = "takeWhile is_digit s" and ?r = "dropWhile is_digit s"
  have s: "s = ?w @ ?r" by simp
  have w: "is_digit_text ?w"
    using assms by (auto simp: is_decimal_text_def is_digit_text_def Let_def all_digits_set dest: set_takeWhileD)
  show ?thesis
  proof (cases ?r)
    case Nil
    then show ?thesis using that [of ?w "[]"] w s by simp
  next
    case (Cons c f)
    then have "c = CHR ''.''" "f \<noteq> []" "all_digits f"
      using assms by (auto simp: is_decimal_text_def Let_def)
    then show ?thesis using that [of ?w f] w s Cons by simp
  qed
qed

lemma digits_no_dot: "all_digits s \<Longrightarrow> CHR ''.'' \<notin> set s"
  by (auto simp: all_digits_set is_digit_def)

lemma decimal_no_space:
  assumes "is_digit_text w" "all_digits f"
  shows "trim (if f = [] then w else w @ CHR ''.'' # f) = (if f = [] then w else w @ CHR ''.'' # f)"
proof (rule trim_no_space)
  show "\<forall>c\<in>set (if f = [] then w else w @ CHR ''.'' # f). \<not> is_space c"
    using assms is_digit_not_space by (auto simp: is_digit_text_def all_digits_set is_space_def)
qed

lemma split_decimal:
  assumes "all_digits w" "all_digits f"
  shows "split_on (CHR ''.'') (if f = [] then w else w @ CHR ''.'' # f) = (if f = [] then [w] else [w, f])"
  using assms digits_no_dot by (simp add: split_on_no_sep split_on_sep)

lemma digits_val_padEnd:
  "length f \<le> n \<Longrightarrow> digits_val (padEnd n (CHR ''0'') f) = digits_val f * 10 ^ (n - length f)"
  by (simp add: padEnd_def digits_val_append)

text \<open>The value of every accepted amount.\<close>

lemma toStroops_decimal:
  assumes "is_digit_text w" "all_digits f" "length f \<le> 7"
  shows "toStroops (if f = [] then w else w @ CHR ''.'' # f)
    = Inr (digits_val w * STROOPS_PER_UNIT + digits_val f * 10 ^ (7 - length f))"
proof -
  have "all_digits w" using assms(1) by (simp add: is_digit_text_def)
  note parts = split_decimal [OF this assms(2)]
  show ?thesis
    unfolding toStroops_def decimal_no_space [OF assms(1,2)] parts Let_def
    using is_decimal_text_parts [OF assms(1,2)] assms(3)
    by (cases "f = []") (simp_all add: digits_val_padEnd)
qed

lemma toStroops_Inr_cases:
  assumes "toStroops s = Inr n"
  obtains w f where "is_digit_text w" "all_digits f" "length f \<le> 7"
    "trim s = (if f = [] then w else w @ CHR ''.'' # f)"
    "n = digits_val w * STROOPS_PER_UNIT + digits_val f * 10 ^ (7 - length f)"
proof -
  have "is_decimal_text (trim s)"
    using assms by (auto simp: toStroops_def Let_def split: if_splits)
  then obtain w f where wf: "is_digit_text w" "all_digits f"
    "trim s = (if f = [] then w else w @ CHR ''.'' # f)"
    by (rule is_decimal_text_cases)
  have "all_digits w" using wf(1) by (simp add: is_digit_text_def)
  note parts = split_decimal [OF this wf(2)]
  have len: "length f \<le> 7"
    using assms unfolding toStroops_def wf(3) Let_def parts
    by (cases "f = []") (auto split: if_splits)
  have "n = digits_val w * STROOPS_PER_UNIT + digits_val f * 10 ^ (7 - length f)"
    using assms len unfolding toStroops_def wf(3) Let_def parts
    by (cases "f = []") (auto simp: digits_val_padEnd split: if_splits)
  then show ?thesis using that wf len by blast
qed

lemma toStroops_nonneg: "toStroops s = Inr n \<Longrightarrow> 0 \<le> n"
  by (erule toStroops_Inr_cases) (auto simp: is_digit_text_def STROOPS_PER_UNIT_def digits_val_nonneg)

text \<open>
  \<open>toStroops\<close> accepts exactly the texts that are, after trimming, a non-empty run of digits
  with an optional dot and one to seven further digits, and the stroops it returns are the
  decimal value of the text scaled by ten million, exactly.
\<close>

theorem toStroops_accepts:
  "toStroops s = Inr n \<longleftrightarrow>
     (\<exists>w f. is_digit_text w \<and> all_digits f \<and> length f \<le> 7
        \<and> trim s = (if f = [] then w else w @ CHR ''.'' # f)
        \<and> n = digits_val w * STROOPS_PER_UNIT + digits_val f * 10 ^ (7 - length f))"
proof
  assume "toStroops s = Inr n"
  then show "\<exists>w f. is_digit_text w \<and> all_digits f \<and> length f \<le> 7
      \<and> trim s = (if f = [] then w else w @ CHR ''.'' # f)
      \<and> n = digits_val w * STROOPS_PER_UNIT + digits_val f * 10 ^ (7 - length f)"
    by (rule toStroops_Inr_cases) blast
next
  have same: "is_decimal_text (trim s) \<Longrightarrow> toStroops (trim s) = Inr n \<Longrightarrow> trim (trim s) = trim s \<Longrightarrow> toStroops s = Inr n"
    by (auto simp: toStroops_def Let_def split: if_splits)
  assume "\<exists>w f. is_digit_text w \<and> all_digits f \<and> length f \<le> 7
      \<and> trim s = (if f = [] then w else w @ CHR ''.'' # f)
      \<and> n = digits_val w * STROOPS_PER_UNIT + digits_val f * 10 ^ (7 - length f)"
  then obtain w f where wf: "is_digit_text w" "all_digits f" "length f \<le> 7"
      and t: "trim s = (if f = [] then w else w @ CHR ''.'' # f)"
      and n: "n = digits_val w * STROOPS_PER_UNIT + digits_val f * 10 ^ (7 - length f)"
    by blast
  show "toStroops s = Inr n"
    by (rule same) (simp_all only: t n is_decimal_text_parts [OF wf(1,2)] toStroops_decimal [OF wf]
        decimal_no_space [OF wf(1,2)])
qed

section \<open>Rendering\<close>

text \<open>What \<open>strip_zeros\<close> leaves of a number with seven fraction digits.\<close>

lemma strip_trailing:
  assumes "f' = rev (dropWhile (\<lambda>c. c = CHR ''0'') (rev f))"
  shows "f = f' @ replicate (length f - length f') (CHR ''0'')"
    and "f' = [] \<or> last f' \<noteq> CHR ''0''"
proof -
  let ?z = "takeWhile (\<lambda>c. c = CHR ''0'') (rev f)"
  have "rev f = ?z @ rev f'" using assms by simp
  then have f: "f = f' @ rev ?z" by (metis rev_append rev_rev_ident)
  have "?z = replicate (length ?z) (CHR ''0'')"
    by (rule replicate_length_same [symmetric]) (auto dest: set_takeWhileD)
  moreover have "length ?z = length f - length f'" using arg_cong [OF f, of length] by simp
  ultimately have "rev ?z = replicate (length f - length f') (CHR ''0'')"
    by (metis rev_replicate)
  then show "f = f' @ replicate (length f - length f') (CHR ''0'')" using f by simp
  show "f' = [] \<or> last f' \<noteq> CHR ''0''"
    using assms by (metis (mono_tags) hd_dropWhile last_rev rev_is_Nil_conv)
qed

lemma dropWhile_append_stop: "\<not> P c \<Longrightarrow> dropWhile P (xs @ c # ys) = dropWhile P xs @ (c # ys)"
  by (induction xs) auto

lemma takeWhile_append_stop: "\<not> P c \<Longrightarrow> takeWhile P (xs @ c # ys) = takeWhile P xs"
  by (induction xs) auto

lemma strip_zeros_decimal:
  assumes "all_digits f" "f \<noteq> []"
  shows "strip_zeros (w @ CHR ''.'' # f)
    = (let f' = rev (dropWhile (\<lambda>c. c = CHR ''0'') (rev f)) in if f' = [] then w else w @ CHR ''.'' # f')"
proof -
  let ?P = "\<lambda>c. c = CHR ''0''"
  let ?r = "dropWhile ?P (rev f)"
  have rv: "rev (w @ CHR ''.'' # f) = rev f @ CHR ''.'' # rev w" by simp
  have d: "dropWhile ?P (rev (w @ CHR ''.'' # f)) = ?r @ CHR ''.'' # rev w"
    unfolding rv by (rule dropWhile_append_stop) simp
  have t: "takeWhile ?P (rev (w @ CHR ''.'' # f)) = takeWhile ?P (rev f)"
    unfolding rv by (rule takeWhile_append_stop) simp
  show ?thesis
  proof (cases ?r)
    case Nil
    then have "takeWhile ?P (rev f) \<noteq> []" using assms(2) by (metis append_Nil2 rev_is_Nil_conv takeWhile_dropWhile_id)
    then show ?thesis unfolding strip_zeros_def d t Let_def Nil by simp
  next
    case (Cons c r')
    have "c \<in> set f" using Cons by (metis list.set_intros(1) set_dropWhileD set_rev)
    then have "c \<noteq> CHR ''.''" using digits_no_dot [OF assms(1)] by auto
    show ?thesis
    proof (cases "takeWhile ?P (rev f) = []")
      case True
      then have "?r = rev f" by (metis append_Nil takeWhile_dropWhile_id)
      then show ?thesis using True Cons assms(2) unfolding strip_zeros_def d t Let_def by simp
    next
      case False
      then show ?thesis using Cons \<open>c \<noteq> CHR ''.''\<close> unfolding strip_zeros_def d t Let_def by simp
    qed
  qed
qed

lemma fromStroops_shape:
  assumes "0 \<le> n"
  obtains f where "all_digits f" "length f \<le> 7" "f = [] \<or> last f \<noteq> CHR ''0''"
    "fromStroops n = (let w = show_int (n div STROOPS_PER_UNIT) in if f = [] then w else w @ CHR ''.'' # f)"
    "digits_val f * 10 ^ (7 - length f) = n mod STROOPS_PER_UNIT"
proof -
  define w where "w = show_int (n div STROOPS_PER_UNIT)"
  define g where "g = padStart 7 (CHR ''0'') (show_int (n mod STROOPS_PER_UNIT))"
  define f where "f = rev (dropWhile (\<lambda>c. c = CHR ''0'') (rev g))"
  have b: "0 \<le> n div STROOPS_PER_UNIT" "0 \<le> n mod STROOPS_PER_UNIT" "n mod STROOPS_PER_UNIT < 10 ^ 7"
    using assms by (simp_all add: STROOPS_PER_UNIT_def)
  then have "length (show_int (n mod STROOPS_PER_UNIT)) \<le> 7"
    unfolding show_int_def by (auto intro!: length_show_nat)
  then have g: "length g = 7" "all_digits g" "digits_val g = n mod STROOPS_PER_UNIT"
    using b by (simp_all add: g_def show_int_def padStart_def digits_val_append)
  have fg: "g = f @ replicate (7 - length f) (CHR ''0'')" and last: "f = [] \<or> last f \<noteq> CHR ''0''"
    using strip_trailing [OF f_def] g(1) by simp_all
  have f: "all_digits f" "length f \<le> 7"
    using fg g by (metis all_digits_simps(3), metis append_eq_conv_conj length_take min.cobounded1 nle_le)
  have v: "digits_val f * 10 ^ (7 - length f) = n mod STROOPS_PER_UNIT"
    using g(3) fg by (metis add.right_neutral digits_val_append digits_val_replicate_0 length_replicate)
  have "w \<noteq> []" using show_nat_not_Nil by (simp add: w_def show_int_def)
  have "g \<noteq> []" using g(1) by auto
  have raw: "fromStroops n = (let r = strip_zeros (w @ CHR ''.'' # g) in if r = [] then ''0'' else r)"
    using assms b by (simp add: fromStroops_def Let_def w_def g_def STROOPS_PER_UNIT_def)
  have "fromStroops n = (if f = [] then w else w @ CHR ''.'' # f)"
    unfolding raw strip_zeros_decimal [OF g(2) \<open>g \<noteq> []\<close>] f_def [symmetric] Let_def
    using \<open>w \<noteq> []\<close> by simp
  then show ?thesis using that f last v w_def by simp
qed

text \<open>
  C30: rendering then parsing an amount loses nothing: for every non-negative stroop amount,
  \<open>toStroops\<close> reads back what \<open>fromStroops\<close> wrote.
\<close>

theorem toStroops_fromStroops:
  assumes "0 \<le> n"
  shows "toStroops (fromStroops n) = Inr n"
proof -
  obtain f where f: "all_digits f" "length f \<le> 7"
    and r: "fromStroops n = (let w = show_int (n div STROOPS_PER_UNIT) in if f = [] then w else w @ CHR ''.'' # f)"
    and v: "digits_val f * 10 ^ (7 - length f) = n mod STROOPS_PER_UNIT"
    using assms by (rule fromStroops_shape)
  have w: "is_digit_text (show_int (n div STROOPS_PER_UNIT))" "0 \<le> n div STROOPS_PER_UNIT"
    using assms by (simp_all add: STROOPS_PER_UNIT_def)
  show ?thesis
    unfolding r Let_def toStroops_decimal [OF w(1) f] v by (simp add: w(2))
qed

theorem toStroops_fromStroops_witness:
  "toStroops (fromStroops 125000000) = Inr 125000000"
  by (rule toStroops_fromStroops) simp

section \<open>Basis points\<close>

lemma assertSafeBps_Inr: "assertSafeBps b = Inr n \<longleftrightarrow> b = Whole n \<and> 0 \<le> n \<and> n \<le> MAX_BPS"
  by (cases b) (auto simp: assertSafeBps_def)

lemma applyBps_Inr:
  "applyBps a b = Inr x \<longleftrightarrow> (\<exists>n. b = Whole n \<and> 0 \<le> n \<and> n \<le> MAX_BPS \<and> x = tdiv (a * n) 10000)"
  by (auto simp: applyBps_def result_simps assertSafeBps_Inr)

lemma applyBps_Whole:
  "0 \<le> n \<Longrightarrow> n \<le> MAX_BPS \<Longrightarrow> applyBps a (Whole n) = Inr (tdiv (a * n) 10000)"
  by (simp add: applyBps_Inr)

lemma applyBps_bounds:
  assumes "0 \<le> a" "applyBps a (Whole n) = Inr x"
  shows "0 \<le> x" "x * 10000 \<le> a * n" "a * n < (x + 1) * 10000"
proof -
  have n: "0 \<le> n" "x = tdiv (a * n) 10000" using assms(2) by (auto simp: applyBps_Inr)
  then have p: "0 \<le> a * n" using assms(1) by simp
  then have "x = a * n div 10000" using n by simp
  then show "0 \<le> x" "x * 10000 \<le> a * n" "a * n < (x + 1) * 10000" using p by simp_all
qed

lemma applyBps_le_amount:
  assumes "0 \<le> a" "n \<le> 10000" "applyBps a (Whole n) = Inr x"
  shows "x \<le> a"
proof -
  have "x * 10000 \<le> a * n" using applyBps_bounds(2) assms by blast
  also have "\<dots> \<le> a * 10000" using assms by (simp add: mult_left_mono)
  finally show ?thesis by simp
qed

text \<open>
  C11: the fee the backend quotes is the fee the escrow contract charges.  Whenever the
  contract's checked arithmetic does not overflow, \<open>applyBps\<close> and \<open>fee_for\<close> agree on every
  amount and every fee the contract admits (\<open>MAX_FEE_BPS\<close>); the contract overflows only when
  the product leaves the \<open>i128\<close> range.
\<close>

theorem applyBps_is_fee_for:
  assumes "0 \<le> amount" "0 \<le> bps" "bps \<le> MAX_FEE_BPS"
  shows "fee_for amount bps =
    (if in_i128 (amount * bps) then Inr (projr (applyBps amount (Whole bps))) else Inl ''Overflow'')"
proof -
  have "tdiv (amount * bps) 10000 = amount * bps div 10000" using assms by simp
  moreover have "0 \<le> amount * bps" using assms by simp
  moreover have "in_i128 (amount * bps) \<Longrightarrow> in_i128 (amount * bps div 10000)"
    using calculation(2) by (auto simp: in_i128_def intro: order.strict_trans1 [rotated])
  ultimately show ?thesis using assms
    by (auto simp: fee_for_def checked_mul_def checked_div_def ok_or_def applyBps_Whole
        MAX_FEE_BPS_def MAX_BPS_def)
qed

theorem applyBps_is_fee_for_witness:
  "fee_for 1000000001 200 = Inr 20000000"
  using applyBps_is_fee_for [of 1000000001 200]
  by (simp add: MAX_FEE_BPS_def in_i128_def applyBps_Whole MAX_BPS_def)

end
