(* ===== verification/JsDate.thy ===== *)
theory JsDate
  imports JsString
begin

text \<open>
  The JavaScript \<open>Date\<close>, as a number of milliseconds since 1970.  \<open>toISOString\<close> and the
  format it writes are modelled exactly, following the calendar functions of the language
  specification; what \<open>Date.parse\<close> does with any other text is implementation-defined and is
  the argument \<open>legacy\<close>.
\<close>

section \<open>The calendar\<close>

definition DayFromYear :: "int \<Rightarrow> int" where
  "DayFromYear y = 365 * (y - 1970) + (y - 1969) div 4 - (y - 1901) div 100 + (y - 1601) div 400"

definition leap_year :: "int \<Rightarrow> bool" where
  "leap_year y \<longleftrightarrow> y mod 4 = 0 \<and> (y mod 100 \<noteq> 0 \<or> y mod 400 = 0)"

lemma div_Suc_int: "0 < m \<Longrightarrow> (k + 1) div m = k div m + (if (k + 1) mod m = 0 then 1 else 0)" for k m :: int
proof -
  assume m: "0 < m"
  define q r where "q = k div m" and "r = k mod m"
  have k: "k = q * m + r" and r: "0 \<le> r" "r < m" using m by (simp_all add: q_def r_def)
  show ?thesis
  proof (cases "r + 1 = m")
    case True
    then have "k + 1 = (q + 1) * m" using k by (simp add: algebra_simps)
    then show ?thesis using m by (simp flip: q_def)
  next
    case False
    then have b: "0 \<le> r + 1" "r + 1 < m" using r by simp_all
    have "(q * m + (r + 1)) div m = q" using b m by (subst div_mult_self3) simp_all
    moreover have "(q * m + (r + 1)) mod m = r + 1" using b by (subst mod_mult_self3) simp
    ultimately show ?thesis using r unfolding q_def [symmetric] k by (simp add: algebra_simps)
  qed
qed

lemma leap_arith:
  fixes y A B C :: int
  assumes "Q \<Longrightarrow> P" "R \<Longrightarrow> Q"
  shows "365 * (y + 1 - 1970) + (A + (if P then 1 else 0)) - (B + (if Q then 1 else 0)) + (C + (if R then 1 else 0))
    = 365 * (y - 1970) + A - B + C + (if P \<and> (\<not> Q \<or> R) then 366 else 365)"
  using assms by (cases P; cases Q; cases R) simp_all

lemma DayFromYear_Suc: "DayFromYear (y + 1) = DayFromYear y + (if leap_year y then 366 else 365)"
proof -
  have a: "(y - 1968) mod 4 = y mod 4" "(y - 1900) mod 100 = y mod 100" "(y - 1600) mod 400 = y mod 400"
    using mod_mult_self1 [of y "- 492" 4] mod_mult_self1 [of y "- 19" 100] mod_mult_self1 [of y "- 4" 400]
    by simp_all
  have d: "(4::int) dvd 100" "(100::int) dvd 400" by simp_all
  have i: "y mod 100 = 0 \<Longrightarrow> y mod 4 = 0" "y mod 400 = 0 \<Longrightarrow> y mod 100 = 0"
    using dvd_trans [OF d(1), of y] dvd_trans [OF d(2), of y] by (simp_all only: dvd_eq_mod_eq_0)
  have b: "y - 1969 + 1 = y - 1968" "y - 1901 + 1 = y - 1900" "y - 1601 + 1 = y - 1600" by simp_all
  have s: "(y - 1968) div 4 = (y - 1969) div 4 + (if y mod 4 = 0 then 1 else 0)"
    "(y - 1900) div 100 = (y - 1901) div 100 + (if y mod 100 = 0 then 1 else 0)"
    "(y - 1600) div 400 = (y - 1601) div 400 + (if y mod 400 = 0 then 1 else 0)"
    using div_Suc_int [of 4 "y - 1969"] div_Suc_int [of 100 "y - 1901"] div_Suc_int [of 400 "y - 1601"]
    unfolding b a by (simp_all only: zero_less_numeral simp_thms)
  have e: "y + 1 - 1969 = y - 1968" "y + 1 - 1901 = y - 1900" "y + 1 - 1601 = y - 1600" by simp_all
  show ?thesis unfolding DayFromYear_def leap_year_def e s by (rule leap_arith [OF i])
qed

text \<open>The year of a day: the largest year that starts on or before it.\<close>

function year_up :: "int \<Rightarrow> int \<Rightarrow> int" where
  "year_up d y = (if DayFromYear (y + 1) \<le> d then year_up d (y + 1) else y)"
  by auto
termination
  by (relation "measure (\<lambda>(d, y). nat (d - DayFromYear y))") (auto simp: DayFromYear_Suc split: if_splits)

declare year_up.simps [simp del]

definition YearFromDay :: "int \<Rightarrow> int" where
  "YearFromDay d = year_up d (if 0 \<le> d then 1970 + d div 366 else 1970 + d div 365 - 1)"

lemma year_up_bounds: "DayFromYear y \<le> d \<Longrightarrow> DayFromYear (year_up d y) \<le> d \<and> d < DayFromYear (year_up d y + 1)"
proof (induction d y rule: year_up.induct)
  case (1 d y)
  then show ?case by (subst (1 2) year_up.simps) auto
qed

lemma DayFromYear_offset:
  "DayFromYear (1970 + k) = 365 * k + (k + 1) div 4 - (k + 69) div 100 + (k + 369) div 400"
  by (simp add: DayFromYear_def algebra_simps)

lemma div_bounds: "0 < m \<Longrightarrow> m * (k div m) \<le> k \<and> k - m + 1 \<le> m * (k div m)" for k m :: int
  using pos_mod_bound [of m k] pos_mod_sign [of m k] mult_div_mod_eq [of m k] by linarith

lemma DayFromYear_estimate_pos:
  assumes "0 \<le> k"
  shows "DayFromYear (1970 + k) \<le> 366 * k"
proof (cases "k \<le> 1")
  case True
  then have "k = 0 \<or> k = 1" using assms by auto
  then show ?thesis by (auto simp: DayFromYear_def)
next
  case False
  then show ?thesis unfolding DayFromYear_offset
    using div_bounds [of 4 "k + 1"] div_bounds [of 100 "k + 69"] div_bounds [of 400 "k + 369"] by linarith
qed

lemma DayFromYear_estimate_neg:
  assumes "k < 0"
  shows "DayFromYear (1970 + k) \<le> 365 * k + 1"
proof (cases "k = - 1")
  case True
  then show ?thesis by (simp add: DayFromYear_def)
next
  case False
  then have "k \<le> - 2" using assms by simp
  then show ?thesis unfolding DayFromYear_offset
    using div_bounds [of 4 "k + 1"] div_bounds [of 100 "k + 69"] div_bounds [of 400 "k + 369"] by linarith
qed

lemma YearFromDay_bounds: "DayFromYear (YearFromDay d) \<le> d \<and> d < DayFromYear (YearFromDay d + 1)"
proof -
  have "DayFromYear (if 0 \<le> d then 1970 + d div 366 else 1970 + d div 365 - 1) \<le> d"
  proof (cases "0 \<le> d")
    case True
    then have "DayFromYear (1970 + d div 366) \<le> 366 * (d div 366)"
      using DayFromYear_estimate_pos by simp
    then show ?thesis using True by simp
  next
    case False
    then have "d div 365 - 1 < 0" by simp
    then have "DayFromYear (1970 + (d div 365 - 1)) \<le> 365 * (d div 365 - 1) + 1"
      by (rule DayFromYear_estimate_neg)
    then show ?thesis using False by (simp add: algebra_simps)
  qed
  then show ?thesis unfolding YearFromDay_def by (rule year_up_bounds)
qed

text \<open>The first day of each month within the year.\<close>

definition month_start :: "bool \<Rightarrow> nat \<Rightarrow> int" where
  "month_start leap m = (if leap then [0, 31, 60, 91, 121, 152, 182, 213, 244, 274, 305, 335, 366]
     else [0, 31, 59, 90, 120, 151, 181, 212, 243, 273, 304, 334, 365]) ! m"

fun month_of :: "bool \<Rightarrow> nat \<Rightarrow> int \<Rightarrow> nat" where
  "month_of leap 0 d = 0"
| "month_of leap (Suc m) d = (if month_start leap (Suc m) \<le> d then Suc m else month_of leap m d)"

lemma month_start_vals [simp]:
  "month_start l 0 = 0" "month_start l 1 = 31" "month_start l (Suc 0) = 31"
  "month_start l 2 = (if l then 60 else 59)" "month_start l 3 = (if l then 91 else 90)"
  "month_start l 4 = (if l then 121 else 120)" "month_start l 5 = (if l then 152 else 151)"
  "month_start l 6 = (if l then 182 else 181)" "month_start l 7 = (if l then 213 else 212)"
  "month_start l 8 = (if l then 244 else 243)" "month_start l 9 = (if l then 274 else 273)"
  "month_start l 10 = (if l then 305 else 304)" "month_start l 11 = (if l then 335 else 334)"
  by (simp_all add: month_start_def)

lemma month_of_step:
  "0 < k \<Longrightarrow> month_of l k d = (if month_start l k \<le> d then k else month_of l (k - 1) d)"
  by (cases k) simp_all

lemma month_of_bounds:
  assumes "0 \<le> d" "d < (if l then 366 else 365)"
  shows "month_of l 11 d \<le> 11 \<and> month_start l (month_of l 11 d) \<le> d \<and> d - month_start l (month_of l 11 d) < 31"
proof -
  let ?ok = "\<lambda>k. month_of l k d \<le> 11 \<and> month_start l (month_of l k d) \<le> d \<and> d - month_start l (month_of l k d) < 31"
  have 1: "d < 31 \<Longrightarrow> ?ok 0" using assms by simp
  have 2: "d < (if l then 60 else 59) \<Longrightarrow> ?ok 1"
    using 1 assms by (cases l; subst (1 2 3) month_of_step) auto
  have 3: "d < (if l then 91 else 90) \<Longrightarrow> ?ok 2"
    using 2 assms by (cases l; subst (1 2 3) month_of_step) auto
  have 4: "d < (if l then 121 else 120) \<Longrightarrow> ?ok 3"
    using 3 assms by (cases l; subst (1 2 3) month_of_step) auto
  have 5: "d < (if l then 152 else 151) \<Longrightarrow> ?ok 4"
    using 4 assms by (cases l; subst (1 2 3) month_of_step) auto
  have 6: "d < (if l then 182 else 181) \<Longrightarrow> ?ok 5"
    using 5 assms by (cases l; subst (1 2 3) month_of_step) auto
  have 7: "d < (if l then 213 else 212) \<Longrightarrow> ?ok 6"
    using 6 assms by (cases l; subst (1 2 3) month_of_step) auto
  have 8: "d < (if l then 244 else 243) \<Longrightarrow> ?ok 7"
    using 7 assms by (cases l; subst (1 2 3) month_of_step) auto
  have 9: "d < (if l then 274 else 273) \<Longrightarrow> ?ok 8"
    using 8 assms by (cases l; subst (1 2 3) month_of_step) auto
  have 10: "d < (if l then 305 else 304) \<Longrightarrow> ?ok 9"
    using 9 assms by (cases l; subst (1 2 3) month_of_step) auto
  have 11: "d < (if l then 335 else 334) \<Longrightarrow> ?ok 10"
    using 10 assms by (cases l; subst (1 2 3) month_of_step) auto
  show "?ok 11"
    using 11 assms by (cases l; subst (1 2 3) month_of_step) auto
qed

section \<open>Rendering\<close>

definition MS_PER_DAY :: int where "MS_PER_DAY = 86400000"

definition pad_num :: "nat \<Rightarrow> int \<Rightarrow> string" where
  "pad_num n x = padStart n (CHR ''0'') (show_int x)"

definition show_year :: "int \<Rightarrow> string" where
  "show_year y = (if 0 \<le> y \<and> y \<le> 9999 then pad_num 4 y
     else if y < 0 then ''-'' @ pad_num 6 (- y) else ''+'' @ pad_num 6 y)"

definition toISOString :: "int \<Rightarrow> string" where
  "toISOString t =
     (let d = t div MS_PER_DAY; r = t mod MS_PER_DAY; y = YearFromDay d; doy = d - DayFromYear y;
          l = leap_year y; m = month_of l 11 doy
      in show_year y @ ''-'' @ pad_num 2 (int m + 1) @ ''-'' @ pad_num 2 (doy - month_start l m + 1)
         @ ''T'' @ pad_num 2 (r div 3600000) @ '':'' @ pad_num 2 (r div 60000 mod 60)
         @ '':'' @ pad_num 2 (r div 1000 mod 60) @ ''.'' @ pad_num 3 (r mod 1000) @ ''Z'')"

section \<open>Parsing\<close>

text \<open>The 24-character form \<open>YYYY-MM-DDTHH:mm:ss.sssZ\<close>, field by field.\<close>

definition field :: "nat \<Rightarrow> nat \<Rightarrow> string \<Rightarrow> string" where
  "field i n s = take n (drop i s)"

definition iso_shape :: "string \<Rightarrow> bool" where
  "iso_shape s \<longleftrightarrow> length s = 24
     \<and> list_all (\<lambda>(i, n). all_digits (field i n s)) [(0, 4), (5, 2), (8, 2), (11, 2), (14, 2), (17, 2), (20, 3)]
     \<and> list_all (\<lambda>(i, c). s ! i = c) [(4, CHR ''-''), (7, CHR ''-''), (10, CHR ''T''), (13, CHR '':''),
         (16, CHR '':''), (19, CHR ''.''), (23, CHR ''Z'')]"

definition iso_value :: "string \<Rightarrow> int option" where
  "iso_value s =
     (let y = digits_val (field 0 4 s); mo = digits_val (field 5 2 s); da = digits_val (field 8 2 s);
          h = digits_val (field 11 2 s); mi = digits_val (field 14 2 s); se = digits_val (field 17 2 s);
          ms = digits_val (field 20 3 s)
      in if 1 \<le> mo \<and> mo \<le> 12 \<and> 1 \<le> da \<and> da \<le> 31 \<and> mi \<le> 59 \<and> se \<le> 59
            \<and> (h \<le> 23 \<or> h = 24 \<and> mi = 0 \<and> se = 0 \<and> ms = 0)
         then Some ((DayFromYear y + month_start (leap_year y) (nat (mo - 1)) + (da - 1)) * MS_PER_DAY
                + h * 3600000 + mi * 60000 + se * 1000 + ms)
         else None)"

text \<open>The date-only form \<open>YYYY-MM-DD\<close>, midnight UTC.\<close>

definition iso_date_shape :: "string \<Rightarrow> bool" where
  "iso_date_shape s \<longleftrightarrow> length s = 10
     \<and> list_all (\<lambda>(i, n). all_digits (field i n s)) [(0, 4), (5, 2), (8, 2)]
     \<and> s ! 4 = CHR ''-'' \<and> s ! 7 = CHR ''-''"

definition iso_date_value :: "string \<Rightarrow> int option" where
  "iso_date_value s =
     (let y = digits_val (field 0 4 s); mo = digits_val (field 5 2 s); da = digits_val (field 8 2 s)
      in if 1 \<le> mo \<and> mo \<le> 12 \<and> 1 \<le> da \<and> da \<le> 31
         then Some ((DayFromYear y + month_start (leap_year y) (nat (mo - 1)) + (da - 1)) * MS_PER_DAY)
         else None)"

text \<open>\<open>Date.parse\<close>; \<open>None\<close> is \<open>NaN\<close>.\<close>

definition date_parse :: "(string \<Rightarrow> int option) \<Rightarrow> string \<Rightarrow> int option" where
  "date_parse legacy s = (if iso_shape s then iso_value s
     else if iso_date_shape s then iso_date_value s else legacy s)"

section \<open>Round trip\<close>

lemma pad_num_props:
  assumes "0 \<le> x" "x < 10 ^ n" "0 < n"
  shows "length (pad_num n x) = n" "all_digits (pad_num n x)" "digits_val (pad_num n x) = x"
proof -
  have "nat x < 10 ^ n" using assms by (simp add: nat_less_iff)
  then have "length (show_int x) \<le> n" using assms by (auto simp: show_int_def intro: length_show_nat)
  then show "length (pad_num n x) = n" by (simp add: pad_num_def)
  show "all_digits (pad_num n x)" "digits_val (pad_num n x) = x"
    using assms by (simp_all add: pad_num_def show_int_def)
qed

lemma fields_concat:
  assumes "length a = 4" "length b = 2" "length c = 2" "length d = 2" "length e = 2" "length f = 2" "length g = 3"
  defines "s \<equiv> a @ ''-'' @ b @ ''-'' @ c @ ''T'' @ d @ '':'' @ e @ '':'' @ f @ ''.'' @ g @ ''Z''"
  shows "length s = 24" "field 0 4 s = a" "field 5 2 s = b" "field 8 2 s = c" "field 11 2 s = d"
    "field 14 2 s = e" "field 17 2 s = f" "field 20 3 s = g"
    "s ! 4 = CHR ''-''" "s ! 7 = CHR ''-''" "s ! 10 = CHR ''T''" "s ! 13 = CHR '':''" "s ! 16 = CHR '':''"
    "s ! 19 = CHR ''.''" "s ! 23 = CHR ''Z''"
  using assms(1-7) by (simp_all add: s_def field_def nth_append)

lemma time_of_day_parts:
  assumes "0 \<le> r" "r < MS_PER_DAY"
  shows "r div 3600000 \<le> 23" "0 \<le> r div 3600000"
    "r div 3600000 * 3600000 + r div 60000 mod 60 * 60000 + r div 1000 mod 60 * 1000 + r mod 1000 = r"
proof -
  define q where "q = r div 1000"
  have e: "r div 60000 = q div 60" "r div 3600000 = q div 60 div 60"
    using zdiv_zmult2_eq [of 60 r 1000] zdiv_zmult2_eq [of 3600 r 1000] zdiv_zmult2_eq [of 60 q 60]
    by (simp_all add: q_def)
  have "r = 1000 * q + r mod 1000" "q = 60 * (q div 60) + q mod 60"
    "q div 60 = 60 * (q div 60 div 60) + q div 60 mod 60" by (simp_all add: q_def)
  then show "r div 3600000 * 3600000 + r div 60000 mod 60 * 60000 + r div 1000 mod 60 * 1000 + r mod 1000 = r"
    unfolding e q_def [symmetric] by linarith
  show "r div 3600000 \<le> 23" "0 \<le> r div 3600000"
    using assms div_bounds [of 3600000 r] unfolding MS_PER_DAY_def by linarith+
qed

definition iso_range :: "int \<Rightarrow> bool" where
  "iso_range t \<longleftrightarrow> 0 \<le> YearFromDay (t div MS_PER_DAY) \<and> YearFromDay (t div MS_PER_DAY) \<le> 9999"

lemma date_parse_toISOString:
  assumes "iso_range t"
  shows "date_parse legacy (toISOString t) = Some t"
proof -
  define d r where "d = t div MS_PER_DAY" and "r = t mod MS_PER_DAY"
  define y where "y = YearFromDay d"
  define l where "l = leap_year y"
  define m where "m = month_of l 11 (d - DayFromYear y)"
  define da where "da = d - DayFromYear y - month_start l m + 1"
  have y: "0 \<le> y" "y < 10 ^ 4" using assms by (simp_all add: iso_range_def y_def d_def)
  have "0 \<le> d - DayFromYear y" "d - DayFromYear y < (if l then 366 else 365)"
    using YearFromDay_bounds [of d] by (auto simp: y_def l_def DayFromYear_Suc split: if_splits)
  then have m: "m \<le> 11" "1 \<le> da" "da \<le> 31"
    using month_of_bounds [of "d - DayFromYear y" l] by (auto simp: m_def da_def)
  have r: "0 \<le> r" "r < MS_PER_DAY" by (simp_all add: r_def MS_PER_DAY_def)
  note tod = time_of_day_parts [OF r]
  have bounds: "0 \<le> int m + 1" "int m + 1 < 10 ^ 2" "0 \<le> da" "da < 10 ^ 2"
    "0 \<le> r div 3600000" "r div 3600000 < 10 ^ 2" "0 \<le> r div 60000 mod 60" "r div 60000 mod 60 < 10 ^ 2"
    "0 \<le> r div 1000 mod 60" "r div 1000 mod 60 < 10 ^ 2" "0 \<le> r mod 1000" "r mod 1000 < 10 ^ 3"
    using m tod(1,2) pos_mod_bound [of 60 "r div 60000"] pos_mod_bound [of 60 "r div 1000"] by simp_all
  have b60: "r div 60000 mod 60 \<le> 59" "r div 1000 mod 60 \<le> 59"
    using pos_mod_bound [of 60 "r div 60000"] pos_mod_bound [of 60 "r div 1000"] by simp_all
  note pp = pad_num_props [OF y zero_less_numeral] pad_num_props [OF bounds(1,2) zero_less_numeral]
    pad_num_props [OF bounds(3,4) zero_less_numeral] pad_num_props [OF bounds(5,6) zero_less_numeral]
    pad_num_props [OF bounds(7,8) zero_less_numeral] pad_num_props [OF bounds(9,10) zero_less_numeral]
    pad_num_props [OF bounds(11,12) zero_less_numeral]
  have iso: "toISOString t = pad_num 4 y @ ''-'' @ pad_num 2 (int m + 1) @ ''-'' @ pad_num 2 da
      @ ''T'' @ pad_num 2 (r div 3600000) @ '':'' @ pad_num 2 (r div 60000 mod 60)
      @ '':'' @ pad_num 2 (r div 1000 mod 60) @ ''.'' @ pad_num 3 (r mod 1000) @ ''Z''"
    unfolding toISOString_def Let_def show_year_def d_def [symmetric] r_def [symmetric] y_def [symmetric]
      l_def [symmetric] m_def [symmetric] da_def [symmetric] using y by simp
  note fc = fields_concat [of "pad_num 4 y" "pad_num 2 (int m + 1)" "pad_num 2 da" "pad_num 2 (r div 3600000)"
      "pad_num 2 (r div 60000 mod 60)" "pad_num 2 (r div 1000 mod 60)" "pad_num 3 (r mod 1000)"]
  have lens: "length (pad_num 4 y) = 4" "length (pad_num 2 (int m + 1)) = 2" "length (pad_num 2 da) = 2"
    "length (pad_num 2 (r div 3600000)) = 2" "length (pad_num 2 (r div 60000 mod 60)) = 2"
    "length (pad_num 2 (r div 1000 mod 60)) = 2" "length (pad_num 3 (r mod 1000)) = 3"
    by (fact pp)+
  note fs = fc [OF lens, folded iso]
  have shape: "iso_shape (toISOString t)"
    unfolding iso_shape_def list.pred_inject prod.case fs by (simp only: pp list.pred_inject simp_thms)
  have val: "(DayFromYear y + month_start l m + (da - 1)) * MS_PER_DAY + r div 3600000 * 3600000
      + r div 60000 mod 60 * 60000 + r div 1000 mod 60 * 1000 + r mod 1000 = t"
  proof -
    have "(DayFromYear y + month_start l m + (da - 1)) * MS_PER_DAY = d * MS_PER_DAY" by (simp add: da_def)
    moreover have "d * MS_PER_DAY + r = t" by (simp add: d_def r_def)
    ultimately show ?thesis using tod(3) by linarith
  qed
  have "iso_value (toISOString t) = Some t"
    unfolding iso_value_def fs Let_def pp using m b60 tod(1) val l_def by simp
  then show ?thesis using shape by (simp add: date_parse_def)
qed

end
