(* ===== verification/Zod.thy ===== *)
theory Zod
  imports Effects Money JsDate
begin

text \<open>
  Reading request bodies and foreign responses: the accessors and string formats the schema
  declarations of the services are made of.  A schema is a function from a JSON value to an
  option; the text of the issues it reports belongs to the schema library and is an argument
  of the handlers.
\<close>

definition jget :: "string \<Rightarrow> json \<Rightarrow> json option" where
  "jget k v = (case v of JObj es \<Rightarrow> map_of es k | _ \<Rightarrow> None)"

fun jstring :: "json \<Rightarrow> string option" where
  "jstring (JStr s) = Some s"
| "jstring _ = None"

fun jbool :: "json \<Rightarrow> bool option" where
  "jbool (JBool b) = Some b"
| "jbool _ = None"

fun jarray :: "json \<Rightarrow> json list option" where
  "jarray (JArr vs) = Some vs"
| "jarray _ = None"

fun jobject :: "json \<Rightarrow> (string \<times> json) list option" where
  "jobject (JObj es) = Some es"
| "jobject _ = None"

definition required :: "(json \<Rightarrow> 'a option) \<Rightarrow> string \<Rightarrow> json \<Rightarrow> 'a option" where
  "required f k v = (case jget k v of None \<Rightarrow> None | Some w \<Rightarrow> f w)"

definition optional :: "(json \<Rightarrow> 'a option) \<Rightarrow> string \<Rightarrow> json \<Rightarrow> 'a option option" where
  "optional f k v = (case jget k v of None \<Rightarrow> Some None | Some w \<Rightarrow> map_option Some (f w))"

fun all_some :: "('a \<Rightarrow> 'b option) \<Rightarrow> 'a list \<Rightarrow> 'b list option" where
  "all_some f [] = Some []"
| "all_some f (x # xs) = (case (f x, all_some f xs) of (Some y, Some ys) \<Rightarrow> Some (y # ys) | _ \<Rightarrow> None)"

definition string_len :: "nat \<Rightarrow> nat \<Rightarrow> json \<Rightarrow> string option" where
  "string_len lo hi v = (case jstring v of Some s \<Rightarrow> if lo \<le> length s \<and> length s \<le> hi then Some s else None | None \<Rightarrow> None)"

definition string_min :: "nat \<Rightarrow> json \<Rightarrow> string option" where
  "string_min lo v = (case jstring v of Some s \<Rightarrow> if lo \<le> length s then Some s else None | None \<Rightarrow> None)"

definition string_enum :: "string list \<Rightarrow> json \<Rightarrow> string option" where
  "string_enum xs v = (case jstring v of Some s \<Rightarrow> if s \<in> set xs then Some s else None | None \<Rightarrow> None)"

text \<open>\<open>String(v)\<close>, and \<open>vs.join(',')\<close>, which renders \<open>null\<close> as the empty string.\<close>

fun js_to_string :: "json \<Rightarrow> string" and js_join :: "json list \<Rightarrow> string list" where
  "js_to_string JNull = ''null''"
| "js_to_string (JBool b) = (if b then ''true'' else ''false'')"
| "js_to_string (JNum n) = show_int n"
| "js_to_string (JReal t) = t"
| "js_to_string (JStr s) = s"
| "js_to_string (JArr vs) = join_on (CHR '','') (js_join vs)"
| "js_to_string (JObj es) = ''[object Object]''"
| "js_join [] = []"
| "js_join (v # vs) = (if v = JNull then [] else js_to_string v) # js_join vs"

text \<open>Whether a value counts as true in a condition.\<close>

fun truthy :: "json \<Rightarrow> bool" where
  "truthy JNull = False"
| "truthy (JBool b) = b"
| "truthy (JNum n) = (n \<noteq> 0)"
| "truthy (JStr s) = (s \<noteq> [])"
| "truthy _ = True"

text \<open>\<open>/^\d+(\.\d{1,7})?$/\<close>: the amount pattern every request schema uses.\<close>

definition is_amount_text :: "string \<Rightarrow> bool" where
  "is_amount_text s \<longleftrightarrow> is_decimal_text s \<and> length (drop 1 (dropWhile is_digit s)) \<le> 7"

definition amount_string :: "json \<Rightarrow> string option" where
  "amount_string v = (case jstring v of Some s \<Rightarrow> if is_amount_text s then Some s else None | None \<Rightarrow> None)"

definition is_hex_digit :: "char \<Rightarrow> bool" where
  "is_hex_digit c \<longleftrightarrow> hex_val c \<noteq> None"

text \<open>A UUID: five groups of hexadecimal digits.\<close>

definition is_uuid :: "string \<Rightarrow> bool" where
  "is_uuid s \<longleftrightarrow> map length (split_on (CHR ''-'') s) = [8, 4, 4, 4, 12]
     \<and> list_all (list_all is_hex_digit) (split_on (CHR ''-'') s)"

definition uuid_string :: "json \<Rightarrow> string option" where
  "uuid_string v = (case jstring v of Some s \<Rightarrow> if is_uuid s then Some s else None | None \<Rightarrow> None)"

text \<open>\<open>z.string().date()\<close>: \<open>YYYY-MM-DD\<close>, a day of the calendar.\<close>

definition is_calendar_date :: "string \<Rightarrow> bool" where
  "is_calendar_date s \<longleftrightarrow> iso_date_shape s \<and>
     (let y = digits_val (field 0 4 s); mo = digits_val (field 5 2 s); da = digits_val (field 8 2 s)
      in 1 \<le> mo \<and> mo \<le> 12 \<and> 1 \<le> da
         \<and> da \<le> month_start (leap_year y) (nat mo) - month_start (leap_year y) (nat (mo - 1)))"

definition date_string :: "json \<Rightarrow> string option" where
  "date_string v = (case jstring v of Some s \<Rightarrow> if is_calendar_date s then Some s else None | None \<Rightarrow> None)"

text \<open>
  \<open>z.coerce.number().int().min(lo).max(hi).default(d)\<close> on a query parameter, which is a string
  or, when it repeats, an array; \<open>numberOf\<close> is \<open>Number\<close> on a string.
\<close>

definition query_int :: "(string \<Rightarrow> jsnum) \<Rightarrow> int \<Rightarrow> int \<Rightarrow> int \<Rightarrow> string \<Rightarrow> json \<Rightarrow> int option" where
  "query_int numberOf lo hi d k q = (case jget k q of
     None \<Rightarrow> Some d
   | Some v \<Rightarrow> (case numberOf (js_to_string v) of
        Whole n \<Rightarrow> if lo \<le> n \<and> n \<le> hi then Some n else None
      | NotInteger t \<Rightarrow> None))"

lemma query_int_range: "query_int numberOf lo hi d k q = Some n \<Longrightarrow> lo \<le> d \<Longrightarrow> d \<le> hi \<Longrightarrow> lo \<le> n \<and> n \<le> hi"
  by (auto simp: query_int_def split: option.splits jsnum.splits if_splits)

text \<open>\<open>orderBy: { createdAt: 'desc' }\<close>; rows of the same instant keep their insertion order.\<close>

definition newest_first :: "('r \<Rightarrow> int) \<Rightarrow> 'r list \<Rightarrow> 'r list" where
  "newest_first at rows = sort_key (\<lambda>r. - at r) rows"

lemma newest_first_set [simp]: "set (newest_first at rows) = set rows"
  by (simp add: newest_first_def)

lemma newest_first_hd: "newest_first at rows = r # rs \<Longrightarrow> r \<in> set rows \<and> (\<forall>q\<in>set rows. at q \<le> at r)"
proof -
  assume e: "newest_first at rows = r # rs"
  have "sorted (map (\<lambda>r. - at r) (r # rs))" unfolding e [symmetric] newest_first_def by (rule sorted_sort_key)
  moreover have "set rows = set (r # rs)" by (simp flip: e)
  ultimately show ?thesis by auto
qed

text \<open>An amount that passes the request pattern always converts.\<close>

lemma amount_text_converts:
  assumes "is_amount_text s"
  shows "\<exists>n. toStroops s = Inr n \<and> 0 \<le> n"
proof -
  obtain w f where wf: "is_digit_text w" "all_digits f" "s = (if f = [] then w else w @ CHR ''.'' # f)"
    using assms by (auto simp: is_amount_text_def elim: is_decimal_text_cases)
  have "all_digits w" using wf(1) by (simp add: is_digit_text_def)
  then have "length f \<le> 7"
    using assms wf(3) by (cases "f = []") (auto simp: is_amount_text_def dropWhile_stop all_digits_set is_digit_def)
  from toStroops_decimal [OF wf(1,2) this] obtain n where n: "toStroops s = Inr n" by (simp add: wf(3))
  then show ?thesis using toStroops_nonneg by blast
qed

end
