(* ===== verification/OperatorSession.thy ===== *)
theory OperatorSession
  imports Base64 JsonRoundtrip Zod
begin

text \<open>
  \<open>admin-web/src/lib/auth/roles.ts\<close>, \<open>session.ts\<close> and \<open>navigation.ts\<close>: the role vocabulary, the
  signed session cookie of the operator console, and where a sign-in may lead.  The digest
  (HMAC-SHA-256) and the decoding of UTF-8 are the record \<open>WebCrypto\<close>.
\<close>

unbundle bit_operations_syntax

section \<open>Roles\<close>

datatype Role = Viewer | Operator | Admin

fun roleName :: "Role \<Rightarrow> string" where
  "roleName Viewer = ''viewer''"
| "roleName Operator = ''operator''"
| "roleName Admin = ''admin''"

definition ROLES :: "Role list" where
  "ROLES = [Viewer, Operator, Admin]"

definition role_of :: "string \<Rightarrow> Role option" where
  "role_of s = List.find (\<lambda>r. roleName r = s) ROLES"

lemma role_of_roleName [simp]: "role_of (roleName r) = Some r"
  by (cases r) (simp_all add: role_of_def ROLES_def)

section \<open>The payload\<close>

definition SESSION_COOKIE :: string where "SESSION_COOKIE = ''remitbridge_operator''"

definition DEFAULT_SESSION_TTL_MINUTES :: int where "DEFAULT_SESSION_TTL_MINUTES = 480"

definition MIN_SECRET_LENGTH :: nat where "MIN_SECRET_LENGTH = 32"

record SessionPayload =
  sp_sub :: string
  sp_name :: string
  sp_roles :: "Role list"
  sp_iat :: int
  sp_exp :: int

definition nonneg_int :: "json \<Rightarrow> int option" where
  "nonneg_int v = (case v of JNum n \<Rightarrow> if 0 \<le> n then Some n else None | _ \<Rightarrow> None)"

definition role_json :: "json \<Rightarrow> Role option" where
  "role_json v = (case jstring v of None \<Rightarrow> None | Some s \<Rightarrow> role_of s)"

definition roles_json :: "json \<Rightarrow> Role list option" where
  "roles_json v = (case jarray v of None \<Rightarrow> None | Some vs \<Rightarrow> all_some role_json vs)"

definition sessionPayloadSchema :: "json \<Rightarrow> SessionPayload option" where
  "sessionPayloadSchema v =
     (case (required (string_min 1) ''sub'' v, required (string_min 1) ''name'' v, required roles_json ''roles'' v,
            required nonneg_int ''iat'' v, required nonneg_int ''exp'' v) of
        (Some s, Some n, Some r, Some i, Some e) \<Rightarrow>
          Some \<lparr>sp_sub = s, sp_name = n, sp_roles = r, sp_iat = i, sp_exp = e\<rparr>
      | _ \<Rightarrow> None)"

definition payload_json :: "SessionPayload \<Rightarrow> json" where
  "payload_json p = JObj [(''sub'', JStr (sp_sub p)), (''name'', JStr (sp_name p)),
     (''roles'', JArr (map (\<lambda>r. JStr (roleName r)) (sp_roles p))), (''iat'', JNum (sp_iat p)), (''exp'', JNum (sp_exp p))]"

type_synonym environment = "string \<Rightarrow> string option"

definition secret_message :: string where
  "secret_message = ''OPERATOR_SESSION_SECRET must be set to at least '' @ show_nat MIN_SECRET_LENGTH
     @ '' characters. The console refuses to issue or accept sessions without it.''"

definition sessionSecret :: "environment \<Rightarrow> string + string" where
  "sessionSecret env = (case env ''OPERATOR_SESSION_SECRET'' of
     Some secret \<Rightarrow> if length secret < MIN_SECRET_LENGTH then Inl secret_message else Inr secret
   | None \<Rightarrow> Inl secret_message)"

definition sessionTtlMinutes :: "(string \<Rightarrow> jsnum) \<Rightarrow> environment \<Rightarrow> int" where
  "sessionTtlMinutes numberOf env = (case env ''OPERATOR_SESSION_TTL_MINUTES'' of
     None \<Rightarrow> DEFAULT_SESSION_TTL_MINUTES
   | Some raw \<Rightarrow> (case numberOf raw of
        Whole n \<Rightarrow> if 0 < n then n else DEFAULT_SESSION_TTL_MINUTES
      | NotInteger t \<Rightarrow> DEFAULT_SESSION_TTL_MINUTES))"

section \<open>Tokens\<close>

text \<open>\<open>wc_hmac key message\<close> over bytes, and \<open>new TextDecoder().decode\<close>.\<close>

record WebCrypto =
  wc_hmac :: "string \<Rightarrow> string \<Rightarrow> string"
  wc_decode :: "string \<Rightarrow> string"

text \<open>\<open>new TextEncoder().encode\<close> on code units below 256.\<close>

definition utf8_encode :: "string \<Rightarrow> string" where
  "utf8_encode s = concat (map (\<lambda>c. if cu c < 128 then [c] else [char_of (192 + cu c div 64), char_of (128 + cu c mod 64)]) s)"

definition mac :: "WebCrypto \<Rightarrow> string \<Rightarrow> string \<Rightarrow> string" where
  "mac wc secret body = wc_hmac wc (utf8_encode secret) (utf8_encode body)"

definition equalsConstantTime :: "string \<Rightarrow> string \<Rightarrow> bool" where
  "equalsConstantTime a b \<longleftrightarrow> length a = length b
     \<and> foldl (\<lambda>difference (x, y). difference OR (cu x XOR cu y)) 0 (zip a b) = 0"

definition signSession :: "WebCrypto \<Rightarrow> SessionPayload \<Rightarrow> string \<Rightarrow> string" where
  "signSession wc payload secret =
     (let body = base64UrlEncode (utf8_encode (stringify (payload_json payload)))
      in body @ ''.'' @ base64UrlEncode (mac wc secret body))"

text \<open>\<open>s.lastIndexOf(c)\<close> as the two sides of that position.\<close>

definition split_last :: "char \<Rightarrow> string \<Rightarrow> (string \<times> string) option" where
  "split_last c s = (if c \<in> set s
     then Some (rev (drop 1 (dropWhile (\<lambda>x. x \<noteq> c) (rev s))), rev (takeWhile (\<lambda>x. x \<noteq> c) (rev s))) else None)"

definition read_payload :: "WebCrypto \<Rightarrow> string \<Rightarrow> SessionPayload option" where
  "read_payload wc body = (case base64UrlDecode body of
     None \<Rightarrow> None
   | Some decoded \<Rightarrow> (case json_parse (wc_decode wc decoded) of
        None \<Rightarrow> None
      | Some v \<Rightarrow> sessionPayloadSchema v))"

definition verifySession :: "WebCrypto \<Rightarrow> string option \<Rightarrow> string \<Rightarrow> int \<Rightarrow> SessionPayload option" where
  "verifySession wc token secret now = (case token of
     None \<Rightarrow> None
   | Some t \<Rightarrow> (case split_last (CHR ''.'') t of
        None \<Rightarrow> None
      | Some (body, signature) \<Rightarrow>
          if body = [] then None
          else (case base64UrlDecode signature of
             None \<Rightarrow> None
           | Some provided \<Rightarrow>
               if \<not> equalsConstantTime provided (mac wc secret body) then None
               else (case read_payload wc body of
                  None \<Rightarrow> None
                | Some p \<Rightarrow>
                    (let nowSeconds = now div 1000 in
                     if sp_exp p \<le> nowSeconds then None
                     else if sp_iat p > nowSeconds + 60 then None
                     else Some p)))))"

definition buildSessionPayload :: "string \<Rightarrow> string \<Rightarrow> Role list \<Rightarrow> int \<Rightarrow> int \<Rightarrow> SessionPayload" where
  "buildSessionPayload email name roles ttlMinutes nowMs =
     \<lparr>sp_sub = toLowerCase (trim email), sp_name = name, sp_roles = roles, sp_iat = nowMs div 1000,
      sp_exp = nowMs div 1000 + ttlMinutes * 60\<rparr>"

definition requestUsesHttps :: "string \<Rightarrow> string option \<Rightarrow> bool" where
  "requestUsesHttps protocol forwardedProto = (case forwardedProto of
     Some f \<Rightarrow> if f \<noteq> [] then toLowerCase (trim (hd (split_on (CHR '','') f))) = ''https'' else toLowerCase protocol = ''https:''
   | None \<Rightarrow> toLowerCase protocol = ''https:'')"

record CookieOptions =
  ck_httpOnly :: bool
  ck_sameSite :: string
  ck_path :: string
  ck_secure :: bool
  ck_maxAge :: int

definition sessionCookieOptions :: "int \<Rightarrow> bool \<Rightarrow> CookieOptions" where
  "sessionCookieOptions ttlMinutes isProduction = \<lparr>ck_httpOnly = True, ck_sameSite = ''lax'', ck_path = ''/'',
     ck_secure = isProduction, ck_maxAge = ttlMinutes * 60\<rparr>"

definition safeNextPath :: "string option \<Rightarrow> string" where
  "safeNextPath v = (case v of
     None \<Rightarrow> ''/''
   | Some p \<Rightarrow> if p = [] then ''/'' else if \<not> startsWith p ''/'' \<or> startsWith p ''//'' then ''/'' else p)"

section \<open>What a token proves\<close>

lemma xor_zero_iff: "(a :: nat) XOR b = 0 \<longleftrightarrow> a = b"
  by (auto simp: bit_eq_iff bit_simps)

lemma foldl_differences: "foldl (\<lambda>difference (x, y). difference OR (cu x XOR cu y)) d ps = 0 \<longleftrightarrow> d = 0 \<and> (\<forall>(x, y)\<in>set ps. x = y)"
  by (induction ps arbitrary: d) (auto simp: or_eq_0_iff xor_zero_iff)

lemma equalsConstantTime_iff [simp]: "equalsConstantTime a b \<longleftrightarrow> a = b"
proof -
  have "(\<forall>(x, y)\<in>set (zip a b). x = y) \<longleftrightarrow> a = b" if "length a = length b"
    using that by (induction rule: list_induct2) auto
  then show ?thesis by (auto simp: equalsConstantTime_def foldl_differences)
qed

lemma split_last_iff: "split_last c s = Some (a, b) \<longleftrightarrow> s = a @ c # b \<and> c \<notin> set b"
proof
  assume sp: "split_last c s = Some (a, b)"
  then have c: "c \<in> set s" by (auto simp: split_last_def split: if_splits)
  then obtain u v where s: "s = u @ c # v" "c \<notin> set v" by (meson split_list_last)
  have "rev s = rev v @ c # rev u" using s(1) by simp
  moreover have "\<forall>x\<in>set (rev v). x \<noteq> c" using s(2) by auto
  ultimately show "s = a @ c # b \<and> c \<notin> set b"
    using sp s by (auto simp: split_last_def takeWhile_stop dropWhile_stop)
next
  assume s: "s = a @ c # b \<and> c \<notin> set b"
  then have "\<forall>x\<in>set (rev b). x \<noteq> c" by auto
  then have "dropWhile (\<lambda>x. x \<noteq> c) (rev b @ c # rev a) = c # rev a" "takeWhile (\<lambda>x. x \<noteq> c) (rev b @ c # rev a) = rev b"
    by (simp_all only: dropWhile_stop takeWhile_stop not_not)
  then show "split_last c s = Some (a, b)" using s by (simp add: split_last_def)
qed

lemma verifySession_Some:
  "verifySession wc token secret now = Some p \<longleftrightarrow>
     (\<exists>body signature. token = Some (body @ CHR ''.'' # signature) \<and> CHR ''.'' \<notin> set signature \<and> body \<noteq> []
        \<and> base64UrlDecode signature = Some (mac wc secret body) \<and> read_payload wc body = Some p
        \<and> now div 1000 < sp_exp p \<and> sp_iat p \<le> now div 1000 + 60)"
proof (cases "\<exists>t body signature. token = Some t \<and> split_last (CHR ''.'') t = Some (body, signature)")
  case True
  then obtain t body signature where t: "token = Some t" "split_last (CHR ''.'') t = Some (body, signature)" by blast
  then have u: "t = b @ CHR ''.'' # s \<and> CHR ''.'' \<notin> set s \<longleftrightarrow> b = body \<and> s = signature" for b s
    by (metis Pair_inject option.inject split_last_iff)
  have "verifySession wc token secret now = Some p \<longleftrightarrow> body \<noteq> [] \<and> base64UrlDecode signature = Some (mac wc secret body)
      \<and> read_payload wc body = Some p \<and> now div 1000 < sp_exp p \<and> sp_iat p \<le> now div 1000 + 60"
    by (cases "base64UrlDecode signature"; cases "read_payload wc body") (auto simp: verifySession_def t Let_def)
  then show ?thesis using u t(1) by (metis option.inject)
next
  case False
  then have "verifySession wc token secret now = None" by (auto simp: verifySession_def split: option.split)
  moreover have "token \<noteq> Some (b @ CHR ''.'' # s)" if "CHR ''.'' \<notin> set s" for b s
  proof
    assume "token = Some (b @ CHR ''.'' # s)"
    moreover have "split_last (CHR ''.'') (b @ CHR ''.'' # s) = Some (b, s)" using that by (simp add: split_last_iff)
    ultimately show False using False by blast
  qed
  ultimately show ?thesis by auto
qed

text \<open>
  a session is exactly a signed, current payload.  A token is accepted if and only if its last
  dot separates a body from a signature that decodes to the MAC of that body under the console's
  secret, the body holds a payload of the schema, and the payload has neither expired nor been
  issued more than a minute ahead; nothing else about the token matters, and then the payload of
  the body is what is returned.
\<close>

theorem session_is_signed_payload:
  "verifySession wc token secret now = Some p \<longleftrightarrow>
     (\<exists>body signature. token = Some (body @ CHR ''.'' # signature) \<and> CHR ''.'' \<notin> set signature \<and> body \<noteq> []
        \<and> base64UrlDecode signature = Some (mac wc secret body) \<and> read_payload wc body = Some p
        \<and> now div 1000 < sp_exp p \<and> sp_iat p \<le> now div 1000 + 60)"
  by (rule verifySession_Some)

section \<open>Issued sessions\<close>

lemma roles_json_map [simp]: "all_some role_json (map (\<lambda>r. JStr (roleName r)) rs) = Some rs"
  by (induction rs) (simp_all add: role_json_def)

lemma sessionPayloadSchema_payload:
  "sp_sub p \<noteq> [] \<Longrightarrow> sp_name p \<noteq> [] \<Longrightarrow> 0 \<le> sp_iat p \<Longrightarrow> 0 \<le> sp_exp p \<Longrightarrow> sessionPayloadSchema (payload_json p) = Some p"
  by (cases p) (simp add: sessionPayloadSchema_def payload_json_def required_def jget_def string_min_def roles_json_def nonneg_int_def Suc_le_eq)

lemma payload_json_wf:
  "0 \<le> sp_iat p \<Longrightarrow> 0 \<le> sp_exp p \<Longrightarrow> sp_iat p \<le> MAX_SAFE_INTEGER \<Longrightarrow> sp_exp p \<le> MAX_SAFE_INTEGER \<Longrightarrow> json_wf (payload_json p)"
  by (simp add: payload_json_def elems_wf_iff)

lemma read_signed_payload:
  assumes "\<forall>s. wc_decode wc (utf8_encode s) = s"
    and "sp_sub p \<noteq> []" "sp_name p \<noteq> []" "0 \<le> sp_iat p" "sp_iat p \<le> MAX_SAFE_INTEGER" "0 \<le> sp_exp p" "sp_exp p \<le> MAX_SAFE_INTEGER"
  shows "read_payload wc (base64UrlEncode (utf8_encode (stringify (payload_json p)))) = Some p"
  using assms by (simp add: read_payload_def base64Url_roundtrip json_parse_stringify payload_json_wf sessionPayloadSchema_payload)

lemma base64UrlEncode_not_Nil: "bytes \<noteq> [] \<Longrightarrow> base64UrlEncode bytes \<noteq> []"
proof
  assume "bytes \<noteq> []" "base64UrlEncode bytes = []"
  moreover have "base64UrlDecode [] = Some []" by code_simp
  ultimately show False using base64Url_roundtrip [of bytes] by simp
qed

lemma utf8_stringify_not_Nil: "utf8_encode (stringify (payload_json p)) \<noteq> []"
  by (simp add: utf8_encode_def payload_json_def)

lemma issued_session:
  assumes "\<forall>s. wc_decode wc (utf8_encode s) = s"
    and "trim email \<noteq> []" "name \<noteq> []" "0 \<le> issued" "0 \<le> ttl" "issued div 1000 + ttl * 60 \<le> MAX_SAFE_INTEGER"
  shows "verifySession wc (Some (signSession wc (buildSessionPayload email name roles ttl issued) secret)) secret now =
     (if issued div 1000 - 60 \<le> now div 1000 \<and> now div 1000 < issued div 1000 + ttl * 60
      then Some \<lparr>sp_sub = toLowerCase (trim email), sp_name = name, sp_roles = roles, sp_iat = issued div 1000,
             sp_exp = issued div 1000 + ttl * 60\<rparr>
      else None)"
proof -
  obtain p where p: "p = buildSessionPayload email name roles ttl issued" by blast
  let ?body = "base64UrlEncode (utf8_encode (stringify (payload_json p)))"
  have sel: "sp_iat p = issued div 1000" "sp_exp p = issued div 1000 + ttl * 60"
    "p = \<lparr>sp_sub = toLowerCase (trim email), sp_name = name, sp_roles = roles, sp_iat = issued div 1000, sp_exp = issued div 1000 + ttl * 60\<rparr>"
    by (simp_all add: p buildSessionPayload_def)
  have "read_payload wc ?body = Some p"
    using assms by (intro read_signed_payload) (simp_all add: p buildSessionPayload_def toLowerCase_def)
  moreover have "?body \<noteq> []" by (rule base64UrlEncode_not_Nil [OF utf8_stringify_not_Nil])
  moreover have "split_last (CHR ''.'') (signSession wc p secret) = Some (?body, base64UrlEncode (mac wc secret ?body))"
    by (simp add: split_last_iff signSession_def Let_def base64UrlEncode_plain)
  ultimately have "verifySession wc (Some (signSession wc p secret)) secret now =
     (if issued div 1000 - 60 \<le> now div 1000 \<and> now div 1000 < issued div 1000 + ttl * 60 then Some p else None)"
    using sel(1,2) by (auto simp: verifySession_def base64Url_roundtrip Let_def)
  then show ?thesis unfolding p [symmetric] sel(3) [symmetric] .
qed

text \<open>
  C8: a session lasts its time and no longer.  The token the login issues is accepted under the
  same secret, with exactly the normalised address, name and roles it was issued for, from the
  minute before it was issued until its lifetime is over, to the second, and at no other time.
\<close>

theorem session_lasts_its_lifetime:
  assumes "\<forall>s. wc_decode wc (utf8_encode s) = s"
    and "trim email \<noteq> []" "name \<noteq> []" "0 \<le> issued" "0 \<le> ttl" "issued div 1000 + ttl * 60 \<le> MAX_SAFE_INTEGER"
  shows "verifySession wc (Some (signSession wc (buildSessionPayload email name roles ttl issued) secret)) secret now =
     (if issued div 1000 - 60 \<le> now div 1000 \<and> now div 1000 < issued div 1000 + ttl * 60
      then Some \<lparr>sp_sub = toLowerCase (trim email), sp_name = name, sp_roles = roles, sp_iat = issued div 1000,
             sp_exp = issued div 1000 + ttl * 60\<rparr>
      else None)"
  using assms by (rule issued_session)

text \<open>A decoder for the texts of the model, and a digest, to run an issued session.\<close>

fun utf8_decode :: "string \<Rightarrow> string" where
  "utf8_decode [] = []"
| "utf8_decode (c # s) = (if cu c < 128 then c # utf8_decode s
     else (case s of [] \<Rightarrow> [] | d # r \<Rightarrow> char_of ((cu c - 192) * 64 + (cu d - 128)) # utf8_decode r))"

lemma utf8_decode_encode: "utf8_decode (utf8_encode s) = s"
proof (induction s)
  case Nil
  then show ?case by (simp add: utf8_encode_def)
next
  case (Cons c s)
  have "cu c < 256" by simp
  then have "cu c div 64 < 4" by (rule byte_parts)
  then have "cu (char_of (192 + cu c div 64)) = 192 + cu c div 64" "cu (char_of (128 + cu c mod 64)) = 128 + cu c mod 64"
    by (simp_all add: of_char_of take_bit_eq_mod)
  moreover have "cu c div 64 * 64 + cu c mod 64 = cu c" by (rule div_mult_mod_eq)
  ultimately show ?case using Cons by (simp add: utf8_encode_def)
qed

definition sample_crypto :: WebCrypto where
  "sample_crypto = \<lparr>wc_hmac = (\<lambda>k m. take 32 (k @ m)), wc_decode = utf8_decode\<rparr>"

theorem session_lasts_its_lifetime_witness:
  "verifySession sample_crypto (Some (signSession sample_crypto (buildSessionPayload '' Ops@Example.org '' ''Ops'' [Operator] 480 1000000) ''k'')) ''k'' 2000000
     = Some \<lparr>sp_sub = ''ops@example.org'', sp_name = ''Ops'', sp_roles = [Operator], sp_iat = 1000, sp_exp = 29800\<rparr>"
proof -
  have c: "\<forall>s. wc_decode sample_crypto (utf8_encode s) = s" by (simp add: sample_crypto_def utf8_decode_encode)
  have t: "trim '' Ops@Example.org '' \<noteq> []" "toLowerCase (trim '' Ops@Example.org '') = ''ops@example.org''" by code_simp+
  show ?thesis
    using session_lasts_its_lifetime [OF c t(1), of "''Ops''" 1000000 480 "[Operator]" "''k''" 2000000] t(2)
    by (simp add: MAX_SAFE_INTEGER_def)
qed

end
