(* ===== verification/Policy.thy ===== *)
theory Policy
  imports OperatorSession
begin

text \<open>
  \<open>admin-web/src/lib/auth/policy.ts\<close>: which role may do what, which policy a mutation falls
  under, and who the audit fields of a forwarded body name.
\<close>

section \<open>Permissions\<close>

datatype Permission = Propose | Decide | Execute | Sweep | Revoke

fun permissionName :: "Permission \<Rightarrow> string" where
  "permissionName Propose = ''liquidity:propose''"
| "permissionName Decide = ''liquidity:decide''"
| "permissionName Execute = ''liquidity:execute''"
| "permissionName Sweep = ''liquidity:sweep''"
| "permissionName Revoke = ''kyc:revoke''"

fun ROLE_PERMISSIONS :: "Role \<Rightarrow> Permission list" where
  "ROLE_PERMISSIONS Viewer = []"
| "ROLE_PERMISSIONS Operator = [Propose, Decide, Execute, Sweep]"
| "ROLE_PERMISSIONS Admin = [Propose, Decide, Execute, Sweep, Revoke]"

definition permissionsFor :: "Role list \<Rightarrow> Permission set" where
  "permissionsFor roles = foldl (\<lambda>granted role. foldl (\<lambda>g p. insert p g) granted (ROLE_PERMISSIONS role)) {} roles"

definition may :: "Role list \<Rightarrow> Permission \<Rightarrow> bool" where
  "may roles permission \<longleftrightarrow> permission \<in> permissionsFor roles"

definition AUDIT_FIELDS :: "string list" where
  "AUDIT_FIELDS = [''requestedBy'', ''approvedBy'']"

record MutationPolicy =
  mp_permission :: Permission
  mp_auditFields :: "string list"
  mp_operation :: string

definition policyForMutation :: "string list \<Rightarrow> MutationPolicy option" where
  "policyForMutation segments =
     (let path = join_on (CHR ''/'') segments in
      if path = ''agents/liquidity/top-ups'' then
        Some \<lparr>mp_permission = Propose, mp_auditFields = [''requestedBy''], mp_operation = ''propose a float top-up''\<rparr>
      else if length segments = 5 \<and> segments ! 4 = ''decision'' \<and> startsWith path ''agents/liquidity/top-ups/'' then
        Some \<lparr>mp_permission = Decide, mp_auditFields = [''approvedBy''], mp_operation = ''decide a float top-up''\<rparr>
      else if length segments = 5 \<and> segments ! 4 = ''execute'' \<and> startsWith path ''agents/liquidity/top-ups/'' then
        Some \<lparr>mp_permission = Execute, mp_auditFields = [], mp_operation = ''execute a float draw''\<rparr>
      else if path = ''agents/liquidity/sweep'' then
        Some \<lparr>mp_permission = Sweep, mp_auditFields = [], mp_operation = ''run a liquidity sweep''\<rparr>
      else if path = ''kyc/revocations'' then
        Some \<lparr>mp_permission = Revoke, mp_auditFields = [], mp_operation = ''revoke attestations''\<rparr>
      else None)"

definition attributed :: "MutationPolicy \<Rightarrow> string \<Rightarrow> (string \<times> json) list \<Rightarrow> (string \<times> json) list" where
  "attributed policy email body =
     foldl (\<lambda>b k. obj_set k (JStr email) b) (foldl (\<lambda>b k. obj_delete k b) body AUDIT_FIELDS) (mp_auditFields policy)"

definition withOperatorAttribution :: "string \<Rightarrow> MutationPolicy \<Rightarrow> string \<Rightarrow> string" where
  "withOperatorAttribution rawBody policy email =
     (if mp_auditFields policy = [] then rawBody
      else (case json_parse rawBody of
         Some (JObj body) \<Rightarrow> stringify (JObj (attributed policy email body))
       | _ \<Rightarrow> rawBody))"

section \<open>Who may do what\<close>

lemma permissionsFor_iff: "p \<in> permissionsFor roles \<longleftrightarrow> (\<exists>r\<in>set roles. p \<in> set (ROLE_PERMISSIONS r))"
proof -
  have inner: "foldl (\<lambda>g p. insert p g) A ps = A \<union> set ps" for A :: "Permission set" and ps
    by (induction ps arbitrary: A) auto
  have "foldl (\<lambda>granted role. foldl (\<lambda>g p. insert p g) granted (ROLE_PERMISSIONS role)) A rs
      = A \<union> (\<Union>r\<in>set rs. set (ROLE_PERMISSIONS r))" for A rs
    by (induction rs arbitrary: A) (auto simp: inner)
  then show ?thesis by (simp add: permissionsFor_def)
qed

lemma may_iff: "may roles p \<longleftrightarrow> Admin \<in> set roles \<or> Operator \<in> set roles \<and> p \<noteq> Revoke"
proof -
  have "p \<in> set (ROLE_PERMISSIONS r) \<longleftrightarrow> r = Admin \<or> r = Operator \<and> p \<noteq> Revoke" for r
    by (cases r; cases p) simp_all
  then show ?thesis by (auto simp: may_def permissionsFor_iff)
qed

section \<open>Which policy a path has\<close>

lemma join_on_inj: "ws \<noteq> [] \<Longrightarrow> \<forall>w\<in>set ws. c \<notin> set w \<Longrightarrow> join_on c ws = s \<longleftrightarrow> ws = split_on c s"
  by (metis join_on_split_on split_on_join_on)

definition top_ups_path :: "string list" where
  "top_ups_path = [''agents'', ''liquidity'', ''top-ups'']"

lemma split_paths:
  "split_on (CHR ''/'') ''agents/liquidity/top-ups'' = top_ups_path"
  "split_on (CHR ''/'') ''agents/liquidity/sweep'' = [''agents'', ''liquidity'', ''sweep'']"
  "split_on (CHR ''/'') ''kyc/revocations'' = [''kyc'', ''revocations'']"
  by (simp_all add: top_ups_path_def)

lemma five_segments:
  assumes "length segments = 5" "\<forall>w\<in>set segments. CHR ''/'' \<notin> set w"
  shows "startsWith (join_on (CHR ''/'') segments) ''agents/liquidity/top-ups/'' \<longleftrightarrow> take 3 segments = top_ups_path"
proof -
  obtain a b c d e where s: "segments = [a, b, c, d, e]"
    using assms(1) by (auto simp: numeral_eq_Suc length_Suc_conv)
  have ns: "CHR ''/'' \<notin> set a" "CHR ''/'' \<notin> set b" "CHR ''/'' \<notin> set c" using assms(2) by (auto simp: s)
  have "startsWith (join_on (CHR ''/'') segments) ''agents/liquidity/top-ups/''
      \<longleftrightarrow> (\<exists>t. a @ CHR ''/'' # b @ CHR ''/'' # c @ CHR ''/'' # d @ CHR ''/'' # e = ''agents'' @ CHR ''/'' # ''liquidity'' @ CHR ''/'' # ''top-ups'' @ CHR ''/'' # t)"
    by (simp add: s startsWith_iff)
  also have "\<dots> \<longleftrightarrow> a = ''agents'' \<and> b = ''liquidity'' \<and> c = ''top-ups''"
  proof
    assume "\<exists>t. a @ CHR ''/'' # b @ CHR ''/'' # c @ CHR ''/'' # d @ CHR ''/'' # e = ''agents'' @ CHR ''/'' # ''liquidity'' @ CHR ''/'' # ''top-ups'' @ CHR ''/'' # t"
    then obtain t where t: "a @ CHR ''/'' # b @ CHR ''/'' # c @ CHR ''/'' # d @ CHR ''/'' # e = ''agents'' @ CHR ''/'' # ''liquidity'' @ CHR ''/'' # ''top-ups'' @ CHR ''/'' # t" ..
    have sp: "split_on (CHR ''/'') (a @ CHR ''/'' # b @ CHR ''/'' # c @ CHR ''/'' # d @ CHR ''/'' # e) = a # b # c # split_on (CHR ''/'') (d @ CHR ''/'' # e)"
      using ns by (simp add: split_on_sep)
    have "split_on (CHR ''/'') (''agents'' @ CHR ''/'' # ''liquidity'' @ CHR ''/'' # ''top-ups'' @ CHR ''/'' # t) = ''agents'' # ''liquidity'' # ''top-ups'' # split_on (CHR ''/'') t"
      by (subst split_on_sep, simp, subst split_on_sep, simp, subst split_on_sep, simp, rule refl)
    then show "a = ''agents'' \<and> b = ''liquidity'' \<and> c = ''top-ups''" using sp unfolding t by simp
  qed auto
  finally show ?thesis by (simp add: s top_ups_path_def)
qed

lemma policy_cases:
  assumes "\<forall>w\<in>set segments. CHR ''/'' \<notin> set w" "segments \<noteq> []"
  shows "policyForMutation segments =
     (if segments = top_ups_path then Some \<lparr>mp_permission = Propose, mp_auditFields = [''requestedBy''], mp_operation = ''propose a float top-up''\<rparr>
      else if \<exists>i. segments = top_ups_path @ [i, ''decision''] then Some \<lparr>mp_permission = Decide, mp_auditFields = [''approvedBy''], mp_operation = ''decide a float top-up''\<rparr>
      else if \<exists>i. segments = top_ups_path @ [i, ''execute''] then Some \<lparr>mp_permission = Execute, mp_auditFields = [], mp_operation = ''execute a float draw''\<rparr>
      else if segments = [''agents'', ''liquidity'', ''sweep''] then Some \<lparr>mp_permission = Sweep, mp_auditFields = [], mp_operation = ''run a liquidity sweep''\<rparr>
      else if segments = [''kyc'', ''revocations''] then Some \<lparr>mp_permission = Revoke, mp_auditFields = [], mp_operation = ''revoke attestations''\<rparr>
      else None)"
proof -
  have j: "join_on (CHR ''/'') segments = s \<longleftrightarrow> segments = split_on (CHR ''/'') s" for s
    by (rule join_on_inj [OF assms(2,1)])
  have five: "length segments = 5 \<and> segments ! 4 = w \<and> startsWith (join_on (CHR ''/'') segments) ''agents/liquidity/top-ups/''
      \<longleftrightarrow> (\<exists>i. segments = top_ups_path @ [i, w])" (is "?l \<longleftrightarrow> ?r") for w
  proof
    assume l: ?l
    then have "take 3 segments = top_ups_path" using five_segments [OF _ assms(1)] by blast
    moreover obtain a b c d e where s: "segments = [a, b, c, d, e]" using l by (auto simp: numeral_eq_Suc length_Suc_conv)
    ultimately show ?r using l by simp
  next
    assume r: ?r
    then have "length segments = 5" "segments ! 4 = w" "take 3 segments = top_ups_path" by (auto simp: top_ups_path_def)
    then show ?l using five_segments [OF _ assms(1)] by simp
  qed
  show ?thesis unfolding policyForMutation_def Let_def j split_paths five by (rule refl)
qed

text \<open>
  C25: a mutation falls under its own policy and no other.  On path segments, exactly the five
  routes the console offers have a policy, each with its own permission and audit fields; every
  other path is refused; a viewer may use none of them, and revoking takes an administrator.
\<close>

theorem every_mutation_has_its_policy:
  assumes "\<forall>w\<in>set segments. CHR ''/'' \<notin> set w" "segments \<noteq> []"
  shows "(policyForMutation segments = Some p \<longleftrightarrow>
      segments = top_ups_path \<and> mp_permission p = Propose \<and> mp_auditFields p = [''requestedBy''] \<and> mp_operation p = ''propose a float top-up''
    \<or> (\<exists>i. segments = top_ups_path @ [i, ''decision'']) \<and> mp_permission p = Decide \<and> mp_auditFields p = [''approvedBy''] \<and> mp_operation p = ''decide a float top-up''
    \<or> (\<exists>i. segments = top_ups_path @ [i, ''execute'']) \<and> mp_permission p = Execute \<and> mp_auditFields p = [] \<and> mp_operation p = ''execute a float draw''
    \<or> segments = [''agents'', ''liquidity'', ''sweep''] \<and> mp_permission p = Sweep \<and> mp_auditFields p = [] \<and> mp_operation p = ''run a liquidity sweep''
    \<or> segments = [''kyc'', ''revocations''] \<and> mp_permission p = Revoke \<and> mp_auditFields p = [] \<and> mp_operation p = ''revoke attestations'')
    \<and> \<not> may [Viewer] (mp_permission p) \<and> (may roles Revoke \<longleftrightarrow> Admin \<in> set roles)"
proof -
  have ne: "top_ups_path \<noteq> [''agents'', ''liquidity'', ''sweep'']" "top_ups_path \<noteq> [''kyc'', ''revocations'']"
    "\<not> (\<exists>i. top_ups_path = top_ups_path @ [i, w])" "\<not> (\<exists>i. [''agents'', ''liquidity'', ''sweep''] = top_ups_path @ [i, w])"
    "\<not> (\<exists>i. [''kyc'', ''revocations''] = top_ups_path @ [i, w])" for w
    by (simp_all add: top_ups_path_def)
  have "p = \<lparr>mp_permission = a, mp_auditFields = b, mp_operation = c\<rparr> \<longleftrightarrow> mp_permission p = a \<and> mp_auditFields p = b \<and> mp_operation p = c" for a b c
    by (cases p) auto
  moreover have "\<not> may [Viewer] (mp_permission p)" "may roles Revoke \<longleftrightarrow> Admin \<in> set roles" by (simp_all add: may_iff)
  ultimately show ?thesis using policy_cases [OF assms] ne by (auto split: if_splits)
qed

theorem every_mutation_has_its_policy_witness:
  "map_option mp_permission (policyForMutation [''agents'', ''liquidity'', ''top-ups'', ''id7'', ''execute'']) = Some Execute"
proof -
  have "\<forall>w\<in>set [''agents'', ''liquidity'', ''top-ups'', ''id7'', ''execute'']. CHR ''/'' \<notin> set w" by simp
  then show ?thesis
    using every_mutation_has_its_policy [of "[''agents'', ''liquidity'', ''top-ups'', ''id7'', ''execute'']"
        "\<lparr>mp_permission = Execute, mp_auditFields = [], mp_operation = ''execute a float draw''\<rparr>" "[]"]
    by (simp add: top_ups_path_def)
qed

section \<open>Attribution\<close>

lemma map_of_attributed:
  "map_of (attributed policy email body) k =
     (if k \<in> set (mp_auditFields policy) then Some (JStr email) else if k \<in> set AUDIT_FIELDS then None else map_of body k)"
proof -
  have del: "map_of (foldl (\<lambda>b k. obj_delete k b) b ks) k = (if k \<in> set ks then None else map_of b k)" for b :: "(string \<times> json) list" and ks
    by (induction ks arbitrary: b) auto
  have set: "map_of (foldl (\<lambda>b k. obj_set k (JStr email) b) b ks) k = (if k \<in> set ks then Some (JStr email) else map_of b k)" for b and ks
    by (induction ks arbitrary: b) auto
  show ?thesis by (simp add: attributed_def del set)
qed

lemma members_wf_set: "members_wf es \<Longrightarrow> json_wf v \<Longrightarrow> members_wf (obj_set k v es)"
  by (induction es) auto

lemma members_wf_delete: "members_wf es \<Longrightarrow> members_wf (obj_delete k es)"
  by (auto simp: members_wf_iff obj_delete_def)

lemma attributed_wf:
  assumes "json_wf (JObj body)"
  shows "json_wf (JObj (attributed policy email body))"
proof -
  have "json_wf (JObj b) \<Longrightarrow> json_wf (JObj (foldl (\<lambda>b k. obj_delete k b) b ks))" for b ks
    by (induction ks arbitrary: b) (simp_all add: members_wf_delete distinct_obj_delete)
  moreover have "json_wf (JObj b) \<Longrightarrow> json_wf (JObj (foldl (\<lambda>b k. obj_set k (JStr email) b) b ks))" for b ks
    by (induction ks arbitrary: b) (simp_all add: members_wf_set distinct_obj_set)
  ultimately show ?thesis using assms unfolding attributed_def by blast
qed

text \<open>
  nobody can be named but the operator.  The body that is forwarded for an audited mutation
  reads back as the browser's object, in which the audit fields of the policy hold the signed-in
  operator's address, no other audit field is left, and every other member is as it was.
\<close>

theorem attribution_is_the_operators:
  assumes "json_parse raw = Some (JObj body)" "json_wf (JObj body)" "mp_auditFields policy \<noteq> []"
  shows "\<exists>body'. json_parse (withOperatorAttribution raw policy email) = Some (JObj body')
    \<and> (\<forall>k. map_of body' k = (if k \<in> set (mp_auditFields policy) then Some (JStr email)
         else if k \<in> set AUDIT_FIELDS then None else map_of body k))"
proof -
  have "json_parse (withOperatorAttribution raw policy email) = Some (JObj (attributed policy email body))"
    using assms json_parse_stringify [OF attributed_wf [OF assms(2)]] by (simp add: withOperatorAttribution_def)
  then show ?thesis using map_of_attributed by auto
qed

theorem attribution_is_the_operators_witness:
  "\<exists>body'. json_parse (withOperatorAttribution (stringify (JObj [(''approvedBy'', JStr ''boss''), (''note'', JStr ''ok'')]))
       \<lparr>mp_permission = Decide, mp_auditFields = [''approvedBy''], mp_operation = ''decide a float top-up''\<rparr> ''me@x'') = Some (JObj body')
     \<and> map_of body' ''approvedBy'' = Some (JStr ''me@x'') \<and> map_of body' ''note'' = Some (JStr ''ok'')"
proof -
  let ?b = "[(''approvedBy'', JStr ''boss''), (''note'', JStr ''ok'')]"
  let ?p = "\<lparr>mp_permission = Decide, mp_auditFields = [''approvedBy''], mp_operation = ''decide a float top-up''\<rparr>"
  have wf: "json_wf (JObj ?b)" by simp
  have ne: "mp_auditFields ?p \<noteq> []" by simp
  obtain b' where b': "json_parse (withOperatorAttribution (stringify (JObj ?b)) ?p ''me@x'') = Some (JObj b')"
    "\<forall>k. map_of b' k = (if k \<in> set (mp_auditFields ?p) then Some (JStr ''me@x'') else if k \<in> set AUDIT_FIELDS then None else map_of ?b k)"
    using attribution_is_the_operators [OF json_parse_stringify [OF wf] wf ne] by blast
  have "map_of b' ''approvedBy'' = Some (JStr ''me@x'')" "map_of b' ''note'' = Some (JStr ''ok'')"
    by (simp_all add: b'(2) AUDIT_FIELDS_def)
  then show ?thesis using b'(1) by blast
qed

end
