(* ===== verification/Accounts.thy ===== *)
theory Accounts
  imports OperatorSession
begin

text \<open>
  \<open>admin-web/src/lib/auth/accounts.ts\<close>: the operator accounts of the environment and their
  password hashes.  The key derivation, which may refuse its parameters, and the tolerant
  base64 reader of the runtime are the record \<open>NodeCrypto\<close>; the salt a hash is made with is an
  argument.
\<close>

unbundle bit_operations_syntax

section \<open>Passwords\<close>

record ScryptParams =
  sc_N :: int
  sc_r :: int
  sc_p :: int

text \<open>\<open>nc_scrypt password salt length params\<close> and \<open>Buffer.from(text, 'base64')\<close>.\<close>

record NodeCrypto =
  nc_scrypt :: "string \<Rightarrow> string \<Rightarrow> nat \<Rightarrow> ScryptParams \<Rightarrow> failure + string"
  nc_fromBase64 :: "string \<Rightarrow> string"

definition SCRYPT_PARAMS :: ScryptParams where
  "SCRYPT_PARAMS = \<lparr>sc_N = 16384, sc_r = 8, sc_p = 1\<rparr>"

definition KEY_BYTES :: nat where "KEY_BYTES = 32"

definition hashPassword :: "NodeCrypto \<Rightarrow> string \<Rightarrow> string \<Rightarrow> ScryptParams \<Rightarrow> failure + string" where
  "hashPassword nc password salt params =
     rbind (nc_scrypt nc password salt KEY_BYTES params) (\<lambda>derived.
     Inr (join_on (CHR ''$'') [''scrypt'', show_int (sc_N params), show_int (sc_r params), show_int (sc_p params), btoa salt, btoa derived]))"

text \<open>
  \<open>N & (N - 1)\<close> works on 32 bits; a number for which that matters is beyond the bound and is
  refused in any case.  The derived key is as long as the expected one, so \<open>timingSafeEqual\<close>
  compares.
\<close>

definition scrypt_params_ok :: "ScryptParams \<Rightarrow> bool" where
  "scrypt_params_ok s \<longleftrightarrow> \<not> (sc_N s \<le> 1 \<or> sc_N s AND (sc_N s - 1) \<noteq> 0 \<or> sc_r s \<le> 0 \<or> sc_p s \<le> 0 \<or> sc_N s > 2 ^ 20)"

definition verifyPassword :: "NodeCrypto \<Rightarrow> (string \<Rightarrow> jsnum) \<Rightarrow> string \<Rightarrow> string \<Rightarrow> failure + bool" where
  "verifyPassword nc numberOf password stored =
     (case split_on (CHR ''$'') stored of
        [scheme, nRaw, rRaw, pRaw, saltRaw, hashRaw] \<Rightarrow>
          if scheme \<noteq> ''scrypt'' then Inr False
          else (case (numberOf nRaw, numberOf rRaw, numberOf pRaw) of
             (Whole n, Whole r, Whole p) \<Rightarrow>
               (let params = \<lparr>sc_N = n, sc_r = r, sc_p = p\<rparr>; expected = nc_fromBase64 nc hashRaw in
                if \<not> scrypt_params_ok params then Inr False
                else if expected = [] then Inr False
                else rbind (nc_scrypt nc password (nc_fromBase64 nc saltRaw) (length expected) params) (\<lambda>derived.
                  Inr (derived = expected)))
           | _ \<Rightarrow> Inr False)
      | _ \<Rightarrow> Inr False)"

section \<open>Accounts\<close>

record OperatorAccount =
  oa_email :: string
  oa_name :: string
  oa_passwordHash :: string
  oa_roles :: "Role list"

text \<open>What \<open>parseOperatorAccounts\<close> throws, with the index or the text its message names.\<close>

datatype account_error =
    NotJson string | NotArray | NotObject nat | BadEmail nat | DuplicateEmail string | BadName nat
  | BadHash nat | NoRoles nat | UnknownRole nat string

fun read_roles :: "nat \<Rightarrow> json list \<Rightarrow> account_error + Role list" where
  "read_roles index [] = Inr []"
| "read_roles index (v # vs) = (case role_json v of
     None \<Rightarrow> Inl (UnknownRole index (js_to_string v))
   | Some r \<Rightarrow> rbind (read_roles index vs) (\<lambda>rs. Inr (r # rs)))"

definition read_account :: "nat \<Rightarrow> string list \<Rightarrow> json \<Rightarrow> account_error + OperatorAccount" where
  "read_account index seen entry = (case entry of
     JObj es \<Rightarrow>
       (case map_of es ''email'' of
          Some (JStr email) \<Rightarrow>
            (if CHR ''@'' \<notin> set email then Inl (BadEmail index)
             else if toLowerCase email \<in> set seen then Inl (DuplicateEmail email)
             else (case map_of es ''name'' of
               Some (JStr name) \<Rightarrow>
                 (if trim name = [] then Inl (BadName index)
                  else (case map_of es ''passwordHash'' of
                    Some (JStr passwordHash) \<Rightarrow>
                      (if \<not> startsWith passwordHash ''scrypt$'' then Inl (BadHash index)
                       else (case map_of es ''roles'' of
                         Some (JArr roles) \<Rightarrow>
                           (if roles = [] then Inl (NoRoles index)
                            else rbind (read_roles index roles) (\<lambda>rs.
                              Inr \<lparr>oa_email = toLowerCase email, oa_name = name, oa_passwordHash = passwordHash, oa_roles = rs\<rparr>))
                       | _ \<Rightarrow> Inl (NoRoles index)))
                  | _ \<Rightarrow> Inl (BadHash index)))
             | _ \<Rightarrow> Inl (BadName index)))
        | _ \<Rightarrow> Inl (BadEmail index))
   | _ \<Rightarrow> Inl (NotObject index))"

fun read_accounts :: "nat \<Rightarrow> string list \<Rightarrow> json list \<Rightarrow> account_error + OperatorAccount list" where
  "read_accounts index seen [] = Inr []"
| "read_accounts index seen (entry # entries) =
     rbind (read_account index seen entry) (\<lambda>account.
     rbind (read_accounts (index + 1) (oa_email account # seen) entries) (\<lambda>accounts.
     Inr (account # accounts)))"

definition parseOperatorAccounts :: "(string \<Rightarrow> string) \<Rightarrow> string option \<Rightarrow> account_error + OperatorAccount list" where
  "parseOperatorAccounts cause raw = (case raw of
     None \<Rightarrow> Inr []
   | Some s \<Rightarrow>
      if trim s = [] then Inr []
      else (case json_parse s of
         None \<Rightarrow> Inl (NotJson (cause s))
       | Some (JArr entries) \<Rightarrow> read_accounts 0 [] entries
       | Some _ \<Rightarrow> Inl NotArray))"

definition findOperator :: "OperatorAccount list \<Rightarrow> string \<Rightarrow> OperatorAccount option" where
  "findOperator accounts email = List.find (\<lambda>a. oa_email a = toLowerCase (trim email)) accounts"

definition operatorAccounts :: "(string \<Rightarrow> string) \<Rightarrow> environment \<Rightarrow> account_error + OperatorAccount list" where
  "operatorAccounts cause env = parseOperatorAccounts cause (env ''OPERATOR_ACCOUNTS'')"

section \<open>A password opens its own hash\<close>

lemma btoa_no_dollar: "CHR ''$'' \<notin> set (btoa s)"
  using b64_text_plain [OF b64_body_text, of "CHR ''$''" s] by (auto simp: btoa_def padding_def)

lemma show_nat_no_dollar: "CHR ''$'' \<notin> set (show_nat n)"
  using all_digits_show_nat [of n] by (auto simp: all_digits_set is_digit_def)

lemma show_int_no_dollar: "CHR ''$'' \<notin> set (show_int n)"
  using show_nat_no_dollar by (simp add: show_int_def)

lemma split_hash:
  assumes "hashPassword nc password salt params = Inr stored"
  obtains derived where "nc_scrypt nc password salt KEY_BYTES params = Inr derived"
    "split_on (CHR ''$'') stored = [''scrypt'', show_int (sc_N params), show_int (sc_r params), show_int (sc_p params), btoa salt, btoa derived]"
proof -
  obtain derived where d: "nc_scrypt nc password salt KEY_BYTES params = Inr derived"
    "stored = join_on (CHR ''$'') [''scrypt'', show_int (sc_N params), show_int (sc_r params), show_int (sc_p params), btoa salt, btoa derived]"
    using assms by (auto simp: hashPassword_def result_simps)
  have "split_on (CHR ''$'') stored = [''scrypt'', show_int (sc_N params), show_int (sc_r params), show_int (sc_p params), btoa salt, btoa derived]"
    unfolding d(2) by (rule split_on_join_on) (simp_all add: btoa_no_dollar show_int_no_dollar)
  then show ?thesis using that d(1) by blast
qed

text \<open>
  a password opens its own hash and only keys that match it.  Where the runtime's reader
  inverts its writer and numbers read back, a hash made under legal costs verifies a password
  exactly when the derivation of that password under the same salt and costs gives the key that
  was stored; in particular the password it was made from is accepted.
\<close>

theorem password_opens_its_hash:
  assumes "hashPassword nc password salt params = Inr stored" "scrypt_params_ok params"
    and "\<forall>s. nc_fromBase64 nc (btoa s) = s" "\<forall>n. numberOf (show_int n) = Whole n"
    and "\<forall>pw s n q k. nc_scrypt nc pw s n q = Inr k \<longrightarrow> length k = n"
  shows "verifyPassword nc numberOf password stored = Inr True
    \<and> (\<forall>other. verifyPassword nc numberOf other stored = Inr True \<longleftrightarrow>
         nc_scrypt nc other salt KEY_BYTES params = nc_scrypt nc password salt KEY_BYTES params)"
proof -
  obtain derived where d: "nc_scrypt nc password salt KEY_BYTES params = Inr derived"
    "split_on (CHR ''$'') stored = [''scrypt'', show_int (sc_N params), show_int (sc_r params), show_int (sc_p params), btoa salt, btoa derived]"
    by (rule split_hash [OF assms(1)])
  have len: "length derived = KEY_BYTES" using assms(5) d(1) by blast
  then have ne: "derived \<noteq> []" by (auto simp: KEY_BYTES_def)
  have params: "\<lparr>sc_N = sc_N params, sc_r = sc_r params, sc_p = sc_p params\<rparr> = params" by (cases params) simp
  have v: "verifyPassword nc numberOf pw stored = rbind (nc_scrypt nc pw salt KEY_BYTES params) (\<lambda>k. Inr (k = derived))" for pw
    using assms(2-4) ne len by (simp add: verifyPassword_def d(2) params)
  show ?thesis unfolding v d(1) by (auto simp: result_simps)
qed

definition sample_node :: NodeCrypto where
  "sample_node = \<lparr>nc_scrypt = (\<lambda>pw salt n q. Inr (take n (pw @ salt @ replicate n (CHR ''x'')))),
     nc_fromBase64 = (\<lambda>s. option_or (atob s) [])\<rparr>"

definition sample_number :: "string \<Rightarrow> jsnum" where
  "sample_number s = (if is_int_text s then Whole (int_text_val s) else NotInteger s)"

lemma sample_node_laws:
  "\<forall>s. nc_fromBase64 sample_node (btoa s) = s" "\<forall>n. sample_number (show_int n) = Whole n"
  "\<forall>pw s n q k. nc_scrypt sample_node pw s n q = Inr k \<longrightarrow> length k = n"
  by (auto simp: sample_node_def sample_number_def atob_btoa)

theorem password_opens_its_hash_witness:
  "\<exists>stored. hashPassword sample_node ''pw'' ''salt'' SCRYPT_PARAMS = Inr stored
     \<and> verifyPassword sample_node sample_number ''pw'' stored = Inr True
     \<and> verifyPassword sample_node sample_number ''pv'' stored \<noteq> Inr True"
proof -
  obtain stored where st: "hashPassword sample_node ''pw'' ''salt'' SCRYPT_PARAMS = Inr stored"
    by (simp add: hashPassword_def sample_node_def)
  have ok: "scrypt_params_ok SCRYPT_PARAMS" by (simp add: scrypt_params_ok_def SCRYPT_PARAMS_def)
  have "nc_scrypt sample_node ''pv'' ''salt'' KEY_BYTES SCRYPT_PARAMS \<noteq> nc_scrypt sample_node ''pw'' ''salt'' KEY_BYTES SCRYPT_PARAMS"
    by (simp add: sample_node_def KEY_BYTES_def)
  then show ?thesis using password_opens_its_hash [OF st ok sample_node_laws] st by blast
qed

section \<open>Finding an operator\<close>

lemma read_roles_length: "read_roles index vs = Inr rs \<Longrightarrow> length rs = length vs"
  by (induction vs arbitrary: rs) (auto simp: result_simps split: option.splits)

lemma read_account_Inr:
  "read_account index seen entry = Inr a \<Longrightarrow> oa_email a \<notin> set seen \<and> toLowerCase (oa_email a) = oa_email a \<and> oa_roles a \<noteq> []"
  by (auto simp: read_account_def result_simps split: json.splits option.splits if_splits dest!: read_roles_length)

lemma read_accounts_Inr:
  "read_accounts index seen entries = Inr accounts \<Longrightarrow>
     distinct (map oa_email accounts) \<and> set (map oa_email accounts) \<inter> set seen = {}
     \<and> (\<forall>a\<in>set accounts. toLowerCase (oa_email a) = oa_email a \<and> oa_roles a \<noteq> [])"
proof (induction entries arbitrary: index seen accounts)
  case Nil
  then show ?case by simp
next
  case (Cons entry entries)
  obtain a as where a: "read_account index seen entry = Inr a" "read_accounts (index + 1) (oa_email a # seen) entries = Inr as"
    "accounts = a # as" using Cons.prems by (auto simp: result_simps)
  show ?case using Cons.IH [OF a(2)] read_account_Inr [OF a(1)] a(3) by auto
qed

lemma find_distinct:
  "distinct (map f xs) \<Longrightarrow> List.find (\<lambda>a. f a = k) xs = Some a \<longleftrightarrow> a \<in> set xs \<and> f a = k"
  by (induction xs) (auto simp: image_iff)

lemma lower_char_space: "is_space (lower_char c) = is_space c"
  by (auto simp: is_space_def lower_char_def of_char_of take_bit_eq_mod)

lemma trim_ends: "trim s = t \<Longrightarrow> t = [] \<or> (\<not> is_space (hd t) \<and> \<not> is_space (last t))"
proof -
  assume t: "trim s = t"
  let ?u = "dropWhile is_space s"
  have "t \<noteq> [] \<Longrightarrow> \<not> is_space (last t)"
    using t hd_dropWhile [of is_space "rev ?u"] by (auto simp: trim_def last_rev hd_rev)
  moreover have "t \<noteq> [] \<Longrightarrow> \<not> is_space (hd t)"
  proof -
    assume ne: "t \<noteq> []"
    obtain v where v: "?u = t @ v"
      using t takeWhile_dropWhile_id [of is_space "rev ?u"] unfolding trim_def by (metis rev_append rev_rev_ident)
    then have "?u \<noteq> []" "hd ?u = hd t" using ne by auto
    then show ?thesis using hd_dropWhile [of is_space s] by metis
  qed
  ultimately show ?thesis by blast
qed

lemma trim_lower: "trim (toLowerCase (trim s)) = toLowerCase (trim s)"
  using trim_ends [OF refl, of s] by (intro trim_id) (auto simp: toLowerCase_def hd_map last_map lower_char_space)

text \<open>
  an operator is found under one address.  The accounts of a configuration that parses have
  different lower-case addresses and a role each, and looking up an address finds exactly the
  account it spells after trimming and lower-casing; an account configured with surrounding
  space can therefore never be found.
\<close>

theorem operator_found_by_address:
  assumes "parseOperatorAccounts cause raw = Inr accounts"
  shows "(\<forall>email a. findOperator accounts email = Some a \<longleftrightarrow> a \<in> set accounts \<and> oa_email a = toLowerCase (trim email))
    \<and> distinct (map oa_email accounts) \<and> (\<forall>a\<in>set accounts. toLowerCase (oa_email a) = oa_email a \<and> oa_roles a \<noteq> [])
    \<and> (\<forall>a. trim (oa_email a) \<noteq> oa_email a \<longrightarrow> (\<forall>email. findOperator accounts email \<noteq> Some a))"
proof -
  have "accounts = [] \<or> (\<exists>entries. read_accounts 0 [] entries = Inr accounts)"
    using assms by (auto simp: parseOperatorAccounts_def split: option.splits if_splits json.splits)
  then have acc: "distinct (map oa_email accounts)" "\<forall>a\<in>set accounts. toLowerCase (oa_email a) = oa_email a \<and> oa_roles a \<noteq> []"
    using read_accounts_Inr by fastforce+
  have f: "findOperator accounts email = Some a \<longleftrightarrow> a \<in> set accounts \<and> oa_email a = toLowerCase (trim email)" for email a
    using find_distinct [OF acc(1)] by (simp add: findOperator_def)
  moreover have "findOperator accounts email \<noteq> Some a" if "trim (oa_email a) \<noteq> oa_email a" for email a
    using f that trim_lower by auto
  ultimately show ?thesis using acc by blast
qed

definition sample_accounts_text :: string where
  "sample_accounts_text = stringify (JArr [JObj [(''email'', JStr ''Ops@x.org''), (''name'', JStr ''Ops''),
     (''passwordHash'', JStr ''scrypt$2$1$1$QQ==$Qg==''), (''roles'', JArr [JStr ''operator''])]])"

definition sample_account :: OperatorAccount where
  "sample_account = \<lparr>oa_email = ''ops@x.org'', oa_name = ''Ops'', oa_passwordHash = ''scrypt$2$1$1$QQ==$Qg=='', oa_roles = [Operator]\<rparr>"

lemma sample_accounts_parsed: "parseOperatorAccounts (\<lambda>_. []) (Some sample_accounts_text) = Inr [sample_account]"
proof -
  have "trim sample_accounts_text \<noteq> []" by code_simp
  moreover have "json_parse sample_accounts_text = Some (JArr [JObj [(''email'', JStr ''Ops@x.org''), (''name'', JStr ''Ops''),
     (''passwordHash'', JStr ''scrypt$2$1$1$QQ==$Qg==''), (''roles'', JArr [JStr ''operator''])]])"
    unfolding sample_accounts_text_def by (rule json_parse_stringify) simp
  moreover have "toLowerCase ''Ops@x.org'' = ''ops@x.org''" "trim ''Ops'' \<noteq> []" "role_json (JStr ''operator'') = Some Operator" by code_simp+
  ultimately show ?thesis
    by (simp add: parseOperatorAccounts_def read_account_def sample_account_def startsWith_def)
qed

theorem operator_found_by_address_witness:
  "findOperator [sample_account] '' OPS@x.org'' = Some sample_account"
proof -
  have "oa_email sample_account = toLowerCase (trim '' OPS@x.org'')" by code_simp
  then show ?thesis using operator_found_by_address [OF sample_accounts_parsed] by simp
qed

end
