(* ===== verification/Throttle.thy ===== *)
theory Throttle
  imports Prelude
begin

text \<open>
  \<open>admin-web/src/lib/auth/throttle.ts\<close>: the failed sign-ins per key within a sliding window.
  Every operation prunes the entry of its key, so even a query writes.
\<close>

section \<open>Operations\<close>

record LoginThrottle =
  lt_maxFailures :: nat
  lt_windowMs :: int
  lt_failures :: "string \<Rightarrow> int list option"

definition new_LoginThrottle :: "nat option \<Rightarrow> int option \<Rightarrow> LoginThrottle" where
  "new_LoginThrottle maxFailures windowMs =
     \<lparr>lt_maxFailures = option_or maxFailures 5, lt_windowMs = option_or windowMs (15 * 60000), lt_failures = (\<lambda>_. None)\<rparr>"

definition recent :: "string \<Rightarrow> int \<Rightarrow> LoginThrottle \<Rightarrow> int list \<times> LoginThrottle" where
  "recent key now t =
     (let cutoff = now - lt_windowMs t;
          pruned = filter (\<lambda>at. at > cutoff) (option_or (lt_failures t key) [])
      in (pruned, t\<lparr>lt_failures := (lt_failures t)(key \<mapsto> pruned)\<rparr>))"

definition isLockedOut :: "string \<Rightarrow> int \<Rightarrow> LoginThrottle \<Rightarrow> bool \<times> LoginThrottle" where
  "isLockedOut key now t = (case recent key now t of (r, t') \<Rightarrow> (length r \<ge> lt_maxFailures t, t'))"

definition retryAfterSeconds :: "string \<Rightarrow> int \<Rightarrow> LoginThrottle \<Rightarrow> int \<times> LoginThrottle" where
  "retryAfterSeconds key now t = (case recent key now t of (r, t') \<Rightarrow>
     (if length r < lt_maxFailures t then 0
      else (case r of [] \<Rightarrow> 0 | oldest # _ \<Rightarrow> max 1 (ceil_seconds (oldest + lt_windowMs t - now))), t'))"

definition recordFailure :: "string \<Rightarrow> int \<Rightarrow> LoginThrottle \<Rightarrow> LoginThrottle" where
  "recordFailure key now t = (case recent key now t of (r, t') \<Rightarrow>
     t'\<lparr>lt_failures := (lt_failures t')(key \<mapsto> r @ [now])\<rparr>)"

definition recordSuccess :: "string \<Rightarrow> LoginThrottle \<Rightarrow> LoginThrottle" where
  "recordSuccess key t = t\<lparr>lt_failures := (lt_failures t)(key := None)\<rparr>"

section \<open>Histories\<close>

datatype throttle_op = Ask string int | AskDelay string int | Fail string int | Success string

fun apply_op :: "throttle_op \<Rightarrow> LoginThrottle \<Rightarrow> LoginThrottle" where
  "apply_op (Ask key now) t = snd (isLockedOut key now t)"
| "apply_op (AskDelay key now) t = snd (retryAfterSeconds key now t)"
| "apply_op (Fail key now) t = recordFailure key now t"
| "apply_op (Success key) t = recordSuccess key t"

fun op_time :: "throttle_op \<Rightarrow> int option" where
  "op_time (Ask key now) = Some now"
| "op_time (AskDelay key now) = Some now"
| "op_time (Fail key now) = Some now"
| "op_time (Success key) = None"

text \<open>The specification: the failures of a key since its last success, oldest first.\<close>

fun failures_of :: "string \<Rightarrow> throttle_op list \<Rightarrow> int list" where
  "failures_of key [] = []"
| "failures_of key (Fail k now # ops) = (if k = key then now # failures_of key ops else failures_of key ops)"
| "failures_of key (_ # ops) = failures_of key ops"

definition since_success :: "string \<Rightarrow> throttle_op list \<Rightarrow> throttle_op list" where
  "since_success key ops = rev (takeWhile (\<lambda>op. op \<noteq> Success key) (rev ops))"

definition open_failures :: "string \<Rightarrow> throttle_op list \<Rightarrow> int list" where
  "open_failures key ops = failures_of key (since_success key ops)"

definition run_throttle :: "throttle_op list \<Rightarrow> LoginThrottle \<Rightarrow> LoginThrottle" where
  "run_throttle ops t = foldl (\<lambda>t op. apply_op op t) t ops"

text \<open>Clock readings never go back.\<close>

definition in_time :: "throttle_op list \<Rightarrow> int \<Rightarrow> bool" where
  "in_time ops now \<longleftrightarrow> sorted (List.map_filter op_time ops @ [now])"

lemma failures_of_append: "failures_of key (ops @ qs) = failures_of key ops @ failures_of key qs"
  by (induction key ops rule: failures_of.induct) simp_all

lemma open_failures_snoc:
  "open_failures key (ops @ [op]) = (if op = Success key then [] else open_failures key ops @ failures_of key [op])"
  by (simp add: open_failures_def since_success_def failures_of_append)

lemma in_time_snoc:
  "in_time (ops @ [op]) now \<longleftrightarrow> (case op_time op of None \<Rightarrow> in_time ops now | Some t \<Rightarrow> in_time ops t \<and> t \<le> now)"
  by (auto simp: in_time_def map_filter_simps sorted_append split: option.split)
    (auto simp: List.map_filter_def sorted_append split: option.splits)

lemma filter_later: "a \<le> b \<Longrightarrow> filter (\<lambda>x. (b::int) < x) (filter (\<lambda>x. a < x) xs) = filter (\<lambda>x. b < x) xs"
  by (induction xs) auto

lemma run_throttle_config: "lt_maxFailures (run_throttle ops t) = lt_maxFailures t \<and> lt_windowMs (run_throttle ops t) = lt_windowMs t"
proof (induction ops rule: rev_induct)
  case (snoc op ops)
  then show ?case
    by (cases op) (simp_all add: run_throttle_def isLockedOut_def retryAfterSeconds_def recordFailure_def recordSuccess_def recent_def Let_def)
qed (simp add: run_throttle_def)

lemma in_time_later: "in_time ops a \<Longrightarrow> a \<le> b \<Longrightarrow> in_time ops b"
  by (force simp: in_time_def sorted_append)

definition within :: "int \<Rightarrow> int list \<Rightarrow> int list" where
  "within cutoff ats = filter (\<lambda>at. cutoff < at) ats"

lemma within_append: "within c (xs @ ys) = within c xs @ within c ys"
  by (simp add: within_def)

lemma recent_keeps:
  assumes "at \<le> now" "lt_windowMs s = w"
  shows "within (now - w) (option_or (lt_failures (snd (recent k at s)) key) []) = within (now - w) (option_or (lt_failures s key) [])"
proof (cases "key = k")
  case True
  have "at - w \<le> now - w" using assms(1) by simp
  from filter_later [OF this] show ?thesis
    using True assms(2) by (simp add: recent_def Let_def within_def del: filter_filter)
qed (simp add: recent_def Let_def)

lemma stored_failures:
  assumes "in_time ops now" "\<forall>k. lt_failures t k = None"
  shows "within (now - lt_windowMs t) (option_or (lt_failures (run_throttle ops t) key) [])
    = within (now - lt_windowMs t) (open_failures key ops)"
  using assms(1)
proof (induction ops arbitrary: now rule: rev_induct)
  case Nil
  then show ?case using assms(2) by (simp add: run_throttle_def open_failures_def since_success_def)
next
  case (snoc op ops)
  let ?s = "run_throttle ops t"
  have w: "lt_windowMs ?s = lt_windowMs t" using run_throttle_config by blast
  have step: "run_throttle (ops @ [op]) t = apply_op op ?s" by (simp add: run_throttle_def)
  have timed: "in_time ops now \<and> at \<le> now" if "op_time op = Some at" for at
    using snoc.prems that in_time_later by (auto simp: in_time_snoc)
  show ?case
  proof (cases op)
    case (Success k)
    then have "in_time ops now" using snoc.prems by (simp add: in_time_snoc)
    then show ?thesis using snoc.IH unfolding step open_failures_snoc unfolding Success by (simp add: recordSuccess_def)
  next
    case (Fail k at)
    then have "within (now - lt_windowMs t) (option_or (lt_failures (snd (recent k at ?s)) key) [])
        = within (now - lt_windowMs t) (open_failures key ops)"
      using timed recent_keeps [OF _ w] snoc.IH by simp
    then show ?thesis unfolding step open_failures_snoc unfolding Fail
      by (cases "k = key") (simp_all add: recordFailure_def recent_def Let_def within_append)
  next
    case (Ask k at)
    then show ?thesis using timed recent_keeps [OF _ w] snoc.IH unfolding step open_failures_snoc unfolding Ask
      by (simp add: isLockedOut_def split_beta)
  next
    case (AskDelay k at)
    then show ?thesis using timed recent_keeps [OF _ w] snoc.IH unfolding step open_failures_snoc unfolding AskDelay
      by (simp add: retryAfterSeconds_def split_beta)
  qed
qed

text \<open>
  C20: the throttle counts exactly the recent failures.  After any history of queries, failures
  and successes at times that do not go back, on any keys, a key is locked out exactly when the
  failures since its last success that are younger than the window reach the limit; and a
  locked key is told to wait until the oldest of them leaves the window.
\<close>

theorem throttle_counts_recent_failures:
  assumes "in_time ops now" "t = run_throttle ops (new_LoginThrottle (Some limit) (Some w))" "0 < limit"
  shows "(fst (isLockedOut key now t) \<longleftrightarrow> limit \<le> length (within (now - w) (open_failures key ops)))
    \<and> fst (retryAfterSeconds key now t) = (if limit \<le> length (within (now - w) (open_failures key ops))
         then max 1 (ceil_seconds (hd (within (now - w) (open_failures key ops)) + w - now)) else 0)"
proof -
  have c: "lt_maxFailures t = limit" "lt_windowMs t = w"
    using run_throttle_config by (simp_all add: assms(2) new_LoginThrottle_def)
  have f: "fst (recent key now t) = within (now - w) (open_failures key ops)"
    using stored_failures [OF assms(1), of "new_LoginThrottle (Some limit) (Some w)" key] c(2)
    by (simp add: recent_def Let_def within_def assms(2) new_LoginThrottle_def)
  then have "fst (isLockedOut key now t) \<longleftrightarrow> limit \<le> length (within (now - w) (open_failures key ops))"
    using c by (simp add: isLockedOut_def split_beta)
  moreover have "fst (retryAfterSeconds key now t) = (if limit \<le> length (within (now - w) (open_failures key ops))
         then max 1 (ceil_seconds (hd (within (now - w) (open_failures key ops)) + w - now)) else 0)"
    using f c assms(3) by (cases "within (now - w) (open_failures key ops)") (simp_all add: retryAfterSeconds_def split_beta)
  ultimately show ?thesis by simp
qed

theorem throttle_counts_recent_failures_witness:
  "fst (isLockedOut ''a|1.2.3.4'' 500 (run_throttle
     [Fail ''a|1.2.3.4'' 10, Success ''a|1.2.3.4'', Fail ''a|1.2.3.4'' 20, Fail ''b|'' 30, Fail ''a|1.2.3.4'' 400] (new_LoginThrottle (Some 2) (Some 900))))
   \<and> fst (retryAfterSeconds ''a|1.2.3.4'' 500 (run_throttle
     [Fail ''a|1.2.3.4'' 10, Success ''a|1.2.3.4'', Fail ''a|1.2.3.4'' 20, Fail ''b|'' 30, Fail ''a|1.2.3.4'' 400] (new_LoginThrottle (Some 2) (Some 900)))) = 1"
proof -
  let ?ops = "[Fail ''a|1.2.3.4'' 10, Success ''a|1.2.3.4'', Fail ''a|1.2.3.4'' 20, Fail ''b|'' 30, Fail ''a|1.2.3.4'' 400]"
  have i: "in_time ?ops 500" by (simp add: in_time_def List.map_filter_def)
  have f: "within (500 - 900) (open_failures ''a|1.2.3.4'' ?ops) = [20, 400]"
    by (simp add: within_def open_failures_def since_success_def)
  show ?thesis
    using throttle_counts_recent_failures [OF i refl, of 2 "''a|1.2.3.4''" 900] unfolding f by (simp add: ceil_seconds_def)
qed

end
