(* ===== verification/ConsoleApi.thy ===== *)
theory ConsoleApi
  imports Policy Accounts Throttle Effects
begin

text \<open>
  The console's doors: \<open>admin-web/src/proxy.ts\<close>, which decides whether a request reaches the
  application, the sign-in and sign-out routes, and the route that forwards to the backend.  One
  instant stands for every reading of the clock within a request; the backend is the function
  \<open>fetch\<close> from a forwarded request to its answer.
\<close>

section \<open>Responses\<close>

record ConsoleResponse =
  cr_response :: Response
  cr_cookies :: "(string \<times> string \<times> CookieOptions) list"

definition jsonError :: "string \<Rightarrow> string \<Rightarrow> nat \<Rightarrow> Response" where
  "jsonError code message status = res_status_json status (JObj [(''error'', JObj [(''code'', JStr code), (''message'', JStr message)])])"

definition plain :: "Response \<Rightarrow> ConsoleResponse" where
  "plain r = \<lparr>cr_response = r, cr_cookies = []\<rparr>"

definition forbidden_message :: "MutationPolicy \<Rightarrow> string" where
  "forbidden_message policy = ''Your role cannot '' @ mp_operation policy @ ''. Ask an administrator for the ''
     @ permissionName (mp_permission policy) @ '' permission.''"

section \<open>The gate\<close>

text \<open>\<open>NextResponse.next()\<close>, an answer, or a redirect to a path with an optional \<open>next\<close> parameter.\<close>

datatype verdict = PassOn | Answer Response | RedirectTo string "string option"

definition PUBLIC_PATHS :: "string list" where
  "PUBLIC_PATHS = [''/login'', ''/api/auth/login'', ''/api/auth/logout'']"

record GateRequest =
  gr_method :: string
  gr_pathname :: string
  gr_search :: string
  gr_nextParam :: "string option"
  gr_token :: "string option"

definition loginRedirect :: "GateRequest \<Rightarrow> verdict" where
  "loginRedirect request =
     (let destination = gr_pathname request @ gr_search request
      in RedirectTo ''/login'' (if destination \<noteq> ''/'' then Some destination else None))"

definition path_segments :: "string \<Rightarrow> string list" where
  "path_segments pathname = drop 2 (filter (\<lambda>s. s \<noteq> []) (split_on (CHR ''/'') pathname))"

definition proxy :: "WebCrypto \<Rightarrow> environment \<Rightarrow> int \<Rightarrow> GateRequest \<Rightarrow> verdict" where
  "proxy wc env now request =
     (let pathname = gr_pathname request in
      case sessionSecret env of
        Inl message \<Rightarrow> Answer (jsonError ''CONSOLE_MISCONFIGURED'' message 500)
      | Inr secret \<Rightarrow>
         (let session = verifySession wc (gr_token request) secret now in
          if pathname \<in> set PUBLIC_PATHS then
            (if pathname = ''/login'' \<and> session \<noteq> None
             then RedirectTo (hd (split_on (CHR ''?'') (safeNextPath (gr_nextParam request)))) None
             else PassOn)
          else (case session of
             None \<Rightarrow>
               if startsWith pathname ''/api/'' then Answer (jsonError ''UNAUTHORIZED'' ''Sign in to use the operator console.'' 401)
               else loginRedirect request
           | Some s \<Rightarrow>
               if gr_method request = ''POST'' \<and> startsWith pathname ''/api/backend/'' then
                 (case policyForMutation (path_segments pathname) of
                    None \<Rightarrow> Answer (jsonError ''FORBIDDEN'' ''This action has no authorisation policy, so it is refused.'' 403)
                  | Some policy \<Rightarrow>
                      if \<not> may (sp_roles s) (mp_permission policy)
                      then Answer (jsonError ''FORBIDDEN'' (forbidden_message policy) 403)
                      else PassOn)
               else PassOn)))"

section \<open>Forwarding\<close>

record Forwarded =
  fw_target :: string
  fw_method :: string
  fw_body :: "string option"
  fw_operator :: "string option"

text \<open>The text, status and content type the backend answers with, passed on; or a rendered answer.\<close>

datatype route_response = Rendered Response | PassedText nat string string

definition API_BASE :: "environment \<Rightarrow> string" where
  "API_BASE env = rev (dropWhile (\<lambda>c. c = CHR ''/'') (rev (option_or (env ''REMITBRIDGE_API_URL'') ''http://localhost:4000'')))"

type_synonym fetcher = "Forwarded \<Rightarrow> string + nat \<times> string option \<times> string"

definition forward :: "environment \<Rightarrow> fetcher \<Rightarrow> string \<Rightarrow> string \<Rightarrow> string option \<Rightarrow> string option \<Rightarrow> (Forwarded list, route_response) act" where
  "forward env fetch path method body caller =
     (let request = \<lparr>fw_target = API_BASE env @ path, fw_method = method, fw_body = body, fw_operator = caller\<rparr> in
      andThen (modify_state (\<lambda>sent. sent @ [request])) (\<lambda>_.
      ret (case fetch request of
        Inr (status, contentType, text) \<Rightarrow> PassedText status (option_or contentType ''application/json'') text
      | Inl message \<Rightarrow> Rendered (jsonError ''UPSTREAM_UNREACHABLE'' message 502))))"

definition authorisedCaller :: "WebCrypto \<Rightarrow> environment \<Rightarrow> int \<Rightarrow> string option \<Rightarrow> string option" where
  "authorisedCaller wc env now token = (case sessionSecret env of
     Inl _ \<Rightarrow> None
   | Inr secret \<Rightarrow> map_option sp_sub (verifySession wc token secret now))"

definition unauthorized_response :: route_response where
  "unauthorized_response = Rendered (jsonError ''UNAUTHORIZED'' ''Sign in to use the operator console.'' 401)"

definition backend_path :: "string list \<Rightarrow> string \<Rightarrow> string" where
  "backend_path path search = ''/api/v1/'' @ join_on (CHR ''/'') path @ search"

definition backend_get ::
  "WebCrypto \<Rightarrow> environment \<Rightarrow> fetcher \<Rightarrow> int \<Rightarrow> string option \<Rightarrow> string list \<Rightarrow> string \<Rightarrow> (Forwarded list, route_response) act" where
  "backend_get wc env fetch now token path search =
     (if authorisedCaller wc env now token = None then ret unauthorized_response
      else forward env fetch (backend_path path search) ''GET'' None None)"

definition backend_post ::
  "WebCrypto \<Rightarrow> environment \<Rightarrow> fetcher \<Rightarrow> int \<Rightarrow> string option \<Rightarrow> string list \<Rightarrow> string \<Rightarrow> string \<Rightarrow> (Forwarded list, route_response) act" where
  "backend_post wc env fetch now token path search text =
     (case authorisedCaller wc env now token of
        None \<Rightarrow> ret unauthorized_response
      | Some caller \<Rightarrow>
         (case policyForMutation path of
            None \<Rightarrow> ret (Rendered (jsonError ''FORBIDDEN'' ''This action has no authorisation policy, so it is refused.'' 403))
          | Some policy \<Rightarrow>
             (case sessionSecret env of
                Inl message \<Rightarrow> throw (PlainErr message)
              | Inr secret \<Rightarrow>
                  (case verifySession wc token secret now of
                     Some session \<Rightarrow>
                       if \<not> may (sp_roles session) (mp_permission policy)
                       then ret (Rendered (jsonError ''FORBIDDEN'' (forbidden_message policy) 403))
                       else forward env fetch (backend_path path search) ''POST''
                         (Some (withOperatorAttribution text policy caller)) (Some caller)
                   | None \<Rightarrow> ret (Rendered (jsonError ''FORBIDDEN'' (forbidden_message policy) 403))))))"

section \<open>Server components\<close>

definition currentSession :: "WebCrypto \<Rightarrow> environment \<Rightarrow> int \<Rightarrow> string option \<Rightarrow> SessionPayload option" where
  "currentSession wc env now token = (case sessionSecret env of Inl _ \<Rightarrow> None | Inr secret \<Rightarrow> verifySession wc token secret now)"

definition currentOperatorCan :: "WebCrypto \<Rightarrow> environment \<Rightarrow> int \<Rightarrow> string option \<Rightarrow> Permission \<Rightarrow> bool" where
  "currentOperatorCan wc env now token permission = (case currentSession wc env now token of
     None \<Rightarrow> False | Some s \<Rightarrow> may (sp_roles s) permission)"

section \<open>Signing in and out\<close>

record LoginRequest =
  lr_body :: string
  lr_forwardedFor :: "string option"
  lr_forwardedProto :: "string option"
  lr_protocol :: string

text \<open>What the sign-in depends on, \<open>lg_dummyHash\<close> being the hash of a made-up password.\<close>

record LoginDeps =
  lg_web :: WebCrypto
  lg_node :: NodeCrypto
  lg_numberOf :: "string \<Rightarrow> jsnum"
  lg_cause :: "string \<Rightarrow> string"
  lg_env :: environment
  lg_dummyHash :: string

definition credentialsSchema :: "json \<Rightarrow> (string \<times> string) option" where
  "credentialsSchema v = (case (required (string_min 1) ''email'' v, required (string_min 1) ''password'' v) of
     (Some e, Some p) \<Rightarrow> Some (e, p) | _ \<Rightarrow> None)"

definition failure_response :: Response where
  "failure_response = jsonError ''INVALID_CREDENTIALS'' ''Email or password is incorrect.'' 401"

definition clientKey :: "LoginRequest \<Rightarrow> string \<Rightarrow> string" where
  "clientKey request email =
     toLowerCase (trim email) @ ''|'' @ trim (hd (split_on (CHR '','') (option_or (lr_forwardedFor request) [])))"

definition locked_response :: "int \<Rightarrow> Response" where
  "locked_response seconds =
     (jsonError ''TOO_MANY_ATTEMPTS'' ''Too many failed attempts. Try again shortly.'' 429)\<lparr>res_headers := [(''retry-after'', show_int seconds)]\<rparr>"

definition session_response :: "LoginDeps \<Rightarrow> LoginRequest \<Rightarrow> OperatorAccount \<Rightarrow> string \<Rightarrow> int \<Rightarrow> ConsoleResponse" where
  "session_response d request account secret now =
     (let ttl = sessionTtlMinutes (lg_numberOf d) (lg_env d);
          payload = buildSessionPayload (oa_email account) (oa_name account) (oa_roles account) ttl now
      in \<lparr>cr_response = res_json (JObj [(''operator'', JObj [(''email'', JStr (sp_sub payload)), (''name'', JStr (sp_name payload)),
            (''roles'', JArr (map (\<lambda>r. JStr (roleName r)) (sp_roles payload)))])]),
          cr_cookies = [(SESSION_COOKIE, signSession (lg_web d) payload secret,
            sessionCookieOptions ttl (requestUsesHttps (lr_protocol request) (lr_forwardedProto request)))]\<rparr>)"

text \<open>The errors that leave the handler: an account configuration that does not parse, or a refused derivation.\<close>

datatype login_error = BadAccounts account_error | Scrypt failure

definition check_password :: "LoginDeps \<Rightarrow> string \<Rightarrow> OperatorAccount option \<Rightarrow> login_error + bool" where
  "check_password d password account =
     (case verifyPassword (lg_node d) (lg_numberOf d) password (case account of None \<Rightarrow> lg_dummyHash d | Some a \<Rightarrow> oa_passwordHash a) of
        Inl e \<Rightarrow> Inl (Scrypt e) | Inr ok \<Rightarrow> Inr ok)"

definition sign_in :: "LoginDeps \<Rightarrow> LoginRequest \<Rightarrow> int \<Rightarrow> string \<Rightarrow> string \<Rightarrow> LoginThrottle \<Rightarrow> (login_error + ConsoleResponse) \<times> LoginThrottle" where
  "sign_in d request now email password throttle =
     (case operatorAccounts (lg_cause d) (lg_env d) of
        Inl e \<Rightarrow> (Inl (BadAccounts e), throttle)
      | Inr accounts \<Rightarrow>
         (let account = findOperator accounts email; key = clientKey request email in
          case check_password d password account of
            Inl e \<Rightarrow> (Inl e, throttle)
          | Inr passwordOk \<Rightarrow>
             (case account of
                None \<Rightarrow> (Inr (plain failure_response), recordFailure key now throttle)
              | Some a \<Rightarrow>
                  if \<not> passwordOk then (Inr (plain failure_response), recordFailure key now throttle)
                  else (case sessionSecret (lg_env d) of
                     Inl message \<Rightarrow> (Inr (plain (jsonError ''CONSOLE_MISCONFIGURED'' message 500)), throttle)
                   | Inr secret \<Rightarrow> (Inr (session_response d request a secret now), recordSuccess key throttle)))))"

definition login :: "LoginDeps \<Rightarrow> LoginRequest \<Rightarrow> int \<Rightarrow> LoginThrottle \<Rightarrow> (login_error + ConsoleResponse) \<times> LoginThrottle" where
  "login d request now throttle =
     (case credentialsSchema (option_or (json_parse (lr_body request)) JNull) of
        None \<Rightarrow> (Inr (plain (jsonError ''VALIDATION_FAILED'' ''An email and a password are required.'' 400)), throttle)
      | Some (email, password) \<Rightarrow>
         (let key = clientKey request email in
          case isLockedOut key now throttle of (locked, throttle1) \<Rightarrow>
            if locked then
              (case retryAfterSeconds key now throttle1 of (seconds, throttle2) \<Rightarrow> (Inr (plain (locked_response seconds)), throttle2))
            else sign_in d request now email password throttle1))"

definition logout :: "LoginRequest \<Rightarrow> ConsoleResponse" where
  "logout request = \<lparr>cr_response = res_json (JObj [(''ok'', JBool True)]),
     cr_cookies = [(SESSION_COOKIE, [], sessionCookieOptions 0 (requestUsesHttps (lr_protocol request) (lr_forwardedProto request)))]\<rparr>"

section \<open>What the doors let through\<close>

text \<open>
  C2: nothing is forwarded without a permission.  However a mutation request ends, at most one
  request is sent on; if one is, the cookie is a session signed and current under the console's
  secret, the path has a policy, the session's roles hold its permission, and what is sent goes
  to the configured backend in the name of the session's operator, its audit fields rewritten
  for that operator.
\<close>

theorem only_authorised_mutations_are_forwarded:
  assumes "backend_post wc env fetch now token path search text sent = (r, sent')"
  shows "sent' = sent \<or> (\<exists>secret session policy. sessionSecret env = Inr secret
      \<and> verifySession wc token secret now = Some session
      \<and> policyForMutation path = Some policy \<and> may (sp_roles session) (mp_permission policy)
      \<and> sent' = sent @ [\<lparr>fw_target = API_BASE env @ ''/api/v1/'' @ join_on (CHR ''/'') path @ search, fw_method = ''POST'',
           fw_body = Some (withOperatorAttribution text policy (sp_sub session)), fw_operator = Some (sp_sub session)\<rparr>])"
  using assms
  by (auto simp: backend_post_def authorisedCaller_def forward_def backend_path_def Let_def act_iffs
      split: option.splits sum.splits if_splits)

definition sample_console_env :: environment where
  "sample_console_env = [''OPERATOR_SESSION_SECRET'' \<mapsto> replicate 32 (CHR ''k'')]"

definition sample_token :: "Role \<Rightarrow> string" where
  "sample_token r = signSession sample_crypto (buildSessionPayload ''ops@x.org'' ''Ops'' [r] 480 1000000) (replicate 32 (CHR ''k''))"

lemma sample_session:
  "sessionSecret sample_console_env = Inr (replicate 32 (CHR ''k''))"
  "verifySession sample_crypto (Some (sample_token r)) (replicate 32 (CHR ''k'')) 1000000
     = Some \<lparr>sp_sub = ''ops@x.org'', sp_name = ''Ops'', sp_roles = [r], sp_iat = 1000, sp_exp = 29800\<rparr>"
proof -
  show "sessionSecret sample_console_env = Inr (replicate 32 (CHR ''k''))"
    by (simp add: sessionSecret_def sample_console_env_def MIN_SECRET_LENGTH_def)
  have c: "\<forall>s. wc_decode sample_crypto (utf8_encode s) = s" by (simp add: sample_crypto_def utf8_decode_encode)
  have t: "trim ''ops@x.org'' \<noteq> []" "toLowerCase (trim ''ops@x.org'') = ''ops@x.org''" by code_simp+
  show "verifySession sample_crypto (Some (sample_token r)) (replicate 32 (CHR ''k'')) 1000000
     = Some \<lparr>sp_sub = ''ops@x.org'', sp_name = ''Ops'', sp_roles = [r], sp_iat = 1000, sp_exp = 29800\<rparr>"
    using issued_session [OF c t(1), of "''Ops''" 1000000 480 "[r]" "replicate 32 (CHR ''k'')" 1000000] t(2)
    by (simp add: sample_token_def MAX_SAFE_INTEGER_def)
qed

definition sample_post :: "Role \<Rightarrow> (failure + route_response) \<times> Forwarded list" where
  "sample_post r = backend_post sample_crypto sample_console_env (\<lambda>_. Inr (200, None, ''{}'')) 1000000 (Some (sample_token r))
     [''agents'', ''liquidity'', ''sweep''] [] ''{}'' []"

lemma sample_policy:
  "policyForMutation [''agents'', ''liquidity'', ''sweep''] = Some \<lparr>mp_permission = Sweep, mp_auditFields = [], mp_operation = ''run a liquidity sweep''\<rparr>"
  by code_simp

theorem only_authorised_mutations_are_forwarded_witness:
  "snd (sample_post Viewer) = [] \<and> map fw_operator (snd (sample_post Operator)) = [Some ''ops@x.org'']"
proof -
  obtain r sent where run: "sample_post Viewer = (r, sent)" by (cases "sample_post Viewer")
  have "sent = []"
    using only_authorised_mutations_are_forwarded [OF run [unfolded sample_post_def]] sample_policy
    by (auto simp: sample_session may_iff)
  moreover have "map fw_operator (snd (sample_post Operator)) = [Some ''ops@x.org'']"
    by (simp add: sample_post_def backend_post_def authorisedCaller_def sample_session sample_policy may_iff forward_def Let_def act_simps)
  ultimately show ?thesis using run by simp
qed

lemma proxy_PassOn:
  "proxy wc env now request = PassOn \<longleftrightarrow>
     (\<exists>secret. sessionSecret env = Inr secret \<and>
       (case verifySession wc (gr_token request) secret now of
          None \<Rightarrow> gr_pathname request \<in> set PUBLIC_PATHS
        | Some session \<Rightarrow> gr_pathname request \<noteq> ''/login'' \<and>
            (gr_pathname request \<in> set PUBLIC_PATHS \<or> gr_method request \<noteq> ''POST'' \<or> \<not> startsWith (gr_pathname request) ''/api/backend/''
             \<or> (\<exists>policy. policyForMutation (path_segments (gr_pathname request)) = Some policy \<and> may (sp_roles session) (mp_permission policy)))))"
  by (auto simp: proxy_def Let_def loginRedirect_def PUBLIC_PATHS_def split: sum.splits option.splits)



abbreviation credentials :: "LoginRequest \<Rightarrow> (string \<times> string) option" where
  "credentials request \<equiv> credentialsSchema (option_or (json_parse (lr_body request)) JNull)"

lemma cookies_simps [simp]:
  "cr_cookies (plain r) = []" "cr_cookies (session_response d request a secret now) \<noteq> []"
  by (simp_all add: plain_def session_response_def Let_def)

lemma sign_in_cookie:
  assumes "sign_in d request now email password t = (Inr r, t')" "cr_cookies r \<noteq> []" "operatorAccounts (lg_cause d) (lg_env d) = Inr accounts"
  shows "\<exists>a secret. findOperator accounts email = Some a
    \<and> verifyPassword (lg_node d) (lg_numberOf d) password (oa_passwordHash a) = Inr True
    \<and> sessionSecret (lg_env d) = Inr secret \<and> r = session_response d request a secret now \<and> t' = recordSuccess (clientKey request email) t"
  using assms
  by (cases "findOperator accounts email"; cases "check_password d password (findOperator accounts email)"; cases "sessionSecret (lg_env d)")
    (auto simp: sign_in_def Let_def check_password_def split: sum.splits if_splits)

lemma sign_in_refused:
  assumes "operatorAccounts (lg_cause d) (lg_env d) = Inr accounts" "check_password d password (findOperator accounts email) = Inr ok"
    and "findOperator accounts email = None \<or> \<not> ok"
  shows "sign_in d request now email password t = (Inr (plain failure_response), recordFailure (clientKey request email) now t)"
  using assms by (auto simp: sign_in_def Let_def split: option.split)

lemma login_unlocked:
  "credentials request = Some (email, password) \<Longrightarrow> \<not> fst (isLockedOut (clientKey request email) now t) \<Longrightarrow>
     login d request now t = sign_in d request now email password (snd (isLockedOut (clientKey request email) now t))"
  by (simp add: login_def Let_def split_beta)

lemma login_cookie:
  assumes "login d request now t = (Inr r, t')" "cr_cookies r \<noteq> []"
  shows "\<exists>email password. credentials request = Some (email, password) \<and> \<not> fst (isLockedOut (clientKey request email) now t)"
  using assms by (cases "credentials request") (auto simp: login_def Let_def split_beta split: if_splits)

text \<open>
  C18: a session has to be earned, and refusals tell nothing.  A sign-in sets a cookie only for an
  operator of the configuration whose stored hash the password verifies against, from a key that
  is not locked out, and the cookie is the signed session of that account and its roles; and
  outside a lockout an unknown address and a wrong password get the same answer and count as
  one failure of the key each.
\<close>

theorem sessions_are_earned:
  assumes "login d request now t = (Inr r, t')" "operatorAccounts (lg_cause d) (lg_env d) = Inr accounts"
  shows "(cr_cookies r \<noteq> [] \<longrightarrow> (\<exists>email password a secret. credentials request = Some (email, password)
        \<and> \<not> fst (isLockedOut (clientKey request email) now t)
        \<and> a \<in> set accounts \<and> oa_email a = toLowerCase (trim email)
        \<and> verifyPassword (lg_node d) (lg_numberOf d) password (oa_passwordHash a) = Inr True
        \<and> sessionSecret (lg_env d) = Inr secret \<and> r = session_response d request a secret now))
    \<and> (\<forall>email password. credentials request = Some (email, password) \<longrightarrow> \<not> fst (isLockedOut (clientKey request email) now t) \<longrightarrow>
        findOperator accounts email = None \<or> check_password d password (findOperator accounts email) = Inr False \<longrightarrow>
        r = plain failure_response
          \<and> t' = recordFailure (clientKey request email) now (snd (isLockedOut (clientKey request email) now t)))"
proof (intro conjI impI allI)
  assume c: "cr_cookies r \<noteq> []"
  obtain email password where e: "credentials request = Some (email, password)" "\<not> fst (isLockedOut (clientKey request email) now t)"
    using login_cookie [OF assms(1) c] by blast
  have "sign_in d request now email password (snd (isLockedOut (clientKey request email) now t)) = (Inr r, t')"
    using assms(1) login_unlocked [OF e] by simp
  then obtain a secret where a: "findOperator accounts email = Some a"
    "verifyPassword (lg_node d) (lg_numberOf d) password (oa_passwordHash a) = Inr True"
    "sessionSecret (lg_env d) = Inr secret" "r = session_response d request a secret now"
    using sign_in_cookie [OF _ c assms(2)] by blast
  then have "a \<in> set accounts" "oa_email a = toLowerCase (trim email)" by (auto simp: findOperator_def find_Some_iff)
  then show "\<exists>email password a secret. credentials request = Some (email, password)
        \<and> \<not> fst (isLockedOut (clientKey request email) now t)
        \<and> a \<in> set accounts \<and> oa_email a = toLowerCase (trim email)
        \<and> verifyPassword (lg_node d) (lg_numberOf d) password (oa_passwordHash a) = Inr True
        \<and> sessionSecret (lg_env d) = Inr secret \<and> r = session_response d request a secret now"
    using e a by blast
next
  fix email password
  assume e: "credentials request = Some (email, password)" "\<not> fst (isLockedOut (clientKey request email) now t)"
    and refused: "findOperator accounts email = None \<or> check_password d password (findOperator accounts email) = Inr False"
  have run: "sign_in d request now email password (snd (isLockedOut (clientKey request email) now t)) = (Inr r, t')"
    using assms(1) login_unlocked [OF e] by simp
  then obtain ok where "check_password d password (findOperator accounts email) = Inr ok"
    using assms(2) by (cases "check_password d password (findOperator accounts email)") (simp_all add: sign_in_def Let_def)
  then have "sign_in d request now email password (snd (isLockedOut (clientKey request email) now t))
      = (Inr (plain failure_response), recordFailure (clientKey request email) now (snd (isLockedOut (clientKey request email) now t)))"
    using sign_in_refused [OF assms(2)] refused by auto
  then show "r = plain failure_response" "t' = recordFailure (clientKey request email) now (snd (isLockedOut (clientKey request email) now t))"
    using run by simp_all
qed

definition sample_login :: LoginDeps where
  "sample_login = \<lparr>lg_web = sample_crypto, lg_node = sample_node, lg_numberOf = sample_number, lg_cause = (\<lambda>_. []),
     lg_env = sample_console_env(''OPERATOR_ACCOUNTS'' \<mapsto> sample_accounts_text), lg_dummyHash = ''scrypt''\<rparr>"

definition sample_attempt :: LoginRequest where
  "sample_attempt = \<lparr>lr_body = stringify (JObj [(''email'', JStr ''nobody@x.org''), (''password'', JStr ''pw'')]),
     lr_forwardedFor = None, lr_forwardedProto = None, lr_protocol = ''http:''\<rparr>"

theorem sessions_are_earned_witness:
  "fst (login sample_login sample_attempt 1000 (new_LoginThrottle None None)) = Inr (plain failure_response)
   \<and> lt_failures (snd (login sample_login sample_attempt 1000 (new_LoginThrottle None None))) ''nobody@x.org|'' = Some [1000]"
proof -
  let ?t = "new_LoginThrottle None None"
  have body: "credentials sample_attempt = Some (''nobody@x.org'', ''pw'')"
  proof -
    have "json_parse (lr_body sample_attempt) = Some (JObj [(''email'', JStr ''nobody@x.org''), (''password'', JStr ''pw'')])"
      unfolding sample_attempt_def LoginRequest.select_convs by (rule json_parse_stringify) simp
    then show ?thesis by (simp add: credentialsSchema_def required_def jget_def string_min_def)
  qed
  have key: "clientKey sample_attempt ''nobody@x.org'' = ''nobody@x.org|''" unfolding clientKey_def sample_attempt_def by code_simp
  have unlocked: "\<not> fst (isLockedOut (clientKey sample_attempt ''nobody@x.org'') 1000 ?t)"
    by (simp add: isLockedOut_def recent_def new_LoginThrottle_def Let_def)
  have accounts: "operatorAccounts (lg_cause sample_login) (lg_env sample_login) = Inr [sample_account]"
    by (simp add: operatorAccounts_def sample_login_def sample_accounts_parsed)
  have none: "findOperator [sample_account] ''nobody@x.org'' = None" by code_simp
  have "split_on (CHR ''$'') ''scrypt'' = [''scrypt'']" by simp
  then have check: "check_password sample_login ''pw'' None = Inr False"
    by (simp add: check_password_def sample_login_def verifyPassword_def)
  have "login sample_login sample_attempt 1000 ?t = (Inr (plain failure_response),
      recordFailure (clientKey sample_attempt ''nobody@x.org'') 1000 (snd (isLockedOut (clientKey sample_attempt ''nobody@x.org'') 1000 ?t)))"
    unfolding login_unlocked [OF body unlocked]
    by (rule sign_in_refused [OF accounts check [folded none]]) (rule disjI1 [OF none])
  then obtain r t' where run: "login sample_login sample_attempt 1000 ?t = (Inr r, t')" by blast
  have "r = plain failure_response" "t' = recordFailure ''nobody@x.org|'' 1000 (snd (isLockedOut ''nobody@x.org|'' 1000 ?t))"
    using conjunct2 [OF sessions_are_earned [OF run accounts], rule_format, OF body unlocked disjI1 [OF none]]
    unfolding key by (rule conjunct1, rule conjunct2)
  then show ?thesis unfolding run by (simp add: recordFailure_def isLockedOut_def recent_def new_LoginThrottle_def Let_def)
qed

end
