(* ===== verification/Schema.thy ===== *)
theory Schema
  imports Effects
begin

text \<open>
  The rows of the off-chain database, after \<open>backend/prisma/schema.prisma\<close>: one record per
  model, with the columns the services read or write, and \<open>Database\<close>, the tables under their
  primary keys.  A \<open>Decimal(39, 0)\<close> column and a \<open>BigInt\<close> are \<open>int\<close>, a \<open>DateTime\<close> is
  milliseconds, a nullable column is an \<open>option\<close>.
\<close>

datatype Tier = NONE | STANDARD | ENHANCED

datatype AttestationStatus = AS_PENDING | AS_ACTIVE | AS_EXPIRED | AS_REVOKED

datatype AgentStatus = AG_PENDING | AG_AUTHORIZED | AG_SUSPENDED | AG_REVOKED

datatype AlertStatus = AL_OPEN | AL_ACKNOWLEDGED | AL_RESOLVED

datatype TopUpStatus = TU_PENDING | TU_APPROVED | TU_REJECTED | TU_EXECUTED | TU_FAILED

datatype TransferStatus = TR_PENDING | TR_CLAIMED | TR_REFUNDED | TR_CANCELLED

record User =
  us_id :: string
  us_stellarAddress :: "string option"
  us_countryCode :: string

record KycAttestation =
  ka_id :: string
  ka_userId :: string
  ka_tier :: Tier
  ka_providerId :: string
  ka_attestationHash :: string
  ka_regionId :: string
  ka_status :: AttestationStatus
  ka_issuedAt :: int
  ka_expiresAt :: int
  ka_revokedAt :: "int option"
  ka_revokeReason :: "string option"
  ka_publishTxHash :: "string option"
  ka_revokeTxHash :: "string option"
  ka_providerRef :: "string option"
  ka_createdAt :: int

record Region =
  rg_id :: string
  rg_displayName :: string
  rg_countryCode :: string
  rg_currency :: string
  rg_minBond :: int
  rg_maxAgents :: int
  rg_active :: bool

record Corridor =
  co_id :: string
  co_sourceCurrency :: string
  co_destCurrency :: string
  co_regionId :: string
  co_tier1Max :: int
  co_tier2Max :: int
  co_dailyLimit :: int
  co_spreadBps :: int
  co_active :: bool

record Agent =
  ag_id :: string
  ag_stellarAddress :: string
  ag_legalName :: string
  ag_tradingName :: "string option"
  ag_regionId :: string
  ag_status :: AgentStatus
  ag_bondAmount :: int
  ag_registeredAt :: int
  ag_authorizedAt :: "int option"
  ag_suspendedAt :: "int option"
  ag_revokedAt :: "int option"

record AgentExposure =
  ex_agentId :: string
  ex_regionId :: string
  ex_drawnAmount :: int

record AgentFloatAlert =
  al_id :: string
  al_agentId :: string
  al_regionId :: string
  al_kind :: string
  al_thresholdBps :: int
  al_observedBps :: int
  al_status :: AlertStatus
  al_createdAt :: int
  al_resolvedAt :: "int option"

record TopUpRequest =
  tu_id :: string
  tu_agentId :: string
  tu_regionId :: string
  tu_amountRequested :: int
  tu_reason :: string
  tu_status :: TopUpStatus
  tu_requestedBy :: string
  tu_approvedBy :: "string option"
  tu_decisionNote :: "string option"
  tu_txHash :: "string option"
  tu_failureReason :: "string option"
  tu_createdAt :: int
  tu_decidedAt :: "int option"
  tu_executedAt :: "int option"

record PoolSnapshot =
  ps_id :: string
  ps_regionId :: string
  ps_totalDeposited :: int
  ps_totalDrawn :: int
  ps_utilizationBps :: int
  ps_capturedAt :: int

record Transfer =
  tr_id :: int
  tr_senderId :: string
  tr_agentId :: "string option"
  tr_corridorId :: string
  tr_amount :: int
  tr_fee :: int
  tr_payout :: int
  tr_tokenAddress :: string
  tr_claimHash :: string
  tr_expiry :: int
  tr_status :: TransferStatus
  tr_createdAt :: int
  tr_settledAt :: "int option"
  tr_claimedBy :: "string option"
  tr_createTxHash :: "string option"
  tr_settleTxHash :: "string option"

text \<open>A chain event is keyed by its unique triple: contract, ledger, position.\<close>

type_synonym event_key = "string \<times> int \<times> nat"

record ChainEvent =
  ce_contractId :: string
  ce_topic :: string
  ce_ledger :: int
  ce_eventIndex :: nat
  ce_txHash :: string
  ce_payload :: json
  ce_rawXdr :: "string option"
  ce_transferId :: "int option"
  ce_occurredAt :: int

record Quote =
  qu_id :: string
  qu_corridorId :: string
  qu_midRate :: string
  qu_spreadBps :: int
  qu_clientRate :: string
  qu_amount :: int
  qu_fee :: int
  qu_total :: int
  qu_oracleSource :: string
  qu_signature :: string
  qu_signingKey :: string
  qu_validUntil :: int
  qu_consumedByTransfer :: "int option"

record Database =
  db_users :: "(string, User) table"
  db_attestations :: "(string, KycAttestation) table"
  db_regions :: "(string, Region) table"
  db_corridors :: "(string, Corridor) table"
  db_agents :: "(string, Agent) table"
  db_exposures :: "(string \<times> string, AgentExposure) table"
  db_alerts :: "(string, AgentFloatAlert) table"
  db_topUps :: "(string, TopUpRequest) table"
  db_snapshots :: "(string, PoolSnapshot) table"
  db_transfers :: "(int, Transfer) table"
  db_events :: "(event_key, ChainEvent) table"
  db_cursors :: "(string, int) table"
  db_quotes :: "(string, Quote) table"

definition empty_database :: Database where
  "empty_database = \<lparr>db_users = [], db_attestations = [], db_regions = [], db_corridors = [], db_agents = [],
     db_exposures = [], db_alerts = [], db_topUps = [], db_snapshots = [], db_transfers = [], db_events = [],
     db_cursors = [], db_quotes = []\<rparr>"

fun tierName :: "Tier \<Rightarrow> string" where
  "tierName NONE = ''NONE''"
| "tierName STANDARD = ''STANDARD''"
| "tierName ENHANCED = ''ENHANCED''"

fun agentStatusName :: "AgentStatus \<Rightarrow> string" where
  "agentStatusName AG_PENDING = ''PENDING''"
| "agentStatusName AG_AUTHORIZED = ''AUTHORIZED''"
| "agentStatusName AG_SUSPENDED = ''SUSPENDED''"
| "agentStatusName AG_REVOKED = ''REVOKED''"

fun attestationStatusName :: "AttestationStatus \<Rightarrow> string" where
  "attestationStatusName AS_PENDING = ''PENDING''"
| "attestationStatusName AS_ACTIVE = ''ACTIVE''"
| "attestationStatusName AS_EXPIRED = ''EXPIRED''"
| "attestationStatusName AS_REVOKED = ''REVOKED''"

fun topUpStatusName :: "TopUpStatus \<Rightarrow> string" where
  "topUpStatusName TU_PENDING = ''PENDING''"
| "topUpStatusName TU_APPROVED = ''APPROVED''"
| "topUpStatusName TU_REJECTED = ''REJECTED''"
| "topUpStatusName TU_EXECUTED = ''EXECUTED''"
| "topUpStatusName TU_FAILED = ''FAILED''"

fun transferStatusName :: "TransferStatus \<Rightarrow> string" where
  "transferStatusName TR_PENDING = ''PENDING''"
| "transferStatusName TR_CLAIMED = ''CLAIMED''"
| "transferStatusName TR_REFUNDED = ''REFUNDED''"
| "transferStatusName TR_CANCELLED = ''CANCELLED''"

fun alertStatusName :: "AlertStatus \<Rightarrow> string" where
  "alertStatusName AL_OPEN = ''OPEN''"
| "alertStatusName AL_ACKNOWLEDGED = ''ACKNOWLEDGED''"
| "alertStatusName AL_RESOLVED = ''RESOLVED''"

text \<open>\<open>value.toString()\<close> of a nullable column in a response.\<close>

definition opt_json :: "('a \<Rightarrow> json) \<Rightarrow> 'a option \<Rightarrow> json" where
  "opt_json f m = (case m of None \<Rightarrow> JNull | Some a \<Rightarrow> f a)"

text \<open>The tier order the code base uses everywhere.\<close>

instantiation Tier :: linorder
begin

fun tier_rank :: "Tier \<Rightarrow> nat" where
  "tier_rank NONE = 0"
| "tier_rank STANDARD = 1"
| "tier_rank ENHANCED = 2"

definition less_eq_Tier :: "Tier \<Rightarrow> Tier \<Rightarrow> bool" where
  "s \<le> t \<longleftrightarrow> tier_rank s \<le> tier_rank t"

definition less_Tier :: "Tier \<Rightarrow> Tier \<Rightarrow> bool" where
  "s < t \<longleftrightarrow> tier_rank s < tier_rank t"

instance
proof
  fix s t :: Tier
  show "s \<le> t \<Longrightarrow> t \<le> s \<Longrightarrow> s = t" by (cases s; cases t) (simp_all add: less_eq_Tier_def)
qed (auto simp: less_eq_Tier_def less_Tier_def)

end

end
