(* ===== verification/Env.thy ===== *)
theory Env
  imports Money
begin

text \<open>
  The parsed environment of \<open>backend/src/config/env.ts\<close>: the record the services read, and
  \<open>parseEnv\<close>, which checks every variable against its schema and fails with one line per
  problem.  \<open>Number(s)\<close>, the URL test and the wording of the schema library's messages are the
  arguments \<open>numberOf\<close>, \<open>isUrl\<close> and \<open>message\<close>.
\<close>

datatype startLedger = Latest | FromLedger int

record Env =
  env_NODE_ENV :: string
  env_PORT :: int
  env_LOG_LEVEL :: string
  env_DATABASE_URL :: string
  env_STELLAR_NETWORK :: string
  env_SOROBAN_RPC_URL :: string
  env_STELLAR_NETWORK_PASSPHRASE :: string
  env_CONTRACT_ESCROW :: string
  env_CONTRACT_AGENT_REGISTRY :: string
  env_CONTRACT_COMPLIANCE_HOOK :: string
  env_CONTRACT_LIQUIDITY_POOL :: string
  env_ATTESTER_SECRET_KEY :: string
  env_OPERATOR_SECRET_KEY :: string
  env_TREASURY_PUBLIC_KEY :: string
  env_KYC_PROVIDER :: string
  env_KYC_PROVIDER_BASE_URL :: "string option"
  env_KYC_PROVIDER_API_KEY :: "string option"
  env_KYC_PROVIDER_WEBHOOK_SECRET :: "string option"
  env_KYC_PROVIDER_TIMEOUT_MS :: int
  env_KYC_ATTESTATION_TTL_DAYS :: int
  env_DEFAULT_SPREAD_BPS :: int
  env_QUOTE_TTL_SECONDS :: int
  env_QUOTE_SIGNING_SECRET_KEY :: string
  env_PRICE_SOURCE :: string
  env_HORIZON_URL :: string
  env_SDEX_ASSETS :: "string option"
  env_INDEXER_START_LEDGER :: startLedger
  env_INDEXER_POLL_INTERVAL_MS :: int
  env_INDEXER_STORE_RAW_XDR :: bool
  env_AGENT_FLOAT_ALERT_BPS :: int
  env_POOL_UTILIZATION_ALERT_BPS :: int
  env_MIN_POOL_RESERVE_BPS :: int

type_synonym raw_env = "string \<Rightarrow> string option"

text \<open>The kinds of variable: each reads one name and gives a value or an issue at that name.\<close>

definition enum_var :: "string list \<Rightarrow> string \<Rightarrow> raw_env \<Rightarrow> string \<Rightarrow> string option" where
  "enum_var vals d src k = (case src k of None \<Rightarrow> Some d | Some v \<Rightarrow> if v \<in> set vals then Some v else None)"

definition prefix_var :: "string \<Rightarrow> raw_env \<Rightarrow> string \<Rightarrow> string option" where
  "prefix_var p src k = (case src k of None \<Rightarrow> None | Some v \<Rightarrow> if startsWith v p then Some v else None)"

definition nonempty_var :: "raw_env \<Rightarrow> string \<Rightarrow> string option" where
  "nonempty_var src k = (case src k of None \<Rightarrow> None | Some v \<Rightarrow> if v \<noteq> [] then Some v else None)"

definition int_var :: "(string \<Rightarrow> jsnum) \<Rightarrow> int \<Rightarrow> int option \<Rightarrow> int \<Rightarrow> raw_env \<Rightarrow> string \<Rightarrow> int option" where
  "int_var numberOf lo hi d src k = (case src k of
     None \<Rightarrow> Some d
   | Some v \<Rightarrow> (case numberOf v of
        Whole n \<Rightarrow> if lo \<le> n \<and> (case hi of None \<Rightarrow> True | Some h \<Rightarrow> n \<le> h) then Some n else None
      | NotInteger t \<Rightarrow> None))"

definition url_var :: "(string \<Rightarrow> bool) \<Rightarrow> string option \<Rightarrow> raw_env \<Rightarrow> string \<Rightarrow> string option" where
  "url_var isUrl d src k = (case src k of None \<Rightarrow> d | Some v \<Rightarrow> if isUrl v then Some v else None)"

definition optional_url_var :: "(string \<Rightarrow> bool) \<Rightarrow> raw_env \<Rightarrow> string \<Rightarrow> string option option" where
  "optional_url_var isUrl src k = (case src k of None \<Rightarrow> Some None | Some v \<Rightarrow> if isUrl v then Some (Some v) else None)"

definition start_ledger_var :: "(string \<Rightarrow> jsnum) \<Rightarrow> raw_env \<Rightarrow> string \<Rightarrow> startLedger option" where
  "start_ledger_var numberOf src k = (case src k of
     None \<Rightarrow> Some Latest
   | Some v \<Rightarrow> if v = ''latest'' then Some Latest
       else map_option FromLedger (int_var numberOf 0 None 0 src k))"

definition bool_var :: "bool \<Rightarrow> raw_env \<Rightarrow> string \<Rightarrow> bool option" where
  "bool_var d src k = (case src k of None \<Rightarrow> Some d
     | Some v \<Rightarrow> if v = ''true'' then Some True else if v = ''false'' then Some False else None)"

definition NODE_ENVS :: "string list" where
  "NODE_ENVS = [''development'', ''test'', ''production'']"

definition LOG_LEVELS :: "string list" where
  "LOG_LEVELS = [''fatal'', ''error'', ''warn'', ''info'', ''debug'', ''trace'', ''silent'']"

definition STELLAR_NETWORKS :: "string list" where
  "STELLAR_NETWORKS = [''testnet'', ''futurenet'', ''mainnet'', ''local'']"

definition KYC_PROVIDERS :: "string list" where
  "KYC_PROVIDERS = [''mock'', ''http'', ''sumsub'', ''onfido'']"

definition PRICE_SOURCES :: "string list" where
  "PRICE_SOURCES = [''static'', ''horizon'']"

text \<open>The names of the variables whose value the schema refuses, in schema order.\<close>

definition env_issues :: "(string \<Rightarrow> jsnum) \<Rightarrow> (string \<Rightarrow> bool) \<Rightarrow> raw_env \<Rightarrow> string list" where
  "env_issues numberOf isUrl src =
     (let int = (\<lambda>k lo hi d. (k, int_var numberOf lo hi d src k \<noteq> None));
          enum = (\<lambda>k vals d. (k, enum_var vals d src k \<noteq> None));
          pre = (\<lambda>k p. (k, prefix_var p src k \<noteq> None))
      in map fst (filter (\<lambda>(k, valid). \<not> valid) [
          enum ''NODE_ENV'' NODE_ENVS ''development'',
          int ''PORT'' 1 None 4000,
          enum ''LOG_LEVEL'' LOG_LEVELS ''info'',
          (''DATABASE_URL'', nonempty_var src ''DATABASE_URL'' \<noteq> None),
          enum ''STELLAR_NETWORK'' STELLAR_NETWORKS ''testnet'',
          (''SOROBAN_RPC_URL'', url_var isUrl None src ''SOROBAN_RPC_URL'' \<noteq> None),
          (''STELLAR_NETWORK_PASSPHRASE'', nonempty_var src ''STELLAR_NETWORK_PASSPHRASE'' \<noteq> None),
          pre ''CONTRACT_ESCROW'' ''C'', pre ''CONTRACT_AGENT_REGISTRY'' ''C'',
          pre ''CONTRACT_COMPLIANCE_HOOK'' ''C'', pre ''CONTRACT_LIQUIDITY_POOL'' ''C'',
          pre ''ATTESTER_SECRET_KEY'' ''S'', pre ''OPERATOR_SECRET_KEY'' ''S'',
          pre ''TREASURY_PUBLIC_KEY'' ''G'',
          enum ''KYC_PROVIDER'' KYC_PROVIDERS ''mock'',
          (''KYC_PROVIDER_BASE_URL'', optional_url_var isUrl src ''KYC_PROVIDER_BASE_URL'' \<noteq> None),
          int ''KYC_PROVIDER_TIMEOUT_MS'' 1 None 10000,
          int ''KYC_ATTESTATION_TTL_DAYS'' 1 None 365,
          int ''DEFAULT_SPREAD_BPS'' 0 (Some 2000) 75,
          int ''QUOTE_TTL_SECONDS'' 5 (Some 600) 45,
          pre ''QUOTE_SIGNING_SECRET_KEY'' ''S'',
          enum ''PRICE_SOURCE'' PRICE_SOURCES ''static'',
          (''HORIZON_URL'', url_var isUrl (Some ''https://horizon-testnet.stellar.org'') src ''HORIZON_URL'' \<noteq> None),
          (''INDEXER_START_LEDGER'', start_ledger_var numberOf src ''INDEXER_START_LEDGER'' \<noteq> None),
          int ''INDEXER_POLL_INTERVAL_MS'' 1 None 5000,
          (''INDEXER_STORE_RAW_XDR'', bool_var True src ''INDEXER_STORE_RAW_XDR'' \<noteq> None),
          int ''AGENT_FLOAT_ALERT_BPS'' 0 (Some 10000) 3000,
          int ''POOL_UTILIZATION_ALERT_BPS'' 0 (Some 10000) 7000,
          int ''MIN_POOL_RESERVE_BPS'' 0 (Some 10000) 2000]))"

definition env_value :: "(string \<Rightarrow> jsnum) \<Rightarrow> (string \<Rightarrow> bool) \<Rightarrow> raw_env \<Rightarrow> Env" where
  "env_value numberOf isUrl src =
     (let int = (\<lambda>k lo hi d. the (int_var numberOf lo hi d src k))
      in \<lparr>env_NODE_ENV = the (enum_var NODE_ENVS ''development'' src ''NODE_ENV''),
      env_PORT = int ''PORT'' 1 None 4000,
      env_LOG_LEVEL = the (enum_var LOG_LEVELS ''info'' src ''LOG_LEVEL''),
      env_DATABASE_URL = the (src ''DATABASE_URL''),
      env_STELLAR_NETWORK = the (enum_var STELLAR_NETWORKS ''testnet'' src ''STELLAR_NETWORK''),
      env_SOROBAN_RPC_URL = the (src ''SOROBAN_RPC_URL''),
      env_STELLAR_NETWORK_PASSPHRASE = the (src ''STELLAR_NETWORK_PASSPHRASE''),
      env_CONTRACT_ESCROW = the (src ''CONTRACT_ESCROW''),
      env_CONTRACT_AGENT_REGISTRY = the (src ''CONTRACT_AGENT_REGISTRY''),
      env_CONTRACT_COMPLIANCE_HOOK = the (src ''CONTRACT_COMPLIANCE_HOOK''),
      env_CONTRACT_LIQUIDITY_POOL = the (src ''CONTRACT_LIQUIDITY_POOL''),
      env_ATTESTER_SECRET_KEY = the (src ''ATTESTER_SECRET_KEY''),
      env_OPERATOR_SECRET_KEY = the (src ''OPERATOR_SECRET_KEY''),
      env_TREASURY_PUBLIC_KEY = the (src ''TREASURY_PUBLIC_KEY''),
      env_KYC_PROVIDER = the (enum_var KYC_PROVIDERS ''mock'' src ''KYC_PROVIDER''),
      env_KYC_PROVIDER_BASE_URL = src ''KYC_PROVIDER_BASE_URL'',
      env_KYC_PROVIDER_API_KEY = src ''KYC_PROVIDER_API_KEY'',
      env_KYC_PROVIDER_WEBHOOK_SECRET = src ''KYC_PROVIDER_WEBHOOK_SECRET'',
      env_KYC_PROVIDER_TIMEOUT_MS = int ''KYC_PROVIDER_TIMEOUT_MS'' 1 None 10000,
      env_KYC_ATTESTATION_TTL_DAYS = int ''KYC_ATTESTATION_TTL_DAYS'' 1 None 365,
      env_DEFAULT_SPREAD_BPS = int ''DEFAULT_SPREAD_BPS'' 0 (Some 2000) 75,
      env_QUOTE_TTL_SECONDS = int ''QUOTE_TTL_SECONDS'' 5 (Some 600) 45,
      env_QUOTE_SIGNING_SECRET_KEY = the (src ''QUOTE_SIGNING_SECRET_KEY''),
      env_PRICE_SOURCE = the (enum_var PRICE_SOURCES ''static'' src ''PRICE_SOURCE''),
      env_HORIZON_URL = option_or (src ''HORIZON_URL'') ''https://horizon-testnet.stellar.org'',
      env_SDEX_ASSETS = src ''SDEX_ASSETS'',
      env_INDEXER_START_LEDGER = the (start_ledger_var numberOf src ''INDEXER_START_LEDGER''),
      env_INDEXER_POLL_INTERVAL_MS = int ''INDEXER_POLL_INTERVAL_MS'' 1 None 5000,
      env_INDEXER_STORE_RAW_XDR = the (bool_var True src ''INDEXER_STORE_RAW_XDR''),
      env_AGENT_FLOAT_ALERT_BPS = int ''AGENT_FLOAT_ALERT_BPS'' 0 (Some 10000) 3000,
      env_POOL_UTILIZATION_ALERT_BPS = int ''POOL_UTILIZATION_ALERT_BPS'' 0 (Some 10000) 7000,
      env_MIN_POOL_RESERVE_BPS = int ''MIN_POOL_RESERVE_BPS'' 0 (Some 10000) 2000\<rparr>)"

definition parseEnv :: "(string \<Rightarrow> jsnum) \<Rightarrow> (string \<Rightarrow> bool) \<Rightarrow> (string \<Rightarrow> string) \<Rightarrow> raw_env \<Rightarrow> failure + Env" where
  "parseEnv numberOf isUrl message src =
     (let issues = env_issues numberOf isUrl src in
      if issues \<noteq> []
      then Inl (PlainErr (''Invalid environment configuration:'' @ [CHR 0x0A] @
             join_on (CHR 0x0A) (map (\<lambda>k. ''  - '' @ k @ '': '' @ message k) issues)))
      else Inr (env_value numberOf isUrl src))"

definition isProduction :: "Env \<Rightarrow> bool" where
  "isProduction env \<longleftrightarrow> env_NODE_ENV env = ''production''"

definition isTest :: "Env \<Rightarrow> bool" where
  "isTest env \<longleftrightarrow> env_NODE_ENV env = ''test''"

text \<open>What an accepted environment guarantees to the services.\<close>

lemma int_var_bounds: "int_var f lo hi d src k = Some n \<Longrightarrow> lo \<le> d \<Longrightarrow> lo \<le> n"
  by (auto simp: int_var_def split: option.splits jsnum.splits if_splits)

lemma int_var_upper: "int_var f lo (Some hi) d src k = Some n \<Longrightarrow> d \<le> hi \<Longrightarrow> n \<le> hi"
  by (auto simp: int_var_def split: option.splits jsnum.splits if_splits)

definition env_in_range :: "Env \<Rightarrow> bool" where
  "env_in_range e \<longleftrightarrow>
     0 \<le> env_DEFAULT_SPREAD_BPS e \<and> env_DEFAULT_SPREAD_BPS e \<le> 2000
     \<and> 5 \<le> env_QUOTE_TTL_SECONDS e \<and> env_QUOTE_TTL_SECONDS e \<le> 600
     \<and> 1 \<le> env_KYC_ATTESTATION_TTL_DAYS e
     \<and> 0 \<le> env_AGENT_FLOAT_ALERT_BPS e \<and> env_AGENT_FLOAT_ALERT_BPS e \<le> 10000
     \<and> 1 \<le> env_INDEXER_POLL_INTERVAL_MS e"

lemma parseEnv_in_range:
  assumes "parseEnv f u m src = Inr e"
  shows "env_in_range e"
proof -
  have i: "env_issues f u src = []" and e: "e = env_value f u src"
    using assms by (auto simp: parseEnv_def Let_def split: if_splits)
  have "int_var f 0 (Some 2000) 75 src ''DEFAULT_SPREAD_BPS'' \<noteq> None"
    "int_var f 5 (Some 600) 45 src ''QUOTE_TTL_SECONDS'' \<noteq> None"
    "int_var f 1 None 365 src ''KYC_ATTESTATION_TTL_DAYS'' \<noteq> None"
    "int_var f 0 (Some 10000) 3000 src ''AGENT_FLOAT_ALERT_BPS'' \<noteq> None"
    "int_var f 1 None 5000 src ''INDEXER_POLL_INTERVAL_MS'' \<noteq> None"
    using i unfolding env_issues_def Let_def map_is_Nil_conv filter_empty_conv by simp_all
  then show ?thesis unfolding e env_in_range_def
    by (auto simp: env_value_def Let_def intro: int_var_bounds int_var_upper)
qed

text \<open>An accepted environment, with every optional variable left at its default.\<close>

definition sample_raw_env :: raw_env where
  "sample_raw_env = map_of [
     (''DATABASE_URL'', ''postgres''), (''SOROBAN_RPC_URL'', ''https://rpc''),
     (''STELLAR_NETWORK_PASSPHRASE'', ''Test SDF Network''), (''CONTRACT_ESCROW'', ''CESC''),
     (''CONTRACT_AGENT_REGISTRY'', ''CREG''), (''CONTRACT_COMPLIANCE_HOOK'', ''CHOOK''),
     (''CONTRACT_LIQUIDITY_POOL'', ''CPOOL''), (''ATTESTER_SECRET_KEY'', ''SATT''),
     (''OPERATOR_SECRET_KEY'', ''SOPER''), (''TREASURY_PUBLIC_KEY'', ''GTRE''),
     (''QUOTE_SIGNING_SECRET_KEY'', ''SQUOTE'')]"

definition sample_env :: Env where
  "sample_env = env_value NotInteger (\<lambda>_. True) sample_raw_env"

lemma sample_env_accepted: "parseEnv NotInteger (\<lambda>_. True) (\<lambda>_. []) sample_raw_env = Inr sample_env"
  by (simp add: parseEnv_def sample_env_def env_issues_def Let_def sample_raw_env_def enum_var_def int_var_def
      prefix_var_def nonempty_var_def url_var_def optional_url_var_def start_ledger_var_def bool_var_def
      NODE_ENVS_def LOG_LEVELS_def STELLAR_NETWORKS_def KYC_PROVIDERS_def PRICE_SOURCES_def startsWith_def)

end
