(* ===== verification/Seed.thy ===== *)
theory Seed
  imports Schema Zod Env
begin

text \<open>
  \<open>backend/src/config/deploy-config.ts\<close> and \<open>backend/prisma/seed.ts\<close>: the schema of the
  deployment configuration, where the seed takes it from, and the upserts that put it into the
  read model.  The file system, the texts of the schema library's issues and of foreign
  exceptions, and the conversion of a text into a decimal column are parameters.
\<close>

section \<open>The configuration\<close>

record RegionConfig =
  rc_id :: string
  rc_displayName :: string
  rc_countryCode :: string
  rc_currency :: string
  rc_minBond :: string
  rc_maxAgents :: jsnum
  rc_utilizationCapBps :: jsnum

record CorridorConfig =
  cc_id :: string
  cc_regionId :: string
  cc_sourceCurrency :: string
  cc_destCurrency :: string
  cc_tier1Max :: string
  cc_tier2Max :: string
  cc_dailyLimit :: string
  cc_spreadBps :: jsnum

record DeployConfig =
  dc_regions :: "RegionConfig list"
  dc_corridors :: "CorridorConfig list"

fun jnumber :: "json \<Rightarrow> jsnum option" where
  "jnumber (JNum n) = Some (Whole n)"
| "jnumber (JReal t) = Some (NotInteger t)"
| "jnumber _ = None"

definition regionSchema :: "json \<Rightarrow> RegionConfig option" where
  "regionSchema v =
     (case (required jstring ''id'' v, required jstring ''displayName'' v, required jstring ''countryCode'' v,
            required jstring ''currency'' v, required jstring ''minBond'' v, required jnumber ''maxAgents'' v,
            required jnumber ''utilizationCapBps'' v) of
        (Some i, Some d, Some c, Some k, Some b, Some m, Some u) \<Rightarrow>
          Some \<lparr>rc_id = i, rc_displayName = d, rc_countryCode = c, rc_currency = k, rc_minBond = b, rc_maxAgents = m,
            rc_utilizationCapBps = u\<rparr>
      | _ \<Rightarrow> None)"

definition corridorSchema :: "json \<Rightarrow> CorridorConfig option" where
  "corridorSchema v =
     (case (required jstring ''id'' v, required jstring ''regionId'' v, required jstring ''sourceCurrency'' v,
            required jstring ''destCurrency'' v, required jstring ''tier1Max'' v, required jstring ''tier2Max'' v,
            required jstring ''dailyLimit'' v, required jnumber ''spreadBps'' v) of
        (Some i, Some r, Some s, Some d, Some t1, Some t2, Some l, Some b) \<Rightarrow>
          Some \<lparr>cc_id = i, cc_regionId = r, cc_sourceCurrency = s, cc_destCurrency = d, cc_tier1Max = t1,
            cc_tier2Max = t2, cc_dailyLimit = l, cc_spreadBps = b\<rparr>
      | _ \<Rightarrow> None)"

definition array_of :: "(json \<Rightarrow> 'a option) \<Rightarrow> json \<Rightarrow> 'a list option" where
  "array_of f v = (case v of JArr vs \<Rightarrow> all_some f vs | _ \<Rightarrow> None)"

definition deployConfigSchema :: "json \<Rightarrow> DeployConfig option" where
  "deployConfigSchema v =
     (case (required (array_of regionSchema) ''regions'' v, required (array_of corridorSchema) ''corridors'' v) of
        (Some rs, Some cs) \<Rightarrow> Some \<lparr>dc_regions = rs, dc_corridors = cs\<rparr>
      | _ \<Rightarrow> None)"

text \<open>An issue: its path, already as text, and its message.\<close>

fun join_text :: "string \<Rightarrow> string list \<Rightarrow> string" where
  "join_text sep [] = []"
| "join_text sep [w] = w"
| "join_text sep (w # v # ws) = w @ sep @ join_text sep (v # ws)"

definition describeIssues :: "(string list \<times> string) list \<Rightarrow> string" where
  "describeIssues issues = join_text ''; '' (map (\<lambda>(path, message). join_text ''.'' path @ '': '' @ message) issues)"

text \<open>\<open>tx_cause\<close> is \<open>String(cause)\<close> of a text that is no JSON, \<open>tx_issues\<close> the issues of a value.\<close>

record Texts =
  tx_cause :: "string \<Rightarrow> string"
  tx_issues :: "json \<Rightarrow> (string list \<times> string) list"

definition parseDeployConfigJson :: "Texts \<Rightarrow> string option \<Rightarrow> string + DeployConfig option" where
  "parseDeployConfigJson texts raw = (case raw of
     None \<Rightarrow> Inr None
   | Some s \<Rightarrow>
      if trim s = [] then Inr None
      else (case json_parse s of
         None \<Rightarrow> Inl (''DEPLOY_CONFIG_JSON is not valid JSON: '' @ tx_cause texts s)
       | Some candidate \<Rightarrow> (case deployConfigSchema candidate of
            None \<Rightarrow> Inl (''DEPLOY_CONFIG_JSON is invalid: '' @ describeIssues (tx_issues texts candidate))
          | Some config \<Rightarrow> Inr (Some config))))"

section \<open>Where the configuration comes from\<close>

text \<open>The body of the loop for one candidate: the configuration, or \<open>String(cause)\<close> of what is thrown.\<close>

definition load_candidate ::
  "Texts \<Rightarrow> (string \<Rightarrow> string) \<Rightarrow> (string \<Rightarrow> string + string) \<Rightarrow> string \<Rightarrow> string + DeployConfig" where
  "load_candidate texts resolve readFile candidate =
     rbind (readFile (resolve candidate)) (\<lambda>text.
     (case json_parse text of
        None \<Rightarrow> Inl (tx_cause texts text)
      | Some v \<Rightarrow> (case deployConfigSchema v of
           Some config \<Rightarrow> Inr config
         | None \<Rightarrow> Inl (''Error: Deployment config at '' @ resolve candidate @ '' is invalid: ''
             @ describeIssues (tx_issues texts v)))))"

fun try_candidates ::
  "Texts \<Rightarrow> (string \<Rightarrow> string) \<Rightarrow> (string \<Rightarrow> string + string) \<Rightarrow> string list \<Rightarrow> string list \<Rightarrow> string + DeployConfig" where
  "try_candidates texts resolve readFile candidates [] = Inl ''unreachable: no config candidate succeeded''"
| "try_candidates texts resolve readFile candidates (c # cs) =
     (case load_candidate texts resolve readFile c of
        Inr config \<Rightarrow> Inr config
      | Inl cause \<Rightarrow>
          if c \<noteq> last candidates then try_candidates texts resolve readFile candidates cs
          else Inl (''Could not load a deployment config. Tried '' @ join_text '', '' candidates @ ''. '' @ cause))"

definition loadConfig ::
  "Texts \<Rightarrow> (string \<Rightarrow> string) \<Rightarrow> (string \<Rightarrow> string + string) \<Rightarrow> raw_env \<Rightarrow> string + DeployConfig" where
  "loadConfig texts resolve readFile env =
     rbind (parseDeployConfigJson texts (env ''DEPLOY_CONFIG_JSON'')) (\<lambda>inline.
     case inline of
       Some config \<Rightarrow> Inr config
     | None \<Rightarrow>
        (let candidates = [option_or (env ''DEPLOY_CONFIG'') ''scripts/config/testnet.json'', ''scripts/config/testnet.example.json'']
         in try_candidates texts resolve readFile candidates candidates))"

section \<open>Seeding\<close>

text \<open>A 32-bit integer column.\<close>

definition int_column :: "jsnum \<Rightarrow> failure + int" where
  "int_column n = (case n of
     Whole i \<Rightarrow> if - (2 ^ 31) \<le> i \<and> i < 2 ^ 31 then Inr i else Inl (PlainErr ''value out of range for type integer'')
   | NotInteger t \<Rightarrow> Inl (PlainErr ''Invalid value provided. Expected Int''))"

definition region_row :: "(string \<Rightarrow> failure + int) \<Rightarrow> RegionConfig \<Rightarrow> failure + Region" where
  "region_row decimalOf r =
     rbind (decimalOf (rc_minBond r)) (\<lambda>minBond.
     rbind (int_column (rc_maxAgents r)) (\<lambda>maxAgents.
     Inr \<lparr>rg_id = rc_id r, rg_displayName = rc_displayName r, rg_countryCode = rc_countryCode r,
       rg_currency = rc_currency r, rg_minBond = minBond, rg_maxAgents = maxAgents, rg_active = True\<rparr>))"

definition write_region :: "Region \<Rightarrow> Region \<Rightarrow> Region" where
  "write_region row old = old\<lparr>rg_displayName := rg_displayName row, rg_countryCode := rg_countryCode row,
     rg_currency := rg_currency row, rg_minBond := rg_minBond row, rg_maxAgents := rg_maxAgents row\<rparr>"

definition seed_region :: "(string \<Rightarrow> failure + int) \<Rightarrow> RegionConfig \<Rightarrow> (Database, unit) act" where
  "seed_region decimalOf r = statement (\<lambda>db.
     rbind (region_row decimalOf r) (\<lambda>row.
     Inr (db\<lparr>db_regions := upsert_row (rc_id r) row (write_region row) (db_regions db)\<rparr>)))"

definition corridor_row :: "(string \<Rightarrow> failure + int) \<Rightarrow> CorridorConfig \<Rightarrow> failure + Corridor" where
  "corridor_row decimalOf c =
     rbind (decimalOf (cc_tier1Max c)) (\<lambda>tier1Max.
     rbind (decimalOf (cc_tier2Max c)) (\<lambda>tier2Max.
     rbind (decimalOf (cc_dailyLimit c)) (\<lambda>dailyLimit.
     rbind (int_column (cc_spreadBps c)) (\<lambda>spreadBps.
     Inr \<lparr>co_id = cc_id c, co_sourceCurrency = cc_sourceCurrency c, co_destCurrency = cc_destCurrency c,
       co_regionId = cc_regionId c, co_tier1Max = tier1Max, co_tier2Max = tier2Max, co_dailyLimit = dailyLimit,
       co_spreadBps = spreadBps, co_active = True\<rparr>))))"

definition write_corridor :: "Corridor \<Rightarrow> Corridor \<Rightarrow> Corridor" where
  "write_corridor row old = old\<lparr>co_sourceCurrency := co_sourceCurrency row, co_destCurrency := co_destCurrency row,
     co_regionId := co_regionId row, co_tier1Max := co_tier1Max row, co_tier2Max := co_tier2Max row,
     co_dailyLimit := co_dailyLimit row, co_spreadBps := co_spreadBps row\<rparr>"

definition seed_corridor :: "(string \<Rightarrow> failure + int) \<Rightarrow> CorridorConfig \<Rightarrow> (Database, unit) act" where
  "seed_corridor decimalOf c = statement (\<lambda>db.
     rbind (corridor_row decimalOf c) (\<lambda>row.
     if find_unique (db_regions db) (cc_regionId c) = None then Inl foreign_key_error
     else Inr (db\<lparr>db_corridors := upsert_row (cc_id c) row (write_corridor row) (db_corridors db)\<rparr>)))"

definition seed :: "(string \<Rightarrow> failure + int) \<Rightarrow> DeployConfig \<Rightarrow> (Database, unit) act" where
  "seed decimalOf config =
     andThen (for_each (\<lambda>r _. seed_region decimalOf r) (dc_regions config) ()) (\<lambda>_.
     for_each (\<lambda>c _. seed_corridor decimalOf c) (dc_corridors config) ())"

section \<open>Overwriting upserts\<close>

text \<open>
  A run of upserts over a list of rows, where an existing row takes over the new values and
  keeps the rest.  All it takes to be repeatable is that a later write hides an earlier one.
\<close>

definition upserts :: "('c \<Rightarrow> 'k) \<Rightarrow> ('c \<Rightarrow> 'r) \<Rightarrow> ('c \<Rightarrow> 'r \<Rightarrow> 'r) \<Rightarrow> 'c list \<Rightarrow> ('k, 'r) table \<Rightarrow> ('k, 'r) table" where
  "upserts key fresh write cs t = foldl (\<lambda>t c. upsert_row (key c) (fresh c) (write c) t) t cs"

lemma upserts_simps [simp]:
  "upserts key fresh write [] t = t"
  "upserts key fresh write (c # cs) t = upserts key fresh write cs (upsert_row (key c) (fresh c) (write c) t)"
  by (simp_all add: upserts_def)

lemma upserts_snoc: "upserts key fresh write (cs @ [c]) t = upsert_row (key c) (fresh c) (write c) (upserts key fresh write cs t)"
  by (simp add: upserts_def)

lemma upserts_keys: "find_unique (upserts key fresh write cs t) k \<noteq> None \<longleftrightarrow> k \<in> key ` set cs \<or> find_unique t k \<noteq> None"
  by (induction cs arbitrary: t) (auto simp: find_upsert_row split: option.splits)

lemma upserts_fst: "key ` set cs \<subseteq> {k. find_unique t k \<noteq> None} \<Longrightarrow> map fst (upserts key fresh write cs t) = map fst t"
proof (induction cs arbitrary: t)
  case Nil
  then show ?case by simp
next
  case (Cons c cs)
  have "upsert_row (key c) (fresh c) (write c) t = modify_row (key c) (write c) t" using Cons.prems by (auto simp: upsert_row_def)
  moreover have "key ` set cs \<subseteq> {k. find_unique (modify_row (key c) (write c) t) k \<noteq> None}"
    using Cons.prems by (auto simp: find_modify_row)
  ultimately show ?case using Cons.IH by simp
qed

lemma upserts_ok: "table_ok t \<Longrightarrow> table_ok (upserts key fresh write cs t)"
  by (induction cs arbitrary: t) (simp_all add: table_ok_upsert)

lemma table_eqI:
  assumes "map fst t = map fst u" "table_ok t" "\<And>k. find_unique t k = find_unique u k"
  shows "t = u"
proof (rule nth_equalityI)
  show len: "length t = length u" using assms(1) by (metis length_map)
  fix i assume i: "i < length t"
  have keys: "fst (t ! i) = fst (u ! i)" using assms(1) i len by (metis nth_map)
  have "distinct (map fst t)" "distinct (map fst u)" using assms(1,2) by (simp_all add: table_ok_def)
  then have "map_of t (fst (t ! i)) = Some (snd (t ! i))" "map_of u (fst (u ! i)) = Some (snd (u ! i))"
    using i len by (auto intro!: map_of_is_SomeI nth_mem)
  then show "t ! i = u ! i" using assms(3) [of "fst (t ! i)"] keys by (simp add: find_unique_def prod_eq_iff)
qed

locale overwriting =
  fixes key :: "'c \<Rightarrow> 'k" and fresh :: "'c \<Rightarrow> 'r" and "write" :: "'c \<Rightarrow> 'r \<Rightarrow> 'r"
  assumes write_write: "key c = key d \<Longrightarrow> write c (write d r) = write c r"
    and write_fresh: "key c = key d \<Longrightarrow> write c (fresh d) = fresh c"
begin

abbreviation last_of :: "'c list \<Rightarrow> 'k \<Rightarrow> 'c option" where
  "last_of cs k \<equiv> List.find (\<lambda>c. key c = k) (rev cs)"

lemma find_upserts:
  "find_unique (upserts key fresh write cs t) k = (case last_of cs k of
     None \<Rightarrow> find_unique t k
   | Some c \<Rightarrow> Some (case find_unique t k of None \<Rightarrow> fresh c | Some r \<Rightarrow> write c r))"
proof (induction cs rule: rev_induct)
  case Nil
  then show ?case by simp
next
  case (snoc c cs)
  have same: "key d = k" if "last_of cs k = Some d" for d using that by (auto simp: find_Some_iff)
  show ?case
  proof (cases "key c = k")
    case False
    then show ?thesis using snoc by (simp add: upserts_snoc find_upsert_row)
  next
    case True
    then have "write c (write d r) = write c r" "write c (fresh d) = fresh c" if "last_of cs k = Some d" for d r
      using same [OF that] write_write write_fresh by simp_all
    then show ?thesis using True snoc by (simp add: upserts_snoc find_upsert_row split: option.split)
  qed
qed

lemma upserts_twice:
  assumes "table_ok t"
  shows "upserts key fresh write cs (upserts key fresh write cs t) = upserts key fresh write cs t"
proof (rule table_eqI)
  show "map fst (upserts key fresh write cs (upserts key fresh write cs t)) = map fst (upserts key fresh write cs t)"
    by (rule upserts_fst) (use upserts_keys [of key fresh "write" cs t] in blast)
  show "table_ok (upserts key fresh write cs (upserts key fresh write cs t))" using assms by (intro upserts_ok)
  show "find_unique (upserts key fresh write cs (upserts key fresh write cs t)) k = find_unique (upserts key fresh write cs t) k" for k
    unfolding find_upserts by (simp add: write_write write_fresh split: option.split)
qed

end

interpretation regions: overwriting rg_id "\<lambda>r. r\<lparr>rg_active := True\<rparr>" write_region
  by unfold_locales (simp_all add: write_region_def)

interpretation corridors: overwriting co_id "\<lambda>c. c\<lparr>co_active := True\<rparr>" write_corridor
  by unfold_locales (simp_all add: write_corridor_def)

section \<open>Seeding twice\<close>

abbreviation seeded_regions :: "Region list \<Rightarrow> (string, Region) table \<Rightarrow> (string, Region) table" where
  "seeded_regions \<equiv> upserts rg_id (\<lambda>r. r\<lparr>rg_active := True\<rparr>) write_region"

abbreviation seeded_corridors :: "Corridor list \<Rightarrow> (string, Corridor) table \<Rightarrow> (string, Corridor) table" where
  "seeded_corridors \<equiv> upserts co_id (\<lambda>c. c\<lparr>co_active := True\<rparr>) write_corridor"

lemma region_row_Inr: "region_row decimalOf r = Inr row \<Longrightarrow> rg_id row = rc_id r \<and> row\<lparr>rg_active := True\<rparr> = row"
  by (auto simp: region_row_def result_simps)

lemma corridor_row_Inr:
  "corridor_row decimalOf c = Inr row \<Longrightarrow> co_id row = cc_id c \<and> co_regionId row = cc_regionId c \<and> row\<lparr>co_active := True\<rparr> = row"
  by (auto simp: corridor_row_def result_simps)

lemma result_map_keys: "result_map f xs = Inr ys \<Longrightarrow> (\<And>x y. f x = Inr y \<Longrightarrow> g y = h x) \<Longrightarrow> map g ys = map h xs"
  by (induction xs arbitrary: ys) (auto simp: result_simps)

lemma seed_region_Inr:
  "seed_region decimalOf r db = (Inr u, db') \<longleftrightarrow>
     (\<exists>row. region_row decimalOf r = Inr row \<and> db' = db\<lparr>db_regions := seeded_regions [row] (db_regions db)\<rparr>)"
  using region_row_Inr [of decimalOf r] by (auto simp: seed_region_def statement_Inr_iff result_simps)

lemma seed_corridor_Inr:
  "seed_corridor decimalOf c db = (Inr u, db') \<longleftrightarrow>
     (\<exists>row. corridor_row decimalOf c = Inr row \<and> find_unique (db_regions db) (cc_regionId c) \<noteq> None
       \<and> db' = db\<lparr>db_corridors := seeded_corridors [row] (db_corridors db)\<rparr>)"
  using corridor_row_Inr [of decimalOf c] by (auto simp: seed_corridor_def statement_Inr_iff result_simps)

lemma seed_regions_Inr:
  "for_each (\<lambda>r _. seed_region decimalOf r) rs u db = (Inr u', db') \<longleftrightarrow>
     (\<exists>rows. result_map (region_row decimalOf) rs = Inr rows \<and> db' = db\<lparr>db_regions := seeded_regions rows (db_regions db)\<rparr>)"
  by (induction rs arbitrary: u db) (auto simp: andThen_Inr_iff seed_region_Inr result_simps)

lemma seed_corridors_Inr:
  "for_each (\<lambda>c _. seed_corridor decimalOf c) cs u db = (Inr u', db') \<longleftrightarrow>
     (\<exists>rows. result_map (corridor_row decimalOf) cs = Inr rows \<and> (\<forall>c \<in> set cs. find_unique (db_regions db) (cc_regionId c) \<noteq> None)
       \<and> db' = db\<lparr>db_corridors := seeded_corridors rows (db_corridors db)\<rparr>)"
  by (induction cs arbitrary: u db) (auto simp: andThen_Inr_iff seed_corridor_Inr result_simps)

lemma seed_Inr:
  "seed decimalOf config db = (Inr u, db') \<longleftrightarrow>
     (\<exists>rs cs. result_map (region_row decimalOf) (dc_regions config) = Inr rs
        \<and> result_map (corridor_row decimalOf) (dc_corridors config) = Inr cs
        \<and> (\<forall>c \<in> set (dc_corridors config). find_unique (seeded_regions rs (db_regions db)) (cc_regionId c) \<noteq> None)
        \<and> db' = db\<lparr>db_regions := seeded_regions rs (db_regions db), db_corridors := seeded_corridors cs (db_corridors db)\<rparr>)"
  by (auto simp: seed_def andThen_Inr_iff seed_regions_Inr seed_corridors_Inr)

text \<open>
  C13: seeding can run on every boot.  After a seed that returns, running it again returns and
  changes nothing; whatever the configuration says, no region or corridor is ever switched on or
  off or removed by it, those it does not name keep their row, and no other table is touched.
\<close>

theorem seeding_is_idempotent:
  assumes "seed decimalOf config db = (Inr (), db')" "table_ok (db_regions db)" "table_ok (db_corridors db)"
  shows "seed decimalOf config db' = (Inr (), db')
    \<and> (\<forall>i r. find_unique (db_regions db) i = Some r \<longrightarrow>
          (\<exists>r'. find_unique (db_regions db') i = Some r' \<and> rg_active r' = rg_active r
             \<and> (i \<notin> rc_id ` set (dc_regions config) \<longrightarrow> r' = r)))
    \<and> (\<forall>i c. find_unique (db_corridors db) i = Some c \<longrightarrow>
          (\<exists>c'. find_unique (db_corridors db') i = Some c' \<and> co_active c' = co_active c
             \<and> (i \<notin> cc_id ` set (dc_corridors config) \<longrightarrow> c' = c)))
    \<and> db' = db\<lparr>db_regions := db_regions db', db_corridors := db_corridors db'\<rparr>"
proof -
  obtain rs cs where rs: "result_map (region_row decimalOf) (dc_regions config) = Inr rs"
    and cs: "result_map (corridor_row decimalOf) (dc_corridors config) = Inr cs"
    and fk: "\<forall>c \<in> set (dc_corridors config). find_unique (seeded_regions rs (db_regions db)) (cc_regionId c) \<noteq> None"
    and db': "db' = db\<lparr>db_regions := seeded_regions rs (db_regions db), db_corridors := seeded_corridors cs (db_corridors db)\<rparr>"
    using assms(1) unfolding seed_Inr by blast
  have again: "seed decimalOf config db' = (Inr (), db')"
    unfolding seed_Inr using rs cs fk assms(2,3) by (simp add: db' regions.upserts_twice corridors.upserts_twice)
  have ids: "rg_id ` set rs = rc_id ` set (dc_regions config)" "co_id ` set cs = cc_id ` set (dc_corridors config)"
    using result_map_keys [OF rs, of rg_id rc_id] result_map_keys [OF cs, of co_id cc_id] region_row_Inr corridor_row_Inr
    by (metis list.set_map)+
  have last: "i \<in> rg_id ` set rs" if "regions.last_of rs i = Some r" for i r using that by (auto simp: find_Some_iff rev_nth)
  have last_c: "i \<in> co_id ` set cs" if "corridors.last_of cs i = Some c" for i c using that by (auto simp: find_Some_iff rev_nth)
  have r: "\<exists>r'. find_unique (db_regions db') i = Some r' \<and> rg_active r' = rg_active r \<and> (i \<notin> rc_id ` set (dc_regions config) \<longrightarrow> r' = r)"
    if "find_unique (db_regions db) i = Some r" for i r
    using that last [of i] ids by (auto simp: db' regions.find_upserts write_region_def split: option.split)
  have c: "\<exists>c'. find_unique (db_corridors db') i = Some c' \<and> co_active c' = co_active c \<and> (i \<notin> cc_id ` set (dc_corridors config) \<longrightarrow> c' = c)"
    if "find_unique (db_corridors db) i = Some c" for i c
    using that last_c [of i] ids by (auto simp: db' corridors.find_upserts write_corridor_def split: option.split)
  show ?thesis using again r c by (simp add: db')
qed

definition sample_config :: DeployConfig where
  "sample_config = \<lparr>dc_regions = [\<lparr>rc_id = ''NG_LAG'', rc_displayName = ''Lagos'', rc_countryCode = ''NG'',
       rc_currency = ''NGN'', rc_minBond = ''100'', rc_maxAgents = Whole 5, rc_utilizationCapBps = Whole 8000\<rparr>],
     dc_corridors = [\<lparr>cc_id = ''NGN_LAG'', cc_regionId = ''NG_LAG'', cc_sourceCurrency = ''USD'', cc_destCurrency = ''NGN'',
       cc_tier1Max = ''100'', cc_tier2Max = ''1000'', cc_dailyLimit = ''5000'', cc_spreadBps = Whole 75\<rparr>]\<rparr>"

theorem seeding_is_idempotent_witness:
  "\<exists>db'. seed (\<lambda>_. Inr 7) sample_config empty_database = (Inr (), db') \<and> length (db_corridors db') = 1
     \<and> seed (\<lambda>_. Inr 7) sample_config db' = (Inr (), db')"
proof -
  have "\<exists>db'. seed (\<lambda>_. Inr 7) sample_config empty_database = (Inr (), db') \<and> length (db_corridors db') = 1"
    unfolding seed_Inr
    by (simp add: sample_config_def region_row_def corridor_row_def int_column_def empty_database_def upsert_row_def
        result_simps find_unique_def)
  then obtain db' where db': "seed (\<lambda>_. Inr 7) sample_config empty_database = (Inr (), db')" "length (db_corridors db') = 1" by blast
  have "table_ok (db_regions empty_database)" "table_ok (db_corridors empty_database)"
    by (simp_all add: empty_database_def table_ok_def)
  then show ?thesis using seeding_is_idempotent [OF db'(1)] db' by blast
qed

end
