(* ===== verification/ConsoleClient.thy ===== *)
theory ConsoleClient
  imports ConsoleApi Seed
begin

text \<open>
  \<open>admin-web/src/lib/api.ts\<close> and \<open>admin-web/src/lib/endpoints.ts\<close>: the console's reads.  A schema
  is a value of the type \<open>schema\<close>, and \<open>parse\<close> checks a JSON value against it and keeps the fields
  it declares; a request turns every outcome of the network into a result and never throws.
\<close>

section \<open>Schemas\<close>

datatype schema =
    ZString
  | ZNumber
  | ZBoolean
  | ZEnum "string list"
  | ZNullable schema
  | ZOptional schema
  | ZArray schema
  | ZObject "(string \<times> schema) list"

fun may_be_missing :: "schema \<Rightarrow> bool" where
  "may_be_missing (ZOptional s) = True"
| "may_be_missing (ZNullable s) = may_be_missing s"
| "may_be_missing _ = False"

text \<open>
  \<open>schema.parse\<close>: the value with undeclared fields dropped at every level, or \<open>None\<close> for the
  exception.  The fields of an object come out in the order of their declaration.
\<close>

fun parse :: "schema \<Rightarrow> json \<Rightarrow> json option"
  and parse_list :: "schema \<Rightarrow> json list \<Rightarrow> json list option"
  and parse_fields :: "(string \<times> schema) list \<Rightarrow> (string \<times> json) list \<Rightarrow> (string \<times> json) list option" where
  "parse ZString v = (case v of JStr s \<Rightarrow> Some v | _ \<Rightarrow> None)"
| "parse ZNumber v = (case v of JNum n \<Rightarrow> Some v | JReal t \<Rightarrow> Some v | _ \<Rightarrow> None)"
| "parse ZBoolean v = (case v of JBool b \<Rightarrow> Some v | _ \<Rightarrow> None)"
| "parse (ZEnum names) v = (case v of JStr s \<Rightarrow> if s \<in> set names then Some v else None | _ \<Rightarrow> None)"
| "parse (ZNullable s) v = (if v = JNull then Some JNull else parse s v)"
| "parse (ZOptional s) v = parse s v"
| "parse (ZArray s) v = (case v of JArr vs \<Rightarrow> map_option JArr (parse_list s vs) | _ \<Rightarrow> None)"
| "parse (ZObject fs) v = (case v of JObj es \<Rightarrow> map_option JObj (parse_fields fs es) | _ \<Rightarrow> None)"
| "parse_list s [] = Some []"
| "parse_list s (v # vs) = (case (parse s v, parse_list s vs) of (Some w, Some ws) \<Rightarrow> Some (w # ws) | _ \<Rightarrow> None)"
| "parse_fields [] es = Some []"
| "parse_fields ((k, s) # fs) es =
     (case (map_of es k, parse_fields fs es) of
        (None, Some ws) \<Rightarrow> if may_be_missing s then Some ws else None
      | (Some v, Some ws) \<Rightarrow> (case parse s v of Some w \<Rightarrow> Some ((k, w) # ws) | None \<Rightarrow> None)
      | _ \<Rightarrow> None)"

text \<open>\<open>a.extend(fs)\<close>.\<close>

definition extend_with :: "schema \<Rightarrow> (string \<times> schema) list \<Rightarrow> schema" where
  "extend_with s fs = (case s of ZObject es \<Rightarrow> ZObject (filter (\<lambda>(k, _). k \<notin> fst ` set fs) es @ fs) | _ \<Rightarrow> s)"

section \<open>Requests\<close>

datatype ApiResult = Loaded json | Failed string "nat option"

text \<open>What a failing \<open>fetch\<close> throws: an error with its name and message, or something else.\<close>

datatype transport_error = ThrownError string string | ThrownValue

type_synonym web_fetch = "string \<Rightarrow> transport_error + nat \<times> string"

text \<open>The messages of the parsers' exceptions.\<close>

record ParserTexts =
  pt_syntax :: "string \<Rightarrow> string"
  pt_schema :: "schema \<Rightarrow> json \<Rightarrow> string"

definition REQUEST_TIMEOUT_MS :: nat where
  "REQUEST_TIMEOUT_MS = 8000"

definition client_base :: "environment \<Rightarrow> string" where
  "client_base env = rev (dropWhile (\<lambda>c. c = CHR ''/'') (rev (option_or (env ''REMITBRIDGE_API_URL'') ''http://localhost:4000'')))"

definition errorEnvelope :: schema where
  "errorEnvelope = ZObject [(''error'', ZObject
     [(''code'', ZOptional ZString), (''message'', ZOptional ZString), (''requestId'', ZOptional ZString)])]"

definition envelope_text :: "string \<Rightarrow> json \<Rightarrow> string option" where
  "envelope_text k v = Option.bind (jget ''error'' v) (\<lambda>e. Option.bind (jget k e) jstring)"

definition failure_message :: "nat \<Rightarrow> string \<Rightarrow> string" where
  "failure_message status text =
     (let fallback = ''Backend returned '' @ show_nat status @ ''.'' in
      case Option.bind (json_parse text) (parse errorEnvelope) of
        None \<Rightarrow> fallback
      | Some v \<Rightarrow>
          join_text '' '' (filter (\<lambda>s. s \<noteq> [])
            [(case envelope_text ''message'' v of Some detail \<Rightarrow> detail | None \<Rightarrow> option_or (envelope_text ''code'' v) fallback),
             (case envelope_text ''requestId'' v of
                None \<Rightarrow> [] | Some r \<Rightarrow> if r = [] then [] else ''(request '' @ r @ '')'')]))"

definition transport_message :: "transport_error \<Rightarrow> string" where
  "transport_message e = (case e of
     ThrownValue \<Rightarrow> ''Unknown transport error.''
   | ThrownError name message \<Rightarrow>
       if name = ''TimeoutError'' then ''Backend did not respond within '' @ show_nat (REQUEST_TIMEOUT_MS div 1000) @ ''s.''
       else message)"

definition request :: "ParserTexts \<Rightarrow> environment \<Rightarrow> web_fetch \<Rightarrow> string \<Rightarrow> schema \<Rightarrow> ApiResult" where
  "request texts env fetch path s =
     (case fetch (client_base env @ path) of
        Inl e \<Rightarrow> Failed (transport_message e) None
      | Inr (status, text) \<Rightarrow>
          if \<not> (200 \<le> status \<and> status \<le> 299) then Failed (failure_message status text) (Some status)
          else (case (if text = [] then Some JNull else json_parse text) of
             None \<Rightarrow> Failed (pt_syntax texts text) None
           | Some v \<Rightarrow> (case parse s v of None \<Rightarrow> Failed (pt_schema texts s v) None | Some w \<Rightarrow> Loaded w)))"

definition apiGet :: "ParserTexts \<Rightarrow> environment \<Rightarrow> web_fetch \<Rightarrow> string \<Rightarrow> schema \<Rightarrow> ApiResult" where
  "apiGet texts env fetch path s = request texts env fetch (''/api/v1'' @ path) s"

definition apiGetRoot :: "ParserTexts \<Rightarrow> environment \<Rightarrow> web_fetch \<Rightarrow> string \<Rightarrow> schema \<Rightarrow> ApiResult" where
  "apiGetRoot texts env fetch path s = request texts env fetch path s"

definition orDefault :: "ApiResult \<Rightarrow> json \<Rightarrow> json" where
  "orDefault result fallback = (case result of Loaded data \<Rightarrow> data | Failed _ _ \<Rightarrow> fallback)"

section \<open>What a schema accepts\<close>

text \<open>
  The reference: \<open>fits s v\<close> says that a value has the declared fields with the declared types, and
  perhaps others; \<open>shaped s v\<close> that it has no others; \<open>part_of w v\<close> that \<open>w\<close> is \<open>v\<close> without some
  object fields.
\<close>

fun fits :: "schema \<Rightarrow> json \<Rightarrow> bool" and fits_fields :: "(string \<times> schema) list \<Rightarrow> (string \<times> json) list \<Rightarrow> bool" where
  "fits ZString v = (\<exists>s. v = JStr s)"
| "fits ZNumber v = ((\<exists>n. v = JNum n) \<or> (\<exists>t. v = JReal t))"
| "fits ZBoolean v = (\<exists>b. v = JBool b)"
| "fits (ZEnum names) v = (\<exists>s \<in> set names. v = JStr s)"
| "fits (ZNullable s) v = (v = JNull \<or> fits s v)"
| "fits (ZOptional s) v = fits s v"
| "fits (ZArray s) v = (\<exists>vs. v = JArr vs \<and> (\<forall>x \<in> set vs. fits s x))"
| "fits (ZObject fs) v = (\<exists>es. v = JObj es \<and> fits_fields fs es)"
| "fits_fields [] es = True"
| "fits_fields ((k, s) # fs) es =
     ((case map_of es k of None \<Rightarrow> may_be_missing s | Some v \<Rightarrow> fits s v) \<and> fits_fields fs es)"

definition declared :: "schema \<Rightarrow> string set" where
  "declared s = (case s of ZObject fs \<Rightarrow> fst ` set fs | _ \<Rightarrow> {})"

inductive part_of :: "json \<Rightarrow> json \<Rightarrow> bool" where
  same: "part_of v v"
| array: "list_all2 part_of ws vs \<Longrightarrow> part_of (JArr ws) (JArr vs)"
| object: "(\<And>k w. (k, w) \<in> set fs \<Longrightarrow> \<exists>v. map_of es k = Some v \<and> part_of w v) \<Longrightarrow> part_of (JObj fs) (JObj es)"

lemma parse_iff_fits:
  "(\<exists>w. parse s v = Some w) \<longleftrightarrow> fits s v"
  "(\<exists>ws. parse_list s vs = Some ws) \<longleftrightarrow> (\<forall>x \<in> set vs. fits s x)"
  "(\<exists>ws. parse_fields fs es = Some ws) \<longleftrightarrow> fits_fields fs es"
  by (induction s v and s vs and fs es rule: parse_parse_list_parse_fields.induct)
    (auto split: json.splits option.splits if_splits)

lemma part_of_object: "\<forall>(k, w) \<in> set fs. \<exists>v. map_of es k = Some v \<and> part_of w v \<Longrightarrow> part_of (JObj fs) (JObj es)"
  by (rule part_of.object) blast

lemma parse_part_of:
  "parse s v = Some w \<Longrightarrow> part_of w v"
  "parse_list s vs = Some ws \<Longrightarrow> list_all2 part_of ws vs"
  "parse_fields fs es = Some gs \<Longrightarrow> (\<forall>(k, w) \<in> set gs. \<exists>v. map_of es k = Some v \<and> part_of w v)"
proof (induction s v and s vs and fs es arbitrary: w and ws and gs rule: parse_parse_list_parse_fields.induct)
  case (8 fs v)
  then obtain es gs where v: "v = JObj es" "parse_fields fs es = Some gs" "w = JObj gs"
    by (auto split: json.splits)
  then show ?case using "8.IH" by (simp add: part_of_object)
qed (auto split: json.splits option.splits if_splits intro: part_of.same part_of.array)

text \<open>A schema whose objects declare a field once; parsing what was parsed changes nothing.\<close>

fun schema_ok :: "schema \<Rightarrow> bool" and fields_ok :: "(string \<times> schema) list \<Rightarrow> bool" where
  "schema_ok (ZNullable s) = schema_ok s"
| "schema_ok (ZOptional s) = schema_ok s"
| "schema_ok (ZArray s) = schema_ok s"
| "schema_ok (ZObject fs) = (distinct (map fst fs) \<and> fields_ok fs)"
| "schema_ok s = True"
| "fields_ok [] = True"
| "fields_ok ((k, s) # fs) = (schema_ok s \<and> fields_ok fs)"

lemma parse_fields_keys: "parse_fields fs es = Some gs \<Longrightarrow> set (map fst gs) \<subseteq> set (map fst fs)"
  by (induction fs arbitrary: gs) (auto split: option.splits if_splits simp del: set_map dest!: subsetD)

lemma parse_fields_other: "k \<notin> fst ` set fs \<Longrightarrow> parse_fields fs ((k, w) # es) = parse_fields fs es"
  by (induction fs) auto

lemma parse_idem:
  "parse s v = Some w \<Longrightarrow> schema_ok s \<Longrightarrow> parse s w = Some w"
  "parse_list s vs = Some ws \<Longrightarrow> schema_ok s \<Longrightarrow> parse_list s ws = Some ws"
  "parse_fields fs es = Some gs \<Longrightarrow> fields_ok fs \<Longrightarrow> distinct (map fst fs) \<Longrightarrow> parse_fields fs gs = Some gs"
proof (induction s v and s vs and fs es arbitrary: w and ws and gs rule: parse_parse_list_parse_fields.induct)
  case (12 k s fs es)
  from "12.prems"(1) obtain rest where rest: "parse_fields fs es = Some rest"
    by (auto split: option.splits)
  have k: "k \<notin> fst ` set fs" and ok: "schema_ok s" "fields_ok fs" "distinct (map fst fs)"
    using "12.prems"(2,3) by auto
  have again: "parse_fields fs rest = Some rest" using "12.IH"(1) rest ok by blast
  have fresh: "k \<notin> fst ` set rest" using parse_fields_keys [OF rest] k by auto
  show ?case
  proof (cases "map_of es k")
    case None
    then have "gs = rest" "may_be_missing s" using "12.prems"(1) rest by (auto split: if_splits)
    moreover have "map_of rest k = None" using fresh by (simp add: map_of_eq_None_iff)
    ultimately show ?thesis using again by simp
  next
    case (Some v)
    then obtain u where u: "parse s v = Some u" "gs = (k, u) # rest"
      using "12.prems"(1) rest by (auto split: option.splits)
    then have "parse s u = Some u" using "12.IH"(2) Some rest ok(1) by blast
    then show ?thesis using u(2) again parse_fields_other [OF k] by simp
  qed
qed (auto split: json.splits option.splits if_splits)

end
