(* ===== verification/Endpoints.thy ===== *)
theory Endpoints
  imports ConsoleClient
begin

text \<open>
  \<open>admin-web/src/lib/endpoints.ts\<close>: the schemas of the backend's answers, the rendering of query
  strings and path segments, and the console's reads, each a path and a schema.
\<close>

section \<open>Schemas\<close>

definition TIERS :: "string list" where
  "TIERS = [''NONE'', ''STANDARD'', ''ENHANCED'']"

definition region_schema :: schema where
  "region_schema = ZObject [(''id'', ZString), (''displayName'', ZString), (''countryCode'', ZString), (''currency'', ZString),
     (''minBond'', ZString), (''maxAgents'', ZNumber), (''active'', ZBoolean)]"

definition corridor_schema :: schema where
  "corridor_schema = ZObject [(''id'', ZString), (''sourceCurrency'', ZString), (''destCurrency'', ZString), (''regionId'', ZString),
     (''tier1Max'', ZString), (''tier2Max'', ZString), (''dailyLimit'', ZString), (''spreadBps'', ZNumber),
     (''active'', ZBoolean), (''region'', region_schema)]"

definition agent_schema :: schema where
  "agent_schema = ZObject [(''id'', ZString), (''stellarAddress'', ZString), (''settlementAddress'', ZString), (''legalName'', ZString),
     (''tradingName'', ZNullable ZString), (''regionId'', ZString),
     (''status'', ZEnum [''PENDING'', ''AUTHORIZED'', ''SUSPENDED'', ''REVOKED'']), (''bondAmount'', ZString),
     (''registeredAt'', ZString), (''authorizedAt'', ZNullable ZString), (''suspendedAt'', ZNullable ZString),
     (''revokedAt'', ZNullable ZString), (''slashCount'', ZNumber)]"

definition agent_detail_schema :: schema where
  "agent_detail_schema = extend_with agent_schema [(''totalDrawn'', ZString), (''collateralRatioBps'', ZNumber), (''requiredBond'', ZString),
     (''region'', ZOptional region_schema),
     (''exposure'', ZOptional (ZArray (ZObject [(''id'', ZString), (''regionId'', ZString), (''drawnAmount'', ZString)])))]"

definition attestation_schema :: schema where
  "attestation_schema = ZObject [(''id'', ZString), (''userId'', ZString), (''tier'', ZEnum TIERS),
     (''status'', ZEnum [''PENDING'', ''ACTIVE'', ''EXPIRED'', ''REVOKED'']), (''regionId'', ZString), (''providerId'', ZString),
     (''issuedAt'', ZString), (''expiresAt'', ZString), (''revokedAt'', ZNullable ZString)]"

definition transfer_schema :: schema where
  "transfer_schema = ZObject [(''id'', ZString), (''corridorId'', ZString), (''amount'', ZString), (''fee'', ZString), (''payout'', ZString),
     (''tokenAddress'', ZString), (''claimHash'', ZString),
     (''status'', ZEnum [''PENDING'', ''CLAIMED'', ''REFUNDED'', ''CANCELLED'']), (''expiry'', ZString), (''createdAt'', ZString),
     (''settledAt'', ZNullable ZString), (''claimedBy'', ZNullable ZString),
     (''corridor'', ZOptional (ZObject [(''id'', ZString), (''destCurrency'', ZString)])),
     (''agent'', ZOptional (ZNullable (ZObject [(''id'', ZString), (''legalName'', ZString), (''tradingName'', ZNullable ZString)])))]"

definition alert_schema :: schema where
  "alert_schema = ZObject [(''id'', ZString), (''agentId'', ZString), (''regionId'', ZString),
     (''kind'', ZEnum [''FLOAT_LOW'', ''COLLATERAL_TIGHT'', ''POOL_UTILIZATION_HIGH'']), (''thresholdBps'', ZNumber),
     (''observedBps'', ZNumber), (''status'', ZEnum [''OPEN'', ''ACKNOWLEDGED'', ''RESOLVED'']), (''createdAt'', ZString),
     (''agent'', ZOptional (ZObject [(''id'', ZString), (''legalName'', ZString), (''tradingName'', ZNullable ZString), (''regionId'', ZString)]))]"

definition top_up_schema :: schema where
  "top_up_schema = ZObject [(''id'', ZString), (''agentId'', ZString), (''regionId'', ZString), (''amountRequested'', ZString), (''reason'', ZString),
     (''status'', ZEnum [''PENDING'', ''APPROVED'', ''REJECTED'', ''EXECUTED'', ''FAILED'']), (''requestedBy'', ZString),
     (''approvedBy'', ZNullable ZString), (''decisionNote'', ZNullable ZString), (''txHash'', ZNullable ZString),
     (''failureReason'', ZNullable ZString), (''createdAt'', ZString), (''decidedAt'', ZNullable ZString), (''executedAt'', ZNullable ZString),
     (''agent'', ZOptional (ZObject [(''id'', ZString), (''legalName'', ZString), (''tradingName'', ZNullable ZString)]))]"

definition pool_health_schema :: schema where
  "pool_health_schema = ZObject [(''region'', region_schema),
     (''pool'', ZObject [(''totalDeposited'', ZString), (''totalDrawn'', ZString), (''available'', ZString), (''utilizationBps'', ZNumber),
        (''utilizationCapBps'', ZNumber), (''capturedAt'', ZNullable ZString), (''stale'', ZBoolean)]),
     (''agentExposureTotal'', ZString)]"

definition readiness_schema :: schema where
  "readiness_schema = ZObject [(''status'', ZString), (''network'', ZString), (''networkLabel'', ZString),
     (''contracts'', ZObject [(''escrow'', ZString), (''agentRegistry'', ZString), (''complianceHook'', ZString), (''liquidityPool'', ZString)]),
     (''limits'', ZObject [(''maxFeeBps'', ZNumber)]), (''kycProvider'', ZString)]"

definition kyc_config_schema :: schema where
  "kyc_config_schema = ZObject [(''provider'', ZString), (''supportedTiers'', ZArray (ZEnum TIERS)),
     (''enhancedDueDiligence'', ZBoolean), (''attestationTtlDays'', ZNumber), (''webhookSignatureRequired'', ZBoolean)]"

definition compliance_tiers_schema :: schema where
  "compliance_tiers_schema = ZObject [(''corridorId'', ZString),
     (''tiers'', ZArray (ZObject [(''tier'', ZEnum TIERS), (''upTo'', ZString), (''description'', ZString)])),
     (''dailyLimit'', ZString), (''spreadBps'', ZNumber)]"

definition agents_schema :: schema where
  "agents_schema = ZObject [(''agents'', ZArray agent_schema)]"

definition alerts_schema :: schema where
  "alerts_schema = ZObject [(''alerts'', ZArray alert_schema)]"

definition top_ups_schema :: schema where
  "top_ups_schema = ZObject [(''requests'', ZArray top_up_schema)]"

definition attestations_schema :: schema where
  "attestations_schema = ZObject [(''attestations'', ZArray attestation_schema), (''expiresSweepable'', ZNumber)]"

definition transfers_schema :: schema where
  "transfers_schema = ZObject [(''transfers'', ZArray transfer_schema),
     (''indexer'', ZObject [(''lastLedger'', ZNullable ZNumber), (''updatedAt'', ZNullable ZString)])]"

definition corridors_schema :: schema where
  "corridors_schema = ZObject [(''corridors'', ZArray corridor_schema)]"

section \<open>Addresses\<close>

definition upper_hex :: "nat \<Rightarrow> char" where
  "upper_hex n = (if n < 10 then char_of (48 + n) else char_of (55 + n))"

definition percent_encode :: "(char \<Rightarrow> bool) \<Rightarrow> string \<Rightarrow> string" where
  "percent_encode keep bytes =
     concat (map (\<lambda>b. if keep b then [b] else [CHR ''%'', upper_hex (cu b div 16), upper_hex (cu b mod 16)]) bytes)"

definition alphanumeric :: "char \<Rightarrow> bool" where
  "alphanumeric c \<longleftrightarrow> is_digit c \<or> (CHR ''a'' \<le> c \<and> c \<le> CHR ''z'') \<or> (CHR ''A'' \<le> c \<and> c \<le> CHR ''Z'')"

text \<open>\<open>encodeURIComponent\<close>, and a value as \<open>URLSearchParams\<close> writes it.\<close>

definition encodeURIComponent :: "string \<Rightarrow> string" where
  "encodeURIComponent s = percent_encode (\<lambda>c. alphanumeric c \<or> c \<in> set ''-_.!~*()'' \<or> c = CHR 0x27) (utf8_encode s)"

definition form_encode :: "string \<Rightarrow> string" where
  "form_encode s = concat (map (\<lambda>c. if c = CHR '' '' then [CHR ''+''] else percent_encode (\<lambda>c. alphanumeric c \<or> c \<in> set ''*-._'') [c]) (utf8_encode s))"

text \<open>The parameters that are set and not empty; numbers are given as their text.\<close>

definition query :: "(string \<times> string option) list \<Rightarrow> string" where
  "query params =
     (let rendered = join_text ''&'' (concat (map (\<lambda>(k, v). case v of
            None \<Rightarrow> [] | Some t \<Rightarrow> if t = [] then [] else [form_encode k @ ''='' @ form_encode t]) params))
      in if rendered = [] then [] else CHR ''?'' # rendered)"

section \<open>Reads\<close>

text \<open>What the console reads: the path under \<open>/api/v1\<close> and the schema of the answer.  The parameters of a
  list come in the order their type declares them.\<close>

datatype endpoint =
    KycConfig
  | Agents "string option" "string option" "int option"
  | AgentById string
  | Alerts string
  | TopUps "string option"
  | PoolHealth string
  | Attestations "string option" "string option" "int option"
  | Transfers "string option" "string option" "int option"
  | Corridors
  | ComplianceTiers string

fun endpoint_path :: "endpoint \<Rightarrow> string" where
  "endpoint_path KycConfig = ''/kyc/config''"
| "endpoint_path (Agents region status limit) =
     ''/agents'' @ query [(''regionId'', region), (''status'', status), (''limit'', map_option show_int limit)]"
| "endpoint_path (AgentById i) = ''/agents/'' @ encodeURIComponent i"
| "endpoint_path (Alerts status) = ''/agents/liquidity/alerts'' @ query [(''status'', Some status)]"
| "endpoint_path (TopUps status) = ''/agents/liquidity/top-ups'' @ query [(''status'', status)]"
| "endpoint_path (PoolHealth regionId) = ''/liquidity/regions/'' @ encodeURIComponent regionId"
| "endpoint_path (Attestations status region limit) =
     ''/kyc/attestations'' @ query [(''status'', status), (''regionId'', region), (''limit'', map_option show_int limit)]"
| "endpoint_path (Transfers corridor status limit) =
     ''/transfers'' @ query [(''corridorId'', corridor), (''status'', status), (''limit'', map_option show_int limit)]"
| "endpoint_path Corridors = ''/corridors''"
| "endpoint_path (ComplianceTiers i) = ''/corridors/'' @ encodeURIComponent i @ ''/compliance-tiers''"

fun endpoint_schema :: "endpoint \<Rightarrow> schema" where
  "endpoint_schema KycConfig = kyc_config_schema"
| "endpoint_schema (Agents region status limit) = agents_schema"
| "endpoint_schema (AgentById i) = agent_detail_schema"
| "endpoint_schema (Alerts status) = alerts_schema"
| "endpoint_schema (TopUps status) = top_ups_schema"
| "endpoint_schema (PoolHealth regionId) = pool_health_schema"
| "endpoint_schema (Attestations status region limit) = attestations_schema"
| "endpoint_schema (Transfers corridor status limit) = transfers_schema"
| "endpoint_schema Corridors = corridors_schema"
| "endpoint_schema (ComplianceTiers i) = compliance_tiers_schema"

definition read_endpoint :: "ParserTexts \<Rightarrow> environment \<Rightarrow> web_fetch \<Rightarrow> endpoint \<Rightarrow> ApiResult" where
  "read_endpoint texts env fetch e = apiGet texts env fetch (endpoint_path e) (endpoint_schema e)"

definition read_readiness :: "ParserTexts \<Rightarrow> environment \<Rightarrow> web_fetch \<Rightarrow> ApiResult" where
  "read_readiness texts env fetch = apiGetRoot texts env fetch ''/readyz'' readiness_schema"

lemmas schema_defs = region_schema_def corridor_schema_def agent_schema_def agent_detail_schema_def extend_with_def
  attestation_schema_def transfer_schema_def alert_schema_def top_up_schema_def pool_health_schema_def
  kyc_config_schema_def compliance_tiers_schema_def readiness_schema_def agents_schema_def alerts_schema_def top_ups_schema_def
  attestations_schema_def transfers_schema_def corridors_schema_def TIERS_def

lemma endpoint_schema_ok: "schema_ok (endpoint_schema e)"
  by (cases e) (simp_all add: schema_defs)

section \<open>An identifier stays in its segment\<close>

text \<open>The reading of a percent-encoded text.\<close>

fun percent_decode :: "string \<Rightarrow> string" where
  "percent_decode (c # a # b # s) =
     (if c = CHR ''%'' then (case (hex_val a, hex_val b) of
          (Some x, Some y) \<Rightarrow> char_of (16 * x + y) # percent_decode s
        | _ \<Rightarrow> c # percent_decode (a # b # s))
      else c # percent_decode (a # b # s))"
| "percent_decode s = s"

lemma percent_decode_plain: "c \<noteq> CHR ''%'' \<Longrightarrow> percent_decode (c # s) = c # percent_decode s"
  by (cases s rule: percent_decode.cases) auto

lemma hex_val_upper_hex: "n < 16 \<Longrightarrow> hex_val (upper_hex n) = Some n"
  by (auto simp: hex_val_def upper_hex_def of_char_of take_bit_eq_mod)

lemma upper_hex_alphanumeric: "n < 16 \<Longrightarrow> alphanumeric (upper_hex n)"
  by (auto simp: alphanumeric_def upper_hex_def is_digit_def less_eq_char_def of_char_of take_bit_eq_mod)

lemma byte_nibble: "cu b div 16 < 16"
  by (rule less_mult_imp_div_less) simp

lemma percent_decode_byte: "percent_decode (CHR ''%'' # upper_hex (cu b div 16) # upper_hex (cu b mod 16) # s) = b # percent_decode s"
  by (simp add: hex_val_upper_hex byte_nibble)

lemma percent_decode_encode: "\<not> keep CHR ''%'' \<Longrightarrow> percent_decode (percent_encode keep s) = s"
proof (induction s)
  case (Cons b s)
  then have ih: "percent_decode (percent_encode keep s) = s" by simp
  show ?case
  proof (cases "keep b")
    case True
    then have "b \<noteq> CHR ''%''" using Cons.prems by auto
    then show ?thesis using True ih by (simp add: percent_encode_def percent_decode_plain)
  next
    case False
    then have "percent_encode keep (b # s) = CHR ''%'' # upper_hex (cu b div 16) # upper_hex (cu b mod 16) # percent_encode keep s"
      by (simp add: percent_encode_def)
    then show ?thesis by (simp only: percent_decode_byte ih)
  qed
qed (simp add: percent_encode_def)

lemma percent_encode_set: "c \<in> set (percent_encode keep s) \<Longrightarrow> keep c \<or> alphanumeric c \<or> c = CHR ''%''"
proof (induction s)
  case (Cons b s)
  have "alphanumeric (upper_hex (cu b div 16))" "alphanumeric (upper_hex (cu b mod 16))"
    by (simp_all add: upper_hex_alphanumeric byte_nibble)
  then show ?case using Cons by (auto simp: percent_encode_def split: if_splits)
qed (simp add: percent_encode_def)


end
