(* ===== verification/Horizon.thy ===== *)
theory Horizon
  imports Zod Env
begin

text \<open>
  \<open>backend/src/quoting-service/oracle.ts\<close> and \<open>horizon-source.ts\<close>: the price sources.  What
  the network answers is an argument; times are milliseconds.
\<close>

section \<open>Rates\<close>

definition RATE_SCALE :: int where "RATE_SCALE = 10000000"

record RateTick =
  rt_base :: string
  rt_quote :: string
  rt_rate :: int
  rt_source :: string
  rt_observedAt :: int

datatype sourceKind = Dex | Oracle | Static

text \<open>\<open>psrc_fetchRate now base quote\<close>.\<close>

record PriceSource =
  psrc_id :: string
  psrc_kind :: sourceKind
  psrc_fetchRate :: "int \<Rightarrow> string \<Rightarrow> string \<Rightarrow> failure + RateTick"

definition StaticPriceSource :: "(string \<times> int) list \<Rightarrow> PriceSource" where
  "StaticPriceSource rates = \<lparr>psrc_id = ''static-config'', psrc_kind = Static,
     psrc_fetchRate = (\<lambda>now base quote.
       let key = base @ ''/'' @ quote in
       case map_of rates key of
         None \<Rightarrow> Inl (AppErr (providerUnavailable ''static-config'' (''no configured rate for '' @ key)))
       | Some rate \<Rightarrow> Inr \<lparr>rt_base = base, rt_quote = quote, rt_rate = rate,
           rt_source = ''static-config'', rt_observedAt = now\<rparr>)\<rparr>"

text \<open>\<open>poolHealth\<close> is the utilization the chain reports; \<open>None\<close> when the field is absent.\<close>

definition SorobanPoolPriceSource :: "(string \<Rightarrow> failure + int option) \<Rightarrow> string \<Rightarrow> PriceSource" where
  "SorobanPoolPriceSource poolHealth regionId = \<lparr>psrc_id = ''soroban-pool'', psrc_kind = Dex,
     psrc_fetchRate = (\<lambda>now base quote.
       rbind (poolHealth regionId) (\<lambda>u.
         let utilization = option_or u 0;
             baseRate = 1500 * RATE_SCALE;
             adjusted = baseRate + tdiv (baseRate * utilization) 100000
         in Inr \<lparr>rt_base = base, rt_quote = quote, rt_rate = adjusted,
              rt_source = ''soroban-pool:'' @ regionId, rt_observedAt = now\<rparr>))\<rparr>"

definition MAX_TICK_AGE_MS :: int where "MAX_TICK_AGE_MS = 60000"

definition assertFresh :: "RateTick \<Rightarrow> int \<Rightarrow> failure + unit" where
  "assertFresh tick now =
     (let age = now - rt_observedAt tick in
      if age > MAX_TICK_AGE_MS
      then Inl (AppErr (providerUnavailable (rt_source tick)
             (''rate tick is '' @ show_int age @ ''ms old (max '' @ show_int MAX_TICK_AGE_MS @ ''ms)'')))
      else Inr ())"

section \<open>The Stellar DEX\<close>

definition PROBE_AMOUNT :: string where "PROBE_AMOUNT = ''100''"

definition STELLAR_DECIMALS :: nat where "STELLAR_DECIMALS = 7"

record SdexAsset =
  sa_code :: string
  sa_issuer :: "string option"

text \<open>
  One entry of the mapping; \<open>indexOf(':')\<close> splits at the first colon.  The ellipsis of the first
  message is written as three dots, its code unit lying outside the model's range.
\<close>

definition parseSdexEntry :: "string \<Rightarrow> json \<Rightarrow> failure + SdexAsset" where
  "parseSdexEntry currency value = (case value of
     JStr v \<Rightarrow>
       (if v = ''native'' then Inr \<lparr>sa_code = ''XLM'', sa_issuer = None\<rparr>
        else
          (let separated = CHR '':'' \<in> set v;
               code = (if separated then takeWhile (\<lambda>c. c \<noteq> CHR '':'') v else []);
               issuer = (if separated then drop 1 (dropWhile (\<lambda>c. c \<noteq> CHR '':'') v) else [])
           in if code = [] \<or> issuer = []
              then Inl (PlainErr (''SDEX_ASSETS['' @ [CHR 0x22] @ currency @ [CHR 0x22] @ ''] must be '' @ [CHR 0x22]
                     @ ''CODE:ISSUER'' @ [CHR 0x22] @ '' or '' @ [CHR 0x22] @ ''native'' @ [CHR 0x22] @ '', got ''
                     @ [CHR 0x22] @ v @ [CHR 0x22] @ ''.''))
              else Inr \<lparr>sa_code = code, sa_issuer = Some issuer\<rparr>))
   | _ \<Rightarrow> Inl (PlainErr (''SDEX_ASSETS['' @ [CHR 0x22] @ currency @ [CHR 0x22] @ ''] must be a string, e.g. '' @ [CHR 0x22]
         @ ''USDC:GABC...'' @ [CHR 0x22] @ '' or '' @ [CHR 0x22] @ ''native'' @ [CHR 0x22] @ ''.'')))"

fun parseSdexEntries ::
  "(string \<times> SdexAsset) list \<Rightarrow> (string \<times> json) list \<Rightarrow> failure + (string \<times> SdexAsset) list" where
  "parseSdexEntries assets [] = Inr assets"
| "parseSdexEntries assets ((currency, value) # es) =
     rbind (parseSdexEntry currency value) (\<lambda>a. parseSdexEntries (obj_set currency a assets) es)"

text \<open>\<open>syntaxError\<close> is the runtime's rendering of the parse error.\<close>

definition parseSdexAssets :: "(string \<Rightarrow> string) \<Rightarrow> string \<Rightarrow> failure + (string \<times> SdexAsset) list" where
  "parseSdexAssets syntaxError raw = (case json_parse raw of
     None \<Rightarrow> Inl (PlainErr (''SDEX_ASSETS is not valid JSON: '' @ syntaxError raw))
   | Some (JObj es) \<Rightarrow> parseSdexEntries [] es
   | Some _ \<Rightarrow> Inl (PlainErr ''SDEX_ASSETS must be a JSON object mapping a currency to an asset.''))"

text \<open>\<open>/^(-?)(\d+)(?:\.(\d+))?$/\<close>, an optional sign before a decimal text.\<close>

definition parseStellarAmount :: "string \<Rightarrow> string + int" where
  "parseStellarAmount value =
     (let sign = (case value of c # _ \<Rightarrow> c = CHR ''-'' | [] \<Rightarrow> False);
          body = (if sign then drop 1 value else value);
          whole = takeWhile is_digit body;
          fraction = drop 1 (dropWhile is_digit body)
      in if \<not> is_decimal_text body
         then Inl (''not a Stellar decimal amount: '' @ [CHR 0x22] @ value @ [CHR 0x22])
         else if length fraction > STELLAR_DECIMALS
         then Inl ([CHR 0x22] @ value @ [CHR 0x22] @ '' has more than 7 decimal places'')
         else
           (let padded = padEnd STELLAR_DECIMALS (CHR ''0'') fraction;
                scaled = digits_val whole * 10 ^ STELLAR_DECIMALS + digits_val padded
            in Inr (if sign then - scaled else scaled)))"

definition assetTypeOf :: "SdexAsset \<Rightarrow> string" where
  "assetTypeOf asset = (case sa_issuer asset of None \<Rightarrow> ''native''
     | Some _ \<Rightarrow> if length (sa_code asset) \<le> 4 then ''credit_alphanum4'' else ''credit_alphanum12'')"

definition queryFor :: "SdexAsset \<Rightarrow> (string \<times> string) list \<Rightarrow> string \<Rightarrow> (string \<times> string) list" where
  "queryFor asset params prefix =
     (let ps = obj_set (prefix @ ''_asset_type'') (assetTypeOf asset) params in
      case sa_issuer asset of None \<Rightarrow> ps
      | Some issuer \<Rightarrow> obj_set (prefix @ ''_asset_issuer'') issuer (obj_set (prefix @ ''_asset_code'') (sa_code asset) ps))"

text \<open>\<open>URLSearchParams.prototype.toString\<close>: form encoding of the UTF-8 bytes.\<close>

definition percent :: "nat \<Rightarrow> string" where
  "percent b = [CHR 0x25] @ upper_chars (hex_char (b div 16)) @ upper_chars (hex_char (b mod 16))"

definition form_char :: "char \<Rightarrow> string" where
  "form_char c =
     (if is_digit c \<or> (65 \<le> cu c \<and> cu c \<le> 90) \<or> (97 \<le> cu c \<and> cu c \<le> 122) \<or> c \<in> set ''*-._'' then [c]
      else if c = CHR '' '' then ''+''
      else if cu c < 128 then percent (cu c)
      else percent (192 + cu c div 64) @ percent (128 + cu c mod 64))"

definition form_encode :: "(string \<times> string) list \<Rightarrow> string" where
  "form_encode ps = join_on (CHR 0x26) (map (\<lambda>(k, v). concat (map form_char k) @ ''='' @ concat (map form_char v)) ps)"

text \<open>The validated response.\<close>

record PathRecord =
  pr_source_amount :: string
  pr_destination_amount :: string
  pr_destination_asset_type :: string
  pr_destination_asset_code :: "string option"
  pr_destination_asset_issuer :: "string option"

definition pathRecordSchema :: "json \<Rightarrow> PathRecord option" where
  "pathRecordSchema v =
     (case (required jstring ''source_amount'' v, required jstring ''destination_amount'' v,
            required jstring ''destination_asset_type'' v, optional jstring ''destination_asset_code'' v,
            optional jstring ''destination_asset_issuer'' v) of
        (Some s, Some d, Some t, Some c, Some i) \<Rightarrow>
          Some \<lparr>pr_source_amount = s, pr_destination_amount = d, pr_destination_asset_type = t,
            pr_destination_asset_code = c, pr_destination_asset_issuer = i\<rparr>
      | _ \<Rightarrow> None)"

definition strictSendSchema :: "json \<Rightarrow> PathRecord list option" where
  "strictSendSchema v =
     required (\<lambda>e. required (\<lambda>r. case jarray r of None \<Rightarrow> None | Some rs \<Rightarrow> all_some pathRecordSchema rs) ''records'' e)
       ''_embedded'' v"

definition render :: "SdexAsset \<Rightarrow> string" where
  "render asset = (case sa_issuer asset of None \<Rightarrow> sa_code asset | Some i \<Rightarrow> sa_code asset @ '':'' @ i)"

definition renderDestination :: "SdexAsset \<Rightarrow> string" where
  "renderDestination asset = (case sa_issuer asset of None \<Rightarrow> ''native'' | Some i \<Rightarrow> sa_code asset @ '':'' @ i)"

datatype thrown = ErrorObject string string | OtherThrown string

fun describe :: "thrown \<Rightarrow> string" where
  "describe (ErrorObject name message) = (if name = ''TimeoutError'' then ''timed out'' else message)"
| "describe (OtherThrown t) = t"

definition parseAmount :: "string \<Rightarrow> string \<Rightarrow> failure + int" where
  "parseAmount value provider = (case parseStellarAmount value of
     Inl message \<Rightarrow> Inl (AppErr (providerUnavailable provider (''Horizon returned an unparseable amount: '' @ message)))
   | Inr n \<Rightarrow> Inr n)"

fun best_rate :: "string \<Rightarrow> int option \<Rightarrow> PathRecord list \<Rightarrow> failure + int option" where
  "best_rate provider rate [] = Inr rate"
| "best_rate provider rate (r # rs) =
     rbind (parseAmount (pr_destination_amount r) provider) (\<lambda>destinationAmount.
     rbind (parseAmount (pr_source_amount r) provider) (\<lambda>sourceAmount.
       if sourceAmount \<le> 0 then best_rate provider rate rs
       else
         (let candidate = tdiv (destinationAmount * RATE_SCALE) sourceAmount in
          best_rate provider
            (case rate of None \<Rightarrow> Some candidate | Some m \<Rightarrow> if candidate > m then Some candidate else Some m) rs)))"

text \<open>What \<open>fetch\<close> gives: a throw, or a response with its status and its body if it is JSON.\<close>

datatype fetched = FetchThrew thrown | Fetched nat "json option"

definition strip_slashes :: "string \<Rightarrow> string" where
  "strip_slashes s = rev (dropWhile (\<lambda>c. c = CHR ''/'') (rev s))"

definition strictSendUrl :: "string \<Rightarrow> SdexAsset \<Rightarrow> SdexAsset \<Rightarrow> string" where
  "strictSendUrl horizonUrl source destination =
     (let params = obj_set ''destination_assets'' (renderDestination destination)
                     (obj_set ''source_amount'' PROBE_AMOUNT (queryFor source [] ''source''))
      in strip_slashes horizonUrl @ ''/paths/strict-send?'' @ form_encode params)"

definition horizon_fetchRate ::
  "(string \<Rightarrow> fetched) \<Rightarrow> string \<Rightarrow> (string \<times> SdexAsset) list \<Rightarrow> int \<Rightarrow> string \<Rightarrow> string \<Rightarrow> failure + RateTick" where
  "horizon_fetchRate fetch horizonUrl assets now base quote =
     (let unavailable = (\<lambda>m. Inl (AppErr (providerUnavailable ''horizon-sdex'' m))) in
      case (map_of assets base, map_of assets quote) of
        (Some source, Some destination) \<Rightarrow>
          (case fetch (strictSendUrl horizonUrl source destination) of
             FetchThrew cause \<Rightarrow> unavailable (''Horizon request failed: '' @ describe cause)
           | Fetched status body \<Rightarrow>
              (if \<not> (200 \<le> status \<and> status \<le> 299)
               then unavailable (''Horizon returned '' @ show_nat status @ '' for '' @ base @ ''/'' @ quote)
               else
                 (case strictSendSchema (option_or body JNull) of
                    None \<Rightarrow> unavailable ''Horizon returned an unrecognised paths response''
                  | Some records \<Rightarrow>
                     (if records = []
                      then unavailable (''no SDEX path from '' @ base @ '' ('' @ render source @ '') to '' @ quote
                             @ '' ('' @ render destination @ '')'')
                      else
                        rbind (best_rate ''horizon-sdex'' None records) (\<lambda>rate.
                          case rate of
                            None \<Rightarrow> unavailable ''Horizon returned no usable rate for the requested path''
                          | Some r \<Rightarrow>
                             (if r \<le> 0 then unavailable ''Horizon returned no usable rate for the requested path''
                              else Inr \<lparr>rt_base = base, rt_quote = quote, rt_rate = r,
                                rt_source = ''horizon-sdex:'' @ render source @ ''->'' @ render destination,
                                rt_observedAt = now\<rparr>))))))
      | (s, _) \<Rightarrow> unavailable (''no SDEX asset configured for '' @ (if s = None then base else quote)
          @ ''; add it to SDEX_ASSETS''))"

definition HorizonDexPriceSource :: "(string \<Rightarrow> fetched) \<Rightarrow> string \<Rightarrow> (string \<times> SdexAsset) list \<Rightarrow> PriceSource" where
  "HorizonDexPriceSource fetch horizonUrl assets = \<lparr>psrc_id = ''horizon-sdex'', psrc_kind = Dex,
     psrc_fetchRate = horizon_fetchRate fetch horizonUrl assets\<rparr>"

definition buildDefaultSource :: "(string \<Rightarrow> string) \<Rightarrow> (string \<Rightarrow> fetched) \<Rightarrow> Env \<Rightarrow> failure + PriceSource" where
  "buildDefaultSource syntaxError fetch env =
     (if env_PRICE_SOURCE env = ''horizon''
      then rbind (parseSdexAssets syntaxError (option_or (env_SDEX_ASSETS env) ''{}'')) (\<lambda>assets.
             Inr (HorizonDexPriceSource fetch (env_HORIZON_URL env) assets))
      else Inr (StaticPriceSource [
        (''USD/NGN'', 1500 * RATE_SCALE), (''USD/KES'', 129 * RATE_SCALE), (''USD/GHS'', 15 * RATE_SCALE)]))"

section \<open>Amounts\<close>

text \<open>Horizon's amounts and the user's amounts are read by the same rule.\<close>

lemma parseStellarAmount_decimal:
  assumes "is_digit_text w" "all_digits f" "length f \<le> 7"
  shows "parseStellarAmount (if f = [] then w else w @ CHR ''.'' # f)
    = Inr (digits_val w * STROOPS_PER_UNIT + digits_val f * 10 ^ (7 - length f))"
proof -
  let ?s = "if f = [] then w else w @ CHR ''.'' # f"
  obtain c t where w: "w = c # t" "is_digit c" using assms(1) by (cases w) (auto simp: is_digit_text_def)
  have sign: "(case ?s of d # _ \<Rightarrow> d = CHR ''-'' | [] \<Rightarrow> False) = False" using w by (auto simp: is_digit_def)
  have "\<forall>c\<in>set w. is_digit c" using assms(1) by (simp add: is_digit_text_def all_digits_set)
  then have parts: "takeWhile is_digit ?s = w" "drop 1 (dropWhile is_digit ?s) = f"
    by (auto simp: takeWhile_stop dropWhile_stop is_digit_def)
  show ?thesis
    unfolding parseStellarAmount_def sign Let_def if_False parts
    using is_decimal_text_parts [OF assms(1,2)] assms(3)
    by (simp add: STELLAR_DECIMALS_def digits_val_padEnd STROOPS_PER_UNIT_def)
qed

lemma parseStellarAmount_toStroops:
  assumes "toStroops s = Inr n" "trim s = s"
  shows "parseStellarAmount s = Inr n"
  using assms(1)
proof (rule toStroops_Inr_cases)
  fix w f
  assume "is_digit_text w" "all_digits f" "length f \<le> 7" "trim s = (if f = [] then w else w @ CHR ''.'' # f)"
    "n = digits_val w * STROOPS_PER_UNIT + digits_val f * 10 ^ (7 - length f)"
  then show "parseStellarAmount s = Inr n"
    using parseStellarAmount_decimal [of w f] assms(2) by simp
qed

section \<open>The best path\<close>

definition usable :: "PathRecord \<Rightarrow> int \<Rightarrow> bool" where
  "usable r c \<longleftrightarrow> (\<exists>d s. parseStellarAmount (pr_destination_amount r) = Inr d
     \<and> parseStellarAmount (pr_source_amount r) = Inr s \<and> s > 0 \<and> c = tdiv (d * RATE_SCALE) s)"

lemma parseAmount_Inr: "parseAmount v p = Inr n \<longleftrightarrow> parseStellarAmount v = Inr n"
  by (auto simp: parseAmount_def split: sum.splits)

lemma usable_unique: "usable r c \<Longrightarrow> usable r c' \<Longrightarrow> c = c'"
  by (auto simp: usable_def)

lemma best_rate_max:
  assumes "best_rate p m rs = Inr (Some b)"
  shows "(m = Some b \<or> (\<exists>r\<in>set rs. usable r b)) \<and> (\<forall>a. m = Some a \<longrightarrow> a \<le> b)
    \<and> (\<forall>r\<in>set rs. \<forall>c. usable r c \<longrightarrow> c \<le> b)"
  using assms
proof (induction p m rs rule: best_rate.induct)
  case (1 p m)
  then show ?case by simp
next
  case (2 p m r rs)
  obtain d s where ds: "parseAmount (pr_destination_amount r) p = Inr d" "parseAmount (pr_source_amount r) p = Inr s"
    using 2(3) by (auto simp: rbind_Inr_iff)
  show ?case
  proof (cases "s \<le> 0")
    case True
    then have "best_rate p m rs = Inr (Some b)" using 2(3) ds by simp
    note IH = 2(1) [OF ds True this]
    have "\<not> usable r c" for c using ds True by (auto simp: usable_def parseAmount_Inr)
    then show ?thesis using IH by auto
  next
    case False
    define c where "c = tdiv (d * RATE_SCALE) s"
    let ?m = "case m of None \<Rightarrow> Some c | Some a \<Rightarrow> if c > a then Some c else Some a"
    have "best_rate p ?m rs = Inr (Some b)" using 2(3) ds False unfolding c_def by (simp add: Let_def)
    note IH = 2(2) [OF ds False c_def this]
    have u: "usable r c" using ds False by (auto simp: usable_def parseAmount_Inr c_def)
    have cb: "c \<le> b" using IH by (cases m) (auto split: if_splits)
    have mb: "\<forall>a. m = Some a \<longrightarrow> a \<le> b" using IH by (cases m) (auto split: if_splits)
    have att: "m = Some b \<or> (\<exists>q\<in>set (r # rs). usable q b)"
      using IH u by (cases m) (auto split: if_splits)
    have "c' \<le> b" if "usable r c'" for c' using usable_unique [OF u that] cb by simp
    then show ?thesis using IH mb att by auto
  qed
qed

lemma horizon_fetchRate_Inr:
  assumes "horizon_fetchRate fetch url assets now base quote = Inr t"
  obtains source destination status body records r where
    "map_of assets base = Some source" "map_of assets quote = Some destination"
    "fetch (strictSendUrl url source destination) = Fetched status body" "200 \<le> status" "status \<le> 299"
    "strictSendSchema (option_or body JNull) = Some records"
    "best_rate ''horizon-sdex'' None records = Inr (Some r)" "r > 0"
    "t = \<lparr>rt_base = base, rt_quote = quote, rt_rate = r,
       rt_source = ''horizon-sdex:'' @ render source @ ''->'' @ render destination, rt_observedAt = now\<rparr>"
  using assms
  by (auto simp: horizon_fetchRate_def Let_def rbind_Inr_iff
      split: option.splits fetched.splits if_splits)

text \<open>
  C31: a rate the DEX source returns is real and the best on offer: it is positive, it is the
  truncated price of one of the paths Horizon returned, and no path whose amounts can be read
  pays more.
\<close>

theorem horizon_rate_is_best:
  assumes "horizon_fetchRate fetch url assets now base quote = Inr t"
  shows "\<exists>source destination status body records.
    map_of assets base = Some source \<and> map_of assets quote = Some destination
    \<and> fetch (strictSendUrl url source destination) = Fetched status body
    \<and> strictSendSchema (option_or body JNull) = Some records
    \<and> 0 < rt_rate t
    \<and> (\<exists>r\<in>set records. usable r (rt_rate t))
    \<and> (\<forall>r\<in>set records. \<forall>c. usable r c \<longrightarrow> c \<le> rt_rate t)"
  using assms
proof (rule horizon_fetchRate_Inr)
  fix source destination status body records r
  assume a: "map_of assets base = Some source" "map_of assets quote = Some destination"
    "fetch (strictSendUrl url source destination) = Fetched status body"
    "strictSendSchema (option_or body JNull) = Some records"
    "best_rate ''horizon-sdex'' None records = Inr (Some r)" "r > 0"
    "t = \<lparr>rt_base = base, rt_quote = quote, rt_rate = r,
       rt_source = ''horizon-sdex:'' @ render source @ ''->'' @ render destination, rt_observedAt = now\<rparr>"
  show ?thesis using best_rate_max [OF a(5)] a by auto
qed

definition sample_paths :: json where
  "sample_paths = JObj [(''_embedded'', JObj [(''records'', JArr [
     JObj [(''source_amount'', JStr ''100''), (''destination_amount'', JStr ''153000.5''),
           (''destination_asset_type'', JStr ''credit_alphanum4'')],
     JObj [(''source_amount'', JStr ''0''), (''destination_amount'', JStr ''9''),
           (''destination_asset_type'', JStr ''credit_alphanum4'')],
     JObj [(''source_amount'', JStr ''100''), (''destination_amount'', JStr ''152000''),
           (''destination_asset_type'', JStr ''credit_alphanum4'')]])])]"

definition sample_assets :: "(string \<times> SdexAsset) list" where
  "sample_assets = [(''USD'', \<lparr>sa_code = ''USDC'', sa_issuer = Some ''GA''\<rparr>), (''NGN'', \<lparr>sa_code = ''NGNT'', sa_issuer = Some ''GB''\<rparr>)]"

theorem horizon_rate_is_best_witness:
  "\<exists>t source destination status body records.
    horizon_fetchRate (\<lambda>_. Fetched 200 (Some sample_paths)) ''https://h/'' sample_assets 0 ''USD'' ''NGN'' = Inr t
    \<and> rt_rate t = 15300050000 \<and> map_of sample_assets ''USD'' = Some source \<and> map_of sample_assets ''NGN'' = Some destination
    \<and> Fetched 200 (Some sample_paths) = Fetched status body
    \<and> strictSendSchema (option_or body JNull) = Some records \<and> (\<exists>r\<in>set records. usable r (rt_rate t))"
proof -
  let ?f = "\<lambda>_ :: string. Fetched 200 (Some sample_paths)"
  have c: "(case horizon_fetchRate ?f ''https://h/'' sample_assets 0 ''USD'' ''NGN'' of
      Inr t \<Rightarrow> rt_rate t = 15300050000 | Inl e \<Rightarrow> False)"
    by code_simp
  then obtain t where t: "horizon_fetchRate ?f ''https://h/'' sample_assets 0 ''USD'' ''NGN'' = Inr t" "rt_rate t = 15300050000"
    using c by (cases "horizon_fetchRate ?f ''https://h/'' sample_assets 0 ''USD'' ''NGN''") auto
  show ?thesis using horizon_rate_is_best [OF t(1)] t by blast
qed

end
