(* ===== verification/Canonical.thy ===== *)
theory Canonical
  imports JsonRoundtrip
begin

text \<open>
  \<open>canonicalize\<close> of \<open>backend/src/kyc-orchestration/provider.ts\<close>, the serialisation every hash
  and signature of the backend is taken over, and the interface of a keyed signature scheme
  (\<open>mac_scheme\<close>) that the quote signer and the console's session cookie both provide.
\<close>

section \<open>Canonical serialisation\<close>

text \<open>
  A property whose value is \<open>undefined\<close> is no entry of a \<open>json\<close> object, so the filter of the
  source has nothing left to remove.  The comparison of keys by \<open><\<close> is the lexicographic
  order on code units.
\<close>

fun canonicalize :: "json \<Rightarrow> string"
  and canon_elems :: "json list \<Rightarrow> string list"
  and canon_entries :: "(string \<times> json) list \<Rightarrow> (string \<times> string) list" where
  "canonicalize (JArr vs) = ''['' @ join_on (CHR '','') (canon_elems vs) @ '']''"
| "canonicalize (JObj es) =
     ''{'' @ join_on (CHR '','') (map (\<lambda>(k, t). quote_str k @ '':'' @ t) (sort_key fst (canon_entries es))) @ ''}''"
| "canonicalize v = stringify v"
| "canon_elems [] = []"
| "canon_elems (v # vs) = canonicalize v # canon_elems vs"
| "canon_entries [] = []"
| "canon_entries ((k, v) # es) = (k, canonicalize v) # canon_entries es"

text \<open>The same value with the entries of every object in key order.\<close>

fun sort_keys :: "json \<Rightarrow> json"
  and sort_elems :: "json list \<Rightarrow> json list"
  and sort_entries :: "(string \<times> json) list \<Rightarrow> (string \<times> json) list" where
  "sort_keys (JArr vs) = JArr (sort_elems vs)"
| "sort_keys (JObj es) = JObj (sort_key fst (sort_entries es))"
| "sort_keys v = v"
| "sort_elems [] = []"
| "sort_elems (v # vs) = sort_keys v # sort_elems vs"
| "sort_entries [] = []"
| "sort_entries ((k, v) # es) = (k, sort_keys v) # sort_entries es"

lemma str_elems_join: "str_elems vs = join_on (CHR '','') (map stringify vs)"
proof (induction vs)
  case (Cons v vs)
  then show ?case by (cases vs) simp_all
qed simp

lemma str_members_join:
  "str_members es = join_on (CHR '','') (map (\<lambda>(k, v). quote_str k @ '':'' @ stringify v) es)"
proof (induction es)
  case (Cons e es)
  then show ?case by (cases e; cases es) auto
qed simp

fun on_snd :: "('v \<Rightarrow> 'w) \<Rightarrow> 'k \<times> 'v \<Rightarrow> 'k \<times> 'w" where
  "on_snd g (k, v) = (k, g v)"

lemma insort_key_map_snd:
  "insort_key fst (k, g v) (map (on_snd g) es) = map (on_snd g) (insort_key fst (k, v) es)"
  by (induction es) auto

lemma sort_key_map_snd: "sort_key fst (map (on_snd g) es) = map (on_snd g) (sort_key fst es)"
proof (induction es)
  case (Cons e es)
  obtain k v where e: "e = (k, v)" by (cases e)
  have "sort_key fst (map (on_snd g) (e # es)) = insort_key fst (k, g v) (sort_key fst (map (on_snd g) es))"
    by (simp add: sort_key_def e)
  also have "\<dots> = map (on_snd g) (insort_key fst (k, v) (sort_key fst es))"
    by (simp only: Cons insort_key_map_snd)
  finally show ?case by (simp add: sort_key_def e)
qed (simp add: sort_key_def)

lemma canonicalize_sort:
  "canonicalize v = stringify (sort_keys v)"
  "canon_elems vs = map stringify (sort_elems vs)"
  "canon_entries es = map (on_snd stringify) (sort_entries es)"
proof (induction v and vs and es rule: canonicalize_canon_elems_canon_entries.induct)
  case (2 es)
  have f: "(\<lambda>(k, t). quote_str k @ '':'' @ t) \<circ> on_snd stringify = (\<lambda>(k, v). quote_str k @ '':'' @ stringify v)"
    by auto
  show ?case
    by (simp only: canonicalize.simps sort_keys.simps stringify.simps 2 sort_key_map_snd str_members_join map_map f)
qed (simp_all add: str_elems_join)

lemma sort_entries_keys: "map fst (sort_entries es) = map fst es"
  by (induction es) auto

lemma sort_keys_wf:
  "json_wf v \<Longrightarrow> json_wf (sort_keys v)"
  "elems_wf vs \<Longrightarrow> elems_wf (sort_elems vs)"
  "members_wf es \<Longrightarrow> members_wf (sort_entries es)"
proof (induction v and vs and es rule: sort_keys_sort_elems_sort_entries.induct)
  case (2 es)
  have "distinct (map fst (sort_key fst (sort_entries es)))"
    using 2 by (simp add: distinct_map inj_on_def) (metis distinct_map fst_conv inj_on_def json_wf.simps(7) sort_entries_keys)
  moreover have "members_wf (sort_key fst (sort_entries es))" using 2 by (simp add: members_wf_iff)
  ultimately show ?case by simp
qed simp_all

text \<open>Two values have the same canonical text exactly when they differ only in key order.\<close>

lemma canonicalize_eq_iff:
  assumes "json_wf v" "json_wf w"
  shows "canonicalize v = canonicalize w \<longleftrightarrow> sort_keys v = sort_keys w"
  using stringify_inj [OF sort_keys_wf(1) [OF assms(1)] sort_keys_wf(1) [OF assms(2)]]
  by (auto simp: canonicalize_sort(1))

text \<open>The order of the entries of an object does not matter.\<close>

lemma sort_entries_map: "sort_entries es = map (on_snd sort_keys) es"
  by (induction es) auto

lemma sort_keys_permute:
  assumes "distinct (map fst es)" "set es = set fs" "distinct (map fst fs)"
  shows "sort_keys (JObj es) = sort_keys (JObj fs)"
proof -
  have d: "distinct es" "distinct fs" using assms by (auto simp: distinct_map)
  have inj: "inj_on fst (set es)" using assms(1) by (simp add: distinct_map)
  have "sort_key fst es = sort_key fst fs"
  proof (rule map_sorted_distinct_set_unique [of fst])
    show "inj_on fst (set (sort_key fst es) \<union> set (sort_key fst fs))" using inj assms(2) by simp
    show "distinct (map fst (sort_key fst es))" "distinct (map fst (sort_key fst fs))"
      using d inj assms(2) by (simp_all add: distinct_map)
    show "set (sort_key fst es) = set (sort_key fst fs)" using assms(2) by simp
  qed simp_all
  then show ?thesis by (simp only: sort_keys.simps sort_entries_map sort_key_map_snd)
qed

lemma canonicalize_order:
  "distinct (map fst es) \<Longrightarrow> set es = set fs \<Longrightarrow> distinct (map fst fs) \<Longrightarrow>
     canonicalize (JObj es) = canonicalize (JObj fs)"
  unfolding canonicalize_sort(1) by (rule arg_cong [OF sort_keys_permute])

text \<open>For objects of plain values, the canonical text determines the entries as a set.\<close>

lemma sort_keys_entries_set:
  "sort_keys (JObj es) = sort_keys (JObj fs) \<Longrightarrow> (k, v) \<in> set es \<Longrightarrow> \<exists>w. (k, w) \<in> set fs \<and> sort_keys v = sort_keys w"
proof -
  assume *: "sort_keys (JObj es) = sort_keys (JObj fs)" "(k, v) \<in> set es"
  have "sort_key fst (sort_entries es) = sort_key fst (sort_entries fs)" using *(1) by (simp only: sort_keys.simps json.inject)
  then have "set (sort_key fst (sort_entries es)) = set (sort_key fst (sort_entries fs))" by (rule arg_cong)
  then have "set (sort_entries es) = set (sort_entries fs)" by simp
  moreover have "(k, sort_keys v) \<in> set (sort_entries es)"
    using *(2) by (force simp: sort_entries_map)
  ultimately have "(k, sort_keys v) \<in> set (sort_entries fs)" by blast
  then show ?thesis by (auto simp: sort_entries_map)
qed

section \<open>Keyed signatures\<close>

text \<open>
  A scheme signs a message by applying a keyed digest \<open>mac\<close> to its encoding, and accepts a
  signature exactly when it is that digest.  What a client may rely on: its own signatures
  are accepted, and, when the digest separates distinct encodings (the collision resistance
  of HMAC-SHA-256, stated as injectivity), a signature is accepted for no other message.
\<close>

locale mac_scheme =
  fixes mac :: "string \<Rightarrow> string"
    and encode :: "'b \<Rightarrow> string"
    and valid :: "'b \<Rightarrow> bool"
    and sign :: "'b \<Rightarrow> string"
    and accepts :: "'b \<Rightarrow> string \<Rightarrow> bool"
  assumes sign_is_mac: "valid b \<Longrightarrow> sign b = mac (encode b)"
    and accepts_iff_mac: "valid b \<Longrightarrow> accepts b s \<longleftrightarrow> s = mac (encode b)"
begin

lemma accepts_own_signature: "valid b \<Longrightarrow> accepts b (sign b)"
  by (simp add: sign_is_mac accepts_iff_mac)

lemma only_signature: "valid b \<Longrightarrow> accepts b s \<Longrightarrow> s = sign b"
  by (simp add: sign_is_mac accepts_iff_mac)

lemma tampering_detected:
  "inj mac \<Longrightarrow> valid b \<Longrightarrow> valid c \<Longrightarrow> accepts c (sign b) \<longleftrightarrow> encode c = encode b"
  by (auto simp: sign_is_mac accepts_iff_mac inj_def)

end

end
