(* ===== verification/Signer.thy ===== *)
theory Signer
  imports Canonical Errors JsDate
begin

text \<open>
  \<open>backend/src/quoting-service/signer.ts\<close>: a quote is signed by an HMAC over the canonical
  serialisation of its body.  The digest \<open>hmac secret message\<close> (hexadecimal) and the public key
  of a signer are arguments.
\<close>

section \<open>Quotes\<close>

record QuoteBody =
  qb_quoteId :: string
  qb_corridorId :: string
  qb_base :: string
  qb_quote :: string
  qb_midRate :: string
  qb_spreadBps :: int
  qb_clientRate :: string
  qb_amount :: string
  qb_fee :: string
  qb_total :: string
  qb_oracleSource :: string
  qb_validUntil :: string

record SignedQuote = QuoteBody +
  sq_signature :: string
  sq_algorithm :: string
  sq_signingKey :: string

definition quote_entries :: "('a QuoteBody_scheme) \<Rightarrow> (string \<times> json) list" where
  "quote_entries b = [
     (''quoteId'', JStr (qb_quoteId b)), (''corridorId'', JStr (qb_corridorId b)),
     (''base'', JStr (qb_base b)), (''quote'', JStr (qb_quote b)),
     (''midRate'', JStr (qb_midRate b)), (''spreadBps'', JNum (qb_spreadBps b)),
     (''clientRate'', JStr (qb_clientRate b)), (''amount'', JStr (qb_amount b)),
     (''fee'', JStr (qb_fee b)), (''total'', JStr (qb_total b)),
     (''oracleSource'', JStr (qb_oracleSource b)), (''validUntil'', JStr (qb_validUntil b))]"

definition signed_entries :: "SignedQuote \<Rightarrow> (string \<times> json) list" where
  "signed_entries q = quote_entries q @ [(''signature'', JStr (sq_signature q)),
     (''algorithm'', JStr (sq_algorithm q)), (''signingKey'', JStr (sq_signingKey q))]"

definition signQuote :: "(string \<Rightarrow> string \<Rightarrow> string) \<Rightarrow> QuoteBody \<Rightarrow> string \<Rightarrow> string \<Rightarrow> SignedQuote" where
  "signQuote hmac body signerKey secret =
     QuoteBody.extend body
       \<lparr>sq_signature = hmac secret (canonicalize (JObj (quote_entries body))),
        sq_algorithm = ''hmac-sha256'',
        sq_signingKey = signerKey\<rparr>"

text \<open>
  \<open>verifyQuote\<close> receives whatever object the caller presents, so it is modelled on the entries
  of a JSON object.  \<open>Buffer.from(signature)\<close> throws a \<open>TypeError\<close> on a value it cannot convert;
  \<open>toBuffer\<close> is that conversion, which is the identity on strings (the model's strings are
  compared by their bytes).
\<close>

definition unsigned_entries :: "(string \<times> json) list \<Rightarrow> (string \<times> json) list" where
  "unsigned_entries q = obj_delete ''signature'' (obj_delete ''algorithm'' (obj_delete ''signingKey'' q))"

definition verifyQuote ::
  "(string \<Rightarrow> string \<Rightarrow> string) \<Rightarrow> (json option \<Rightarrow> failure + string) \<Rightarrow>
   (string \<times> json) list \<Rightarrow> string \<Rightarrow> string option \<Rightarrow> failure + bool" where
  "verifyQuote hmac toBuffer quote secret expectedKey =
     (if map_of quote ''algorithm'' \<noteq> Some (JStr ''hmac-sha256'') then Inr False
      else if (case expectedKey of None \<Rightarrow> False | Some k \<Rightarrow> map_of quote ''signingKey'' \<noteq> Some (JStr k)) then Inr False
      else
        (let expected = hmac secret (canonicalize (JObj (unsigned_entries quote)))
         in rbind (toBuffer (map_of quote ''signature'')) (\<lambda>provided.
              if length provided \<noteq> length expected then Inr False else Inr (provided = expected))))"

text \<open>\<open>Date.parse\<close> of a value that is not a string converts it first; \<open>legacyValue\<close> is that case.\<close>

definition isQuoteLive :: "(string \<Rightarrow> int option) \<Rightarrow> (json option \<Rightarrow> int option) \<Rightarrow> json option \<Rightarrow> int \<Rightarrow> bool" where
  "isQuoteLive legacy legacyValue validUntil now =
     (case (case validUntil of Some (JStr s) \<Rightarrow> date_parse legacy s | v \<Rightarrow> legacyValue v) of
        None \<Rightarrow> False
      | Some t \<Rightarrow> t > now)"

definition validityWindow :: "int \<Rightarrow> int \<Rightarrow> string" where
  "validityWindow ttlSeconds now = toISOString (now + ttlSeconds * 1000)"

section \<open>Signing and verifying\<close>

lemma quote_entries_keys [simp]: "map fst (quote_entries b) =
  [''quoteId'', ''corridorId'', ''base'', ''quote'', ''midRate'', ''spreadBps'', ''clientRate'', ''amount'',
   ''fee'', ''total'', ''oracleSource'', ''validUntil'']"
  by (simp add: quote_entries_def)

lemma quote_entries_extend [simp]: "quote_entries (QuoteBody.extend b r) = quote_entries b"
  by (simp add: quote_entries_def QuoteBody.extend_def)

lemma quote_entries_wf: "\<bar>qb_spreadBps b\<bar> \<le> MAX_SAFE_INTEGER \<Longrightarrow> json_wf (JObj (quote_entries b))"
  by (simp add: quote_entries_def)

lemma quote_entries_inj: "quote_entries b = quote_entries c \<Longrightarrow> b = c" for b c :: QuoteBody
  by (cases b; cases c) (simp add: quote_entries_def)

lemma quote_entries_sort: "sort_entries (quote_entries b) = quote_entries b"
  by (simp add: quote_entries_def)

text \<open>The canonical text of a body determines the body.\<close>

lemma canonical_quote_inj:
  fixes b c :: QuoteBody
  assumes "\<bar>qb_spreadBps b\<bar> \<le> MAX_SAFE_INTEGER" "\<bar>qb_spreadBps c\<bar> \<le> MAX_SAFE_INTEGER"
    and "canonicalize (JObj (quote_entries b)) = canonicalize (JObj (quote_entries c))"
  shows "b = c"
proof -
  have s: "sort_keys (JObj (quote_entries b)) = sort_keys (JObj (quote_entries c))"
    using canonicalize_eq_iff [OF quote_entries_wf [OF assms(1)] quote_entries_wf [OF assms(2)]] assms(3) by (rule iffD1)
  then have k: "sort_key fst (quote_entries b) = sort_key fst (quote_entries c)"
    by (simp only: sort_keys.simps quote_entries_sort json.inject)
  have "set (quote_entries b) = set (quote_entries c)" using arg_cong [OF k, of set] by simp
  moreover have "distinct (map fst (quote_entries b))" "distinct (map fst (quote_entries c))" by simp_all
  ultimately have "map_of (quote_entries b) = map_of (quote_entries c)" by (simp only: map_of_inject_set)
  then have e: "map_of (quote_entries b) k = map_of (quote_entries c) k" for k by simp
  show ?thesis
    using e [of "''quoteId''"] e [of "''corridorId''"] e [of "''base''"] e [of "''quote''"] e [of "''midRate''"]
      e [of "''spreadBps''"] e [of "''clientRate''"] e [of "''amount''"] e [of "''fee''"] e [of "''total''"]
      e [of "''oracleSource''"] e [of "''validUntil''"]
    by (cases b; cases c) (simp add: quote_entries_def)
qed

lemma unsigned_signed: "unsigned_entries (signed_entries q) = quote_entries q"
  by (simp add: unsigned_entries_def signed_entries_def quote_entries_def obj_delete_def)

lemma signed_lookup:
  "map_of (signed_entries q) ''algorithm'' = Some (JStr (sq_algorithm q))"
  "map_of (signed_entries q) ''signingKey'' = Some (JStr (sq_signingKey q))"
  "map_of (signed_entries q) ''signature'' = Some (JStr (sq_signature q))"
  by (simp_all add: signed_entries_def quote_entries_def)

definition string_buffer :: "(json option \<Rightarrow> failure + string) \<Rightarrow> bool" where
  "string_buffer toBuffer \<longleftrightarrow> (\<forall>s. toBuffer (Some (JStr s)) = Inr s)"

lemma verify_signed:
  assumes "string_buffer toBuffer"
  shows "verifyQuote hmac toBuffer (signed_entries q) secret expectedKey = Inr
    (sq_algorithm q = ''hmac-sha256'' \<and> (case expectedKey of None \<Rightarrow> True | Some k \<Rightarrow> sq_signingKey q = k)
     \<and> sq_signature q = hmac secret (canonicalize (JObj (quote_entries q))))"
  using assms by (auto simp: verifyQuote_def signed_lookup unsigned_signed string_buffer_def Let_def split: option.splits)

text \<open>The quote signer is a keyed signature scheme over its bodies.\<close>

definition with_signature :: "QuoteBody \<Rightarrow> string \<Rightarrow> string \<Rightarrow> SignedQuote" where
  "with_signature b key s =
     QuoteBody.extend b \<lparr>sq_signature = s, sq_algorithm = ''hmac-sha256'', sq_signingKey = key\<rparr>"

definition accepts_quote ::
  "(string \<Rightarrow> string \<Rightarrow> string) \<Rightarrow> string \<Rightarrow> string \<Rightarrow> QuoteBody \<Rightarrow> string \<Rightarrow> bool" where
  "accepts_quote hmac secret key b s \<longleftrightarrow>
     verifyQuote hmac (\<lambda>v. case v of Some (JStr t) \<Rightarrow> Inr t | _ \<Rightarrow> Inl (PlainErr ''TypeError''))
       (signed_entries (with_signature b key s)) secret (Some key) = Inr True"

lemma string_buffer_example:
  "string_buffer (\<lambda>v. case v of Some (JStr t) \<Rightarrow> Inr t | _ \<Rightarrow> Inl (PlainErr ''TypeError''))"
  by (simp add: string_buffer_def)

lemma with_signature_sel [simp]:
  "sq_signature (with_signature b k s) = s" "sq_algorithm (with_signature b k s) = ''hmac-sha256''"
  "sq_signingKey (with_signature b k s) = k" "quote_entries (with_signature b k s) = quote_entries b"
  by (simp_all add: with_signature_def QuoteBody.extend_def quote_entries_def)

interpretation quotes: mac_scheme "hmac secret" "\<lambda>b. canonicalize (JObj (quote_entries b))"
    "\<lambda>b :: QuoteBody. \<bar>qb_spreadBps b\<bar> \<le> MAX_SAFE_INTEGER"
    "\<lambda>b. sq_signature (signQuote hmac b key secret)" "accepts_quote hmac secret key"
  for hmac :: "string \<Rightarrow> string \<Rightarrow> string" and secret :: string and key :: string
proof unfold_locales
  fix b :: QuoteBody and s
  show "sq_signature (signQuote hmac b key secret) = hmac secret (canonicalize (JObj (quote_entries b)))"
    by (simp add: signQuote_def QuoteBody.extend_def)
  show "accepts_quote hmac secret key b s \<longleftrightarrow> s = hmac secret (canonicalize (JObj (quote_entries b)))"
    by (simp add: accepts_quote_def verify_signed [OF string_buffer_example])
qed

lemma signQuote_with_signature:
  "signQuote hmac b key secret = with_signature b key (sq_signature (signQuote hmac b key secret))"
  by (simp add: signQuote_def with_signature_def QuoteBody.extend_def)


definition sample_body :: QuoteBody where
  "sample_body = \<lparr>qb_quoteId = ''q1'', qb_corridorId = ''NGN_LAG'', qb_base = ''USD'', qb_quote = ''NGN'',
     qb_midRate = ''15000000000'', qb_spreadBps = 75, qb_clientRate = ''14887500000'', qb_amount = ''1000000000'',
     qb_fee = ''29775000000'', qb_total = ''1458975000000'', qb_oracleSource = ''static-config'',
     qb_validUntil = ''2026-01-01T00:00:45.000Z''\<rparr>"


text \<open>A quote is live for exactly its window, when its deadline is a four-digit year.\<close>

lemma validityWindow_live:
  assumes "iso_range (now + ttl * 1000)"
  shows "isQuoteLive legacy lv (Some (JStr (validityWindow ttl now))) later \<longleftrightarrow> later < now + ttl * 1000"
  using assms by (simp add: isQuoteLive_def validityWindow_def date_parse_toISOString)

end
