(* ===== verification/Quoting.thy ===== *)
theory Quoting
  imports Horizon Signer Schema
begin

text \<open>
  \<open>backend/src/quoting-service/service.ts\<close> and \<open>router.ts\<close>: pricing a transfer, signing and
  storing the quote, and the endpoints over it.  \<open>QuotingDeps\<close> gathers what the module reads
  from outside: the environment, the price source, the digest, the key derivation, the clock
  at its three readings and the fresh identifier.
\<close>

section \<open>Service\<close>

record QuotingDeps =
  qd_env :: Env
  qd_hmac :: "string \<Rightarrow> string \<Rightarrow> string"
  qd_publicKeyOf :: "string \<Rightarrow> string + string"
  qd_legacyDate :: "string \<Rightarrow> int option"
  qd_override :: "PriceSource option"
  qd_default :: "failure + PriceSource"
  qd_fetchedAt :: int
  qd_checkedAt :: int
  qd_signedAt :: int
  qd_quoteId :: string

definition priceSource :: "QuotingDeps \<Rightarrow> failure + PriceSource" where
  "priceSource d = (case qd_override d of Some s \<Rightarrow> Inr s | None \<Rightarrow> qd_default d)"

definition setPriceSource :: "PriceSource option \<Rightarrow> QuotingDeps \<Rightarrow> QuotingDeps" where
  "setPriceSource source d = d\<lparr>qd_override := source\<rparr>"

text \<open>\<open>keypairFromSecret\<close> of \<open>soroban/rpc.ts\<close>, reduced to the public key it gives.\<close>

definition keypairFromSecret :: "(string \<Rightarrow> string + string) \<Rightarrow> string \<Rightarrow> failure + string" where
  "keypairFromSecret publicKeyOf secret = (case publicKeyOf secret of
     Inl cause \<Rightarrow> Inl (PlainErr (''Malformed secret key (expected an S... StrKey): '' @ cause))
   | Inr k \<Rightarrow> Inr k)"

record QuoteInput =
  qi_corridorId :: string
  qi_amount :: string

record QuoteOutput =
  qo_signed :: SignedQuote
  qo_feeDisplay :: string
  qo_totalDisplay :: string

definition createQuote :: "QuotingDeps \<Rightarrow> QuoteInput \<Rightarrow> (Database, QuoteOutput) act" where
  "createQuote d input =
     andThen (get_state db_corridors) (\<lambda>corridors.
     andThen (found (find_unique corridors (qi_corridorId input)) (AppErr (notFound ''corridor'' (qi_corridorId input)))) (\<lambda>corridor.
     andThen (of_result (priceSource d)) (\<lambda>source.
     andThen (of_result (psrc_fetchRate source (qd_fetchedAt d) (co_sourceCurrency corridor) (co_destCurrency corridor))) (\<lambda>tick.
     andThen (of_result (assertFresh tick (qd_checkedAt d))) (\<lambda>_.
     andThen (of_result (toStroops (qi_amount input))) (\<lambda>amount.
     let spreadBps = co_spreadBps corridor in
     andThen (of_result (applyBps (rt_rate tick) (Whole spreadBps))) (\<lambda>spread.
     let clientRate = rt_rate tick - spread;
         converted = tdiv (amount * clientRate) RATE_SCALE;
         escrowFeeBps = 200 in
     andThen (of_result (applyBps converted (Whole escrowFeeBps))) (\<lambda>fee.
     let total = converted - fee;
         validUntil = validityWindow (env_QUOTE_TTL_SECONDS (qd_env d)) (qd_signedAt d);
         secret = env_QUOTE_SIGNING_SECRET_KEY (qd_env d) in
     andThen (of_result (keypairFromSecret (qd_publicKeyOf d) secret)) (\<lambda>signer.
     let signed = signQuote (qd_hmac d)
           \<lparr>qb_quoteId = qd_quoteId d, qb_corridorId = co_id corridor, qb_base = rt_base tick,
            qb_quote = rt_quote tick, qb_midRate = show_int (rt_rate tick), qb_spreadBps = spreadBps,
            qb_clientRate = show_int clientRate, qb_amount = show_int amount, qb_fee = show_int fee,
            qb_total = show_int total, qb_oracleSource = rt_source tick, qb_validUntil = validUntil\<rparr>
           signer secret in
     andThen (found (date_parse (qd_legacyDate d) validUntil) (PlainErr ''Invalid Date'')) (\<lambda>deadline.
     andThen (statement (\<lambda>db. rbind (create_row (qd_quoteId d)
         \<lparr>qu_id = qd_quoteId d, qu_corridorId = co_id corridor, qu_midRate = fromStroops (rt_rate tick),
          qu_spreadBps = spreadBps, qu_clientRate = fromStroops clientRate, qu_amount = amount, qu_fee = fee,
          qu_total = total, qu_oracleSource = rt_source tick, qu_signature = sq_signature signed,
          qu_signingKey = sq_signingKey signed, qu_validUntil = deadline, qu_consumedByTransfer = None\<rparr>
         (db_quotes db)) (\<lambda>qs. Inr (db\<lparr>db_quotes := qs\<rparr>)))) (\<lambda>_.
     ret \<lparr>qo_signed = signed, qo_feeDisplay = fromStroops fee, qo_totalDisplay = fromStroops total\<rparr>)))))))))))"

definition consumeQuote :: "string \<Rightarrow> int \<Rightarrow> (Database, unit) act" where
  "consumeQuote quoteId transferId =
     andThen (get_state db_quotes) (\<lambda>quotes.
     andThen (found (find_unique quotes quoteId) (AppErr (notFound ''quote'' quoteId))) (\<lambda>quote.
     statement (\<lambda>db. rbind (update_row quoteId (\<lambda>q. q\<lparr>qu_consumedByTransfer := Some transferId\<rparr>) (db_quotes db))
       (\<lambda>qs. Inr (db\<lparr>db_quotes := qs\<rparr>)))))"

definition signingKeypair :: "QuotingDeps \<Rightarrow> failure + string" where
  "signingKeypair d = keypairFromSecret (qd_publicKeyOf d) (env_QUOTE_SIGNING_SECRET_KEY (qd_env d))"

section \<open>Endpoints\<close>

text \<open>\<open>issues\<close> is the list the schema library reports for a body it refuses.\<close>

definition quoteSchema :: "json \<Rightarrow> QuoteInput option" where
  "quoteSchema v = (case (required (string_len 2 12) ''corridorId'' v, required amount_string ''amount'' v) of
     (Some c, Some a) \<Rightarrow> Some \<lparr>qi_corridorId = c, qi_amount = a\<rparr>
   | _ \<Rightarrow> None)"

definition quote_json :: "QuoteOutput \<Rightarrow> json" where
  "quote_json q = JObj (signed_entries (qo_signed q) @
     [(''feeDisplay'', JStr (qo_feeDisplay q)), (''totalDisplay'', JStr (qo_totalDisplay q))])"

definition post_quotes :: "(json \<Rightarrow> json) \<Rightarrow> QuotingDeps \<Rightarrow> json \<Rightarrow> (Database, Response) act" where
  "post_quotes issues d body =
     andThen (found (quoteSchema body) (AppErr (validationFailed [(''issues'', issues body)]))) (\<lambda>input.
     andThen (createQuote d input) (\<lambda>quote.
     ret \<lparr>res_status = 201, res_headers = [(''Location'', ''/quotes/'' @ qb_quoteId (qo_signed quote))],
       res_body = quote_json quote\<rparr>))"

definition post_quotes_verify ::
  "(json \<Rightarrow> json) \<Rightarrow> (json option \<Rightarrow> failure + string) \<Rightarrow> (json option \<Rightarrow> int option) \<Rightarrow> QuotingDeps \<Rightarrow> json \<Rightarrow> failure + Response" where
  "post_quotes_verify issues toBuffer legacyValue d body =
     (case required jobject ''quote'' body of
        None \<Rightarrow> Inl (AppErr (validationFailed [(''issues'', issues body)]))
      | Some quote \<Rightarrow>
          rbind (signingKeypair d) (\<lambda>key.
          rbind (verifyQuote (qd_hmac d) toBuffer quote (env_QUOTE_SIGNING_SECRET_KEY (qd_env d)) (Some key)) (\<lambda>signedOk.
          Inr (res_json (JObj ([
            (''signatureValid'', JBool signedOk),
            (''withinValidityWindow'', JBool (isQuoteLive (qd_legacyDate d) legacyValue (map_of quote ''validUntil'') (qd_checkedAt d)))]
            @ (case map_of quote ''validUntil'' of None \<Rightarrow> [] | Some v \<Rightarrow> [(''validUntil'', v)])
            @ (case map_of quote ''signingKey'' of None \<Rightarrow> [] | Some k \<Rightarrow> [(''signingKey'', k)])))))))"

text \<open>
  \<open>consumedByTransfer\<close> is a \<open>BigInt\<close> column, which \<open>res.json\<close> cannot write.  The columns the
  database maintains itself (\<open>createdAt\<close>, \<open>updatedAt\<close>) and its text of a decimal column are arguments.
\<close>

definition quote_row_entries :: "(string \<Rightarrow> (string \<times> json) list) \<Rightarrow> Quote \<Rightarrow> failure + (string \<times> json) list" where
  "quote_row_entries dates row = (case qu_consumedByTransfer row of
     Some t \<Rightarrow> Inl bigint_error
   | None \<Rightarrow> Inr ([
       (''id'', JStr (qu_id row)), (''corridorId'', JStr (qu_corridorId row)), (''midRate'', JStr (qu_midRate row)),
       (''spreadBps'', JNum (qu_spreadBps row)), (''clientRate'', JStr (qu_clientRate row)),
       (''amount'', JStr (show_int (qu_amount row))), (''fee'', JStr (show_int (qu_fee row))),
       (''total'', JStr (show_int (qu_total row))), (''oracleSource'', JStr (qu_oracleSource row)),
       (''signature'', JStr (qu_signature row)), (''signingKey'', JStr (qu_signingKey row)),
       (''validUntil'', JStr (toISOString (qu_validUntil row))), (''consumedByTransfer'', JNull)] @ dates (qu_id row)))"

definition get_quote :: "(string \<Rightarrow> (string \<times> json) list) \<Rightarrow> int \<Rightarrow> string \<Rightarrow> (Database, Response) act" where
  "get_quote dates now ident =
     andThen (get_state db_quotes) (\<lambda>quotes.
     case find_unique quotes ident of
       None \<Rightarrow> ret (res_status_json 404 (JObj [(''error'', JObj [(''code'', JStr ''NOT_FOUND''), (''message'', JStr ''quote not found'')])]))
     | Some row \<Rightarrow>
         andThen (of_result (quote_row_entries dates row)) (\<lambda>es.
         ret (res_json (JObj (es @ [
           (''consumed'', JBool (qu_consumedByTransfer row \<noteq> None)),
           (''live'', JBool (qu_validUntil row > now))])))))"

definition region_entries :: "(int \<Rightarrow> string) \<Rightarrow> (string \<Rightarrow> (string \<times> json) list) \<Rightarrow> Region \<Rightarrow> (string \<times> json) list" where
  "region_entries decimal dates r = [
     (''id'', JStr (rg_id r)), (''displayName'', JStr (rg_displayName r)), (''countryCode'', JStr (rg_countryCode r)),
     (''currency'', JStr (rg_currency r)), (''minBond'', JStr (decimal (rg_minBond r))),
     (''maxAgents'', JNum (rg_maxAgents r)), (''active'', JBool (rg_active r))] @ dates (rg_id r)"

definition corridor_entries ::
  "(string \<Rightarrow> (string \<times> json) list) \<Rightarrow> (string \<times> json) list \<Rightarrow> Corridor \<Rightarrow> (string \<times> json) list" where
  "corridor_entries dates region c = [
     (''id'', JStr (co_id c)), (''sourceCurrency'', JStr (co_sourceCurrency c)),
     (''destCurrency'', JStr (co_destCurrency c)), (''regionId'', JStr (co_regionId c)),
     (''tier1Max'', JStr (show_int (co_tier1Max c))), (''tier2Max'', JStr (show_int (co_tier2Max c))),
     (''dailyLimit'', JStr (show_int (co_dailyLimit c))), (''spreadBps'', JNum (co_spreadBps c)),
     (''active'', JBool (co_active c)), (''region'', JObj region)] @ dates (co_id c)"

text \<open>A corridor of the response, with its region, which the foreign key keeps in the database.\<close>

definition corridor_json ::
  "(int \<Rightarrow> string) \<Rightarrow> (string \<Rightarrow> (string \<times> json) list) \<Rightarrow> (string \<Rightarrow> (string \<times> json) list) \<Rightarrow> Database \<Rightarrow> Corridor \<Rightarrow> failure + json" where
  "corridor_json decimal corridorDates regionDates db c = (case find_unique (db_regions db) (co_regionId c) of
     None \<Rightarrow> Inl (PlainErr ''Inconsistent query result: Field region is required to return data, got null instead.'')
   | Some r \<Rightarrow> Inr (JObj (corridor_entries corridorDates (region_entries decimal regionDates r) c)))"

definition get_corridors ::
  "(int \<Rightarrow> string) \<Rightarrow> (string \<Rightarrow> (string \<times> json) list) \<Rightarrow> (string \<Rightarrow> (string \<times> json) list) \<Rightarrow> (Database, Response) act" where
  "get_corridors decimal corridorDates regionDates =
     andThen (get_state (\<lambda>db. db)) (\<lambda>db.
     andThen (of_result (result_map (corridor_json decimal corridorDates regionDates db) (find_many (\<lambda>_. True) (db_corridors db)))) (\<lambda>corridors.
     ret (res_json (JObj [(''corridors'', JArr corridors)]))))"

definition get_compliance_tiers :: "string \<Rightarrow> (Database, Response) act" where
  "get_compliance_tiers ident =
     andThen (get_state db_corridors) (\<lambda>corridors.
     ret (case find_unique corridors ident of
       None \<Rightarrow> res_status_json 404 (JObj [(''error'', JObj [(''code'', JStr ''NOT_FOUND''), (''message'', JStr ''corridor not found'')])])
     | Some c \<Rightarrow> res_json (JObj [
         (''corridorId'', JStr (co_id c)),
         (''tiers'', JArr [
            JObj [(''tier'', JStr ''NONE''), (''upTo'', JStr (show_int (co_tier1Max c))),
                  (''description'', JStr ''No verification required'')],
            JObj [(''tier'', JStr ''STANDARD''), (''upTo'', JStr (show_int (co_tier2Max c))),
                  (''description'', JStr ''Government-ID verification required'')],
            JObj [(''tier'', JStr ''ENHANCED''), (''upTo'', JStr (show_int (co_dailyLimit c))),
                  (''description'', JStr ''Enhanced due diligence: source of funds'')]]),
         (''dailyLimit'', JStr (show_int (co_dailyLimit c))),
         (''spreadBps'', JNum (co_spreadBps c))])))"

section \<open>Correctness\<close>

text \<open>Everything a successful \<open>createQuote\<close> did.\<close>

lemma createQuote_Inr:
  assumes "createQuote d input db = (Inr out, db')"
  obtains corridor source tick amount spread fee signer deadline where
    "find_unique (db_corridors db) (qi_corridorId input) = Some corridor"
    "priceSource d = Inr source"
    "psrc_fetchRate source (qd_fetchedAt d) (co_sourceCurrency corridor) (co_destCurrency corridor) = Inr tick"
    "assertFresh tick (qd_checkedAt d) = Inr ()"
    "toStroops (qi_amount input) = Inr amount"
    "applyBps (rt_rate tick) (Whole (co_spreadBps corridor)) = Inr spread"
    "applyBps (tdiv (amount * (rt_rate tick - spread)) RATE_SCALE) (Whole 200) = Inr fee"
    "keypairFromSecret (qd_publicKeyOf d) (env_QUOTE_SIGNING_SECRET_KEY (qd_env d)) = Inr signer"
    "date_parse (qd_legacyDate d) (validityWindow (env_QUOTE_TTL_SECONDS (qd_env d)) (qd_signedAt d)) = Some deadline"
    "qo_signed out = signQuote (qd_hmac d)
       \<lparr>qb_quoteId = qd_quoteId d, qb_corridorId = co_id corridor, qb_base = rt_base tick,
        qb_quote = rt_quote tick, qb_midRate = show_int (rt_rate tick), qb_spreadBps = co_spreadBps corridor,
        qb_clientRate = show_int (rt_rate tick - spread), qb_amount = show_int amount, qb_fee = show_int fee,
        qb_total = show_int (tdiv (amount * (rt_rate tick - spread)) RATE_SCALE - fee),
        qb_oracleSource = rt_source tick,
        qb_validUntil = validityWindow (env_QUOTE_TTL_SECONDS (qd_env d)) (qd_signedAt d)\<rparr>
       signer (env_QUOTE_SIGNING_SECRET_KEY (qd_env d))"
    "qo_feeDisplay out = fromStroops fee"
    "qo_totalDisplay out = fromStroops (tdiv (amount * (rt_rate tick - spread)) RATE_SCALE - fee)"
    "find_unique (db_quotes db) (qd_quoteId d) = None"
    "db' = db\<lparr>db_quotes := db_quotes db @ [(qd_quoteId d,
         \<lparr>qu_id = qd_quoteId d, qu_corridorId = co_id corridor, qu_midRate = fromStroops (rt_rate tick),
          qu_spreadBps = co_spreadBps corridor, qu_clientRate = fromStroops (rt_rate tick - spread), qu_amount = amount,
          qu_fee = fee, qu_total = tdiv (amount * (rt_rate tick - spread)) RATE_SCALE - fee,
          qu_oracleSource = rt_source tick, qu_signature = sq_signature (qo_signed out),
          qu_signingKey = sq_signingKey (qo_signed out), qu_validUntil = deadline,
          qu_consumedByTransfer = None\<rparr>)]\<rparr>"
proof -
  note run = assms [unfolded createQuote_def Let_def andThen_Inr_iff get_state_iff found_Inr_iff of_result_iff
      statement_Inr_iff rbind_Inr_iff create_row_Inr_iff ret_iff]
  show ?thesis
    using run by (elim exE conjE) (rule that; (simp only: sum.inject(2) QuoteOutput.simps)?; simp)
qed

lemma signQuote_body [simp]: "quote_entries (signQuote hmac b key secret) = quote_entries b"
  by (simp add: signQuote_def)

lemma signQuote_sel [simp]:
  "qb_quoteId (signQuote hmac b k s) = qb_quoteId b" "qb_clientRate (signQuote hmac b k s) = qb_clientRate b"
  "qb_midRate (signQuote hmac b k s) = qb_midRate b" "qb_amount (signQuote hmac b k s) = qb_amount b"
  "qb_fee (signQuote hmac b k s) = qb_fee b" "qb_total (signQuote hmac b k s) = qb_total b"
  "qb_validUntil (signQuote hmac b k s) = qb_validUntil b"
  "sq_algorithm (signQuote hmac b k s) = ''hmac-sha256''" "sq_signingKey (signQuote hmac b k s) = k"
  "sq_signature (signQuote hmac b k s) = hmac s (canonicalize (JObj (quote_entries b)))"
  by (simp_all add: signQuote_def QuoteBody.extend_def)

lemma verify_signQuote:
  "string_buffer tb \<Longrightarrow> verifyQuote hmac tb (signed_entries (signQuote hmac b key secret)) secret (Some key) = Inr True"
  by (simp add: verify_signed)

text \<open>A source that never reports a negative rate, as both sources of the module are.\<close>

definition nonneg_source :: "PriceSource \<Rightarrow> bool" where
  "nonneg_source s \<longleftrightarrow> (\<forall>now b q t. psrc_fetchRate s now b q = Inr t \<longrightarrow> 0 \<le> rt_rate t)"

lemma nonneg_horizon: "nonneg_source (HorizonDexPriceSource fetch url assets)"
  by (auto simp: nonneg_source_def HorizonDexPriceSource_def elim: horizon_fetchRate_Inr)

lemma nonneg_static: "\<forall>r\<in>snd ` set rates. 0 \<le> r \<Longrightarrow> nonneg_source (StaticPriceSource rates)"
  by (auto simp: nonneg_source_def StaticPriceSource_def Let_def dest!: map_of_SomeD split: option.splits)

text \<open>The arithmetic of a quote: rate, spread, conversion and fee.\<close>

lemma quote_arithmetic:
  assumes "0 \<le> mid" "bps \<le> 10000" "toStroops s = Inr amount"
    and spread: "applyBps mid (Whole bps) = Inr spread"
    and fee: "applyBps (tdiv (amount * (mid - spread)) RATE_SCALE) (Whole 200) = Inr fee"
  defines "converted \<equiv> amount * (mid - spread) div RATE_SCALE"
  shows "tdiv (amount * (mid - spread)) RATE_SCALE = converted" "0 \<le> mid - spread" "mid - spread \<le> mid"
    "fee = converted * 200 div 10000" "0 \<le> fee" "fee \<le> converted"
proof -
  show client: "0 \<le> mid - spread" "mid - spread \<le> mid"
    using applyBps_le_amount [OF assms(1,2) spread] applyBps_bounds(1) [OF assms(1) spread] by simp_all
  have nn: "0 \<le> amount * (mid - spread)" using toStroops_nonneg [OF assms(3)] client by simp
  then show conv: "tdiv (amount * (mid - spread)) RATE_SCALE = converted"
    by (simp add: converted_def RATE_SCALE_def)
  have c: "0 \<le> converted" using nn by (simp add: converted_def RATE_SCALE_def)
  note fee' = fee [unfolded conv]
  have "fee = tdiv (converted * 200) 10000" using fee' by (auto simp: applyBps_Inr)
  then show "fee = converted * 200 div 10000" using c by simp
  show "0 \<le> fee" by (rule applyBps_bounds(1) [OF c fee'])
  show "fee \<le> converted" by (rule applyBps_le_amount [OF c _ fee']) simp
qed


text \<open>Failing leaves the database as it was.\<close>

lemma createQuote_Inl: "createQuote d input db = (Inl e, db') \<Longrightarrow> db' = db"
  by (auto simp: createQuote_def andThen_Inl_iff Let_def statement_Inl_iff)

section \<open>A concrete quote\<close>

definition sample_corridor :: Corridor where
  "sample_corridor = \<lparr>co_id = ''NGN_LAG'', co_sourceCurrency = ''USD'', co_destCurrency = ''NGN'', co_regionId = ''NG_LAG'',
     co_tier1Max = 1000000000, co_tier2Max = 10000000000, co_dailyLimit = 50000000000, co_spreadBps = 75, co_active = True\<rparr>"

definition sample_db :: Database where
  "sample_db = empty_database\<lparr>db_corridors := [(''NGN_LAG'', sample_corridor)]\<rparr>"

definition sample_deps :: QuotingDeps where
  "sample_deps = \<lparr>qd_env = sample_env, qd_hmac = (\<lambda>k m. k @ m), qd_publicKeyOf = (\<lambda>s. Inr (CHR ''G'' # s)),
     qd_legacyDate = (\<lambda>_. None), qd_override = None, qd_default = Inr (StaticPriceSource [(''USD/NGN'', 15000000000)]),
     qd_fetchedAt = 1767225600000, qd_checkedAt = 1767225600010, qd_signedAt = 1767225600020, qd_quoteId = ''q1''\<rparr>"


end
