(* ===== verification/Chain.thy ===== *)
theory Chain
  imports Contracts Schema Env
begin

text \<open>
  \<open>backend/src/soroban/rpc.ts\<close> and \<open>contracts.ts\<close>: building contract calls, submitting them and
  polling for the outcome.  The RPC node is the record \<open>Rpc\<close> of its answers; values of the
  contract language are \<open>Sc\<close>, values decoded from it are \<open>native\<close>.  The main result is that every
  wrapper builds an argument vector of the types its entry point declares.
\<close>

section \<open>Values\<close>

datatype Sc =
    ScString string
  | ScSymbol string
  | ScI128 int
  | ScU32 int
  | ScU64 int
  | ScAddress string
  | ScBytes string
  | ScBool bool
  | ScVec "Sc list"
  | ScMap "(string \<times> Sc) list"

datatype native =
    NUndefined
  | NNull
  | NBool bool
  | NNumber int
  | NBigInt int
  | NString string
  | NBytes string
  | NArray "native list"
  | NObject "(string \<times> native) list"

definition enumCase :: "string \<Rightarrow> Sc" where
  "enumCase variant = ScVec [ScSymbol variant]"

definition struct :: "(string \<times> Sc) list \<Rightarrow> Sc" where
  "struct es = ScMap (sort_key fst es)"

section \<open>Invocation\<close>

text \<open>A wrapper describes a call; a read has no signer of its own.\<close>

record Call =
  cl_contractId :: string
  cl_method :: string
  cl_args :: "Sc list"
  cl_signer :: "string option"

datatype simulation = SimulationError string | SimulationSuccess "native option" | SimulationOther

datatype sent = SentError string | Sent string

datatype txStatus = TxSuccess int | TxFailed | TxPending

text \<open>
  What the node answers: an account lookup, a simulation, a submission and, for each polling
  attempt, a status.  \<open>Inl\<close> is a transport error with its message.
\<close>

record Rpc =
  rpc_getAccount :: "string \<Rightarrow> string + unit"
  rpc_simulate :: "Call \<Rightarrow> string + simulation"
  rpc_send :: "Call \<Rightarrow> string + sent"
  rpc_getTransaction :: "string \<Rightarrow> nat \<Rightarrow> string + txStatus"

record InvocationResult =
  ir_value :: "native option"
  ir_hash :: "string option"
  ir_ledger :: "int option"

definition POLL_ATTEMPTS :: nat where "POLL_ATTEMPTS = 30"

text \<open>The polling loop from attempt \<open>a\<close> with \<open>n\<close> attempts left; running out is not a failure.\<close>

fun pollForResult :: "Rpc \<Rightarrow> string \<Rightarrow> nat \<Rightarrow> nat \<Rightarrow> string + int" where
  "pollForResult rpc hash a 0 = Inr 0"
| "pollForResult rpc hash a (Suc n) =
     rbind (rpc_getTransaction rpc hash a) (\<lambda>status.
       case status of
         TxSuccess ledger \<Rightarrow> Inr ledger
       | TxFailed \<Rightarrow> Inl (''Transaction '' @ hash @ '' failed on-chain'')
       | TxPending \<Rightarrow> pollForResult rpc hash (Suc a) n)"

definition decodeReturn :: "native option \<Rightarrow> native option" where
  "decodeReturn raw = (case raw of None \<Rightarrow> None | Some NUndefined \<Rightarrow> None | Some v \<Rightarrow> Some v)"

definition invoke_steps :: "Rpc \<Rightarrow> bool \<Rightarrow> Call \<Rightarrow> string \<Rightarrow> string + InvocationResult" where
  "invoke_steps rpc simulateOnly call signer =
     rbind (rpc_getAccount rpc signer) (\<lambda>_.
     rbind (rpc_simulate rpc call) (\<lambda>simulation.
       case simulation of
         SimulationError e \<Rightarrow> Inl e
       | _ \<Rightarrow>
         (let raw = (case simulation of SimulationSuccess r \<Rightarrow> r | _ \<Rightarrow> None); value = decodeReturn raw in
          if simulateOnly then Inr \<lparr>ir_value = value, ir_hash = None, ir_ledger = None\<rparr>
          else
            rbind (rpc_send rpc call) (\<lambda>s.
              case s of
                SentError e \<Rightarrow> Inl (''Submission rejected: '' @ e)
              | Sent hash \<Rightarrow>
                  rbind (pollForResult rpc hash 0 POLL_ATTEMPTS) (\<lambda>ledger.
                    Inr \<lparr>ir_value = value, ir_hash = Some hash, ir_ledger = Some ledger\<rparr>)))))"

definition invoke :: "Rpc \<Rightarrow> bool \<Rightarrow> Call \<Rightarrow> string \<Rightarrow> failure + InvocationResult" where
  "invoke rpc simulateOnly call signer = (case invoke_steps rpc simulateOnly call signer of
     Inr r \<Rightarrow> Inr r
   | Inl message \<Rightarrow>
       if startsWith message ''Simulation failed'' then Inl (PlainErr message)
       else Inl (AppErr (chainUnavailable (cl_method call @ ''@'' @ cl_contractId call) message)))"

text \<open>\<open>read\<close>: simulate with the operator's account; the wrapper gives no signer.\<close>

definition read :: "Rpc \<Rightarrow> failure + string \<Rightarrow> Call \<Rightarrow> failure + native option" where
  "read rpc operatorKey call =
     rbind operatorKey (\<lambda>signer.
     rbind (invoke rpc True call signer) (\<lambda>r. Inr (ir_value r)))"

section \<open>The wrappers\<close>

record PublishAttestationInput =
  pa_subject :: string
  pa_tier :: string
  pa_attestationHash :: string
  pa_regionId :: string
  pa_providerId :: string
  pa_expiresAt :: int

definition publishAttestationArgs :: "PublishAttestationInput \<Rightarrow> string \<Rightarrow> Sc list" where
  "publishAttestationArgs input attesterPublicKey =
     [ScAddress attesterPublicKey, ScAddress (pa_subject input), enumCase (pa_tier input),
      ScBytes (pa_attestationHash input), ScSymbol (pa_regionId input), ScSymbol (pa_providerId input),
      ScU64 (pa_expiresAt input)]"

definition publishAttestation :: "Env \<Rightarrow> string \<Rightarrow> PublishAttestationInput \<Rightarrow> Call" where
  "publishAttestation env attester input = \<lparr>cl_contractId = env_CONTRACT_COMPLIANCE_HOOK env,
     cl_method = ''publish_attestation'', cl_args = publishAttestationArgs input attester, cl_signer = Some attester\<rparr>"

definition revokeAttestation :: "Env \<Rightarrow> string \<Rightarrow> string \<Rightarrow> string \<Rightarrow> Call" where
  "revokeAttestation env attester subject reason = \<lparr>cl_contractId = env_CONTRACT_COMPLIANCE_HOOK env,
     cl_method = ''revoke_attestation'', cl_args = [ScAddress attester, ScAddress subject, ScSymbol reason],
     cl_signer = Some attester\<rparr>"

definition setTierThresholds :: "Env \<Rightarrow> string \<Rightarrow> TierThresholds \<Rightarrow> Call" where
  "setTierThresholds env operator t = \<lparr>cl_contractId = env_CONTRACT_COMPLIANCE_HOOK env,
     cl_method = ''set_tier_thresholds'',
     cl_args = [struct [(''corridor_id'', ScSymbol (tt_corridor_id t)), (''tier1_max'', ScI128 (tt_tier1_max t)),
       (''tier2_max'', ScI128 (tt_tier2_max t)), (''daily_limit'', ScI128 (tt_daily_limit t))]],
     cl_signer = Some operator\<rparr>"

definition setEscrowContract :: "Env \<Rightarrow> string \<Rightarrow> string \<Rightarrow> Call" where
  "setEscrowContract env operator escrow = \<lparr>cl_contractId = env_CONTRACT_COMPLIANCE_HOOK env,
     cl_method = ''set_escrow'', cl_args = [ScAddress escrow], cl_signer = Some operator\<rparr>"

definition checkTransferAllowed :: "Env \<Rightarrow> string \<Rightarrow> int \<Rightarrow> string \<Rightarrow> Call" where
  "checkTransferAllowed env sender amount corridorId = \<lparr>cl_contractId = env_CONTRACT_COMPLIANCE_HOOK env,
     cl_method = ''check_transfer_allowed'', cl_args = [ScAddress sender, ScI128 amount, ScSymbol corridorId],
     cl_signer = None\<rparr>"

definition explainTransfer :: "Env \<Rightarrow> string \<Rightarrow> int \<Rightarrow> string \<Rightarrow> Call" where
  "explainTransfer env sender amount corridorId = \<lparr>cl_contractId = env_CONTRACT_COMPLIANCE_HOOK env,
     cl_method = ''explain_transfer'', cl_args = [ScAddress sender, ScI128 amount, ScSymbol corridorId],
     cl_signer = None\<rparr>"

definition setOperator :: "Env \<Rightarrow> string \<Rightarrow> string \<Rightarrow> bool \<Rightarrow> Call" where
  "setOperator env operator attester allowed = \<lparr>cl_contractId = env_CONTRACT_COMPLIANCE_HOOK env,
     cl_method = ''set_operator'', cl_args = [ScAddress attester, ScBool allowed], cl_signer = Some operator\<rparr>"

definition addRegion :: "Env \<Rightarrow> string \<Rightarrow> string \<Rightarrow> int \<Rightarrow> int \<Rightarrow> Call" where
  "addRegion env operator regionId minBond maxAgents = \<lparr>cl_contractId = env_CONTRACT_AGENT_REGISTRY env,
     cl_method = ''add_region'', cl_args = [ScSymbol regionId, ScI128 minBond, ScU32 maxAgents], cl_signer = Some operator\<rparr>"

definition mapCorridor :: "Env \<Rightarrow> string \<Rightarrow> string \<Rightarrow> string \<Rightarrow> Call" where
  "mapCorridor env operator corridorId regionId = \<lparr>cl_contractId = env_CONTRACT_AGENT_REGISTRY env,
     cl_method = ''map_corridor'', cl_args = [ScSymbol corridorId, ScSymbol regionId], cl_signer = Some operator\<rparr>"

definition authorizeAgent :: "Env \<Rightarrow> string \<Rightarrow> string \<Rightarrow> Call" where
  "authorizeAgent env operator agent = \<lparr>cl_contractId = env_CONTRACT_AGENT_REGISTRY env,
     cl_method = ''authorize_agent'', cl_args = [ScAddress agent], cl_signer = Some operator\<rparr>"

definition suspendAgent :: "Env \<Rightarrow> string \<Rightarrow> string \<Rightarrow> string \<Rightarrow> Call" where
  "suspendAgent env operator agent reason = \<lparr>cl_contractId = env_CONTRACT_AGENT_REGISTRY env,
     cl_method = ''suspend_agent'', cl_args = [ScAddress agent, ScSymbol reason], cl_signer = Some operator\<rparr>"

definition revokeAgent :: "Env \<Rightarrow> string \<Rightarrow> string \<Rightarrow> string \<Rightarrow> Call" where
  "revokeAgent env operator agent reason = \<lparr>cl_contractId = env_CONTRACT_AGENT_REGISTRY env,
     cl_method = ''revoke_agent'', cl_args = [ScAddress agent, ScSymbol reason], cl_signer = Some operator\<rparr>"

definition slashAgent :: "Env \<Rightarrow> string \<Rightarrow> string \<Rightarrow> int \<Rightarrow> string \<Rightarrow> Call" where
  "slashAgent env operator agent amount reason = \<lparr>cl_contractId = env_CONTRACT_AGENT_REGISTRY env,
     cl_method = ''slash_agent'', cl_args = [ScAddress agent, ScI128 amount, ScSymbol reason], cl_signer = Some operator\<rparr>"

definition isAgentAuthorized :: "Env \<Rightarrow> string \<Rightarrow> string \<Rightarrow> Call" where
  "isAgentAuthorized env agent regionId = \<lparr>cl_contractId = env_CONTRACT_AGENT_REGISTRY env,
     cl_method = ''is_authorized'', cl_args = [ScAddress agent, ScSymbol regionId], cl_signer = None\<rparr>"

definition registryBond :: "Env \<Rightarrow> string \<Rightarrow> Call" where
  "registryBond env agent = \<lparr>cl_contractId = env_CONTRACT_AGENT_REGISTRY env,
     cl_method = ''get_bond'', cl_args = [ScAddress agent], cl_signer = None\<rparr>"

definition drawLiquidity :: "Env \<Rightarrow> string \<Rightarrow> string \<Rightarrow> string \<Rightarrow> int \<Rightarrow> Call" where
  "drawLiquidity env operator agent regionId amount = \<lparr>cl_contractId = env_CONTRACT_LIQUIDITY_POOL env,
     cl_method = ''draw_liquidity'', cl_args = [ScAddress agent, ScSymbol regionId, ScI128 amount],
     cl_signer = Some operator\<rparr>"

definition repayLiquidity :: "Env \<Rightarrow> string \<Rightarrow> string \<Rightarrow> string \<Rightarrow> int \<Rightarrow> Call" where
  "repayLiquidity env operator agent regionId amount = \<lparr>cl_contractId = env_CONTRACT_LIQUIDITY_POOL env,
     cl_method = ''repay_liquidity'', cl_args = [ScAddress agent, ScSymbol regionId, ScI128 amount],
     cl_signer = Some operator\<rparr>"

definition poolHealth :: "Env \<Rightarrow> string \<Rightarrow> Call" where
  "poolHealth env regionId = \<lparr>cl_contractId = env_CONTRACT_LIQUIDITY_POOL env,
     cl_method = ''get_pool_health'', cl_args = [ScSymbol regionId], cl_signer = None\<rparr>"

definition requiredBondFor :: "Env \<Rightarrow> string \<Rightarrow> string \<Rightarrow> int \<Rightarrow> Call" where
  "requiredBondFor env agent regionId additional = \<lparr>cl_contractId = env_CONTRACT_LIQUIDITY_POOL env,
     cl_method = ''required_bond_for'', cl_args = [ScAddress agent, ScSymbol regionId, ScI128 additional],
     cl_signer = None\<rparr>"

definition openPoolRegion :: "Env \<Rightarrow> string \<Rightarrow> string \<Rightarrow> int \<Rightarrow> Call" where
  "openPoolRegion env operator regionId utilizationCapBps = \<lparr>cl_contractId = env_CONTRACT_LIQUIDITY_POOL env,
     cl_method = ''open_region'', cl_args = [ScSymbol regionId, ScU32 utilizationCapBps], cl_signer = Some operator\<rparr>"

section \<open>Polling\<close>

lemma pollForResult_never_fails_pending:
  "(\<And>i. a \<le> i \<Longrightarrow> i < a + n \<Longrightarrow> rpc_getTransaction rpc hash i = Inr TxPending) \<Longrightarrow> pollForResult rpc hash a n = Inr 0"
  by (induction rpc hash a n rule: pollForResult.induct) simp_all

lemma pollForResult_success:
  "(\<And>i. a \<le> i \<Longrightarrow> i < a + k \<Longrightarrow> rpc_getTransaction rpc hash i = Inr TxPending) \<Longrightarrow> k < n \<Longrightarrow>
   rpc_getTransaction rpc hash (a + k) = Inr (TxSuccess l) \<Longrightarrow> pollForResult rpc hash a n = Inr l"
proof (induction n arbitrary: a k)
  case 0
  then show ?case by simp
next
  case (Suc n)
  show ?case
  proof (cases k)
    case 0
    then show ?thesis using Suc.prems(3) by simp
  next
    case (Suc j)
    have "rpc_getTransaction rpc hash a = Inr TxPending" using Suc.prems(1) [of a] Suc by simp
    moreover have "pollForResult rpc hash (Suc a) n = Inr l"
      using Suc.IH [of "Suc a" j] Suc.prems Suc by simp
    ultimately show ?thesis by simp
  qed
qed

text \<open>A simulated call never submits, whatever the node would answer to a submission.\<close>

lemma simulate_ignores_send:
  "invoke_steps (rpc\<lparr>rpc_send := s, rpc_getTransaction := g\<rparr>) True call k = invoke_steps rpc True call k"
proof (cases "rpc_simulate rpc call")
  case (Inr sim)
  then show ?thesis by (cases sim) (simp_all add: invoke_steps_def Let_def)
qed (simp add: invoke_steps_def)

lemma read_ignores_send: "read (rpc\<lparr>rpc_send := s, rpc_getTransaction := g\<rparr>) k call = read rpc k call"
  by (simp add: read_def invoke_def simulate_ignores_send)

section \<open>Conformance\<close>

definition symbol_char :: "char \<Rightarrow> bool" where
  "symbol_char c \<longleftrightarrow> is_digit c \<or> (65 \<le> cu c \<and> cu c \<le> 90) \<or> (97 \<le> cu c \<and> cu c \<le> 122) \<or> c = CHR ''_''"

text \<open>A contract symbol has at most 32 characters of the identifier alphabet.\<close>

definition is_symbol :: "string \<Rightarrow> bool" where
  "is_symbol s \<longleftrightarrow> length s \<le> 32 \<and> list_all symbol_char s"

fun has_type :: "ScType \<Rightarrow> Sc \<Rightarrow> bool" and fields_typed :: "(string \<times> ScType) list \<Rightarrow> (string \<times> Sc) list \<Rightarrow> bool" where
  "has_type TAddress v = (case v of ScAddress a \<Rightarrow> True | _ \<Rightarrow> False)"
| "has_type TSymbol v = (case v of ScSymbol s \<Rightarrow> is_symbol s | _ \<Rightarrow> False)"
| "has_type TI128 v = (case v of ScI128 n \<Rightarrow> in_i128 n | _ \<Rightarrow> False)"
| "has_type TU32 v = (case v of ScU32 n \<Rightarrow> 0 \<le> n \<and> n < 2 ^ 32 | _ \<Rightarrow> False)"
| "has_type TU64 v = (case v of ScU64 n \<Rightarrow> 0 \<le> n \<and> n < 2 ^ 64 | _ \<Rightarrow> False)"
| "has_type TBytes32 v = (case v of ScBytes b \<Rightarrow> length b = 32 | _ \<Rightarrow> False)"
| "has_type TBool v = (case v of ScBool b \<Rightarrow> True | _ \<Rightarrow> False)"
| "has_type (TEnum vs) v = (case v of ScVec [ScSymbol c] \<Rightarrow> c \<in> set vs | _ \<Rightarrow> False)"
| "has_type (TStruct fs) v = (case v of
     ScMap es \<Rightarrow> map fst es = sort (map fst fs) \<and> fields_typed fs es
   | _ \<Rightarrow> False)"
| "fields_typed [] es = True"
| "fields_typed ((f, t) # fs) es =
     ((case map_of es f of None \<Rightarrow> False | Some v \<Rightarrow> has_type t v) \<and> fields_typed fs es)"

definition conforms :: "(string \<times> ScType list) list \<Rightarrow> Call \<Rightarrow> bool" where
  "conforms abi call \<longleftrightarrow> (case map_of abi (cl_method call) of
     None \<Rightarrow> False | Some ts \<Rightarrow> list_all2 has_type ts (cl_args call))"

text \<open>The calls the wrappers build, for given arguments.\<close>

lemma sorted_threshold_fields:
  "sort_key fst [(''corridor_id'', a), (''tier1_max'', b), (''tier2_max'', c), (''daily_limit'', d)]
   = [(''corridor_id'', a), (''daily_limit'', d), (''tier1_max'', b), (''tier2_max'', c)]"
  "sort [''corridor_id'', ''tier1_max'', ''tier2_max'', ''daily_limit''] = [''corridor_id'', ''daily_limit'', ''tier1_max'', ''tier2_max'']"
  by (simp_all add: sort_key_def)

text \<open>
  every contract wrapper builds the argument vector its entry point declares: right arity,
  every argument of the declared type, enum cases as one-element vectors, and the threshold
  struct as a map with exactly the Rust field names in sorted order.
\<close>

theorem wrappers_conform:
  assumes "is_symbol region" "is_symbol corridor" "is_symbol provider" "is_symbol reason"
    and "in_i128 amount" "0 \<le> n" "n < 2 ^ 32" "0 \<le> t" "t < 2 ^ 64" "length hash = 32"
    and "tier \<in> set KycTier_variants" "in_i128 t1" "in_i128 t2" "in_i128 dl"
  shows "list_all (conforms compliance_abi)
      [publishAttestation env k \<lparr>pa_subject = s, pa_tier = tier, pa_attestationHash = hash, pa_regionId = region,
         pa_providerId = provider, pa_expiresAt = t\<rparr>,
       revokeAttestation env k s reason,
       setTierThresholds env k \<lparr>tt_corridor_id = corridor, tt_tier1_max = t1, tt_tier2_max = t2, tt_daily_limit = dl\<rparr>,
       setEscrowContract env k s, setOperator env k s b, checkTransferAllowed env s amount corridor,
       explainTransfer env s amount corridor]
    \<and> list_all (conforms registry_abi)
      [addRegion env k region amount n, mapCorridor env k corridor region, authorizeAgent env k s,
       suspendAgent env k s reason, revokeAgent env k s reason, slashAgent env k s amount reason,
       isAgentAuthorized env s region, registryBond env s]
    \<and> list_all (conforms liquidity_abi)
      [drawLiquidity env k s region amount, repayLiquidity env k s region amount, poolHealth env region,
       requiredBondFor env s region amount, openPoolRegion env k region n]"
  using assms
  by (simp add: conforms_def compliance_abi_def registry_abi_def liquidity_abi_def publishAttestation_def
      publishAttestationArgs_def enumCase_def revokeAttestation_def setTierThresholds_def struct_def
      setEscrowContract_def setOperator_def checkTransferAllowed_def explainTransfer_def addRegion_def
      mapCorridor_def authorizeAgent_def suspendAgent_def revokeAgent_def slashAgent_def isAgentAuthorized_def
      registryBond_def drawLiquidity_def repayLiquidity_def poolHealth_def requiredBondFor_def openPoolRegion_def
      TierThresholds_fields_def sorted_threshold_fields)

theorem wrappers_conform_witness:
  "conforms compliance_abi (setTierThresholds sample_env ''GOP''
     \<lparr>tt_corridor_id = ''NGN_LAG'', tt_tier1_max = 1, tt_tier2_max = 2, tt_daily_limit = 3\<rparr>)"
proof -
  have s: "is_symbol ''NG_LAG''" "is_symbol ''NGN_LAG''" "is_symbol ''mock''" "is_symbol ''fraud''" by code_simp+
  have i: "in_i128 5" "in_i128 1" "in_i128 2" "in_i128 3" by (simp_all add: in_i128_def)
  have h: "length (replicate 32 (CHR ''a'')) = 32" "''Standard'' \<in> set KycTier_variants"
    by (simp_all add: KycTier_variants_def)
  show ?thesis
    using wrappers_conform [OF s i(1) _ _ _ _ h i(2-4), of 0 0 sample_env "''GOP''" "''GS''" True] by simp
qed

end
