(* ===== verification/Decoder.thy ===== *)
theory Decoder
  imports Chain Zod
begin

text \<open>
  \<open>backend/src/event-indexer/decoder.ts\<close>: turning a raw contract event into a typed one.  The
  XDR codec of the SDK, the UTF-8 reading of a byte buffer and \<open>Number\<close> on values that are not
  numbers are the record \<open>Codec\<close>.  An undecodable event is an error value of its own, apart
  from the errors the codec throws.
\<close>

section \<open>Kinds\<close>

datatype EventKind =
    EK_transfer_created | EK_transfer_claimed | EK_transfer_refunded | EK_transfer_cancelled
  | EK_agent_registered | EK_agent_status_changed | EK_agent_bond_topped_up | EK_agent_bond_withdrawn
  | EK_agent_slashed | EK_region_configured | EK_corridor_mapped | EK_registry_admin_changed
  | EK_kyc_attestation_published | EK_kyc_attestation_revoked | EK_kyc_thresholds_updated
  | EK_kyc_operator_updated | EK_kyc_pause_changed | EK_kyc_escrow_updated | EK_kyc_transfer_committed
  | EK_pool_region_configured | EK_pool_deposited | EK_pool_withdrawn | EK_pool_drawn | EK_pool_repaid
  | EK_pool_config_updated | EK_pool_wiring_updated | EK_pool_admin_changed
  | EK_escrow_config_updated | EK_escrow_wiring_updated | EK_escrow_admin_changed

definition topic_of :: "string \<Rightarrow> string" where
  "topic_of k = option_or (map_of EVENT_TOPICS k) []"

definition TOPIC_TO_KIND :: "(string \<times> EventKind) list" where
  "TOPIC_TO_KIND = [
     (topic_of ''transferCreated'', EK_transfer_created),
     (topic_of ''transferClaimed'', EK_transfer_claimed),
     (topic_of ''transferRefunded'', EK_transfer_refunded),
     (topic_of ''transferCancelled'', EK_transfer_cancelled),
     (topic_of ''agentRegistered'', EK_agent_registered),
     (topic_of ''agentStatus'', EK_agent_status_changed),
     (topic_of ''bondTopUp'', EK_agent_bond_topped_up),
     (topic_of ''bondWithdraw'', EK_agent_bond_withdrawn),
     (topic_of ''agentSlashed'', EK_agent_slashed),
     (topic_of ''regionConfigured'', EK_region_configured),
     (topic_of ''corridorMapped'', EK_corridor_mapped),
     (topic_of ''registryAdmin'', EK_registry_admin_changed),
     (topic_of ''attestationPublished'', EK_kyc_attestation_published),
     (topic_of ''attestationRevoked'', EK_kyc_attestation_revoked),
     (topic_of ''thresholdsUpdated'', EK_kyc_thresholds_updated),
     (topic_of ''attestationOperator'', EK_kyc_operator_updated),
     (topic_of ''compliancePause'', EK_kyc_pause_changed),
     (topic_of ''complianceEscrow'', EK_kyc_escrow_updated),
     (topic_of ''transferCommitted'', EK_kyc_transfer_committed),
     (topic_of ''poolRegion'', EK_pool_region_configured),
     (topic_of ''poolDeposit'', EK_pool_deposited),
     (topic_of ''poolWithdraw'', EK_pool_withdrawn),
     (topic_of ''poolDraw'', EK_pool_drawn),
     (topic_of ''poolRepay'', EK_pool_repaid),
     (topic_of ''poolConfig'', EK_pool_config_updated),
     (topic_of ''poolWire'', EK_pool_wiring_updated),
     (topic_of ''poolAdmin'', EK_pool_admin_changed),
     (topic_of ''escrowConfig'', EK_escrow_config_updated),
     (topic_of ''escrowWiring'', EK_escrow_wiring_updated),
     (topic_of ''escrowAdmin'', EK_escrow_admin_changed)]"

text \<open>
  Reading a property of an object literal also finds what every object inherits; such a name is
  not \<open>undefined\<close>, so it passes for a kind, and no case of the decoder matches it.
\<close>

definition object_prototype :: "string list" where
  "object_prototype = [''constructor'', ''toString'', ''valueOf'', ''toLocaleString'', ''hasOwnProperty'',
     ''isPrototypeOf'', ''propertyIsEnumerable'', ''__proto__'', ''__defineGetter__'', ''__defineSetter__'',
     ''__lookupGetter__'', ''__lookupSetter__'']"

datatype kind = Kind EventKind | Inherited

definition kind_of :: "string \<Rightarrow> kind option" where
  "kind_of topic = (case map_of TOPIC_TO_KIND topic of
     Some k \<Rightarrow> Some (Kind k)
   | None \<Rightarrow> if topic \<in> set object_prototype then Some Inherited else None)"

section \<open>Events\<close>

record RawContractEvent =
  rw_contractId :: string
  rw_ledger :: int
  rw_eventIndex :: nat
  rw_txHash :: string
  rw_topicXdr :: "string list"
  rw_valueXdr :: string
  rw_closedAt :: string

record DecodedEvent =
  de_kind :: kind
  de_topic :: string
  de_subjects :: "string list"
  de_payload :: "(string \<times> json) list"
  de_transferId :: "int option"

text \<open>\<open>UndecodableEventError\<close> with its message and topic, or any other error.\<close>

datatype decode_error = Undecodable string string | OtherError failure

record Codec =
  cd_fromXDR :: "string \<Rightarrow> string + native"
  cd_utf8 :: "string \<Rightarrow> string"
  cd_number :: "native \<Rightarrow> json"

definition decodeXdr :: "Codec \<Rightarrow> string \<Rightarrow> decode_error + native" where
  "decodeXdr codec base64 = (case cd_fromXDR codec base64 of Inl m \<Rightarrow> Inl (OtherError (PlainErr m)) | Inr v \<Rightarrow> Inr v)"

section \<open>Values\<close>

fun typeof :: "native \<Rightarrow> string" where
  "typeof NUndefined = ''undefined''"
| "typeof NNull = ''object''"
| "typeof (NBool b) = ''boolean''"
| "typeof (NNumber n) = ''number''"
| "typeof (NBigInt n) = ''bigint''"
| "typeof (NString s) = ''string''"
| "typeof (NBytes b) = ''object''"
| "typeof (NArray vs) = ''object''"
| "typeof (NObject es) = ''object''"

text \<open>\<open>String(v)\<close>.\<close>

fun native_string :: "Codec \<Rightarrow> native \<Rightarrow> string" and native_join :: "Codec \<Rightarrow> native list \<Rightarrow> string list" where
  "native_string codec NUndefined = ''undefined''"
| "native_string codec NNull = ''null''"
| "native_string codec (NBool b) = (if b then ''true'' else ''false'')"
| "native_string codec (NNumber n) = show_int n"
| "native_string codec (NBigInt n) = show_int n"
| "native_string codec (NString s) = s"
| "native_string codec (NBytes b) = cd_utf8 codec b"
| "native_string codec (NArray vs) = join_on (CHR '','') (native_join codec vs)"
| "native_string codec (NObject es) = ''[object Object]''"
| "native_join codec [] = []"
| "native_join codec (v # vs) =
     (case v of NUndefined \<Rightarrow> [] | NNull \<Rightarrow> [] | _ \<Rightarrow> native_string codec v) # native_join codec vs"

definition asBigInt :: "native \<Rightarrow> string \<Rightarrow> decode_error + int" where
  "asBigInt value name =
     (let refuse = Inl (Undecodable (''expected an integer for \"'' @ name @ ''\", got '' @ typeof value) name) in
      case value of
        NBigInt n \<Rightarrow> Inr n
      | NNumber n \<Rightarrow> Inr n
      | NString s \<Rightarrow> if is_int_text s then Inr (int_text_val s) else refuse
      | _ \<Rightarrow> refuse)"

definition asTuple :: "native \<Rightarrow> nat \<Rightarrow> decode_error + native list" where
  "asTuple value expectedLength = (case value of
     NArray vs \<Rightarrow>
       if length vs < expectedLength
       then Inl (Undecodable (''expected at least '' @ show_nat expectedLength @ '' fields in the event payload, got ''
              @ show_nat (length vs)) ''payload'')
       else Inr vs
   | _ \<Rightarrow> Inl (Undecodable ''event payload is not a tuple'' ''payload''))"

definition toHex :: "Codec \<Rightarrow> native \<Rightarrow> string" where
  "toHex codec value = (case value of
     NBytes b \<Rightarrow> bytes_to_hex b
   | _ \<Rightarrow> native_string codec value)"

text \<open>A byte buffer is an object whose keys are its indices.\<close>

fun normalise :: "native \<Rightarrow> json" and normalise_list :: "native list \<Rightarrow> json list"
  and normalise_entries :: "(string \<times> native) list \<Rightarrow> (string \<times> json) list" where
  "normalise NUndefined = JNull"
| "normalise NNull = JNull"
| "normalise (NBool b) = JBool b"
| "normalise (NNumber n) = JNum n"
| "normalise (NBigInt n) = JStr (show_int n)"
| "normalise (NString s) = JStr s"
| "normalise (NBytes b) = JObj (map (\<lambda>i. (show_nat i, JNum (int (cu (b ! i))))) [0..<length b])"
| "normalise (NArray vs) = JArr (normalise_list vs)"
| "normalise (NObject es) = JObj (normalise_entries es)"
| "normalise_list [] = []"
| "normalise_list (v # vs) = normalise v # normalise_list vs"
| "normalise_entries [] = []"
| "normalise_entries ((k, v) # es) = (k, normalise v) # normalise_entries es"

definition native_number :: "Codec \<Rightarrow> native \<Rightarrow> json" where
  "native_number codec v = (case v of NNumber n \<Rightarrow> JNum n | _ \<Rightarrow> cd_number codec v)"

section \<open>Decoding\<close>

definition int_field :: "string \<Rightarrow> native \<Rightarrow> decode_error + string \<times> json" where
  "int_field name value = rbind (asBigInt value name) (\<lambda>n. Inr (name, JStr (show_int n)))"

definition decode_payload :: "Codec \<Rightarrow> kind \<Rightarrow> native \<Rightarrow> decode_error + (string \<times> json) list \<times> int option" where
  "decode_payload codec kind value = (case kind of
     Kind EK_transfer_created \<Rightarrow>
       rbind (asTuple value 5) (\<lambda>t.
       rbind (int_field ''id'' (t ! 0)) (\<lambda>f_id.
       rbind (int_field ''amount'' (t ! 1)) (\<lambda>f_amount.
       rbind (int_field ''expiry'' (t ! 4)) (\<lambda>f_expiry.
       rbind (asBigInt (t ! 0) ''id'') (\<lambda>transferId.
       Inr ([f_id, f_amount, (''token'', JStr (native_string codec (t ! 2))),
         (''claimHash'', JStr (toHex codec (t ! 3))), f_expiry], Some transferId))))))
   | Kind EK_transfer_claimed \<Rightarrow>
       rbind (asTuple value 4) (\<lambda>t.
       rbind (int_field ''id'' (t ! 0)) (\<lambda>f_id.
       rbind (int_field ''gross'' (t ! 1)) (\<lambda>f_gross.
       rbind (int_field ''fee'' (t ! 2)) (\<lambda>f_fee.
       rbind (int_field ''payout'' (t ! 3)) (\<lambda>f_payout.
       rbind (asBigInt (t ! 0) ''id'') (\<lambda>transferId.
       Inr ([f_id, f_gross, f_fee, f_payout], Some transferId)))))))
   | Kind EK_transfer_refunded \<Rightarrow>
       rbind (asTuple value 2) (\<lambda>t.
       rbind (int_field ''id'' (t ! 0)) (\<lambda>f_id.
       rbind (int_field ''amount'' (t ! 1)) (\<lambda>f_amount.
       rbind (asBigInt (t ! 0) ''id'') (\<lambda>transferId.
       Inr ([f_id, f_amount], Some transferId)))))
   | Kind EK_transfer_cancelled \<Rightarrow>
       rbind (asTuple value 2) (\<lambda>t.
       rbind (int_field ''id'' (t ! 0)) (\<lambda>f_id.
       rbind (int_field ''amount'' (t ! 1)) (\<lambda>f_amount.
       rbind (asBigInt (t ! 0) ''id'') (\<lambda>transferId.
       Inr ([f_id, f_amount], Some transferId)))))
   | Kind EK_agent_registered \<Rightarrow>
       rbind (int_field ''bond'' value) (\<lambda>f_bond. Inr ([f_bond], None))
   | Kind EK_agent_slashed \<Rightarrow>
       rbind (asTuple value 2) (\<lambda>t.
       rbind (int_field ''requested'' (t ! 0)) (\<lambda>f_requested.
       rbind (int_field ''recovered'' (t ! 1)) (\<lambda>f_recovered.
       Inr ([f_requested, f_recovered], None))))
   | Kind EK_pool_drawn \<Rightarrow>
       rbind (asTuple value 3) (\<lambda>t.
       rbind (int_field ''amount'' (t ! 0)) (\<lambda>f_amount.
       rbind (int_field ''exposure'' (t ! 1)) (\<lambda>f_exposure.
       Inr ([f_amount, f_exposure, (''utilizationBps'', native_number codec (t ! 2))], None))))
   | _ \<Rightarrow> Inr ([(''value'', normalise value)], None))"

definition decodeEvent :: "Codec \<Rightarrow> RawContractEvent \<Rightarrow> decode_error + DecodedEvent" where
  "decodeEvent codec event =
     rbind (result_map (decodeXdr codec) (rw_topicXdr event)) (\<lambda>topics.
     case (case topics of [] \<Rightarrow> NUndefined | t # _ \<Rightarrow> t) of
       NString topicSymbol \<Rightarrow>
        (case kind_of topicSymbol of
           None \<Rightarrow> Inl (Undecodable (''unknown event topic \"'' @ topicSymbol @ ''\"'') topicSymbol)
         | Some kind \<Rightarrow>
             rbind (decodeXdr codec (rw_valueXdr event)) (\<lambda>value.
             rbind (decode_payload codec kind value) (\<lambda>(payload, transferId).
             Inr \<lparr>de_kind = kind, de_topic = topicSymbol, de_subjects = map (native_string codec) (tl topics),
                  de_payload = payload, de_transferId = transferId\<rparr>)))
     | other \<Rightarrow> Inl (Undecodable ''first topic is not a symbol'' (native_string codec other)))"

lemma decodeEvent_Inr:
  assumes "decodeEvent codec event = Inr d"
  obtains v where "decodeXdr codec (rw_valueXdr event) = Inr v"
    "decode_payload codec (de_kind d) v = Inr (de_payload d, de_transferId d)" "kind_of (de_topic d) = Some (de_kind d)"
proof -
  obtain topics where t: "result_map (decodeXdr codec) (rw_topicXdr event) = Inr topics"
    using assms by (auto simp: decodeEvent_def result_simps)
  then show thesis
    using assms that
    by (cases "case topics of [] \<Rightarrow> NUndefined | t # _ \<Rightarrow> t")
      (auto simp: decodeEvent_def result_simps split: option.splits)
qed

section \<open>Topics\<close>

lemma TOPIC_TO_KIND_keys:
  "set (map fst TOPIC_TO_KIND) = set (escrow_topics_rs @ registry_topics_rs @ compliance_topics_rs @ liquidity_topics_rs)"
  "distinct (map fst TOPIC_TO_KIND)" "distinct (map snd TOPIC_TO_KIND)"
  by code_simp+

lemma kind_of_None_iff:
  "kind_of t = None \<longleftrightarrow> t \<notin> set (escrow_topics_rs @ registry_topics_rs @ compliance_topics_rs @ liquidity_topics_rs)
     \<and> t \<notin> set object_prototype"
  unfolding TOPIC_TO_KIND_keys(1) [symmetric] 
  using map_of_eq_None_iff [of TOPIC_TO_KIND t] by (cases "map_of TOPIC_TO_KIND t") (auto simp: kind_of_def)

text \<open>
  the decoder knows exactly the topics the contracts publish.  The table has one kind per
  topic any of the four contracts publishes and no other entry, and different topics have
  different kinds; an event under any other topic is refused as undecodable, unless the topic
  is the name of an inherited property of objects.
\<close>

theorem decoder_knows_published_topics:
  "set (map fst TOPIC_TO_KIND) = set (escrow_topics_rs @ registry_topics_rs @ compliance_topics_rs @ liquidity_topics_rs)
   \<and> distinct (map fst TOPIC_TO_KIND) \<and> distinct (map snd TOPIC_TO_KIND)
   \<and> (\<forall>codec event t ts.
        result_map (decodeXdr codec) (rw_topicXdr event) = Inr (NString t # ts)
        \<longrightarrow> t \<notin> set (escrow_topics_rs @ registry_topics_rs @ compliance_topics_rs @ liquidity_topics_rs @ object_prototype)
        \<longrightarrow> decodeEvent codec event = Inl (Undecodable (''unknown event topic \"'' @ t @ ''\"'') t))"
proof (intro conjI allI impI)
  fix codec and event :: RawContractEvent and t ts
  assume r: "result_map (decodeXdr codec) (rw_topicXdr event) = Inr (NString t # ts)"
    and t: "t \<notin> set (escrow_topics_rs @ registry_topics_rs @ compliance_topics_rs @ liquidity_topics_rs @ object_prototype)"
  have "kind_of t = None" unfolding kind_of_None_iff using t by simp
  then show "decodeEvent codec event = Inl (Undecodable (''unknown event topic \"'' @ t @ ''\"'') t)"
    using r by (simp add: decodeEvent_def)
qed (fact TOPIC_TO_KIND_keys)+

definition sample_codec :: Codec where
  "sample_codec = \<lparr>cd_fromXDR = (\<lambda>s. Inr (NString s)), cd_utf8 = (\<lambda>b. b), cd_number = (\<lambda>v. JNull)\<rparr>"

definition sample_event :: "string list \<Rightarrow> RawContractEvent" where
  "sample_event topics = \<lparr>rw_contractId = ''CESC'', rw_ledger = 9, rw_eventIndex = 0, rw_txHash = ''tx'', rw_topicXdr = topics,
     rw_valueXdr = ''v'', rw_closedAt = ''2026-01-01T00:00:00.000Z''\<rparr>"

theorem decoder_knows_published_topics_witness:
  "decodeEvent sample_codec (sample_event [''tr_freeze'']) = Inl (Undecodable (''unknown event topic \"'' @ ''tr_freeze'' @ ''\"'') ''tr_freeze'')"
proof -
  have n: "''tr_freeze'' \<notin> set (escrow_topics_rs @ registry_topics_rs @ compliance_topics_rs @ liquidity_topics_rs @ object_prototype)"
    by code_simp
  have r: "result_map (decodeXdr sample_codec) (rw_topicXdr (sample_event [''tr_freeze''])) = Inr (NString ''tr_freeze'' # [])"
    by (simp add: sample_event_def sample_codec_def decodeXdr_def)
  show ?thesis using decoder_knows_published_topics r n by blast
qed

section \<open>Amounts\<close>

text \<open>The tuple kinds: how many fields they need, and which positions are amounts or identifiers.\<close>

fun layout :: "EventKind \<Rightarrow> (nat \<times> (nat \<times> string) list) option" where
  "layout EK_transfer_created = Some (5, [(0, ''id''), (1, ''amount''), (4, ''expiry'')])"
| "layout EK_transfer_claimed = Some (4, [(0, ''id''), (1, ''gross''), (2, ''fee''), (3, ''payout'')])"
| "layout EK_transfer_refunded = Some (2, [(0, ''id''), (1, ''amount'')])"
| "layout EK_transfer_cancelled = Some (2, [(0, ''id''), (1, ''amount'')])"
| "layout EK_agent_slashed = Some (2, [(0, ''requested''), (1, ''recovered'')])"
| "layout EK_pool_drawn = Some (3, [(0, ''amount''), (1, ''exposure'')])"
| "layout _ = None"

lemma asTuple_iff: "asTuple v n = Inr t \<longleftrightarrow> v = NArray t \<and> n \<le> length t"
  by (auto simp: asTuple_def split: native.splits)

lemma asTuple_Inl: "asTuple v n = Inl e \<Longrightarrow> \<exists>m t. e = Undecodable m t"
  by (auto simp: asTuple_def split: native.splits if_splits)

lemma asBigInt_Inl: "asBigInt v f = Inl e \<Longrightarrow> \<exists>m t. e = Undecodable m t"
  by (auto simp: asBigInt_def Let_def split: native.splits if_splits)

lemma int_field_iff: "int_field f v = Inr x \<longleftrightarrow> (\<exists>n. asBigInt v f = Inr n \<and> x = (f, JStr (show_int n)))"
  by (auto simp: int_field_def result_simps)

lemma int_field_Inl: "int_field f v = Inl e \<Longrightarrow> \<exists>m t. e = Undecodable m t"
  by (auto simp: int_field_def result_simps dest: asBigInt_Inl)



end
