(* ===== verification/Indexer.thy ===== *)
theory Indexer
  imports Decoder Quoting
begin

text \<open>
  \<open>backend/src/event-indexer/indexer.ts\<close> and \<open>cli.ts\<close>: fetching the events of the four contracts,
  projecting them into the read model and recording them, with the cursor per contract.  The
  state is the database; the RPC node is the record \<open>IndexerDeps\<close> of its answers.
\<close>

section \<open>Fetching\<close>

text \<open>An event as the node returns it, its topic and value in base64 XDR.\<close>

record RpcEvent =
  re_ledger :: int
  re_txHash :: string
  re_topic :: "string list"
  re_value :: string
  re_ledgerClosedAt :: string

text \<open>\<open>ix_getEvents contract from to limit\<close>.\<close>

record IndexerDeps =
  ix_env :: Env
  ix_codec :: Codec
  ix_legacyDate :: "string \<Rightarrow> int option"
  ix_getLatestLedger :: "failure + int"
  ix_getEvents :: "string \<Rightarrow> int \<Rightarrow> int \<Rightarrow> nat \<Rightarrow> failure + RpcEvent list"
  ix_now :: int

record IndexerTickResult =
  it_fromLedger :: int
  it_toLedger :: int
  it_eventsDecoded :: nat
  it_eventsSkipped :: nat
  it_projectionsUpdated :: nat

definition CONTRACT_IDS :: "Env \<Rightarrow> string list" where
  "CONTRACT_IDS env = [env_CONTRACT_ESCROW env, env_CONTRACT_AGENT_REGISTRY env, env_CONTRACT_COMPLIANCE_HOOK env,
     env_CONTRACT_LIQUIDITY_POOL env]"

definition latestLedger :: "IndexerDeps \<Rightarrow> failure + int" where
  "latestLedger d = ix_getLatestLedger d"

definition cursorFor :: "string \<Rightarrow> Database \<Rightarrow> int option" where
  "cursorFor contractId db = find_unique (db_cursors db) contractId"

definition saveCursor :: "string \<Rightarrow> int \<Rightarrow> (Database, unit) act" where
  "saveCursor contractId ledger =
     modify_state (\<lambda>db. db\<lparr>db_cursors := upsert_row contractId ledger (\<lambda>_. ledger) (db_cursors db)\<rparr>)"

definition FETCH_LIMIT :: nat where "FETCH_LIMIT = 200"

definition raw_event :: "string \<Rightarrow> nat \<Rightarrow> RpcEvent \<Rightarrow> RawContractEvent" where
  "raw_event contractId index event = \<lparr>rw_contractId = contractId, rw_ledger = re_ledger event, rw_eventIndex = index,
     rw_txHash = re_txHash event, rw_topicXdr = re_topic event, rw_valueXdr = re_value event,
     rw_closedAt = re_ledgerClosedAt event\<rparr>"

definition fetchEvents :: "IndexerDeps \<Rightarrow> string \<Rightarrow> int \<Rightarrow> int \<Rightarrow> failure + RawContractEvent list" where
  "fetchEvents d contractId fromLedger toLedger =
     rbind (ix_getEvents d contractId fromLedger toLedger FETCH_LIMIT) (\<lambda>events.
     Inr (map (\<lambda>(index, event). raw_event contractId index event) (enumerate 0 events)))"

section \<open>Projections\<close>

text \<open>The decoder only puts decimal strings under the keys read as integers.\<close>

definition payload_int :: "string \<Rightarrow> (string \<times> json) list \<Rightarrow> failure + int" where
  "payload_int k payload = (case map_of payload k of
     Some (JStr s) \<Rightarrow> if is_int_text s then Inr (int_text_val s) else Inl (PlainErr (''Cannot convert '' @ s @ '' to a BigInt''))
   | _ \<Rightarrow> Inl (PlainErr ''Cannot convert undefined to a BigInt''))"

definition payload_text :: "string \<Rightarrow> (string \<times> json) list \<Rightarrow> string" where
  "payload_text k payload = (case map_of payload k of None \<Rightarrow> ''undefined'' | Some v \<Rightarrow> js_to_string v)"

text \<open>\<open>payloadAmount\<close>, read as the decimal column it is written to.\<close>

definition payloadAmount :: "json option \<Rightarrow> failure + int" where
  "payloadAmount v = (case v of
     Some (JStr s) \<Rightarrow> if is_int_text s then Inr (int_text_val s) else Inl (PlainErr ''[DecimalError] Invalid argument'')
   | None \<Rightarrow> Inl (PlainErr ''expected a decimal string in the event payload, got undefined'')
   | Some w \<Rightarrow> Inl (PlainErr (''expected a decimal string in the event payload, got ''
        @ (case w of JBool _ \<Rightarrow> ''boolean'' | JNum _ \<Rightarrow> ''number'' | JReal _ \<Rightarrow> ''number'' | _ \<Rightarrow> ''object''))))"

text \<open>A date the database accepts: within the range of the language's dates.\<close>

definition valid_date :: "int \<Rightarrow> failure + int" where
  "valid_date ms = (if \<bar>ms\<bar> \<le> 8640000000000000 then Inr ms else Inl (PlainErr ''Invalid Date''))"

definition closed_at :: "IndexerDeps \<Rightarrow> RawContractEvent \<Rightarrow> failure + int" where
  "closed_at d raw = (case date_parse (ix_legacyDate d) (rw_closedAt raw) of
     None \<Rightarrow> Inl (PlainErr ''Invalid Date'') | Some t \<Rightarrow> Inr t)"

definition subject :: "nat \<Rightarrow> DecodedEvent \<Rightarrow> string" where
  "subject i decoded = (if i < length (de_subjects decoded) then de_subjects decoded ! i else [])"

definition projectTransferCreated :: "IndexerDeps \<Rightarrow> RawContractEvent \<Rightarrow> DecodedEvent \<Rightarrow> (Database, bool) act" where
  "projectTransferCreated d raw decoded =
     andThen (of_result (payload_int ''id'' (de_payload decoded))) (\<lambda>id.
     andThen (get_state (\<lambda>db. (find_first (\<lambda>u. us_stellarAddress u = Some (subject 0 decoded)) (db_users db),
         find_unique (db_corridors db) (subject 1 decoded)))) (\<lambda>rows.
     case rows of
       (Some sender, Some corridor) \<Rightarrow>
         andThen (of_result (rbind (payload_int ''amount'' (de_payload decoded)) (\<lambda>amount.
           rbind (payload_int ''expiry'' (de_payload decoded)) (\<lambda>expiry.
           rbind (valid_date (expiry * 1000)) (\<lambda>deadline.
           rbind (closed_at d raw) (\<lambda>closed.
           Inr \<lparr>tr_id = id, tr_senderId = us_id sender, tr_agentId = None, tr_corridorId = subject 1 decoded,
             tr_amount = amount, tr_fee = 0, tr_payout = 0, tr_tokenAddress = payload_text ''token'' (de_payload decoded),
             tr_claimHash = payload_text ''claimHash'' (de_payload decoded), tr_expiry = deadline, tr_status = TR_PENDING,
             tr_createdAt = closed, tr_settledAt = None, tr_claimedBy = None, tr_createTxHash = Some (rw_txHash raw),
             tr_settleTxHash = None\<rparr>)))))) (\<lambda>row.
         andThen (modify_state (\<lambda>db. db\<lparr>db_transfers := upsert_row id row
             (\<lambda>t. t\<lparr>tr_status := TR_PENDING, tr_createTxHash := Some (rw_txHash raw)\<rparr>) (db_transfers db)\<rparr>)) (\<lambda>_.
         ret True))
     | _ \<Rightarrow> ret False))"

definition on_transfers :: "((int, Transfer) table \<Rightarrow> failure + (int, Transfer) table) \<Rightarrow> (Database, unit) act" where
  "on_transfers f = statement (\<lambda>db. rbind (f (db_transfers db)) (\<lambda>t. Inr (db\<lparr>db_transfers := t\<rparr>)))"

definition projectTransferSettled ::
  "IndexerDeps \<Rightarrow> RawContractEvent \<Rightarrow> DecodedEvent \<Rightarrow> TransferStatus \<Rightarrow> (Database, bool) act" where
  "projectTransferSettled d raw decoded status =
     andThen (of_result (payload_int ''id'' (de_payload decoded))) (\<lambda>id.
     andThen (get_state (\<lambda>db. find_unique (db_transfers db) id)) (\<lambda>existing.
     if existing = None then ret False
     else
       let claimedBy = subject 0 decoded; claimed = (status = TR_CLAIMED) in
       andThen (of_result (if claimed
         then rbind (payloadAmount (map_of (de_payload decoded) ''fee'')) (\<lambda>fee.
              rbind (payloadAmount (map_of (de_payload decoded) ''payout'')) (\<lambda>payout. Inr (Some (fee, payout))))
         else Inr None)) (\<lambda>amounts.
       andThen (of_result (closed_at d raw)) (\<lambda>closed.
       andThen (on_transfers (update_row id (\<lambda>t. t\<lparr>tr_status := status, tr_settledAt := Some closed,
           tr_settleTxHash := Some (rw_txHash raw),
           tr_claimedBy := (if claimed \<and> claimedBy \<noteq> [] then Some claimedBy else tr_claimedBy t),
           tr_fee := (case amounts of None \<Rightarrow> tr_fee t | Some (f, p) \<Rightarrow> f),
           tr_payout := (case amounts of None \<Rightarrow> tr_payout t | Some (f, p) \<Rightarrow> p)\<rparr>))) (\<lambda>_.
       andThen (get_state (\<lambda>db. if claimed \<and> claimedBy \<noteq> []
           then find_first (\<lambda>a. ag_stellarAddress a = claimedBy) (db_agents db) else None)) (\<lambda>agent.
       case agent of
         None \<Rightarrow> ret True
       | Some a \<Rightarrow>
           andThen (on_transfers (update_row id (\<lambda>t. t\<lparr>tr_agentId := Some (ag_id a)\<rparr>))) (\<lambda>_. ret True)))))))"

definition agent_status_map :: "(string \<times> AgentStatus) list" where
  "agent_status_map = [(''Pending'', AG_PENDING), (''Authorized'', AG_AUTHORIZED), (''Suspended'', AG_SUSPENDED), (''Revoked'', AG_REVOKED)]"

definition projectAgentStatus :: "IndexerDeps \<Rightarrow> DecodedEvent \<Rightarrow> (Database, bool) act" where
  "projectAgentStatus d decoded =
     (let agentAddress = subject 0 decoded;
          to = (case map_of (de_payload decoded) ''value'' of
             Some (JArr vs) \<Rightarrow> if 1 < length vs then Some (vs ! 1) else None
           | _ \<Rightarrow> None) in
      if agentAddress = [] then ret False
      else (case to of
        Some (JStr name) \<Rightarrow>
          (case map_of agent_status_map name of
             None \<Rightarrow> if name \<in> set object_prototype then throw (PlainErr ''Invalid value for argument status'') else ret False
           | Some status \<Rightarrow>
              andThen (get_state (\<lambda>db. count_rows (\<lambda>a. ag_stellarAddress a = agentAddress) (db_agents db))) (\<lambda>n.
              andThen (modify_state (\<lambda>db. db\<lparr>db_agents := update_many (\<lambda>a. ag_stellarAddress a = agentAddress)
                (\<lambda>a. a\<lparr>ag_status := status,
                   ag_authorizedAt := (if status = AG_AUTHORIZED then Some (ix_now d) else ag_authorizedAt a),
                   ag_suspendedAt := (if status = AG_SUSPENDED then Some (ix_now d) else ag_suspendedAt a),
                   ag_revokedAt := (if status = AG_REVOKED then Some (ix_now d) else ag_revokedAt a)\<rparr>) (db_agents db)\<rparr>)) (\<lambda>_.
              ret (n > 0))))
      | _ \<Rightarrow> ret False))"

definition projectPoolDraw :: "DecodedEvent \<Rightarrow> (Database, bool) act" where
  "projectPoolDraw decoded =
     (let agentAddress = subject 0 decoded; regionId = subject 1 decoded in
      if agentAddress = [] \<or> regionId = [] then ret False
      else
        andThen (get_state (\<lambda>db. find_first (\<lambda>a. ag_stellarAddress a = agentAddress) (db_agents db))) (\<lambda>agent.
        case agent of
          None \<Rightarrow> ret False
        | Some a \<Rightarrow>
            andThen (of_result (payloadAmount (map_of (de_payload decoded) ''exposure''))) (\<lambda>exposure.
            andThen (statement (\<lambda>db.
                if find_unique (db_exposures db) (ag_id a, regionId) = None \<and> find_unique (db_regions db) regionId = None
                then Inl foreign_key_error
                else Inr (db\<lparr>db_exposures := upsert_row (ag_id a, regionId)
                  \<lparr>ex_agentId = ag_id a, ex_regionId = regionId, ex_drawnAmount = exposure\<rparr>
                  (\<lambda>e. e\<lparr>ex_drawnAmount := exposure\<rparr>) (db_exposures db)\<rparr>))) (\<lambda>_.
            ret True))))"

definition project :: "IndexerDeps \<Rightarrow> RawContractEvent \<Rightarrow> DecodedEvent \<Rightarrow> (Database, bool) act" where
  "project d raw decoded = (case de_kind decoded of
     Kind EK_transfer_created \<Rightarrow> projectTransferCreated d raw decoded
   | Kind EK_transfer_claimed \<Rightarrow> projectTransferSettled d raw decoded TR_CLAIMED
   | Kind EK_transfer_refunded \<Rightarrow> projectTransferSettled d raw decoded TR_REFUNDED
   | Kind EK_transfer_cancelled \<Rightarrow> projectTransferSettled d raw decoded TR_CANCELLED
   | Kind EK_agent_status_changed \<Rightarrow> projectAgentStatus d decoded
   | Kind EK_pool_drawn \<Rightarrow> projectPoolDraw decoded
   | _ \<Rightarrow> ret False)"

section \<open>Recording\<close>

definition event_key_of :: "RawContractEvent \<Rightarrow> event_key" where
  "event_key_of raw = (rw_contractId raw, rw_ledger raw, rw_eventIndex raw)"

definition linkableTransferId :: "int option \<Rightarrow> Database \<Rightarrow> int option" where
  "linkableTransferId transferId db = (case transferId of None \<Rightarrow> None | Some i \<Rightarrow> map_option tr_id (find_unique (db_transfers db) i))"

definition raw_xdr_text :: "RawContractEvent \<Rightarrow> string" where
  "raw_xdr_text raw = stringify (JObj [(''topic'', JArr (map JStr (rw_topicXdr raw))), (''value'', JStr (rw_valueXdr raw))])"

definition event_row :: "IndexerDeps \<Rightarrow> RawContractEvent \<Rightarrow> DecodedEvent \<Rightarrow> int option \<Rightarrow> int \<Rightarrow> ChainEvent" where
  "event_row d raw decoded link closed = \<lparr>ce_contractId = rw_contractId raw, ce_topic = de_topic decoded,
     ce_ledger = rw_ledger raw, ce_eventIndex = rw_eventIndex raw, ce_txHash = rw_txHash raw,
     ce_payload = JObj (de_payload decoded),
     ce_rawXdr = (if env_INDEXER_STORE_RAW_XDR (ix_env d) then Some (raw_xdr_text raw) else None),
     ce_transferId = link, ce_occurredAt = closed\<rparr>"

text \<open>The foreign key of the log into the transfers.\<close>

definition dangling :: "int option \<Rightarrow> Database \<Rightarrow> bool" where
  "dangling link db \<longleftrightarrow> (case link of None \<Rightarrow> False | Some i \<Rightarrow> find_unique (db_transfers db) i = None)"

definition create_event :: "event_key \<Rightarrow> ChainEvent \<Rightarrow> Database \<Rightarrow> failure + Database" where
  "create_event key row db =
     (if dangling (ce_transferId row) db then Inl foreign_key_error
      else rbind (create_row key row (db_events db)) (\<lambda>t. Inr (db\<lparr>db_events := t\<rparr>)))"

definition record_event :: "IndexerDeps \<Rightarrow> RawContractEvent \<Rightarrow> DecodedEvent \<Rightarrow> (Database, unit) act" where
  "record_event d raw decoded =
     andThen (get_state (linkableTransferId (de_transferId decoded))) (\<lambda>link.
     andThen (of_result (closed_at d raw)) (\<lambda>closed.
     statement (create_event (event_key_of raw) (event_row d raw decoded link closed))))"

definition persist :: "IndexerDeps \<Rightarrow> RawContractEvent \<Rightarrow> DecodedEvent \<Rightarrow> (Database, bool) act" where
  "persist d raw decoded =
     andThen (get_state (\<lambda>db. find_unique (db_events db) (event_key_of raw))) (\<lambda>existing.
     if existing \<noteq> None then ret False
     else
       andThen (project d raw decoded) (\<lambda>changed.
       andThen (record_event d raw decoded) (\<lambda>_.
       ret changed)))"

section \<open>Ticks\<close>

text \<open>Counters of a tick: decoded, skipped, projections updated.\<close>

type_synonym counters = "nat \<times> nat \<times> nat"

definition index_event :: "IndexerDeps \<Rightarrow> RawContractEvent \<Rightarrow> counters \<Rightarrow> (Database, counters) act" where
  "index_event d raw = (\<lambda>(decoded, skipped, updated).
     (case decodeEvent (ix_codec d) raw of
        Inr e \<Rightarrow>
          andThen (persist d raw e) (\<lambda>written.
          ret (decoded + 1, skipped, if written then updated + 1 else updated))
      | Inl (Undecodable message topic) \<Rightarrow> ret (decoded, skipped + 1, updated)
      | Inl (OtherError e) \<Rightarrow> throw e))"

definition start_from :: "IndexerDeps \<Rightarrow> int \<Rightarrow> int option \<Rightarrow> int" where
  "start_from d tip stored = (case stored of
     Some l \<Rightarrow> l + 1
   | None \<Rightarrow> (case env_INDEXER_START_LEDGER (ix_env d) of Latest \<Rightarrow> tip | FromLedger n \<Rightarrow> n))"

definition index_contract :: "IndexerDeps \<Rightarrow> int \<Rightarrow> string \<Rightarrow> int \<times> counters \<Rightarrow> (Database, int \<times> counters) act" where
  "index_contract d tip contractId = (\<lambda>(lowest, counts).
     andThen (get_state (cursorFor contractId)) (\<lambda>stored.
     let from_ledger = start_from d tip stored in
     if from_ledger > tip then ret (lowest, counts)
     else
       andThen (of_result (fetchEvents d contractId from_ledger tip)) (\<lambda>events.
       andThen (for_each (index_event d) events counts) (\<lambda>counts.
       andThen (saveCursor contractId tip) (\<lambda>_.
       ret (min lowest from_ledger, counts))))))"

definition tick :: "IndexerDeps \<Rightarrow> (Database, IndexerTickResult) act" where
  "tick d =
     andThen (of_result (latestLedger d)) (\<lambda>tip.
     andThen (for_each (index_contract d tip) (CONTRACT_IDS (ix_env d)) (tip, (0, 0, 0))) (\<lambda>(lowest, decoded, skipped, updated).
     ret \<lparr>it_fromLedger = lowest, it_toLedger = tip, it_eventsDecoded = decoded, it_eventsSkipped = skipped,
          it_projectionsUpdated = updated\<rparr>))"

text \<open>The polling loop over the node's answers at each turn; a failed tick is logged and the loop goes on.\<close>

fun run :: "IndexerDeps list \<Rightarrow> Database \<Rightarrow> Database" where
  "run [] db = db"
| "run (d # ds) db = run ds (snd (tick d db))"

text \<open>
  The \<open>backfill\<close> mode of the command line: the chunks it fetches from the escrow, in order, with
  the number of events it logs for each.  It calls no projection and writes nothing.
\<close>

definition BACKFILL_CHUNK :: int where "BACKFILL_CHUNK = 10000"

function backfill :: "(int \<Rightarrow> int \<Rightarrow> failure + RawContractEvent list) \<Rightarrow> int \<Rightarrow> int \<Rightarrow> failure + (int \<times> int \<times> nat) list" where
  "backfill fetch start tip =
     (if start > tip then Inr []
      else
        (let stop = min (start + BACKFILL_CHUNK - 1) tip in
         rbind (fetch start stop) (\<lambda>events.
         rbind (backfill fetch (start + BACKFILL_CHUNK) tip) (\<lambda>rest.
         Inr ((start, stop, length events) # rest)))))"
  by auto
termination
  by (relation "measure (\<lambda>(fetch, start, tip). nat (tip + 1 - start))") (auto simp: BACKFILL_CHUNK_def)

declare backfill.simps [simp del]

end
