(* ===== verification/Provider.thy ===== *)
theory Provider
  imports Horizon Canonical JsDate Schema
begin

text \<open>
  The identity-verification providers: the contract of
  \<open>backend/src/kyc-orchestration/provider.ts\<close> and its two implementations, \<open>mock-provider.ts\<close>
  and \<open>http-provider.ts\<close>.  The digests \<open>sha256\<close> and \<open>hmac key message\<close> and the vendor's answers
  are arguments.  Both implementations provide the interface \<open>webhook_verifier\<close>.
\<close>

section \<open>The contract\<close>

datatype ProviderTier = PT_None | PT_Standard | PT_Enhanced

datatype Outcome = VO_APPROVED | VO_REJECTED | VO_PENDING | VO_NEEDS_INPUT

fun providerTierName :: "ProviderTier \<Rightarrow> string" where
  "providerTierName PT_None = ''None''"
| "providerTierName PT_Standard = ''Standard''"
| "providerTierName PT_Enhanced = ''Enhanced''"

fun outcomeName :: "Outcome \<Rightarrow> string" where
  "outcomeName VO_APPROVED = ''APPROVED''"
| "outcomeName VO_REJECTED = ''REJECTED''"
| "outcomeName VO_PENDING = ''PENDING''"
| "outcomeName VO_NEEDS_INPUT = ''NEEDS_INPUT''"

record VerificationDocument =
  vd_type :: string
  vd_number :: string
  vd_countryCode :: string
  vd_expiresOn :: string

record Address =
  ad_line1 :: string
  ad_city :: string
  ad_postalCode :: "string option"
  ad_countryCode :: string

record VerificationRequest =
  vq_userId :: string
  vq_requiredTier :: Tier
  vq_regionId :: string
  vq_countryCode :: string
  vq_fullName :: string
  vq_dateOfBirth :: string
  vq_address :: "Address option"
  vq_document :: "VerificationDocument option"
  vq_sourceOfFunds :: "string option"

record VerificationResult =
  vr_outcome :: Outcome
  vr_tier :: ProviderTier
  vr_providerId :: string
  vr_providerRef :: string
  vr_reasons :: "string list"
  vr_screenedAt :: string
  vr_requiredInput :: "string list option"
  vr_raw :: "(string \<times> json) list"

text \<open>A webhook may carry values of any type, so its fields are JSON values.\<close>

record WebhookEvent =
  we_providerRef :: json
  we_outcome :: json
  we_reasons :: json
  we_occurredAt :: json
  we_raw :: json

text \<open>\<open>pv_submit now request\<close>; \<open>pv_verifyWebhookSignature headers body\<close>.\<close>

record IdVerificationProvider =
  pv_id :: string
  pv_supportedTiers :: "ProviderTier list"
  pv_supportsEnhancedDueDiligence :: bool
  pv_submit :: "int \<Rightarrow> VerificationRequest \<Rightarrow> failure + VerificationResult"
  pv_verifyWebhookSignature :: "(string \<Rightarrow> string option) \<Rightarrow> string \<Rightarrow> bool"
  pv_parseWebhook :: "int \<Rightarrow> string \<Rightarrow> failure + WebhookEvent"

definition attestation_entries :: "VerificationResult \<Rightarrow> (string \<times> json) list" where
  "attestation_entries r = [
     (''provider_id'', JStr (vr_providerId r)), (''provider_ref'', JStr (vr_providerRef r)),
     (''tier'', JStr (providerTierName (vr_tier r))), (''payload'', JObj (vr_raw r))]"

definition attestationHashOf :: "(string \<Rightarrow> string) \<Rightarrow> VerificationResult \<Rightarrow> string" where
  "attestationHashOf sha256 r = sha256 (canonicalize (JObj (attestation_entries r)))"

definition toContractTier :: "ProviderTier \<Rightarrow> ProviderTier" where
  "toContractTier tier = tier"

fun toVerificationTier :: "ProviderTier \<Rightarrow> Tier" where
  "toVerificationTier PT_None = NONE"
| "toVerificationTier PT_Standard = STANDARD"
| "toVerificationTier PT_Enhanced = ENHANCED"

fun provider_rank :: "ProviderTier \<Rightarrow> int" where
  "provider_rank PT_None = 0"
| "provider_rank PT_Standard = 1"
| "provider_rank PT_Enhanced = 2"

fun requiredProviderTier :: "Tier \<Rightarrow> ProviderTier" where
  "requiredProviderTier NONE = PT_None"
| "requiredProviderTier STANDARD = PT_Standard"
| "requiredProviderTier ENHANCED = PT_Enhanced"

definition tierSatisfies :: "ProviderTier \<Rightarrow> Tier \<Rightarrow> bool" where
  "tierSatisfies held needed \<longleftrightarrow> provider_rank held \<ge> provider_rank (requiredProviderTier needed)"

lemma tierSatisfies_iff: "tierSatisfies held needed \<longleftrightarrow> needed \<le> toVerificationTier held"
  by (cases held; cases needed) (simp_all add: tierSatisfies_def less_eq_Tier_def)

section \<open>Webhook signatures\<close>

text \<open>The check both providers make: fail closed without a secret or a header.\<close>

definition webhook_signature_ok ::
  "(string \<Rightarrow> string \<Rightarrow> string) \<Rightarrow> string option \<Rightarrow> (string \<Rightarrow> string option) \<Rightarrow> string \<Rightarrow> bool" where
  "webhook_signature_ok hmac webhookSecret headers rawBody =
     (case webhookSecret of
        None \<Rightarrow> False
      | Some secret \<Rightarrow>
         (if secret = [] then False
          else (case headers ''x-provider-signature'' of
             None \<Rightarrow> False
           | Some provided \<Rightarrow>
              (if provided = [] then False
               else
                 (let expected = hmac secret rawBody
                  in if length provided \<noteq> length expected then False else provided = expected)))))"

locale webhook_verifier =
  fixes verify :: "(string \<Rightarrow> string option) \<Rightarrow> string \<Rightarrow> bool"
    and secret :: "string option"
    and mac :: "string \<Rightarrow> string \<Rightarrow> string"
  assumes verify_needs_secret: "verify h b \<Longrightarrow> \<exists>k. secret = Some k \<and> k \<noteq> []"
    and verify_needs_mac: "verify h b \<Longrightarrow> secret = Some k \<Longrightarrow> h ''x-provider-signature'' = Some (mac k b)"
begin

lemma no_secret_refuses: "secret = None \<or> secret = Some [] \<Longrightarrow> \<not> verify h b"
  using verify_needs_secret by fastforce

lemma no_header_refuses: "h ''x-provider-signature'' = None \<Longrightarrow> \<not> verify h b"
  using verify_needs_secret verify_needs_mac by fastforce

text \<open>One signature header never opens two bodies, if the digest separates them.\<close>

lemma header_fixes_body: "inj (mac k) \<Longrightarrow> secret = Some k \<Longrightarrow> verify h b \<Longrightarrow> verify h c \<Longrightarrow> b = c"
  using verify_needs_mac by (metis injD option.inject)

end

section \<open>The mock provider\<close>

definition isExpired :: "(string \<Rightarrow> int option) \<Rightarrow> int \<Rightarrow> string \<Rightarrow> bool" where
  "isExpired legacy now isoDate = (case date_parse legacy isoDate of None \<Rightarrow> True | Some expires \<Rightarrow> expires \<le> now)"

definition hashSuffix :: "(string \<Rightarrow> string \<Rightarrow> string) \<Rightarrow> string \<Rightarrow> string" where
  "hashSuffix hmac input = take 12 (hmac ''mock-provider-ref'' input)"

definition rawPayload :: "int \<Rightarrow> VerificationRequest \<Rightarrow> string \<Rightarrow> string option \<Rightarrow> (string \<times> json) list" where
  "rawPayload now request decision reason = [
     (''country_code'', JStr (vq_countryCode request)),
     (''decision'', JStr decision),
     (''reason'', opt_json JStr reason),
     (''region_id'', JStr (vq_regionId request)),
     (''requested_tier'', JStr (tierName (vq_requiredTier request))),
     (''screened_at'', JStr (take 10 (toISOString now)))]"

definition mock_submit ::
  "(string \<Rightarrow> string \<Rightarrow> string) \<Rightarrow> (string \<Rightarrow> int option) \<Rightarrow> int \<Rightarrow> VerificationRequest \<Rightarrow> VerificationResult" where
  "mock_submit hmac legacy now request =
     (let normalizedName = toLowerCase (vq_fullName request);
          screenedAt = toISOString now;
          providerRef = ''mock_'' @ vq_regionId request @ ''_'' @ hashSuffix hmac (vq_userId request @ screenedAt);
          result = (\<lambda>outcome tier reasons needs decision reason.
            \<lparr>vr_outcome = outcome, vr_tier = tier, vr_providerId = ''mock'', vr_providerRef = providerRef,
             vr_reasons = reasons, vr_screenedAt = screenedAt, vr_requiredInput = needs,
             vr_raw = rawPayload now request decision reason\<rparr>)
      in if vq_document request = None \<and> vq_requiredTier request \<noteq> NONE
         then result VO_NEEDS_INPUT PT_None [''DOCUMENT_REQUIRED''] (Some [''document'']) ''needs_input'' (Some ''DOCUMENT_REQUIRED'')
         else if str_includes normalizedName ''reject''
         then result VO_REJECTED PT_None [''SANCTIONS_HIT''] None ''rejected'' (Some ''SANCTIONS_HIT'')
         else if (case vq_document request of None \<Rightarrow> False | Some doc \<Rightarrow> isExpired legacy now (vd_expiresOn doc))
         then result VO_REJECTED PT_None [''DOCUMENT_EXPIRED''] None ''rejected'' (Some ''DOCUMENT_EXPIRED'')
         else if str_includes normalizedName ''pending''
         then result VO_PENDING PT_None [''MANUAL_REVIEW''] None ''pending'' (Some ''MANUAL_REVIEW'')
         else if vq_requiredTier request = ENHANCED \<and> (vq_sourceOfFunds request = None \<or> vq_sourceOfFunds request = Some [])
         then result VO_NEEDS_INPUT PT_Standard [''SOURCE_OF_FUNDS_REQUIRED''] (Some [''sourceOfFunds''])
                ''needs_input'' (Some ''SOURCE_OF_FUNDS_REQUIRED'')
         else result VO_APPROVED (if vq_requiredTier request = ENHANCED then PT_Enhanced else PT_Standard) [] None
                ''approved'' None)"

definition mock_parseWebhook :: "int \<Rightarrow> string \<Rightarrow> failure + WebhookEvent" where
  "mock_parseWebhook now rawBody = (case json_parse rawBody of
     None \<Rightarrow> Inl (PlainErr ''SyntaxError'')
   | Some JNull \<Rightarrow> Inl (PlainErr ''TypeError'')
   | Some parsed \<Rightarrow>
      (let nullish = (\<lambda>k d. case jget k parsed of None \<Rightarrow> d | Some JNull \<Rightarrow> d | Some v \<Rightarrow> v) in
       case jget ''providerRef'' parsed of
         None \<Rightarrow> Inl (PlainErr ''webhook is missing providerRef'')
       | Some ref \<Rightarrow>
          (if \<not> truthy ref then Inl (PlainErr ''webhook is missing providerRef'')
           else Inr \<lparr>we_providerRef = ref, we_outcome = nullish ''outcome'' (JStr ''PENDING''),
             we_reasons = nullish ''reasons'' (JArr []), we_occurredAt = nullish ''occurredAt'' (JStr (toISOString now)),
             we_raw = parsed\<rparr>)))"

definition MockIdVerificationProvider ::
  "(string \<Rightarrow> string \<Rightarrow> string) \<Rightarrow> (string \<Rightarrow> int option) \<Rightarrow> string option \<Rightarrow> IdVerificationProvider" where
  "MockIdVerificationProvider hmac legacy webhookSecret = \<lparr>
     pv_id = ''mock'', pv_supportedTiers = [PT_None, PT_Standard, PT_Enhanced],
     pv_supportsEnhancedDueDiligence = True,
     pv_submit = (\<lambda>now request. Inr (mock_submit hmac legacy now request)),
     pv_verifyWebhookSignature = webhook_signature_ok hmac webhookSecret,
     pv_parseWebhook = mock_parseWebhook\<rparr>"

definition mock_fetchResult :: "string \<Rightarrow> failure + VerificationResult" where
  "mock_fetchResult providerRef = Inl (AppErr (providerUnavailable ''mock'' (''no stored result for '' @ providerRef)))"

section \<open>The HTTP provider\<close>

definition outcomeSchema :: "json \<Rightarrow> Outcome option" where
  "outcomeSchema v = (case jstring v of None \<Rightarrow> None
     | Some s \<Rightarrow> List.find (\<lambda>x. outcomeName x = s) [VO_APPROVED, VO_REJECTED, VO_PENDING, VO_NEEDS_INPUT])"

definition tierSchema :: "json \<Rightarrow> ProviderTier option" where
  "tierSchema v = (case jstring v of None \<Rightarrow> None
     | Some s \<Rightarrow> List.find (\<lambda>x. providerTierName x = s) [PT_None, PT_Standard, PT_Enhanced])"

definition string_array :: "json \<Rightarrow> string list option" where
  "string_array v = (case jarray v of None \<Rightarrow> None | Some vs \<Rightarrow> all_some jstring vs)"

record VerificationResponse =
  vp_provider_ref :: string
  vp_outcome :: Outcome
  vp_tier :: ProviderTier
  vp_reasons :: "string list"
  vp_screened_at :: string
  vp_required_input :: "string list option"
  vp_payload :: "(string \<times> json) list"

definition verificationResponseSchema :: "json \<Rightarrow> VerificationResponse option" where
  "verificationResponseSchema v =
     (case (required (string_min 1) ''provider_ref'' v, required outcomeSchema ''outcome'' v,
            required tierSchema ''tier'' v, optional string_array ''reasons'' v,
            required (string_min 1) ''screened_at'' v, optional string_array ''required_input'' v,
            required jobject ''payload'' v) of
        (Some ref, Some outcome, Some tier, Some reasons, Some screened, Some needs, Some payload) \<Rightarrow>
          Some \<lparr>vp_provider_ref = ref, vp_outcome = outcome, vp_tier = tier, vp_reasons = option_or reasons [],
            vp_screened_at = screened, vp_required_input = needs, vp_payload = payload\<rparr>
      | _ \<Rightarrow> None)"

record HttpCall =
  hc_method :: string
  hc_url :: string
  hc_headers :: "(string \<times> string) list"
  hc_body :: "json option"

definition http_request ::
  "(HttpCall \<Rightarrow> fetched) \<Rightarrow> string \<Rightarrow> string option \<Rightarrow> string \<Rightarrow> string \<Rightarrow> json option \<Rightarrow> failure + VerificationResponse" where
  "http_request fetch baseUrl apiKey method path body =
     (let unavailable = (\<lambda>m. Inl (AppErr (providerUnavailable ''http'' m))) in
      case fetch \<lparr>hc_method = method, hc_url = strip_slashes baseUrl @ path,
             hc_headers = [(''accept'', ''application/json''), (''content-type'', ''application/json'')]
               @ (case apiKey of None \<Rightarrow> [] | Some k \<Rightarrow> [(''authorization'', ''Bearer '' @ k)]),
             hc_body = body\<rparr> of
        FetchThrew cause \<Rightarrow> unavailable (''request to '' @ path @ '' failed: '' @ describe cause)
      | Fetched status answer \<Rightarrow>
         (if \<not> (200 \<le> status \<and> status \<le> 299)
          then unavailable (method @ '' '' @ path @ '' returned '' @ show_nat status)
          else (case verificationResponseSchema (option_or answer JNull) of
             None \<Rightarrow> unavailable (method @ '' '' @ path @ '' returned a body outside the provider contract'')
           | Some response \<Rightarrow> Inr response)))"

definition toResult :: "VerificationResponse \<Rightarrow> VerificationResult" where
  "toResult response = \<lparr>vr_outcome = vp_outcome response, vr_tier = vp_tier response, vr_providerId = ''http'',
     vr_providerRef = vp_provider_ref response, vr_reasons = vp_reasons response,
     vr_screenedAt = vp_screened_at response, vr_requiredInput = vp_required_input response,
     vr_raw = vp_payload response\<rparr>"

definition address_json :: "Address \<Rightarrow> json" where
  "address_json a = JObj ([(''line1'', JStr (ad_line1 a)), (''city'', JStr (ad_city a)), (''countryCode'', JStr (ad_countryCode a))]
     @ (case ad_postalCode a of None \<Rightarrow> [] | Some p \<Rightarrow> [(''postalCode'', JStr p)]))"

text \<open>The body sent to the vendor; \<open>reference\<close> is the random identifier.\<close>

definition http_submit_body :: "string \<Rightarrow> VerificationRequest \<Rightarrow> json" where
  "http_submit_body reference request = JObj ([
     (''reference'', JStr reference),
     (''tier'', JStr (if vq_requiredTier request = ENHANCED then ''Enhanced'' else ''Standard'')),
     (''region_id'', JStr (vq_regionId request)),
     (''country_code'', JStr (vq_countryCode request)),
     (''subject'', JObj ([(''full_name'', JStr (vq_fullName request)), (''date_of_birth'', JStr (vq_dateOfBirth request))]
        @ (case vq_address request of None \<Rightarrow> [] | Some a \<Rightarrow> [(''address'', address_json a)])
        @ (case vq_document request of None \<Rightarrow> [] | Some doc \<Rightarrow> [(''document'', JObj [
             (''type'', JStr (vd_type doc)), (''number'', JStr (vd_number doc)),
             (''country_code'', JStr (vd_countryCode doc)), (''expires_on'', JStr (vd_expiresOn doc))])])))]
     @ (case vq_sourceOfFunds request of None \<Rightarrow> [] | Some f \<Rightarrow> [(''source_of_funds'', JStr f)]))"

definition http_submit ::
  "(HttpCall \<Rightarrow> fetched) \<Rightarrow> string \<Rightarrow> string option \<Rightarrow> string \<Rightarrow> VerificationRequest \<Rightarrow> failure + VerificationResult" where
  "http_submit fetch baseUrl apiKey reference request =
     rbind (http_request fetch baseUrl apiKey ''POST'' ''/verifications'' (Some (http_submit_body reference request)))
       (\<lambda>response. Inr (toResult response))"

text \<open>\<open>encodeURIComponent\<close>.\<close>

definition uri_char :: "char \<Rightarrow> string" where
  "uri_char c =
     (if is_digit c \<or> (65 \<le> cu c \<and> cu c \<le> 90) \<or> (97 \<le> cu c \<and> cu c \<le> 122)
         \<or> c \<in> set ''-_.!~*'' \<or> c \<in> {CHR 0x27, CHR 0x28, CHR 0x29} then [c]
      else if cu c < 128 then percent (cu c)
      else percent (192 + cu c div 64) @ percent (128 + cu c mod 64))"

definition encodeURIComponent :: "string \<Rightarrow> string" where
  "encodeURIComponent s = concat (map uri_char s)"

definition http_fetchResult ::
  "(HttpCall \<Rightarrow> fetched) \<Rightarrow> string \<Rightarrow> string option \<Rightarrow> string \<Rightarrow> failure + VerificationResult" where
  "http_fetchResult fetch baseUrl apiKey providerRef =
     rbind (http_request fetch baseUrl apiKey ''GET'' (''/verifications/'' @ encodeURIComponent providerRef) None)
       (\<lambda>response. Inr (toResult response))"

definition http_revoke ::
  "(HttpCall \<Rightarrow> fetched) \<Rightarrow> string \<Rightarrow> string option \<Rightarrow> string \<Rightarrow> string \<Rightarrow> failure + unit" where
  "http_revoke fetch baseUrl apiKey providerRef reason =
     rbind (http_request fetch baseUrl apiKey ''POST'' (''/verifications/'' @ encodeURIComponent providerRef @ ''/revoke'')
         (Some (JObj [(''reason'', JStr reason)])))
       (\<lambda>response. Inr ())"

definition safeJsonText :: "string \<Rightarrow> json" where
  "safeJsonText rawBody = option_or (json_parse rawBody) JNull"

definition http_parseWebhook :: "string \<Rightarrow> failure + WebhookEvent" where
  "http_parseWebhook rawBody = (case verificationResponseSchema (safeJsonText rawBody) of
     None \<Rightarrow> Inl (AppErr (providerUnavailable ''http'' ''webhook body does not match the provider contract''))
   | Some body \<Rightarrow> Inr \<lparr>we_providerRef = JStr (vp_provider_ref body), we_outcome = JStr (outcomeName (vp_outcome body)),
       we_reasons = JArr (map JStr (vp_reasons body)), we_occurredAt = JStr (vp_screened_at body),
       we_raw = JObj (vp_payload body)\<rparr>)"

definition HttpIdVerificationProvider ::
  "(string \<Rightarrow> string \<Rightarrow> string) \<Rightarrow> (HttpCall \<Rightarrow> fetched) \<Rightarrow> string \<Rightarrow> string \<Rightarrow> string option \<Rightarrow> string option \<Rightarrow> IdVerificationProvider" where
  "HttpIdVerificationProvider hmac fetch reference baseUrl apiKey webhookSecret = \<lparr>
     pv_id = ''http'', pv_supportedTiers = [PT_None, PT_Standard, PT_Enhanced],
     pv_supportsEnhancedDueDiligence = True,
     pv_submit = (\<lambda>now request. http_submit fetch baseUrl apiKey reference request),
     pv_verifyWebhookSignature = webhook_signature_ok hmac webhookSecret,
     pv_parseWebhook = (\<lambda>now rawBody. http_parseWebhook rawBody)\<rparr>"

section \<open>Both providers honour the contract\<close>

lemma webhook_signature_ok_iff:
  "webhook_signature_ok hmac sec h b \<longleftrightarrow>
     (\<exists>k. sec = Some k \<and> k \<noteq> [] \<and> h ''x-provider-signature'' = Some (hmac k b) \<and> hmac k b \<noteq> [])"
  by (auto simp: webhook_signature_ok_def Let_def split: option.splits if_splits)

interpretation mock_webhooks: webhook_verifier
    "pv_verifyWebhookSignature (MockIdVerificationProvider hmac legacy sec)" sec hmac
  for hmac legacy sec
  by unfold_locales (auto simp: MockIdVerificationProvider_def webhook_signature_ok_iff)

interpretation http_webhooks: webhook_verifier
    "pv_verifyWebhookSignature (HttpIdVerificationProvider hmac fetch ref url key sec)" sec hmac
  for hmac fetch ref url key sec
  by unfold_locales (auto simp: HttpIdVerificationProvider_def webhook_signature_ok_iff)

text \<open>
  webhooks fail closed.  Whatever headers and body arrive, a provider configured without a
  secret, or a request without a signature header, is refused; and under one header at most
  one body is accepted, when the digest separates bodies.
\<close>

theorem webhooks_fail_closed:
  assumes "v = pv_verifyWebhookSignature (MockIdVerificationProvider hmac legacy sec)
      \<or> v = pv_verifyWebhookSignature (HttpIdVerificationProvider hmac fetch ref url key sec)"
  shows "(sec = None \<or> sec = Some [] \<longrightarrow> \<not> v h b) \<and> (h ''x-provider-signature'' = None \<longrightarrow> \<not> v h b)
    \<and> (\<forall>k. sec = Some k \<and> inj (hmac k) \<and> v h b \<and> v h c \<longrightarrow> b = c)"
  using assms mock_webhooks.no_secret_refuses mock_webhooks.no_header_refuses mock_webhooks.header_fixes_body
    http_webhooks.no_secret_refuses http_webhooks.no_header_refuses http_webhooks.header_fixes_body
  by metis

theorem webhooks_fail_closed_witness:
  "\<not> pv_verifyWebhookSignature (MockIdVerificationProvider (\<lambda>k m. k @ m) (\<lambda>_. None) (Some ''s''))
      (\<lambda>_. Some ''sbody'') ''other''"
proof -
  let ?v = "pv_verifyWebhookSignature (MockIdVerificationProvider (\<lambda>k m. k @ m) (\<lambda>_. None) (Some ''s''))"
  have own: "?v (\<lambda>_. Some ''sbody'') ''body''"
    by (simp add: MockIdVerificationProvider_def webhook_signature_ok_iff)
  have inj: "inj (\<lambda>m. ''s'' @ m)" by (simp add: inj_def)
  show ?thesis
    using webhooks_fail_closed [of ?v "\<lambda>k m. k @ m" "\<lambda>_. None" "Some ''s''" undefined undefined undefined undefined
        "\<lambda>_. Some ''sbody''" "''body''" "''other''"] own inj by auto
qed

text \<open>
  the mock provider approves only what it was asked to verify: an approval carries a tier
  that satisfies the requirement, was given on an unexpired document whenever one was
  required, and for the enhanced tier only with a source of funds.
\<close>

theorem mock_approval_is_earned:
  assumes "vr_outcome (mock_submit hmac legacy now r) = VO_APPROVED"
  shows "tierSatisfies (vr_tier (mock_submit hmac legacy now r)) (vq_requiredTier r)
    \<and> (vq_requiredTier r \<noteq> NONE \<longrightarrow> (\<exists>doc t. vq_document r = Some doc \<and> date_parse legacy (vd_expiresOn doc) = Some t \<and> now < t))
    \<and> (vq_requiredTier r = ENHANCED \<longrightarrow> (\<exists>f. vq_sourceOfFunds r = Some f \<and> f \<noteq> []))
    \<and> \<not> str_includes (toLowerCase (vq_fullName r)) ''reject''"
  using assms
  by (cases "vq_requiredTier r")
    (auto simp: mock_submit_def Let_def tierSatisfies_def isExpired_def split: if_splits option.splits)

definition sample_request :: VerificationRequest where
  "sample_request = \<lparr>vq_userId = ''u1'', vq_requiredTier = ENHANCED, vq_regionId = ''NG_LAG'', vq_countryCode = ''NG'',
     vq_fullName = ''Ada Obi'', vq_dateOfBirth = ''1990-01-01'', vq_address = None,
     vq_document = Some \<lparr>vd_type = ''passport'', vd_number = ''A1234567'', vd_countryCode = ''NG'', vd_expiresOn = ''2030-01-01''\<rparr>,
     vq_sourceOfFunds = Some ''salary''\<rparr>"

lemma sample_request_approved:
  "vr_outcome (mock_submit (\<lambda>k m. k @ m) (\<lambda>_. None) 1767225600000 sample_request) = VO_APPROVED"
proof -
  have d: "date_parse (\<lambda>_. None) ''2030-01-01'' = Some 1893456000000" by code_simp
  have n: "\<not> str_includes (toLowerCase ''Ada Obi'') ''reject''" "\<not> str_includes (toLowerCase ''Ada Obi'') ''pending''"
    by code_simp+
  show ?thesis using n by (simp add: mock_submit_def Let_def sample_request_def isExpired_def d)
qed

theorem mock_approval_is_earned_witness:
  "\<exists>f. vq_sourceOfFunds sample_request = Some f \<and> f \<noteq> []"
  using mock_approval_is_earned [OF sample_request_approved] by (simp add: sample_request_def)

text \<open>A vendor answer outside the contract is never a result.\<close>

lemma http_submit_Inr:
  assumes "http_submit fetch url key ref r = Inr v"
  shows "vr_providerId v = ''http'' \<and> (\<exists>call status body resp. fetch call = Fetched status body
    \<and> 200 \<le> status \<and> status \<le> 299 \<and> verificationResponseSchema (option_or body JNull) = Some resp \<and> v = toResult resp)"
  using assms
  by (auto simp: http_submit_def http_request_def Let_def rbind_Inr_iff toResult_def
      split: fetched.splits if_splits option.splits)

end
