(* ===== verification/Kyc.thy ===== *)
theory Kyc
  imports Provider Chain Quoting
begin

text \<open>
  \<open>backend/src/kyc-orchestration/service.ts\<close> and \<open>router.ts\<close>: resolving the tier, running a
  verification, publishing its hash, revoking, expiring, and the endpoints.  The state is
  \<open>World\<close>: the database and the list of contract calls submitted so far.
\<close>

section \<open>State\<close>

record World =
  w_db :: Database
  w_calls :: "Call list"

text \<open>A database step, and a submitted contract call, which is recorded whatever its outcome.\<close>

definition on_db :: "(Database, 'a) act \<Rightarrow> (World, 'a) act" where
  "on_db m w = (case m (w_db w) of (r, db) \<Rightarrow> (r, w\<lparr>w_db := db\<rparr>))"

definition submit_call :: "Rpc \<Rightarrow> Call \<Rightarrow> (World, InvocationResult) act" where
  "submit_call rpc call w =
     (invoke rpc False call (option_or (cl_signer call) []), w\<lparr>w_calls := w_calls w @ [call]\<rparr>)"

record KycDeps =
  kd_env :: Env
  kd_rpc :: Rpc
  kd_provider :: "failure + IdVerificationProvider"
  kd_publicKeyOf :: "string \<Rightarrow> string + string"
  kd_sha256 :: "string \<Rightarrow> string"
  kd_now :: int
  kd_uuid :: string

section \<open>Providers\<close>

text \<open>The long dash of the message on unshipped adapters is written as two hyphens.\<close>

record ProviderSetup =
  su_hmac :: "string \<Rightarrow> string \<Rightarrow> string"
  su_legacyDate :: "string \<Rightarrow> int option"
  su_fetch :: "HttpCall \<Rightarrow> fetched"
  su_reference :: string

definition getProvider ::
  "ProviderSetup \<Rightarrow> Env \<Rightarrow> string \<Rightarrow> ((string \<times> IdVerificationProvider) list, IdVerificationProvider) act" where
  "getProvider su env ident cache =
     (case map_of cache ident of
        Some p \<Rightarrow> (Inr p, cache)
      | None \<Rightarrow>
         (if ident = ''mock''
          then (let p = MockIdVerificationProvider (su_hmac su) (su_legacyDate su) (env_KYC_PROVIDER_WEBHOOK_SECRET env)
                in (Inr p, (ident, p) # cache))
          else if ident = ''http''
          then (case env_KYC_PROVIDER_BASE_URL env of
             None \<Rightarrow> (Inl (PlainErr ''KYC_PROVIDER=http requires KYC_PROVIDER_BASE_URL. Set it to the provider's API root.''), cache)
           | Some baseUrl \<Rightarrow>
              (let p = HttpIdVerificationProvider (su_hmac su) (su_fetch su) (su_reference su) baseUrl
                     (env_KYC_PROVIDER_API_KEY env) (env_KYC_PROVIDER_WEBHOOK_SECRET env)
               in (Inr p, (ident, p) # cache)))
          else if ident = ''sumsub'' \<or> ident = ''onfido''
          then (Inl (PlainErr (''No '' @ ident @ ''-specific adapter is shipped. Set KYC_PROVIDER=http and KYC_PROVIDER_BASE_URL ''
                 @ ''to the vendor's API root -- see kyc-orchestration/http-provider.ts for the contract ''
                 @ ''it must speak -- or add an adapter implementing IdVerificationProvider here.'')), cache)
          else (Inl (PlainErr (''Unknown KYC provider: '' @ ident)), cache)))"

section \<open>The service\<close>

definition requiredTier :: "Corridor \<Rightarrow> int \<Rightarrow> Tier" where
  "requiredTier corridor amount =
     (if amount \<le> co_tier1Max corridor then NONE else if amount \<le> co_tier2Max corridor then STANDARD else ENHANCED)"

definition requiredTierFor :: "string \<Rightarrow> int \<Rightarrow> (Database, Tier) act" where
  "requiredTierFor corridorId amount =
     andThen (get_state db_corridors) (\<lambda>corridors.
     andThen (found (find_unique corridors corridorId)
         (AppErr (validationFailed [(''corridorId'', JStr ''unknown corridor'')]))) (\<lambda>corridor.
     ret (requiredTier corridor amount)))"

record SubmitVerificationInput =
  sv_userId :: string
  sv_regionId :: string
  sv_amount :: int
  sv_corridorId :: string
  sv_fullName :: string
  sv_dateOfBirth :: string
  sv_countryCode :: string
  sv_document :: "VerificationDocument option"
  sv_address :: "Address option"
  sv_sourceOfFunds :: "string option"

record SubmitVerificationOutput =
  so_attestationId :: string
  so_outcome :: Outcome
  so_tier :: ProviderTier
  so_reasons :: "string list"
  so_requiredInput :: "string list option"
  so_txHash :: "string option"
  so_attestationHash :: "string option"

definition nonempty :: "string option \<Rightarrow> string option" where
  "nonempty m = (case m of Some [] \<Rightarrow> None | _ \<Rightarrow> m)"

definition toPrismaTier :: "ProviderTier \<Rightarrow> Tier" where
  "toPrismaTier t = (case t of PT_None \<Rightarrow> NONE | PT_Standard \<Rightarrow> STANDARD | PT_Enhanced \<Rightarrow> ENHANCED)"

text \<open>The hash of an attestation is a unique column as well as the identifier.\<close>

definition create_attestation :: "KycAttestation \<Rightarrow> (World, unit) act" where
  "create_attestation row =
     on_db (statement (\<lambda>db.
       if find_first (\<lambda>r. ka_attestationHash r = ka_attestationHash row) (db_attestations db) \<noteq> None
       then Inl (PlainErr ''Unique constraint failed'')
       else rbind (create_row (ka_id row) row (db_attestations db)) (\<lambda>t. Inr (db\<lparr>db_attestations := t\<rparr>))))"

definition verification_request :: "SubmitVerificationInput \<Rightarrow> Tier \<Rightarrow> VerificationRequest" where
  "verification_request input needed = \<lparr>vq_userId = sv_userId input, vq_requiredTier = needed,
     vq_regionId = sv_regionId input, vq_countryCode = sv_countryCode input, vq_fullName = sv_fullName input,
     vq_dateOfBirth = sv_dateOfBirth input, vq_address = sv_address input, vq_document = sv_document input,
     vq_sourceOfFunds = nonempty (sv_sourceOfFunds input)\<rparr>"

definition attestation_row :: "KycDeps \<Rightarrow> SubmitVerificationInput \<Rightarrow> VerificationResult \<Rightarrow> KycAttestation" where
  "attestation_row d input result = \<lparr>ka_id = kd_uuid d, ka_userId = sv_userId input, ka_tier = toPrismaTier (vr_tier result),
     ka_providerId = vr_providerId result,
     ka_attestationHash = (if vr_outcome result = VO_APPROVED then bytes_to_hex (attestationHashOf (kd_sha256 d) result)
       else ''rejected:'' @ vr_providerRef result),
     ka_regionId = sv_regionId input,
     ka_status = (if vr_outcome result = VO_APPROVED then AS_ACTIVE
       else if vr_outcome result = VO_PENDING then AS_PENDING else AS_REVOKED),
     ka_issuedAt = kd_now d, ka_expiresAt = kd_now d + env_KYC_ATTESTATION_TTL_DAYS (kd_env d) * 86400000,
     ka_revokedAt = None, ka_revokeReason = None, ka_publishTxHash = None, ka_revokeTxHash = None,
     ka_providerRef = Some (vr_providerRef result), ka_createdAt = kd_now d\<rparr>"

definition publication_call :: "KycDeps \<Rightarrow> string \<Rightarrow> User \<Rightarrow> SubmitVerificationInput \<Rightarrow> VerificationResult \<Rightarrow> Call" where
  "publication_call d attester subject input result =
     publishAttestation (kd_env d) attester
       \<lparr>pa_subject = option_or (us_stellarAddress subject) attester,
        pa_tier = providerTierName (toContractTier (vr_tier result)),
        pa_attestationHash = attestationHashOf (kd_sha256 d) result,
        pa_regionId = sv_regionId input, pa_providerId = vr_providerId result,
        pa_expiresAt = (kd_now d + env_KYC_ATTESTATION_TTL_DAYS (kd_env d) * 86400000) div 1000\<rparr>"

definition submitVerification :: "KycDeps \<Rightarrow> SubmitVerificationInput \<Rightarrow> (World, SubmitVerificationOutput) act" where
  "submitVerification d input =
     andThen (of_result (kd_provider d)) (\<lambda>provider.
     andThen (on_db (requiredTierFor (sv_corridorId input) (sv_amount input))) (\<lambda>needed.
     if needed = NONE
     then ret \<lparr>so_attestationId = [], so_outcome = VO_APPROVED, so_tier = PT_None, so_reasons = [''NOT_REQUIRED''],
            so_requiredInput = None, so_txHash = None, so_attestationHash = None\<rparr>
     else
       andThen (get_state (\<lambda>w. db_users (w_db w))) (\<lambda>users.
       andThen (found (find_unique users (sv_userId input))
           (AppErr (validationFailed [(''userId'', JStr ''unknown user'')]))) (\<lambda>subject.
       andThen (of_result (pv_submit provider (kd_now d) (verification_request input needed))) (\<lambda>result.
       if vr_outcome result = VO_NEEDS_INPUT
       then ret \<lparr>so_attestationId = [], so_outcome = vr_outcome result, so_tier = vr_tier result,
              so_reasons = vr_reasons result, so_requiredInput = vr_requiredInput result,
              so_txHash = None, so_attestationHash = None\<rparr>
       else
         andThen (create_attestation (attestation_row d input result)) (\<lambda>_.
         if vr_outcome result \<noteq> VO_APPROVED
         then ret \<lparr>so_attestationId = kd_uuid d, so_outcome = vr_outcome result, so_tier = vr_tier result,
                so_reasons = vr_reasons result, so_requiredInput = None, so_txHash = None, so_attestationHash = None\<rparr>
         else
           andThen (guard (tierSatisfies (vr_tier result) needed)
             (AppErr (providerUnavailable (vr_providerId result)
               (''provider returned tier '' @ providerTierName (vr_tier result) @ '' for a '' @ tierName needed @ '' requirement'')))) (\<lambda>_.
           andThen (of_result (keypairFromSecret (kd_publicKeyOf d) (env_ATTESTER_SECRET_KEY (kd_env d)))) (\<lambda>attester.
           andThen (submit_call (kd_rpc d) (publication_call d attester subject input result)) (\<lambda>publication.
           andThen (on_db (statement (\<lambda>db. rbind
               (update_row (kd_uuid d) (\<lambda>r. r\<lparr>ka_publishTxHash := ir_hash publication\<rparr>) (db_attestations db))
               (\<lambda>t. Inr (db\<lparr>db_attestations := t\<rparr>))))) (\<lambda>_.
           ret \<lparr>so_attestationId = kd_uuid d, so_outcome = vr_outcome result, so_tier = vr_tier result,
              so_reasons = vr_reasons result, so_requiredInput = None, so_txHash = nonempty (ir_hash publication),
              so_attestationHash = Some (bytes_to_hex (attestationHashOf (kd_sha256 d) result))\<rparr>))))))))))"

text \<open>The rows an update through the user relation reaches.\<close>

definition belongs_to :: "Database \<Rightarrow> string \<Rightarrow> KycAttestation \<Rightarrow> bool" where
  "belongs_to db address r \<longleftrightarrow>
     (case find_unique (db_users db) (ka_userId r) of None \<Rightarrow> False | Some u \<Rightarrow> us_stellarAddress u = Some address)"

record RevokeOutput =
  ro_txHash :: "string option"
  ro_affected :: nat

definition revokeForSubject :: "KycDeps \<Rightarrow> string \<Rightarrow> string \<Rightarrow> (World, RevokeOutput) act" where
  "revokeForSubject d subjectAddress reason =
     andThen (of_result (keypairFromSecret (kd_publicKeyOf d) (env_ATTESTER_SECRET_KEY (kd_env d)))) (\<lambda>attester.
     andThen (submit_call (kd_rpc d) (revokeAttestation (kd_env d) attester subjectAddress reason)) (\<lambda>revoked.
     andThen (get_state w_db) (\<lambda>db.
     let hit = (\<lambda>r. ka_status r = AS_ACTIVE \<and> belongs_to db subjectAddress r) in
     andThen (on_db (modify_state (\<lambda>db. db\<lparr>db_attestations := update_many hit
         (\<lambda>r. r\<lparr>ka_status := AS_REVOKED, ka_revokedAt := Some (kd_now d), ka_revokeReason := Some reason,
            ka_revokeTxHash := ir_hash revoked\<rparr>) (db_attestations db)\<rparr>))) (\<lambda>_.
     ret \<lparr>ro_txHash = nonempty (ir_hash revoked), ro_affected = count_rows hit (db_attestations db)\<rparr>))))"

definition expireStaleAttestations :: "int \<Rightarrow> (Database, nat) act" where
  "expireStaleAttestations now =
     (let hit = (\<lambda>r. ka_status r = AS_ACTIVE \<and> ka_expiresAt r \<le> now) in
      andThen (get_state db_attestations) (\<lambda>t.
      andThen (modify_state (\<lambda>db. db\<lparr>db_attestations := update_many hit (\<lambda>r. r\<lparr>ka_status := AS_EXPIRED\<rparr>) (db_attestations db)\<rparr>)) (\<lambda>_.
      ret (count_rows hit t))))"

definition assertTierDowngradeAllowed :: "Tier \<Rightarrow> Tier \<Rightarrow> failure + unit" where
  "assertTierDowngradeAllowed current next_tier =
     (if tier_rank next_tier < tier_rank current
      then Inl (AppErr (conflict ''Downgrading a stored tier requires an explicit revocation''
             [(''current'', JStr (tierName current)), (''next'', JStr (tierName next_tier))]))
      else Inr ())"

section \<open>Tiers\<close>

fun tier_of_contract :: "KycTier_rs \<Rightarrow> Tier" where
  "tier_of_contract Tier_None = NONE"
| "tier_of_contract Tier_Standard = STANDARD"
| "tier_of_contract Tier_Enhanced = ENHANCED"

definition contract_thresholds :: "Corridor \<Rightarrow> TierThresholds" where
  "contract_thresholds c = \<lparr>tt_corridor_id = co_id c, tt_tier1_max = co_tier1Max c, tt_tier2_max = co_tier2Max c,
     tt_daily_limit = co_dailyLimit c\<rparr>"

lemma requiredTier_contract: "requiredTier c amount = tier_of_contract (required_tier (contract_thresholds c) amount)"
  by (simp add: requiredTier_def required_tier_def contract_thresholds_def)

lemma requiredTier_mono:
  "co_tier1Max c \<le> co_tier2Max c \<Longrightarrow> a \<le> b \<Longrightarrow> requiredTier c a \<le> requiredTier c b"
  by (auto simp: requiredTier_def less_eq_Tier_def)

text \<open>
  C32: the tier the backend demands is the tier the compliance contract demands.  For every
  stored corridor the answer of \<open>requiredTierFor\<close> is the contract's \<open>required_tier\<close> on the same
  bands, for an unknown corridor it refuses, and on valid bands a larger amount never needs a
  weaker tier.
\<close>

theorem requiredTierFor_is_contract_rule:
  "requiredTierFor corridorId amount db =
     (case find_unique (db_corridors db) corridorId of
        None \<Rightarrow> (Inl (AppErr (validationFailed [(''corridorId'', JStr ''unknown corridor'')])), db)
      | Some c \<Rightarrow> (Inr (tier_of_contract (required_tier (contract_thresholds c) amount)), db))
   \<and> (\<forall>c a b. thresholds_is_valid (contract_thresholds c) \<and> a \<le> b \<longrightarrow> requiredTier c a \<le> requiredTier c b)"
proof
  show "requiredTierFor corridorId amount db =
     (case find_unique (db_corridors db) corridorId of
        None \<Rightarrow> (Inl (AppErr (validationFailed [(''corridorId'', JStr ''unknown corridor'')])), db)
      | Some c \<Rightarrow> (Inr (tier_of_contract (required_tier (contract_thresholds c) amount)), db))"
    by (auto simp: requiredTierFor_def act_simps requiredTier_contract split: option.splits)
  show "\<forall>c a b. thresholds_is_valid (contract_thresholds c) \<and> a \<le> b \<longrightarrow> requiredTier c a \<le> requiredTier c b"
    using requiredTier_mono by (auto simp: thresholds_is_valid_def contract_thresholds_def)
qed

theorem requiredTierFor_is_contract_rule_witness:
  "requiredTier sample_corridor 5 \<le> requiredTier sample_corridor 20000000000"
proof -
  have v: "thresholds_is_valid (contract_thresholds sample_corridor)"
    by (simp add: thresholds_is_valid_def contract_thresholds_def sample_corridor_def)
  show ?thesis
    using requiredTierFor_is_contract_rule [of "[]" 0 empty_database] v by auto
qed

section \<open>Publication\<close>

lemma on_db_calls: "on_db m w = (r, w') \<Longrightarrow> w_calls w' = w_calls w"
  by (auto simp: on_db_def split: prod.splits)

lemma create_attestation_calls: "create_attestation row w = (r, w') \<Longrightarrow> w_calls w' = w_calls w"
  unfolding create_attestation_def by (rule on_db_calls)

lemma submit_call_iff:
  "submit_call rpc call w = (r, w') \<longleftrightarrow>
     r = invoke rpc False call (option_or (cl_signer call) []) \<and> w' = w\<lparr>w_calls := w_calls w @ [call]\<rparr>"
  by (auto simp: submit_call_def)

lemma requiredTierFor_iff:
  "on_db (requiredTierFor cid a) w = (Inr t, w') \<longleftrightarrow>
     w' = w \<and> (\<exists>c. find_unique (db_corridors (w_db w)) cid = Some c \<and> t = requiredTier c a)"
  by (auto simp: on_db_def requiredTierFor_def act_simps found_def andThen_def split: option.splits prod.splits)

text \<open>What a verification may have done to the list of contract calls.\<close>

definition earned_publication :: "KycDeps \<Rightarrow> SubmitVerificationInput \<Rightarrow> World \<Rightarrow> Call \<Rightarrow> bool" where
  "earned_publication d input w call \<longleftrightarrow>
     (\<exists>provider corridor subject result attester.
        kd_provider d = Inr provider
        \<and> find_unique (db_corridors (w_db w)) (sv_corridorId input) = Some corridor
        \<and> requiredTier corridor (sv_amount input) \<noteq> NONE
        \<and> find_unique (db_users (w_db w)) (sv_userId input) = Some subject
        \<and> pv_submit provider (kd_now d)
             (verification_request input (requiredTier corridor (sv_amount input))) = Inr result
        \<and> vr_outcome result = VO_APPROVED
        \<and> tierSatisfies (vr_tier result) (requiredTier corridor (sv_amount input))
        \<and> keypairFromSecret (kd_publicKeyOf d) (env_ATTESTER_SECRET_KEY (kd_env d)) = Inr attester
        \<and> call = publication_call d attester subject input result)"

text \<open>
  C1: only an earned verdict reaches the chain.  However \<open>submitVerification\<close> ends, the contract
  calls it made are none, or the single publication of a result the configured provider
  returned for this request, approved, at a tier that satisfies what the corridor's bands
  demand for the amount; the call carries the hash of the verdict and never the request.
\<close>

theorem submitVerification_publishes_only_earned:
  assumes "submitVerification d input w = (r, w')"
  shows "w_calls w' = w_calls w \<or> (\<exists>call. w_calls w' = w_calls w @ [call] \<and> earned_publication d input w call)"
proof -
  have tier: "w1 = w" if "on_db (requiredTierFor c a) w = (x, w1)" for x c a w1
    using that by (auto simp: on_db_def requiredTierFor_def act_iffs split: prod.splits)
  show ?thesis
    using assms unfolding submitVerification_def
    by (auto simp: act_iffs requiredTierFor_iff submit_call_iff earned_publication_def
        dest: tier dest!: create_attestation_calls on_db_calls split: if_splits option.splits)
qed

definition sample_result :: VerificationResult where
  "sample_result = \<lparr>vr_outcome = VO_APPROVED, vr_tier = PT_Standard, vr_providerId = ''vendor'', vr_providerRef = ''ref-1'',
     vr_reasons = [], vr_screenedAt = ''2026-01-01'', vr_requiredInput = None, vr_raw = []\<rparr>"

definition sample_provider :: "VerificationResult \<Rightarrow> IdVerificationProvider" where
  "sample_provider result = \<lparr>pv_id = ''vendor'', pv_supportedTiers = [PT_Standard], pv_supportsEnhancedDueDiligence = False,
     pv_submit = (\<lambda>_ _. Inr result), pv_verifyWebhookSignature = (\<lambda>_ _. False),
     pv_parseWebhook = (\<lambda>_ _. Inl (PlainErr ''none''))\<rparr>"

definition sample_rpc :: Rpc where
  "sample_rpc = \<lparr>rpc_getAccount = (\<lambda>_. Inr ()), rpc_simulate = (\<lambda>_. Inr (SimulationSuccess None)),
     rpc_send = (\<lambda>_. Inr (Sent ''tx1'')), rpc_getTransaction = (\<lambda>_ _. Inr (TxSuccess 7))\<rparr>"

definition sample_kyc :: "VerificationResult \<Rightarrow> KycDeps" where
  "sample_kyc result = \<lparr>kd_env = sample_env, kd_rpc = sample_rpc, kd_provider = Inr (sample_provider result),
     kd_publicKeyOf = (\<lambda>s. Inr (CHR ''G'' # s)), kd_sha256 = (\<lambda>m. replicate 32 (CHR ''h'')), kd_now = 1767225600000,
     kd_uuid = ''att-1''\<rparr>"

definition sample_input :: "int \<Rightarrow> SubmitVerificationInput" where
  "sample_input amount = \<lparr>sv_userId = ''u1'', sv_regionId = ''NG_LAG'', sv_amount = amount, sv_corridorId = ''NGN_LAG'',
     sv_fullName = ''Ada Obi'', sv_dateOfBirth = ''1990-01-01'', sv_countryCode = ''NG'', sv_document = None,
     sv_address = None, sv_sourceOfFunds = None\<rparr>"

definition sample_world :: World where
  "sample_world = \<lparr>w_db = sample_db\<lparr>db_users := [(''u1'', \<lparr>us_id = ''u1'', us_stellarAddress = Some ''GUSER'', us_countryCode = ''NG''\<rparr>)]\<rparr>,
     w_calls = []\<rparr>"

lemmas sample_kyc_defs = sample_kyc_def sample_input_def sample_world_def sample_db_def empty_database_def
  sample_corridor_def sample_provider_def sample_result_def

lemma sample_invoke:
  "invoke sample_rpc False call k = Inr \<lparr>ir_value = None, ir_hash = Some ''tx1'', ir_ledger = Some 7\<rparr>"
proof -
  have "pollForResult sample_rpc ''tx1'' 0 POLL_ATTEMPTS = Inr 7"
    by (rule pollForResult_success [where k = 0]) (simp_all add: sample_rpc_def POLL_ATTEMPTS_def)
  then show ?thesis by (simp add: invoke_def invoke_steps_def sample_rpc_def decodeReturn_def Let_def)
qed

theorem submitVerification_publishes_only_earned_witness:
  "\<exists>call. w_calls (snd (submitVerification (sample_kyc sample_result) (sample_input 2000000000) sample_world)) = [call]
     \<and> earned_publication (sample_kyc sample_result) (sample_input 2000000000) sample_world call"
proof -
  let ?d = "sample_kyc sample_result" and ?i = "sample_input 2000000000"
  have calls: "w_calls (snd (submitVerification ?d ?i sample_world)) \<noteq> []"
    by (simp add: submitVerification_def andThen_def on_db_def requiredTierFor_def get_state_def found_def ret_def
        of_result_def guard_def statement_def create_attestation_def find_first_def create_row_def find_unique_def
        submit_call_def sample_invoke requiredTier_def tierSatisfies_def keypairFromSecret_def attestation_row_def
        sample_kyc_defs update_row_def)
  obtain r w' where run: "submitVerification ?d ?i sample_world = (r, w')" by (cases "submitVerification ?d ?i sample_world")
  show ?thesis
    using submitVerification_publishes_only_earned [OF run] calls unfolding run by (auto simp: sample_world_def)
qed

section \<open>No verification needed\<close>

lemma submitVerification_not_required:
  assumes "kd_provider d = Inr p" "find_unique (db_corridors (w_db w)) (sv_corridorId input) = Some c"
    and "requiredTier c (sv_amount input) = NONE"
  shows "\<exists>out. submitVerification d input w = (Inr out, w) \<and> so_outcome out = VO_APPROVED \<and> so_reasons out = [''NOT_REQUIRED'']"
proof -
  have "on_db (requiredTierFor (sv_corridorId input) (sv_amount input)) w = (Inr NONE, w)"
    using assms by (auto simp: requiredTierFor_iff)
  then show ?thesis using assms(1) by (simp add: submitVerification_def act_simps andThen_Inr)
qed

text \<open>
  C34: an approval below the demanded tier is never published, but it is not undone either: the
  call fails, no contract call is made, and the attestation row just written stays \<open>ACTIVE\<close> in
  the database although nothing on the chain backs it.
\<close>

theorem underqualified_stays_active:
  assumes "kd_provider d = Inr p" "find_unique (db_corridors (w_db w)) (sv_corridorId input) = Some c"
    and "requiredTier c (sv_amount input) = needed" "needed \<noteq> NONE"
    and "find_unique (db_users (w_db w)) (sv_userId input) = Some u"
    and "pv_submit p (kd_now d) (verification_request input needed) = Inr result"
    and "vr_outcome result = VO_APPROVED" "\<not> tierSatisfies (vr_tier result) needed"
    and "create_attestation (attestation_row d input result) w = (Inr (), w1)"
  shows "\<exists>e row. submitVerification d input w = (Inl (AppErr e), w1) \<and> ae_status e = 503 \<and> w_calls w1 = w_calls w
    \<and> find_unique (db_attestations (w_db w1)) (kd_uuid d) = Some row \<and> ka_status row = AS_ACTIVE"
proof -
  have t: "on_db (requiredTierFor (sv_corridorId input) (sv_amount input)) w = (Inr needed, w)"
    using assms by (auto simp: requiredTierFor_iff)
  have row: "find_unique (db_attestations (w_db w1)) (kd_uuid d) = Some (attestation_row d input result)"
    using assms(9) by (auto simp: create_attestation_def on_db_def statement_def rbind_Inr_iff find_create_row
        attestation_row_def split: prod.splits sum.splits if_splits)
  show ?thesis
    using assms t row create_attestation_calls [OF assms(9)]
    by (simp add: submitVerification_def act_simps andThen_Inr attestation_row_def providerUnavailable_def)
qed

theorem underqualified_stays_active_witness:
  "\<exists>e row w1. submitVerification (sample_kyc (sample_result\<lparr>vr_tier := PT_None\<rparr>)) (sample_input 2000000000) sample_world
      = (Inl (AppErr e), w1)
    \<and> find_unique (db_attestations (w_db w1)) ''att-1'' = Some row \<and> ka_status row = AS_ACTIVE \<and> w_calls w1 = []"
proof -
  let ?q = "sample_result\<lparr>vr_tier := PT_None\<rparr>"
  let ?d = "sample_kyc ?q" and ?i = "sample_input 2000000000"
  obtain w1 where c: "create_attestation (attestation_row ?d ?i ?q) sample_world = (Inr (), w1)"
    by (simp add: create_attestation_def on_db_def statement_def find_first_def create_row_def find_unique_def
        sample_kyc_defs attestation_row_def)
  obtain u where u: "find_unique (db_users (w_db sample_world)) (sv_userId ?i) = Some u"
    by (simp add: sample_kyc_defs find_unique_def)
  show ?thesis
    using underqualified_stays_active [of ?d "sample_provider ?q" sample_world ?i sample_corridor STANDARD u ?q w1] c u
    by (simp add: sample_kyc_def sample_provider_def sample_world_def sample_db_def sample_input_def find_unique_def
        requiredTier_def sample_corridor_def sample_result_def tierSatisfies_def) blast
qed

section \<open>Revocation and expiry\<close>

text \<open>
  C10: revocation is chain first.  If the contract call fails the database is untouched; if it
  succeeds no attestation of the subject is left \<open>ACTIVE\<close>, every other row is unchanged, and
  exactly one call was submitted either way.
\<close>

theorem revoke_chain_first:
  assumes "keypairFromSecret (kd_publicKeyOf d) (env_ATTESTER_SECRET_KEY (kd_env d)) = Inr k"
    and "revokeForSubject d address reason w = (r, w')"
  shows "w_calls w' = w_calls w @ [revokeAttestation (kd_env d) k address reason]
    \<and> (\<forall>e. r = Inl e \<longrightarrow> w_db w' = w_db w)
    \<and> (\<forall>out. r = Inr out \<longrightarrow>
         (\<forall>i row. find_unique (db_attestations (w_db w')) i = Some row \<longrightarrow>
            belongs_to (w_db w) address row \<longrightarrow> ka_status row \<noteq> AS_ACTIVE)
         \<and> (\<forall>i row. find_unique (db_attestations (w_db w)) i = Some row \<longrightarrow>
            \<not> (ka_status row = AS_ACTIVE \<and> belongs_to (w_db w) address row) \<longrightarrow>
            find_unique (db_attestations (w_db w')) i = Some row))"
proof -
  have keep: "belongs_to db address (row\<lparr>ka_status := a, ka_revokedAt := b, ka_revokeReason := c, ka_revokeTxHash := e\<rparr>)
      = belongs_to db address row" for db row a b c e
    by (simp add: belongs_to_def)
  have ne: "row\<lparr>ka_status := AS_REVOKED, ka_revokedAt := b, ka_revokeReason := c, ka_revokeTxHash := e\<rparr> = row
      \<longleftrightarrow> ka_status row = AS_REVOKED \<and> ka_revokedAt row = b \<and> ka_revokeReason row = c \<and> ka_revokeTxHash row = e"
    for row b c e by (cases row) auto
  show ?thesis
    using assms
    by (auto simp: ne revokeForSubject_def act_simps act_iffs submit_call_iff on_db_def Let_def find_update_many keep
        split: if_splits)
qed

theorem revoke_chain_first_witness:
  "w_calls (snd (revokeForSubject (sample_kyc sample_result) ''GUSER'' ''fraud'' sample_world))
     = [revokeAttestation sample_env (CHR ''G'' # env_ATTESTER_SECRET_KEY sample_env) ''GUSER'' ''fraud'']"
proof -
  obtain r w' where run: "revokeForSubject (sample_kyc sample_result) ''GUSER'' ''fraud'' sample_world = (r, w')"
    by (cases "revokeForSubject (sample_kyc sample_result) ''GUSER'' ''fraud'' sample_world")
  have k: "keypairFromSecret (kd_publicKeyOf (sample_kyc sample_result)) (env_ATTESTER_SECRET_KEY (kd_env (sample_kyc sample_result)))
      = Inr (CHR ''G'' # env_ATTESTER_SECRET_KEY sample_env)"
    by (simp add: sample_kyc_def keypairFromSecret_def)
  show ?thesis using revoke_chain_first [OF k run] run by (simp add: sample_world_def sample_kyc_def)
qed

text \<open>
  C33: the expiry sweep expires exactly the lapsed: afterwards no \<open>ACTIVE\<close> attestation has a
  deadline at or before \<open>now\<close>, rows that were not lapsed are unchanged, a lapsed row changes in
  its status only, and a second sweep at the same time finds nothing.
\<close>

theorem expire_sweeps_exactly_lapsed:
  "let db' = snd (expireStaleAttestations now db) in
     (\<forall>i row. find_unique (db_attestations db') i = Some row \<longrightarrow> ka_status row = AS_ACTIVE \<longrightarrow> now < ka_expiresAt row)
     \<and> (\<forall>i row. find_unique (db_attestations db) i = Some row \<longrightarrow>
          find_unique (db_attestations db') i =
            Some (if ka_status row = AS_ACTIVE \<and> ka_expiresAt row \<le> now then row\<lparr>ka_status := AS_EXPIRED\<rparr> else row))
     \<and> fst (expireStaleAttestations now db') = Inr 0 \<and> snd (expireStaleAttestations now db') = db'"
proof -
  let ?hit = "\<lambda>r. ka_status r = AS_ACTIVE \<and> ka_expiresAt r \<le> now"
  let ?f = "\<lambda>r. r\<lparr>ka_status := AS_EXPIRED\<rparr>"
  have run: "expireStaleAttestations now db = (Inr (count_rows ?hit (db_attestations db)),
      db\<lparr>db_attestations := update_many ?hit ?f (db_attestations db)\<rparr>)" for db
    by (simp add: expireStaleAttestations_def act_simps Let_def)
  have none: "find_many ?hit (update_many ?hit ?f t) = []" for t :: "(string, KycAttestation) table"
    by (auto simp: find_many_def update_many_def filter_empty_conv split: if_split_asm)
  have again: "update_many ?hit ?f (update_many ?hit ?f t) = update_many ?hit ?f t" for t :: "(string, KycAttestation) table"
    by (induction t) (auto simp: update_many_def)
  have ne: "row = row\<lparr>ka_status := AS_EXPIRED\<rparr> \<longleftrightarrow> ka_status row = AS_EXPIRED" for row :: KycAttestation
    by (cases row) auto
  show ?thesis
    unfolding Let_def run snd_conv fst_conv
    by (auto simp: ne find_update_many count_rows_def none again split: if_splits)
qed

theorem expire_sweeps_exactly_lapsed_witness:
  "ka_status (the (find_unique (db_attestations (snd (expireStaleAttestations 1767225600000
     (empty_database\<lparr>db_attestations := [(''a'', attestation_row (sample_kyc sample_result) (sample_input 1) sample_result
        \<lparr>ka_expiresAt := 5\<rparr>)]\<rparr>)))) ''a'')) = AS_EXPIRED"
  using expire_sweeps_exactly_lapsed [of 1767225600000 "empty_database\<lparr>db_attestations := [(''a'',
      attestation_row (sample_kyc sample_result) (sample_input 1) sample_result\<lparr>ka_expiresAt := 5\<rparr>)]\<rparr>"]
  by (simp add: Let_def find_unique_def empty_database_def attestation_row_def sample_result_def)

end
