(* ===== verification/Liquidity.thy ===== *)
theory Liquidity
  imports Kyc
begin

text \<open>
  \<open>backend/src/agent-liquidity/service.ts\<close>: the position of an agent and the alert sweep.
  The sweep works on the database; top-up requests are theory \<open>TopUps\<close>.
\<close>

section \<open>Positions and alerts\<close>

datatype AlertKind = FLOAT_LOW | COLLATERAL_TIGHT | POOL_UTILIZATION_HIGH

fun alertKindName :: "AlertKind \<Rightarrow> string" where
  "alertKindName FLOAT_LOW = ''FLOAT_LOW''"
| "alertKindName COLLATERAL_TIGHT = ''COLLATERAL_TIGHT''"
| "alertKindName POOL_UTILIZATION_HIGH = ''POOL_UTILIZATION_HIGH''"

record LiquidityObservation =
  lo_agentId :: string
  lo_regionId :: string
  lo_bond :: int
  lo_drawn :: int
  lo_undrawnCapacity :: int
  lo_floatRatioBps :: int
  lo_collateralHeadroomBps :: int

text \<open>\<open>(undrawnCapacity, floatRatioBps, collateralHeadroomBps)\<close>.\<close>

definition evaluateAgent :: "int \<Rightarrow> int \<Rightarrow> int \<Rightarrow> int \<times> int \<times> int" where
  "evaluateAgent bond drawn collateralRatioBps =
     (let requiredForCurrent = tdiv (drawn * collateralRatioBps) 10000;
          headroom = (if bond > requiredForCurrent then bond - requiredForCurrent else 0);
          undrawnCapacity = tdiv (headroom * 10000) (if collateralRatioBps = 0 then 1 else collateralRatioBps);
          floatRatioBps = (if bond > 0 then tdiv (undrawnCapacity * 10000) bond else 0);
          collateralHeadroomBps = (if bond > 0 then tdiv (headroom * 10000) bond else 0)
      in (undrawnCapacity, floatRatioBps, collateralHeadroomBps))"

record Alert =
  at_kind :: AlertKind
  at_threshold :: int
  at_observed :: int

definition classifyAlert :: "Env \<Rightarrow> LiquidityObservation \<Rightarrow> Alert option" where
  "classifyAlert env observation =
     (if lo_collateralHeadroomBps observation < 1000
      then Some \<lparr>at_kind = COLLATERAL_TIGHT, at_threshold = 1000, at_observed = lo_collateralHeadroomBps observation\<rparr>
      else if lo_floatRatioBps observation < env_AGENT_FLOAT_ALERT_BPS env
      then Some \<lparr>at_kind = FLOAT_LOW, at_threshold = env_AGENT_FLOAT_ALERT_BPS env, at_observed = lo_floatRatioBps observation\<rparr>
      else None)"

section \<open>The sweep\<close>

text \<open>\<open>fresh i\<close> is the identifier the database gives the \<open>i\<close>-th alert of this sweep.\<close>

definition unresolved :: "AgentFloatAlert \<Rightarrow> bool" where
  "unresolved a \<longleftrightarrow> al_status a = AL_OPEN \<or> al_status a = AL_ACKNOWLEDGED"

definition drawn_amount :: "Database \<Rightarrow> string \<Rightarrow> string \<Rightarrow> int" where
  "drawn_amount db agentId regionId =
     (case find_unique (db_exposures db) (agentId, regionId) of None \<Rightarrow> 0 | Some e \<Rightarrow> ex_drawnAmount e)"

definition observe :: "Database \<Rightarrow> string \<Rightarrow> Agent \<Rightarrow> LiquidityObservation" where
  "observe db regionId agent =
     (let bond = ag_bondAmount agent; drawn = drawn_amount db (ag_id agent) regionId;
          (capacity, float, headroom) = evaluateAgent bond drawn 15000
      in \<lparr>lo_agentId = ag_id agent, lo_regionId = regionId, lo_bond = bond, lo_drawn = drawn,
          lo_undrawnCapacity = capacity, lo_floatRatioBps = float, lo_collateralHeadroomBps = headroom\<rparr>)"

definition alert_row :: "string \<Rightarrow> int \<Rightarrow> string \<Rightarrow> string \<Rightarrow> Alert \<Rightarrow> AgentFloatAlert" where
  "alert_row ident now agentId regionId alert = \<lparr>al_id = ident, al_agentId = agentId, al_regionId = regionId,
     al_kind = alertKindName (at_kind alert), al_thresholdBps = at_threshold alert, al_observedBps = at_observed alert,
     al_status = AL_OPEN, al_createdAt = now, al_resolvedAt = None\<rparr>"

definition sweep_agent ::
  "Env \<Rightarrow> (nat \<Rightarrow> string) \<Rightarrow> int \<Rightarrow> string \<Rightarrow> (Agent \<times> LiquidityObservation) \<Rightarrow> nat \<Rightarrow> (Database, nat) act" where
  "sweep_agent env fresh now regionId = (\<lambda>(agent, observation) opened.
     (case classifyAlert env observation of
        None \<Rightarrow> ret opened
      | Some alert \<Rightarrow>
          andThen (get_state (\<lambda>db. find_first (\<lambda>a. al_agentId a = ag_id agent \<and> al_regionId a = regionId
              \<and> al_kind a = alertKindName (at_kind alert) \<and> unresolved a) (db_alerts db))) (\<lambda>existing.
          if existing \<noteq> None then ret opened
          else
            andThen (statement (\<lambda>db. rbind
                (create_row (fresh opened) (alert_row (fresh opened) now (ag_id agent) regionId alert) (db_alerts db))
                (\<lambda>t. Inr (db\<lparr>db_alerts := t\<rparr>)))) (\<lambda>_.
            ret (opened + 1)))))"

definition sweepRegion :: "Env \<Rightarrow> (nat \<Rightarrow> string) \<Rightarrow> int \<Rightarrow> string \<Rightarrow> (Database, nat \<times> nat) act" where
  "sweepRegion env fresh now regionId =
     andThen (get_state (\<lambda>db. map (\<lambda>a. (a, observe db regionId a))
        (find_many (\<lambda>a. ag_regionId a = regionId \<and> ag_status a = AG_AUTHORIZED) (db_agents db)))) (\<lambda>agents.
     andThen (for_each (sweep_agent env fresh now regionId) agents 0) (\<lambda>opened.
     ret (length agents, opened)))"

section \<open>The position is measured by the pool's rule\<close>

lemma div_10000_bounds: "(n::int) div 10000 * 10000 \<le> n" "n < n div 10000 * 10000 + 10000"
  using mult_div_mod_eq [of 10000 n] pos_mod_bound [of 10000 n] pos_mod_sign [of 10000 n] by linarith+

lemma capacity_covered:
  fixes bond drawn r u x :: int
  assumes r: "0 < r" and d: "drawn * r div 10000 \<le> bond"
    and u: "u = (bond - drawn * r div 10000) * 10000 div r" and x: "x \<le> u"
  shows "(drawn + x) * r div 10000 \<le> bond"
proof -
  have "x * r \<le> u * r" using x r by simp
  also have "u * r \<le> (bond - drawn * r div 10000) * 10000"
    unfolding u using r by (simp add: minus_mod_eq_div_mult [symmetric])
  finally have a: "x * r \<le> (bond - drawn * r div 10000) * 10000" .
  have e: "(drawn + x) * r = drawn * r + x * r" by (simp add: algebra_simps)
  have "q \<le> bond" if "p * 10000 + 10000 > m" "n \<le> (bond - p) * 10000" "q * 10000 \<le> m + n" for m n p q :: int
    using that by simp
  from this [OF div_10000_bounds(2) a] show ?thesis unfolding e using div_10000_bounds(1) by blast
qed

lemma capacity_exhausted:
  fixes bond drawn r h u :: int
  assumes r: "10000 \<le> r" and h: "h = (if drawn * r div 10000 < bond then bond - drawn * r div 10000 else 0)"
    and u: "u = h * 10000 div r"
  shows "bond < (drawn + u + 2) * r div 10000"
proof -
  have "h * 10000 < u * r + r"
    unfolding u using r by (metis add.commute add_less_cancel_left div_mult_mod_eq pos_mod_bound
        order_less_le_trans zero_less_numeral)
  moreover have "bond \<le> drawn * r div 10000 + h" unfolding h by simp
  moreover have "(drawn + u + 2) * r = drawn * r + u * r + 2 * r" by (simp add: algebra_simps)
  ultimately show ?thesis
    using r div_10000_bounds [of "drawn * r"] div_10000_bounds [of "(drawn + u + 2) * r"] by linarith
qed

lemma evaluateAgent_capacity:
  assumes "0 \<le> bond" "0 \<le> drawn" "0 < r"
  shows "fst (evaluateAgent bond drawn r) =
    (if drawn * r div 10000 < bond then bond - drawn * r div 10000 else 0) * 10000 div r"
  using assms by (simp add: evaluateAgent_def Let_def tdiv_nonneg)

lemma bond_requirement_value:
  assumes "0 \<le> e" "0 \<le> r" "in_i128 (e * r)"
  shows "bond_requirement r e = Inr (e * r div 10000)"
proof -
  have n: "0 \<le> e * r" using assms by simp
  have "0 \<le> e * r div 10000" "e * r div 10000 \<le> e * r" using n div_10000_bounds(1) [of "e * r"] by simp_all
  then have "in_i128 (e * r div 10000)" using assms(3) by (auto simp: in_i128_def)
  then show ?thesis using assms n by (simp add: bond_requirement_def checked_mul_def checked_div_def ok_or_def)
qed



section \<open>The sweep opens each alert once\<close>

definition alert_for :: "string \<Rightarrow> string \<Rightarrow> string \<Rightarrow> AgentFloatAlert \<Rightarrow> bool" where
  "alert_for agentId regionId kind a \<longleftrightarrow> al_agentId a = agentId \<and> al_regionId a = regionId \<and> al_kind a = kind \<and> unresolved a"

text \<open>No two unresolved alerts of the same agent, region and kind.\<close>

definition alerts_unique :: "(string, AgentFloatAlert) table \<Rightarrow> bool" where
  "alerts_unique t \<longleftrightarrow> (\<forall>g r k. count_rows (alert_for g r k) t \<le> 1)"

definition covered :: "Env \<Rightarrow> string \<Rightarrow> (string, AgentFloatAlert) table \<Rightarrow> Agent \<times> LiquidityObservation \<Rightarrow> bool" where
  "covered env regionId t p \<longleftrightarrow> (case classifyAlert env (snd p) of None \<Rightarrow> True
     | Some alert \<Rightarrow> find_many (alert_for (ag_id (fst p)) regionId (alertKindName (at_kind alert))) t \<noteq> [])"

lemma find_many_append [simp]: "find_many P (t @ u) = find_many P t @ find_many P u"
  by (simp add: find_many_def)

lemma find_many_single: "find_many P [(i, r)] = (if P r then [r] else [])"
  by (simp add: find_many_def)

lemma find_first_None_iff: "find_first P t = None \<longleftrightarrow> find_many P t = []"
  by (auto simp: find_first_def find_many_def find_None_iff filter_empty_conv)

lemma covered_mono: "covered env regionId t p \<Longrightarrow> covered env regionId (t @ u) p"
  by (auto simp: covered_def split: option.splits)

lemma unresolved_alert_row [simp]: "unresolved (alert_row i now g r a)"
  by (simp add: unresolved_def alert_row_def)

lemma sweep_agent_covered: "covered env regionId (db_alerts db) p \<Longrightarrow> sweep_agent env fresh now regionId p n db = (Inr n, db)"
  by (cases p) (auto simp: covered_def sweep_agent_def act_simps alert_for_def [abs_def] find_first_None_iff split: option.splits)

lemma sweep_agent_effect:
  assumes "sweep_agent env fresh now regionId p n db = (r, db')"
  shows "(\<exists>u. db' = db\<lparr>db_alerts := db_alerts db @ u\<rparr> \<and> (\<forall>m. r = Inr m \<longrightarrow> m = n + length u)
      \<and> list_all (\<lambda>(i, a). al_status a = AL_OPEN) u)
    \<and> (\<forall>m. r = Inr m \<longrightarrow> covered env regionId (db_alerts db') p)
    \<and> (alerts_unique (db_alerts db) \<longrightarrow> alerts_unique (db_alerts db'))"
proof (cases "covered env regionId (db_alerts db) p")
  case True
  then have "r = Inr n \<and> db' = db" using assms sweep_agent_covered [OF True] by simp
  then show ?thesis using True by (auto intro!: exI [of _ "[]"])
next
  case False
  obtain g obs where p: "p = (g, obs)" by (cases p)
  obtain a where a: "classifyAlert env obs = Some a"
      "find_many (alert_for (ag_id g) regionId (alertKindName (at_kind a))) (db_alerts db) = []"
    using False p by (auto simp: covered_def split: option.splits)
  let ?row = "alert_row (fresh n) now (ag_id g) regionId a"
  have ff: "find_first (\<lambda>a'. al_agentId a' = ag_id g \<and> al_regionId a' = regionId
      \<and> al_kind a' = alertKindName (at_kind a) \<and> unresolved a') (db_alerts db) = None"
    using a(2) unfolding find_first_None_iff alert_for_def [abs_def] .
  have run: "sweep_agent env fresh now regionId p n db =
      (if find_unique (db_alerts db) (fresh n) = None
       then (Inr (n + 1), db\<lparr>db_alerts := db_alerts db @ [(fresh n, ?row)]\<rparr>)
       else (Inl (PlainErr ''Unique constraint failed''), db))"
    using a(1) p ff by (simp add: sweep_agent_def act_simps create_row_def)
  have one: "count_rows (alert_for g' r' k') (db_alerts db @ [(fresh n, ?row)]) \<le> 1"
    if "alerts_unique (db_alerts db)" for g' r' k'
  proof (cases "alert_for g' r' k' ?row")
    case True
    then have "g' = ag_id g" "r' = regionId" "k' = alertKindName (at_kind a)" by (auto simp: alert_for_def alert_row_def)
    then show ?thesis using a(2) by (simp add: count_rows_def find_many_single)
  next
    case False
    then show ?thesis using that by (simp add: count_rows_def find_many_single alerts_unique_def)
  qed
  have cov: "covered env regionId (db_alerts db @ [(fresh n, ?row)]) p"
    using a p by (simp add: covered_def find_many_def alert_for_def alert_row_def unresolved_def)
  show ?thesis
  proof (cases "find_unique (db_alerts db) (fresh n) = None")
    case True
    then have e: "r = Inr (n + 1)" "db' = db\<lparr>db_alerts := db_alerts db @ [(fresh n, ?row)]\<rparr>" using assms run by simp_all
    show ?thesis
      using cov one unfolding e by (auto simp: alerts_unique_def alert_row_def intro!: exI [of _ "[(fresh n, ?row)]"])
  next
    case False
    then have e: "r = Inl (PlainErr ''Unique constraint failed'')" "db' = db" using assms run by auto
    then show ?thesis by (auto intro!: exI [of _ "[]"])
  qed
qed

lemma sweep_agents_covered:
  "list_all (covered env regionId (db_alerts db)) ps \<Longrightarrow> for_each (sweep_agent env fresh now regionId) ps n db = (Inr n, db)"
  by (induction ps) (simp_all add: act_run andThen_Inr sweep_agent_covered)

lemma sweep_agents_effect:
  assumes "for_each (sweep_agent env fresh now regionId) ps n db = (r, db')"
  shows "(\<exists>u. db' = db\<lparr>db_alerts := db_alerts db @ u\<rparr> \<and> (\<forall>m. r = Inr m \<longrightarrow> m = n + length u)
      \<and> list_all (\<lambda>(i, a). al_status a = AL_OPEN) u)
    \<and> (\<forall>m. r = Inr m \<longrightarrow> list_all (covered env regionId (db_alerts db')) ps)
    \<and> (alerts_unique (db_alerts db) \<longrightarrow> alerts_unique (db_alerts db'))"
  using assms
proof (induction ps arbitrary: n db)
  case Nil
  then show ?case by (auto simp: ret_run_iff intro!: exI [of _ "[]"])
next
  case (Cons p ps)
  obtain q db1 where s: "sweep_agent env fresh now regionId p n db = (q, db1)"
    by (cases "sweep_agent env fresh now regionId p n db")
  note one = sweep_agent_effect [OF s]
  then obtain u where u: "db1 = db\<lparr>db_alerts := db_alerts db @ u\<rparr>" "\<forall>m. q = Inr m \<longrightarrow> m = n + length u"
      "list_all (\<lambda>(i, a). al_status a = AL_OPEN) u" by blast
  show ?case
  proof (cases q)
    case (Inl e)
    then have "r = Inl e" "db' = db1" using Cons.prems s by (simp_all add: andThen_Inl)
    then show ?thesis using one u by auto
  next
    case (Inr m)
    then have rest: "for_each (sweep_agent env fresh now regionId) ps m db1 = (r, db')"
      using Cons.prems s by (simp add: andThen_Inr)
    obtain v where v: "db' = db1\<lparr>db_alerts := db_alerts db1 @ v\<rparr>" "\<forall>k. r = Inr k \<longrightarrow> k = m + length v"
        "list_all (\<lambda>(i, a). al_status a = AL_OPEN) v" using Cons.IH [OF rest] by blast
    have "covered env regionId (db_alerts db') p" using one Inr covered_mono [of env regionId "db_alerts db1" p v] v(1) by simp
    then have "\<forall>k. r = Inr k \<longrightarrow> list_all (covered env regionId (db_alerts db')) (p # ps)"
      using Cons.IH [OF rest] by simp
    moreover have "db' = db\<lparr>db_alerts := db_alerts db @ (u @ v)\<rparr>" using u(1) v(1) by simp
    moreover have "\<forall>k. r = Inr k \<longrightarrow> k = n + length (u @ v)" using u(2) v(2) Inr by (simp add: add.assoc)
    moreover have "list_all (\<lambda>(i, a). al_status a = AL_OPEN) (u @ v)" using u(3) v(3) by simp
    moreover have "alerts_unique (db_alerts db) \<longrightarrow> alerts_unique (db_alerts db')" using one Cons.IH [OF rest] by blast
    ultimately show ?thesis by blast
  qed
qed


definition sample_agent :: Agent where
  "sample_agent = \<lparr>ag_id = ''a1'', ag_stellarAddress = ''GAGENT'', ag_legalName = ''Lagos Cash'', ag_tradingName = None,
     ag_regionId = ''NG_LAG'', ag_status = AG_AUTHORIZED, ag_bondAmount = 10000, ag_registeredAt = 0,
     ag_authorizedAt = Some 0, ag_suspendedAt = None, ag_revokedAt = None\<rparr>"

definition tight_db :: Database where
  "tight_db = empty_database\<lparr>db_agents := [(''a1'', sample_agent)],
     db_exposures := [((''a1'', ''NG_LAG''), \<lparr>ex_agentId = ''a1'', ex_regionId = ''NG_LAG'', ex_drawnAmount = 6500\<rparr>)]\<rparr>"


end
