(* ===== verification/TopUps.thy ===== *)
theory TopUps
  imports Liquidity "HOL-Library.Multiset"
begin

text \<open>
  \<open>backend/src/agent-liquidity/service.ts\<close>: the life of a top-up request, from its proposal over
  the decision to the draw.  The state is \<open>World\<close> of theory \<open>Kyc\<close>: the database and the contract
  calls submitted so far.
\<close>

section \<open>Top-up requests\<close>

record LiquidityDeps =
  ld_env :: Env
  ld_rpc :: Rpc
  ld_publicKeyOf :: "string \<Rightarrow> string + string"
  ld_now :: int
  ld_uuid :: string

definition operatorKey :: "LiquidityDeps \<Rightarrow> failure + string" where
  "operatorKey d = keypairFromSecret (ld_publicKeyOf d) (env_OPERATOR_SECRET_KEY (ld_env d))"

record ProposeTopUpInput =
  pt_agentId :: string
  pt_regionId :: string
  pt_amount :: int
  pt_reason :: string
  pt_requestedBy :: string

text \<open>The pool returns an \<open>i128\<close>, decoded as a \<open>BigInt\<close>, or nothing.\<close>

definition bigint_value :: "native option \<Rightarrow> int option" where
  "bigint_value v = (case v of Some (NBigInt n) \<Rightarrow> Some n | _ \<Rightarrow> None)"

definition topUp_row :: "LiquidityDeps \<Rightarrow> ProposeTopUpInput \<Rightarrow> TopUpRequest" where
  "topUp_row d input = \<lparr>tu_id = ld_uuid d, tu_agentId = pt_agentId input, tu_regionId = pt_regionId input,
     tu_amountRequested = pt_amount input, tu_reason = pt_reason input, tu_status = TU_PENDING,
     tu_requestedBy = pt_requestedBy input, tu_approvedBy = None, tu_decisionNote = None, tu_txHash = None,
     tu_failureReason = None, tu_createdAt = ld_now d, tu_decidedAt = None, tu_executedAt = None\<rparr>"

definition on_topUps ::
  "((string, TopUpRequest) table \<Rightarrow> failure + (string, TopUpRequest) table) \<Rightarrow> (World, unit) act" where
  "on_topUps f = statement (\<lambda>w. rbind (f (db_topUps (w_db w)))
     (\<lambda>t. Inr (w\<lparr>w_db := (w_db w)\<lparr>db_topUps := t\<rparr>\<rparr>)))"

definition proposeTopUp :: "LiquidityDeps \<Rightarrow> ProposeTopUpInput \<Rightarrow> (World, TopUpRequest) act" where
  "proposeTopUp d input =
     andThen (get_state (\<lambda>w. db_agents (w_db w))) (\<lambda>agents.
     andThen (found (find_unique agents (pt_agentId input)) (AppErr (notFound ''agent'' (pt_agentId input)))) (\<lambda>agent.
     andThen (guard (ag_status agent = AG_AUTHORIZED)
         (AppErr (conflict ''agent is not authorized in its region'' [(''status'', JStr (agentStatusName (ag_status agent)))]))) (\<lambda>_.
     andThen (of_result (read (ld_rpc d) (operatorKey d)
         (requiredBondFor (ld_env d) (ag_stellarAddress agent) (pt_regionId input) (pt_amount input)))) (\<lambda>answer.
     let required = bigint_value answer in
     andThen (guard (\<not> (required \<noteq> None \<and> ag_bondAmount agent < the required))
         (AppErr (conflict ''bond does not cover the requested draw'' [
            (''bond'', JStr (show_int (ag_bondAmount agent))), (''required'', JStr (show_int (the required))),
            (''hint'', JStr ''top up the bond, not the pool'')]))) (\<lambda>_.
     andThen (on_topUps (create_row (ld_uuid d) (topUp_row d input))) (\<lambda>_.
     ret (topUp_row d input)))))))"

record DecideTopUpInput =
  dt_requestId :: string
  dt_approved :: bool
  dt_approvedBy :: string
  dt_note :: "string option"

definition find_topUp :: "string \<Rightarrow> (World, TopUpRequest) act" where
  "find_topUp ident =
     andThen (get_state (\<lambda>w. db_topUps (w_db w))) (\<lambda>rows.
     found (find_unique rows ident) (AppErr (notFound ''top-up request'' ident)))"

definition decision :: "LiquidityDeps \<Rightarrow> DecideTopUpInput \<Rightarrow> TopUpRequest \<Rightarrow> TopUpRequest" where
  "decision d input r = r\<lparr>tu_status := (if dt_approved input then TU_APPROVED else TU_REJECTED),
     tu_approvedBy := Some (dt_approvedBy input), tu_decisionNote := dt_note input, tu_decidedAt := Some (ld_now d)\<rparr>"

definition decideTopUp :: "LiquidityDeps \<Rightarrow> DecideTopUpInput \<Rightarrow> (World, TopUpRequest) act" where
  "decideTopUp d input =
     andThen (find_topUp (dt_requestId input)) (\<lambda>request.
     andThen (guard (tu_status request = TU_PENDING)
         (AppErr (conflict ''request has already been decided'' [(''status'', JStr (topUpStatusName (tu_status request)))]))) (\<lambda>_.
     andThen (on_topUps (update_row (dt_requestId input) (decision d input))) (\<lambda>_.
     ret (decision d input request))))"

text \<open>
  The message of a caught error: of an \<open>AppError\<close> its own message, so the cause of a refused
  call, which is among the details, is not part of it.
\<close>

fun failure_message :: "failure \<Rightarrow> string" where
  "failure_message (AppErr e) = ae_message e"
| "failure_message (PlainErr m) = m"

text \<open>
  Execution in its two parts, between which other requests may run: reading and checking the
  request, and the draw with its bookkeeping.  The transaction updates the request, adds to
  the exposure and resolves the agent's alerts, all or nothing.
\<close>

definition executeTopUp_check :: "LiquidityDeps \<Rightarrow> string \<Rightarrow> (World, TopUpRequest \<times> Agent \<times> string) act" where
  "executeTopUp_check d requestId =
     andThen (find_topUp requestId) (\<lambda>request.
     andThen (get_state (\<lambda>w. db_agents (w_db w))) (\<lambda>agents.
     andThen (found (find_unique agents (tu_agentId request)) (PlainErr ''Inconsistent query result'')) (\<lambda>agent.
     andThen (guard (tu_status request = TU_APPROVED)
         (AppErr (conflict ''only approved requests can be executed'' [(''status'', JStr (topUpStatusName (tu_status request)))]))) (\<lambda>_.
     andThen (of_result (operatorKey d)) (\<lambda>operator.
     ret (request, agent, operator))))))"

definition executed :: "LiquidityDeps \<Rightarrow> InvocationResult \<Rightarrow> TopUpRequest \<Rightarrow> TopUpRequest" where
  "executed d result r = r\<lparr>tu_status := TU_EXECUTED, tu_txHash := ir_hash result, tu_executedAt := Some (ld_now d)\<rparr>"

definition failed :: "failure \<Rightarrow> TopUpRequest \<Rightarrow> TopUpRequest" where
  "failed error r = r\<lparr>tu_status := TU_FAILED, tu_failureReason := Some (failure_message error)\<rparr>"

text \<open>The exposure row refers to its region; a row that exists did so already.\<close>

definition exposure_allowed :: "Database \<Rightarrow> string \<Rightarrow> string \<Rightarrow> bool" where
  "exposure_allowed db agentId regionId \<longleftrightarrow>
     find_unique (db_exposures db) (agentId, regionId) \<noteq> None \<or> find_unique (db_regions db) regionId \<noteq> None"

definition settle_topUp :: "LiquidityDeps \<Rightarrow> string \<Rightarrow> TopUpRequest \<Rightarrow> InvocationResult \<Rightarrow> Database \<Rightarrow> failure + Database" where
  "settle_topUp d requestId request result db =
     rbind (update_row requestId (executed d result) (db_topUps db)) (\<lambda>t.
     rbind (require (exposure_allowed db (tu_agentId request) (tu_regionId request)) foreign_key_error) (\<lambda>_.
     Inr (db\<lparr>db_topUps := t,
        db_exposures := upsert_row (tu_agentId request, tu_regionId request)
           \<lparr>ex_agentId = tu_agentId request, ex_regionId = tu_regionId request, ex_drawnAmount = tu_amountRequested request\<rparr>
           (\<lambda>e. e\<lparr>ex_drawnAmount := ex_drawnAmount e + tu_amountRequested request\<rparr>) (db_exposures db),
        db_alerts := update_many (\<lambda>a. al_agentId a = tu_agentId request \<and> al_regionId a = tu_regionId request \<and> unresolved a)
           (\<lambda>a. a\<lparr>al_status := AL_RESOLVED, al_resolvedAt := Some (ld_now d)\<rparr>) (db_alerts db)\<rparr>)))"

record ExecuteOutput =
  xo_txHash :: "string option"
  xo_status :: string

definition executeTopUp_act :: "LiquidityDeps \<Rightarrow> string \<Rightarrow> TopUpRequest \<times> Agent \<times> string \<Rightarrow> (World, ExecuteOutput) act" where
  "executeTopUp_act d requestId = (\<lambda>(request, agent, operator).
     try_catch
       (andThen (submit_call (ld_rpc d) (drawLiquidity (ld_env d) operator (ag_stellarAddress agent)
           (tu_regionId request) (tu_amountRequested request))) (\<lambda>result.
        andThen (statement (\<lambda>w. rbind (settle_topUp d requestId request result (w_db w)) (\<lambda>db. Inr (w\<lparr>w_db := db\<rparr>)))) (\<lambda>_.
        ret \<lparr>xo_txHash = nonempty (ir_hash result), xo_status = ''EXECUTED''\<rparr>)))
       (\<lambda>error.
        andThen (on_topUps (update_row requestId (failed error))) (\<lambda>_.
        throw error)))"

definition executeTopUp :: "LiquidityDeps \<Rightarrow> string \<Rightarrow> (World, ExecuteOutput) act" where
  "executeTopUp d requestId = andThen (executeTopUp_check d requestId) (executeTopUp_act d requestId)"

section \<open>Outcomes\<close>

lemma find_topUp_iff:
  "find_topUp i w = (r, w') \<longleftrightarrow> w' = w \<and> r = (case find_unique (db_topUps (w_db w)) i of
     None \<Rightarrow> Inl (AppErr (notFound ''top-up request'' i)) | Some q \<Rightarrow> Inr q)"
  by (auto simp: find_topUp_def act_iffs split: option.splits)

lemma on_topUps_iff:
  "on_topUps f w = (r, w') \<longleftrightarrow> (\<exists>e. f (db_topUps (w_db w)) = Inl e \<and> r = Inl e \<and> w' = w)
     \<or> (\<exists>t. f (db_topUps (w_db w)) = Inr t \<and> r = Inr () \<and> w' = w\<lparr>w_db := (w_db w)\<lparr>db_topUps := t\<rparr>\<rparr>)"
  by (cases "f (db_topUps (w_db w))") (auto simp: on_topUps_def statement_def)

lemmas topUp_iffs = act_iffs find_topUp_iff on_topUps_iff update_row_Inr_iff create_row_Inr_iff

lemma proposeTopUp_effect:
  assumes "proposeTopUp d input w = (r, w')"
  shows "w' = w \<or> find_unique (db_topUps (w_db w)) (ld_uuid d) = None
    \<and> w' = w\<lparr>w_db := (w_db w)\<lparr>db_topUps := db_topUps (w_db w) @ [(ld_uuid d, topUp_row d input)]\<rparr>\<rparr>"
  using assms unfolding proposeTopUp_def by (auto simp: topUp_iffs Let_def split: if_splits option.splits)

lemma decideTopUp_effect:
  assumes "decideTopUp d input w = (r, w')"
  shows "w' = w \<or> (\<exists>q. find_unique (db_topUps (w_db w)) (dt_requestId input) = Some q \<and> tu_status q = TU_PENDING
    \<and> w' = w\<lparr>w_db := (w_db w)\<lparr>db_topUps := modify_row (dt_requestId input) (decision d input) (db_topUps (w_db w))\<rparr>\<rparr>)"
  using assms unfolding decideTopUp_def by (auto simp: topUp_iffs split: if_splits option.splits)

definition draw_call :: "LiquidityDeps \<Rightarrow> string \<Rightarrow> Agent \<Rightarrow> TopUpRequest \<Rightarrow> Call" where
  "draw_call d operator agent request =
     drawLiquidity (ld_env d) operator (ag_stellarAddress agent) (tu_regionId request) (tu_amountRequested request)"

definition settled_db :: "LiquidityDeps \<Rightarrow> string \<Rightarrow> TopUpRequest \<Rightarrow> InvocationResult \<Rightarrow> Database \<Rightarrow> Database" where
  "settled_db d requestId request result db = db\<lparr>
     db_topUps := modify_row requestId (executed d result) (db_topUps db),
     db_exposures := upsert_row (tu_agentId request, tu_regionId request)
        \<lparr>ex_agentId = tu_agentId request, ex_regionId = tu_regionId request, ex_drawnAmount = tu_amountRequested request\<rparr>
        (\<lambda>e. e\<lparr>ex_drawnAmount := ex_drawnAmount e + tu_amountRequested request\<rparr>) (db_exposures db),
     db_alerts := update_many (\<lambda>a. al_agentId a = tu_agentId request \<and> al_regionId a = tu_regionId request \<and> unresolved a)
        (\<lambda>a. a\<lparr>al_status := AL_RESOLVED, al_resolvedAt := Some (ld_now d)\<rparr>) (db_alerts db)\<rparr>"

lemma settle_topUp_found:
  "find_unique (db_topUps db) i = Some q \<Longrightarrow> settle_topUp d i request result db =
     (if exposure_allowed db (tu_agentId request) (tu_regionId request)
      then Inr (settled_db d i request result db) else Inl foreign_key_error)"
  by (simp add: settle_topUp_def settled_db_def update_row_def require_def)

text \<open>How a submitted draw ends: with the pool's error, with the error of the bookkeeping, or settled.\<close>

definition draw_outcome :: "LiquidityDeps \<Rightarrow> Database \<Rightarrow> string \<Rightarrow> Agent \<Rightarrow> TopUpRequest \<Rightarrow> failure + InvocationResult" where
  "draw_outcome d db operator agent request =
     rbind (invoke (ld_rpc d) False (draw_call d operator agent request) operator) (\<lambda>result.
     rbind (require (exposure_allowed db (tu_agentId request) (tu_regionId request)) foreign_key_error) (\<lambda>_. Inr result))"

lemma executeTopUp_act_runs:
  assumes "find_unique (db_topUps (w_db w)) i = Some q"
  shows "executeTopUp_act d i (request, agent, operator) w =
    (case draw_outcome d (w_db w) operator agent request of
       Inl e \<Rightarrow> (Inl e, w\<lparr>w_calls := w_calls w @ [draw_call d operator agent request],
                   w_db := (w_db w)\<lparr>db_topUps := modify_row i (failed e) (db_topUps (w_db w))\<rparr>\<rparr>)
     | Inr result \<Rightarrow> (Inr \<lparr>xo_txHash = nonempty (ir_hash result), xo_status = ''EXECUTED''\<rparr>,
          w\<lparr>w_calls := w_calls w @ [draw_call d operator agent request], w_db := settled_db d i request result (w_db w)\<rparr>))"
proof -
  have c: "submit_call (ld_rpc d) (draw_call d operator agent request) w =
      (invoke (ld_rpc d) False (draw_call d operator agent request) operator,
       w\<lparr>w_calls := w_calls w @ [draw_call d operator agent request]\<rparr>)"
    by (simp add: submit_call_def draw_call_def drawLiquidity_def option_or_def)
  show ?thesis
    using c assms unfolding draw_call_def
    by (cases "invoke (ld_rpc d) False (draw_call d operator agent request) operator")
      (simp_all add: executeTopUp_act_def try_catch_def andThen_def throw_def ret_def on_topUps_def statement_def update_row_def
        settle_topUp_found draw_outcome_def require_def draw_call_def)
qed

lemma executeTopUp_check_iff:
  "executeTopUp_check d i w = (Inr x, w') \<longleftrightarrow> w' = w \<and> (\<exists>q agent operator. x = (q, agent, operator)
     \<and> find_unique (db_topUps (w_db w)) i = Some q \<and> find_unique (db_agents (w_db w)) (tu_agentId q) = Some agent
     \<and> tu_status q = TU_APPROVED \<and> operatorKey d = Inr operator)"
  unfolding executeTopUp_check_def by (auto simp: topUp_iffs split: if_splits option.splits)

lemma executeTopUp_check_keeps: "executeTopUp_check d i w = (r, w') \<Longrightarrow> w' = w"
  unfolding executeTopUp_check_def by (auto simp: topUp_iffs split: if_splits option.splits)


section \<open>The life of a request\<close>

text \<open>The abstract life cycle: a person decides, a machine acts, and nothing is revisited.\<close>

inductive topUp_step :: "TopUpStatus \<Rightarrow> TopUpStatus \<Rightarrow> bool" where
  approve: "topUp_step TU_PENDING TU_APPROVED"
| reject: "topUp_step TU_PENDING TU_REJECTED"
| execute: "topUp_step TU_APPROVED TU_EXECUTED"
| fail: "topUp_step TU_APPROVED TU_FAILED"

inductive_simps topUp_step_iffs [simp]:
  "topUp_step TU_PENDING t" "topUp_step TU_APPROVED t" "topUp_step TU_REJECTED t"
  "topUp_step TU_EXECUTED t" "topUp_step TU_FAILED t"

datatype TopUpOp = OpPropose LiquidityDeps ProposeTopUpInput | OpDecide LiquidityDeps DecideTopUpInput
  | OpExecute LiquidityDeps string

fun run_op :: "World \<Rightarrow> TopUpOp \<Rightarrow> World" where
  "run_op w (OpPropose d input) = snd (proposeTopUp d input w)"
| "run_op w (OpDecide d input) = snd (decideTopUp d input w)"
| "run_op w (OpExecute d i) = snd (executeTopUp d i w)"

definition run_ops :: "TopUpOp list \<Rightarrow> World \<Rightarrow> World" where
  "run_ops ops w = foldl run_op w ops"

text \<open>What no operation changes of a request.\<close>

definition terms :: "TopUpRequest \<Rightarrow> string \<times> string \<times> int \<times> string \<times> string" where
  "terms r = (tu_agentId r, tu_regionId r, tu_amountRequested r, tu_reason r, tu_requestedBy r)"

text \<open>A request that left \<open>PENDING\<close> names who decided it, and when.\<close>

definition accountable :: "TopUpRequest \<Rightarrow> bool" where
  "accountable r \<longleftrightarrow> (tu_status r = TU_PENDING \<longleftrightarrow> tu_approvedBy r = None) \<and> (tu_approvedBy r = None \<longleftrightarrow> tu_decidedAt r = None)"

definition settled :: "TopUpRequest \<Rightarrow> bool" where
  "settled r \<longleftrightarrow> tu_status r = TU_EXECUTED \<or> tu_status r = TU_FAILED"

text \<open>The three ways an operation changes the state.\<close>

lemma run_op_cases:
  obtains (same) "run_op w op = w"
  | (created) d input where "find_unique (db_topUps (w_db w)) (ld_uuid d) = None"
      "db_topUps (w_db (run_op w op)) = db_topUps (w_db w) @ [(ld_uuid d, topUp_row d input)]" "w_calls (run_op w op) = w_calls w"
  | (decided) d input q where "find_unique (db_topUps (w_db w)) (dt_requestId input) = Some q" "tu_status q = TU_PENDING"
      "db_topUps (w_db (run_op w op)) = modify_row (dt_requestId input) (decision d input) (db_topUps (w_db w))"
      "w_calls (run_op w op) = w_calls w"
  | (drawn) d i q agent operator f where "find_unique (db_topUps (w_db w)) i = Some q" "tu_status q = TU_APPROVED"
      "db_topUps (w_db (run_op w op)) = modify_row i f (db_topUps (w_db w))"
      "(\<exists>result. f = executed d result) \<or> (\<exists>e. f = failed e)"
      "w_calls (run_op w op) = w_calls w @ [draw_call d operator agent q]"
proof (cases op)
  case (OpPropose d input)
  then show ?thesis
    using that(1,2) proposeTopUp_effect [of d input w "fst (proposeTopUp d input w)" "snd (proposeTopUp d input w)"] by auto
next
  case (OpDecide d input)
  then show ?thesis
    using that(1,3) decideTopUp_effect [of d input w "fst (decideTopUp d input w)" "snd (decideTopUp d input w)"] by auto
next
  case (OpExecute d i)
  obtain c w1 where c: "executeTopUp_check d i w = (c, w1)" by (cases "executeTopUp_check d i w")
  have w1: "w1 = w" using executeTopUp_check_keeps [OF c] .
  show ?thesis
  proof (cases c)
    case (Inl e)
    then show ?thesis using that(1) OpExecute c w1 by (simp add: executeTopUp_def andThen_Inl)
  next
    case (Inr x)
    obtain q agent operator where x: "x = (q, agent, operator)" "find_unique (db_topUps (w_db w)) i = Some q" "tu_status q = TU_APPROVED"
      using c Inr executeTopUp_check_iff [of d i w x w1] by auto
    have run: "run_op w op = snd (executeTopUp_act d i (q, agent, operator) w)"
      using OpExecute c Inr w1 x(1) by (simp add: executeTopUp_def andThen_Inr)
    note runs = run [unfolded executeTopUp_act_runs [OF x(2)]]
    show ?thesis
    proof (cases "draw_outcome d (w_db w) operator agent q")
      case (Inl e)
      show ?thesis
        by (rule that(4) [OF x(2,3), where f = "failed e" and d = d and operator = operator and agent = agent])
          (use Inl runs in auto)
    next
      case (Inr result)
      show ?thesis
        by (rule that(4) [OF x(2,3), where f = "executed d result" and d = d and operator = operator and agent = agent])
          (use Inr runs in \<open>auto simp: settled_db_def\<close>)
    qed
  qed
qed

lemma terms_changes [simp]:
  "terms (decision d input q) = terms q" "terms (executed d result q) = terms q" "terms (failed e q) = terms q"
  by (simp_all add: terms_def decision_def executed_def failed_def)

lemma accountable_changes:
  "accountable (topUp_row d i)" "accountable (decision d input q)"
  "accountable q \<Longrightarrow> tu_status q = TU_APPROVED \<Longrightarrow> accountable (executed d result q)"
  "accountable q \<Longrightarrow> tu_status q = TU_APPROVED \<Longrightarrow> accountable (failed e q)"
  by (auto simp: accountable_def topUp_row_def decision_def executed_def failed_def)

lemma status_changes:
  "tu_status (topUp_row d i) = TU_PENDING"
  "tu_status q = TU_PENDING \<Longrightarrow> topUp_step (tu_status q) (tu_status (decision d input q))"
  "tu_status q = TU_APPROVED \<Longrightarrow> topUp_step (tu_status q) (tu_status (executed d result q))"
  "tu_status q = TU_APPROVED \<Longrightarrow> topUp_step (tu_status q) (tu_status (failed e q))"
  by (simp_all add: topUp_row_def decision_def executed_def failed_def)

text \<open>One operation on one request: nothing, creation, or one abstract step.\<close>

definition advances :: "TopUpRequest option \<Rightarrow> TopUpRequest option \<Rightarrow> bool" where
  "advances before after = (case (before, after) of
     (None, None) \<Rightarrow> True
   | (None, Some r) \<Rightarrow> tu_status r = TU_PENDING \<and> accountable r
   | (Some q, Some r) \<Rightarrow> terms r = terms q \<and> (accountable q \<longrightarrow> accountable r)
       \<and> (tu_status r = tu_status q \<or> topUp_step (tu_status q) (tu_status r))
   | (Some q, None) \<Rightarrow> False)"

lemma advances_refl [simp]: "advances m m"
  by (cases m) (simp_all add: advances_def)

lemma advances_modify:
  assumes "find_unique t k = Some q" "advances (Some q) (Some (f q))"
  shows "advances (find_unique t i) (find_unique (modify_row k f t) i)"
  using assms by (simp add: find_modify_row)

lemma run_op_advances:
  "advances (find_unique (db_topUps (w_db w)) i) (find_unique (db_topUps (w_db (run_op w op))) i)"
proof (cases rule: run_op_cases [of w op])
  case same
  then show ?thesis by simp
next
  case (created d input)
  have "create_row (ld_uuid d) (topUp_row d input) (db_topUps (w_db w)) = Inr (db_topUps (w_db (run_op w op)))"
    using created by (simp add: create_row_def)
  from find_create_row [OF this, of i] show ?thesis
    using created(1) by (auto simp: advances_def status_changes accountable_changes split: option.split)
next
  case (decided d input q)
  show ?thesis unfolding decided(3)
    by (rule advances_modify [OF decided(1)]) (use decided(2) status_changes(2) [of q d input] in \<open>simp add: advances_def accountable_changes\<close>)
next
  case (drawn d j q agent operator f)
  have "topUp_step (tu_status q) (tu_status (f q))" "terms (f q) = terms q" "accountable q \<longrightarrow> accountable (f q)"
    using drawn(2,4) by (auto simp: executed_def failed_def terms_def accountable_def)
  then have "advances (Some q) (Some (f q))" by (simp add: advances_def)
  then show ?thesis unfolding drawn(3) by (rule advances_modify [OF drawn(1)])
qed

text \<open>Whole runs.\<close>

definition topUps_ok :: "World \<Rightarrow> bool" where
  "topUps_ok w \<longleftrightarrow> table_ok (db_topUps (w_db w)) \<and> (\<forall>i r. find_unique (db_topUps (w_db w)) i = Some r \<longrightarrow> accountable r)"

text \<open>What a draw says, and what the draw of a settled request must have said.\<close>

definition call_terms :: "Call \<Rightarrow> string \<times> Sc list" where
  "call_terms c = (cl_method c, tl (cl_args c))"

definition draw_terms :: "TopUpRequest \<Rightarrow> string \<times> Sc list" where
  "draw_terms r = (''draw_liquidity'', [ScSymbol (tu_regionId r), ScI128 (tu_amountRequested r)])"

lemma draw_call_terms: "call_terms (draw_call d operator agent q) = draw_terms q"
  by (simp add: call_terms_def draw_call_def drawLiquidity_def draw_terms_def)

lemma find_many_modify_mset:
  assumes "table_ok t" "find_unique t k = Some r"
  shows "mset (find_many P (modify_row k f t)) + (if P r then {#r#} else {#})
    = mset (find_many P t) + (if P (f r) then {#f r#} else {#})"
  using assms
proof (induction t)
  case Nil
  then show ?case by (simp add: find_unique_def)
next
  case (Cons p t)
  obtain j q where p: "p = (j, q)" by (cases p)
  have ok: "table_ok t" "j \<notin> set (map fst t)" using Cons.prems(1) p by (auto simp: table_ok_def)
  show ?case
  proof (cases "j = k")
    case True
    have "modify_row k f t = t" using ok(2) True by (force simp: modify_row_def intro!: map_idI)
    then show ?thesis using True p Cons.prems(2) by (simp add: modify_row_def find_many_def find_unique_def)
  next
    case False
    then have "find_unique t k = Some r" using Cons.prems(2) p by (simp add: find_unique_def)
    from Cons.IH [OF ok(1) this] show ?thesis using False p by (auto simp: modify_row_def find_many_def)
  qed
qed

definition draws_accounted :: "World \<Rightarrow> bool" where
  "draws_accounted w \<longleftrightarrow> image_mset call_terms (mset (w_calls w))
     = image_mset draw_terms (mset (find_many settled (db_topUps (w_db w))))"

lemma run_op_topUps_ok:
  assumes "topUps_ok w"
  shows "topUps_ok (run_op w op)"
proof -
  have "table_ok (db_topUps (w_db (run_op w op)))"
    by (cases rule: run_op_cases [of w op])
      (use assms in \<open>auto simp: topUps_ok_def table_ok_def find_unique_None_iff\<close>)
  moreover have "accountable r" if "find_unique (db_topUps (w_db (run_op w op))) i = Some r" for i r
    using run_op_advances [of w i op] that assms
    by (auto simp: advances_def topUps_ok_def split: option.splits)
  ultimately show ?thesis by (simp add: topUps_ok_def)
qed

text \<open>
  C14: the service refines the abstract life cycle.  Whatever is proposed, decided or executed,
  with whatever outcome of the chain, a request is never lost; its terms never change; its
  status either stays or makes one step of the abstract machine, so a decided request is not
  decided again and a settled one never moves; and a request keeps naming who decided it.
\<close>

theorem topUps_refine_life_cycle:
  "advances (find_unique (db_topUps (w_db w)) i) (find_unique (db_topUps (w_db (run_op w op))) i)"
  by (rule run_op_advances)

lemma settled_changes:
  "tu_status q = TU_PENDING \<Longrightarrow> \<not> settled (decision d input q) \<and> \<not> settled q"
  "\<not> settled (topUp_row d i)" "settled (executed d result q)" "settled (failed e q)"
  "tu_status q = TU_APPROVED \<Longrightarrow> \<not> settled q"
  by (simp_all add: settled_def decision_def topUp_row_def executed_def failed_def)

lemma draw_terms_changes [simp]:
  "draw_terms (executed d result q) = draw_terms q" "draw_terms (failed e q) = draw_terms q"
  by (simp_all add: draw_terms_def executed_def failed_def)

lemma run_op_draws_accounted:
  assumes "table_ok (db_topUps (w_db w))" "draws_accounted w"
  shows "draws_accounted (run_op w op)"
proof (cases rule: run_op_cases [of w op])
  case same
  then show ?thesis using assms by simp
next
  case (created d input)
  then show ?thesis using assms by (simp add: draws_accounted_def settled_changes find_many_single)
next
  case (decided d input q)
  have "mset (find_many settled (modify_row (dt_requestId input) (decision d input) (db_topUps (w_db w))))
      = mset (find_many settled (db_topUps (w_db w)))"
    using find_many_modify_mset [OF assms(1) decided(1), of settled "decision d input"] settled_changes(1) [OF decided(2)] by simp
  then show ?thesis using assms decided by (simp add: draws_accounted_def)
next
  case (drawn d i q agent operator f)
  have f: "settled (f q)" "draw_terms (f q) = draw_terms q" using drawn(4) by (auto simp: settled_changes)
  have "mset (find_many settled (modify_row i f (db_topUps (w_db w)))) = add_mset (f q) (mset (find_many settled (db_topUps (w_db w))))"
    using find_many_modify_mset [OF assms(1) drawn(1), of settled f] settled_changes(5) [OF drawn(2)] f by simp
  then show ?thesis using assms drawn f by (simp add: draws_accounted_def draw_call_terms)
qed

lemma run_ops_invariant:
  "topUps_ok w \<Longrightarrow> draws_accounted w \<Longrightarrow> topUps_ok (run_ops ops w) \<and> draws_accounted (run_ops ops w)"
proof (induction ops arbitrary: w)
  case Nil
  then show ?case by (simp add: run_ops_def)
next
  case (Cons op ops)
  have "topUps_ok (run_op w op)" using Cons.prems(1) by (rule run_op_topUps_ok)
  moreover have "draws_accounted (run_op w op)"
    using Cons.prems run_op_draws_accounted by (simp add: topUps_ok_def)
  ultimately show ?case using Cons.IH [of "run_op w op"] by (simp add: run_ops_def)
qed

text \<open>
  C15: every draw is accounted for.  Starting with no request and no call, after any sequence of
  operations, each run to its end, the draws submitted to the pool are exactly those of the
  settled requests, one each, with their region and amount; and every request that was drawn
  names the person who approved it.
\<close>

theorem draws_are_those_of_settled_requests:
  assumes "db_topUps (w_db w) = []" "w_calls w = []"
  shows "image_mset call_terms (mset (w_calls (run_ops ops w)))
      = image_mset draw_terms (mset (find_many settled (db_topUps (w_db (run_ops ops w)))))
    \<and> (\<forall>i r. find_unique (db_topUps (w_db (run_ops ops w))) i = Some r \<longrightarrow> settled r \<longrightarrow> tu_approvedBy r \<noteq> None)"
proof -
  have "topUps_ok w" "draws_accounted w"
    using assms by (simp_all add: topUps_ok_def table_ok_def draws_accounted_def find_many_def)
  note inv = run_ops_invariant [OF this, of ops]
  have "tu_approvedBy r \<noteq> None" if "accountable r" "settled r" for r
    using that by (auto simp: accountable_def settled_def)
  then show ?thesis using inv by (auto simp: draws_accounted_def topUps_ok_def)
qed

definition sample_liquidity :: LiquidityDeps where
  "sample_liquidity = \<lparr>ld_env = sample_env, ld_rpc = sample_rpc, ld_publicKeyOf = (\<lambda>s. Inr (CHR ''G'' # s)), ld_now = 7, ld_uuid = ''t1''\<rparr>"

definition sample_request_input :: ProposeTopUpInput where
  "sample_request_input = \<lparr>pt_agentId = ''a1'', pt_regionId = ''NG_LAG'', pt_amount = 100, pt_reason = ''cash'', pt_requestedBy = ''ops''\<rparr>"

definition sample_ops :: "TopUpOp list" where
  "sample_ops = [OpPropose sample_liquidity sample_request_input,
     OpDecide sample_liquidity \<lparr>dt_requestId = ''t1'', dt_approved = True, dt_approvedBy = ''ada'', dt_note = None\<rparr>,
     OpExecute sample_liquidity ''t1'', OpExecute sample_liquidity ''t1'']"

definition tight_world :: World where
  "tight_world = \<lparr>w_db = tight_db, w_calls = []\<rparr>"

theorem draws_are_those_of_settled_requests_witness:
  "image_mset call_terms (mset (w_calls (run_ops sample_ops tight_world)))
     = image_mset draw_terms (mset (find_many settled (db_topUps (w_db (run_ops sample_ops tight_world)))))"
  using draws_are_those_of_settled_requests [of tight_world sample_ops] by (simp add: tight_world_def tight_db_def empty_database_def)

section \<open>Interleaved executions\<close>

text \<open>
  C35: the check is not atomic with the draw.  When two executions of one approved request both
  read it before either draws, both draw: two calls with the same amount are submitted and, if
  the pool honours them, the exposure grows by twice the amount of the one request.
\<close>

theorem interleaved_executions_draw_twice:
  assumes "executeTopUp_check d i w = (Inr (q, agent, operator), w)"
    and "draw_outcome d (w_db w) operator agent q = Inr result"
  shows "\<exists>w1 w2 out. executeTopUp_check d i w = (Inr (q, agent, operator), w)
    \<and> executeTopUp_act d i (q, agent, operator) w = (Inr out, w1)
    \<and> executeTopUp_act d i (q, agent, operator) w1 = (Inr out, w2)
    \<and> w_calls w2 = w_calls w @ [draw_call d operator agent q, draw_call d operator agent q]
    \<and> drawn_amount (w_db w2) (tu_agentId q) (tu_regionId q)
        = drawn_amount (w_db w) (tu_agentId q) (tu_regionId q) + 2 * tu_amountRequested q"
proof -
  have f: "find_unique (db_topUps (w_db w)) i = Some q" using assms(1) by (simp add: executeTopUp_check_iff)
  let ?s = "settled_db d i q result"
  let ?c = "draw_call d operator agent q"
  let ?w1 = "w\<lparr>w_calls := w_calls w @ [?c], w_db := ?s (w_db w)\<rparr>"
  let ?out = "\<lparr>xo_txHash = nonempty (ir_hash result), xo_status = ''EXECUTED''\<rparr>"
  have f1: "find_unique (db_topUps (w_db ?w1)) i = Some (executed d result q)"
    using f by (simp add: settled_db_def find_modify_row)
  have one: "executeTopUp_act d i (q, agent, operator) w = (Inr ?out, ?w1)"
    using assms(2) by (simp add: executeTopUp_act_runs [OF f])
  have again: "draw_outcome d (?s db) operator agent q = Inr result" if "draw_outcome d db operator agent q = Inr result" for db
    using that by (auto simp: draw_outcome_def result_simps exposure_allowed_def settled_db_def find_upsert_row)
  have two: "executeTopUp_act d i (q, agent, operator) ?w1
      = (Inr ?out, ?w1\<lparr>w_calls := w_calls ?w1 @ [?c], w_db := ?s (w_db ?w1)\<rparr>)"
    unfolding executeTopUp_act_runs [OF f1] using again [OF assms(2)] by simp
  have drawn: "drawn_amount (?s db) (tu_agentId q) (tu_regionId q)
      = drawn_amount db (tu_agentId q) (tu_regionId q) + tu_amountRequested q" for db
    by (simp add: drawn_amount_def settled_db_def find_upsert_row split: option.splits)
  show ?thesis
    by (intro exI conjI, rule assms(1), rule one, rule two) (simp_all add: drawn)
qed

definition sample_approved :: TopUpRequest where
  "sample_approved = decision sample_liquidity
     \<lparr>dt_requestId = ''t1'', dt_approved = True, dt_approvedBy = ''ada'', dt_note = None\<rparr>
     (topUp_row sample_liquidity sample_request_input)"

definition approved_world :: World where
  "approved_world = \<lparr>w_db = tight_db\<lparr>db_topUps := [(''t1'', sample_approved)]\<rparr>, w_calls = []\<rparr>"

lemma approved_world_check:
  "executeTopUp_check sample_liquidity ''t1'' approved_world
     = (Inr (sample_approved, sample_agent, CHR ''G'' # env_OPERATOR_SECRET_KEY sample_env), approved_world)"
  by (simp add: executeTopUp_check_iff approved_world_def tight_db_def empty_database_def find_unique_def sample_approved_def
      decision_def topUp_row_def sample_request_input_def operatorKey_def sample_liquidity_def keypairFromSecret_def sample_agent_def)

theorem interleaved_executions_draw_twice_witness:
  "\<exists>w1 w2 out. executeTopUp_act sample_liquidity ''t1'' (sample_approved, sample_agent, CHR ''G'' # env_OPERATOR_SECRET_KEY sample_env) approved_world
      = (Inr out, w1)
    \<and> executeTopUp_act sample_liquidity ''t1'' (sample_approved, sample_agent, CHR ''G'' # env_OPERATOR_SECRET_KEY sample_env) w1
      = (Inr out, w2)
    \<and> length (w_calls w2) = 2"
proof -
  have i: "draw_outcome sample_liquidity (w_db approved_world) c a sample_approved
      = Inr \<lparr>ir_value = None, ir_hash = Some ''tx1'', ir_ledger = Some 7\<rparr>" for c a
    by (simp add: draw_outcome_def sample_liquidity_def sample_invoke require_def exposure_allowed_def approved_world_def
        tight_db_def empty_database_def find_unique_def sample_approved_def decision_def topUp_row_def sample_request_input_def)
  show ?thesis
    using interleaved_executions_draw_twice [OF approved_world_check i] by (force simp: approved_world_def)
qed


end
