(* ===== verification/IndexerProofs.thy ===== *)
theory IndexerProofs
  imports Indexer TopUps
begin

text \<open>
  What the indexer guarantees: replaying recorded events changes nothing, recorded events never
  dangle, a cursor never runs ahead of the log; and where it falls short of that.
\<close>

text \<open>Event keys are triples; quantifiers over them are left whole.\<close>

declare split_paired_All [simp del] split_paired_Ex [simp del]

section \<open>What a projection may change\<close>

definition transfers_keyed :: "Database \<Rightarrow> bool" where
  "transfers_keyed db \<longleftrightarrow> (\<forall>i t. find_unique (db_transfers db) i = Some t \<longrightarrow> tr_id t = i)"

text \<open>The log and the cursors stay, and no transfer disappears.\<close>

definition projects :: "Database \<Rightarrow> Database \<Rightarrow> bool" where
  "projects db db' \<longleftrightarrow> db_events db' = db_events db \<and> db_cursors db' = db_cursors db
     \<and> (\<forall>i. find_unique (db_transfers db) i \<noteq> None \<longrightarrow> find_unique (db_transfers db') i \<noteq> None)
     \<and> (transfers_keyed db \<longrightarrow> transfers_keyed db')"

lemma projects_refl [simp]: "projects db db"
  by (simp add: projects_def)

lemma projects_trans: "projects a b \<Longrightarrow> projects b c \<Longrightarrow> projects a c"
  by (auto simp: projects_def)

lemma projects_upsert:
  assumes "tr_id row = i" "\<And>t. tr_id (f t) = tr_id t"
  shows "projects db (db\<lparr>db_transfers := upsert_row i row f (db_transfers db)\<rparr>)"
  using assms by (auto simp: projects_def transfers_keyed_def find_upsert_row split: option.splits if_splits)

lemma projects_update:
  assumes "on_transfers (update_row i f) db = (r, db')" "\<And>t. tr_id (f t) = tr_id t"
  shows "projects db db'"
  using assms
  by (auto simp: on_transfers_def statement_run_iff result_simps update_row_Inr_iff projects_def transfers_keyed_def find_modify_row
      split: if_splits)

lemma projects_created: "projectTransferCreated d raw e db = (r, db') \<Longrightarrow> projects db db'"
  unfolding projectTransferCreated_def
  by (auto simp: act_iffs result_simps split: option.splits intro!: projects_upsert)

lemma projects_settled: "projectTransferSettled d raw e s db = (r, db') \<Longrightarrow> projects db db'"
  unfolding projectTransferSettled_def
  by (auto simp: act_iffs Let_def split: if_splits option.splits elim!: projects_trans dest!: projects_update)

lemma projects_agent_status: "projectAgentStatus d e db = (r, db') \<Longrightarrow> projects db db'"
  unfolding projectAgentStatus_def Let_def
  by (auto simp: act_iffs projects_def transfers_keyed_def split: if_splits option.splits json.splits)

lemma projects_pool_draw: "projectPoolDraw e db = (r, db') \<Longrightarrow> projects db db'"
  unfolding projectPoolDraw_def Let_def
  by (auto simp: act_iffs statement_run_iff projects_def transfers_keyed_def split: if_splits option.splits)

lemma project_projects: "project d raw e db = (r, db') \<Longrightarrow> projects db db'"
  unfolding project_def
  by (auto split: kind.splits EventKind.splits simp: ret_run_iff
      dest: projects_created projects_settled projects_agent_status projects_pool_draw)

section \<open>Recording\<close>

text \<open>The log only grows, and no recorded event refers to a transfer that does not exist.\<close>

definition links_ok :: "Database \<Rightarrow> bool" where
  "links_ok db \<longleftrightarrow> transfers_keyed db \<and> (\<forall>k e i. find_unique (db_events db) k = Some e \<longrightarrow> ce_transferId e = Some i \<longrightarrow>
     find_unique (db_transfers db) i \<noteq> None)"

definition log_grows :: "Database \<Rightarrow> Database \<Rightarrow> bool" where
  "log_grows db db' \<longleftrightarrow> (\<forall>k e. find_unique (db_events db) k = Some e \<longrightarrow> find_unique (db_events db') k = Some e)
     \<and> (links_ok db \<longrightarrow> links_ok db')"

lemma log_grows_refl [simp]: "log_grows db db"
  by (simp add: log_grows_def)

lemma log_grows_trans: "log_grows a b \<Longrightarrow> log_grows b c \<Longrightarrow> log_grows a c"
  by (auto simp: log_grows_def)

lemma projects_log: "projects db db' \<Longrightarrow> log_grows db db'"
  by (auto simp: projects_def log_grows_def links_ok_def)

lemma record_event_effect:
  assumes "record_event d raw e db = (r, db')"
  shows "log_grows db db' \<and> db_cursors db' = db_cursors db \<and> db_transfers db' = db_transfers db
    \<and> (r = Inr () \<longrightarrow> (\<forall>k. find_unique (db_events db') k \<noteq> None \<longleftrightarrow> k = event_key_of raw \<or> find_unique (db_events db) k \<noteq> None))
    \<and> (r \<noteq> Inr () \<longrightarrow> db' = db)
    \<and> (links_ok db \<longrightarrow> r \<noteq> Inl foreign_key_error)"
proof -
  let ?link = "linkableTransferId (de_transferId e) db"
  have known: "\<not> dangling ?link db" if "transfers_keyed db"
    using that by (auto simp: linkableTransferId_def transfers_keyed_def dangling_def split: option.splits)
  have ne: "PlainErr ''Invalid Date'' \<noteq> foreign_key_error" "PlainErr ''Unique constraint failed'' \<noteq> foreign_key_error"
    by (simp_all add: foreign_key_error_def)
  show ?thesis
  proof (cases "closed_at d raw")
    case (Inl x)
    then have "x = PlainErr ''Invalid Date''" by (auto simp: closed_at_def split: option.splits)
    then show ?thesis using assms Inl ne by (auto simp: record_event_def act_simps)
  next
    case (Inr closed)
    let ?row = "event_row d raw e ?link closed"
    have run: "statement (create_event (event_key_of raw) ?row) db = (r, db')"
      using assms Inr by (simp add: record_event_def act_simps)
    have link: "ce_transferId ?row = ?link" by (simp add: event_row_def)
    show ?thesis
    proof (cases "dangling ?link db")
      case True
      then have "r = Inl foreign_key_error \<and> db' = db" using run by (simp add: statement_run_iff create_event_def link)
      then show ?thesis using True known by (auto simp: links_ok_def)
    next
      case False
      show ?thesis
      proof (cases "create_row (event_key_of raw) ?row (db_events db)")
        case (Inl y)
        then have "y = PlainErr ''Unique constraint failed''" by (simp add: create_row_def split: if_split_asm)
        then have "r = Inl (PlainErr ''Unique constraint failed'') \<and> db' = db"
          using run Inl False by (simp add: statement_run_iff create_event_def link)
        then show ?thesis using ne by simp
      next
        case (Inr t)
        then have e: "r = Inr () \<and> db' = db\<lparr>db_events := t\<rparr>"
          using run False by (simp add: statement_run_iff create_event_def link)
        have new: "find_unique (db_events db) (event_key_of raw) = None" using Inr by (simp add: create_row_Inr_iff)
        show ?thesis
          using e new find_create_row [OF Inr] False link
          by (auto simp: log_grows_def links_ok_def transfers_keyed_def dangling_def split: option.splits)
      qed
    qed
  qed
qed

lemma persist_effect:
  assumes "persist d raw e db = (r, db')"
  shows "log_grows db db' \<and> db_cursors db' = db_cursors db
    \<and> (\<forall>b. r = Inr b \<longrightarrow> find_unique (db_events db') (event_key_of raw) \<noteq> None)
    \<and> (\<forall>k. k \<noteq> event_key_of raw \<longrightarrow> find_unique (db_events db') k = find_unique (db_events db) k)"
proof (cases "find_unique (db_events db) (event_key_of raw)")
  case (Some x)
  then have "r = Inr False" "db' = db" using assms by (simp_all add: persist_def act_simps)
  then show ?thesis using Some by simp
next
  case None
  obtain c db1 where p: "project d raw e db = (c, db1)" by (cases "project d raw e db")
  note pr = project_projects [OF p]
  show ?thesis
  proof (cases c)
    case (Inl x)
    then have "r = Inl x" "db' = db1" using assms None p by (simp_all add: persist_def act_simps andThen_Inl)
    then show ?thesis using pr projects_log [OF pr] by (auto simp: projects_def)
  next
    case (Inr b)
    obtain q db2 where rec: "record_event d raw e db1 = (q, db2)" by (cases "record_event d raw e db1")
    have e: "db' = db2 \<and> (\<forall>x. r = Inr x \<longrightarrow> q = Inr ())"
      using assms None p Inr rec by (cases q) (auto simp: persist_def act_simps andThen_Inr andThen_Inl act_run)
    have others: "find_unique (db_events db2) k = find_unique (db_events db1) k" if "k \<noteq> event_key_of raw" for k
    proof (cases "find_unique (db_events db1) k")
      case None
      then show ?thesis using record_event_effect [OF rec] that by (cases "q = Inr ()") auto
    next
      case (Some y)
      then show ?thesis using record_event_effect [OF rec] by (auto simp: log_grows_def)
    qed
    show ?thesis
      using e record_event_effect [OF rec] pr log_grows_trans [OF projects_log [OF pr]] others by (auto simp: projects_def)
  qed
qed

lemma persist_recorded: "find_unique (db_events db) (event_key_of raw) \<noteq> None \<Longrightarrow> persist d raw e db = (Inr False, db)"
  by (simp add: persist_def act_simps)

section \<open>Replaying\<close>

definition recorded :: "IndexerDeps \<Rightarrow> Database \<Rightarrow> RawContractEvent \<Rightarrow> bool" where
  "recorded d db raw \<longleftrightarrow> (\<forall>e. decodeEvent (ix_codec d) raw = Inr e \<longrightarrow> find_unique (db_events db) (event_key_of raw) \<noteq> None)"

lemma recorded_mono: "recorded d db raw \<Longrightarrow> log_grows db db' \<Longrightarrow> recorded d db' raw"
  by (auto simp: recorded_def log_grows_def)

lemma index_event_effect:
  assumes "index_event d raw c db = (r, db')"
  shows "log_grows db db' \<and> db_cursors db' = db_cursors db \<and> (\<forall>x. r = Inr x \<longrightarrow> recorded d db' raw)
    \<and> (\<forall>k. k \<noteq> event_key_of raw \<longrightarrow> find_unique (db_events db') k = find_unique (db_events db) k)"
proof -
  obtain n s u where c: "c = (n, s, u)" by (cases c)
  show ?thesis
    using assms unfolding index_event_def c
    by (auto simp: act_iffs recorded_def split: sum.splits decode_error.splits dest!: persist_effect)
qed

lemma index_events_effect:
  assumes "for_each (index_event d) raws c db = (r, db')"
  shows "log_grows db db' \<and> db_cursors db' = db_cursors db \<and> (\<forall>x. r = Inr x \<longrightarrow> (\<forall>raw \<in> set raws. recorded d db' raw))
    \<and> (\<forall>k. k \<notin> event_key_of ` set raws \<longrightarrow> find_unique (db_events db') k = find_unique (db_events db) k)"
  using assms
proof (induction raws arbitrary: c db)
  case Nil
  then show ?case by (simp add: ret_run_iff)
next
  case (Cons raw raws)
  obtain q db1 where s: "index_event d raw c db = (q, db1)" by (cases "index_event d raw c db")
  note one = index_event_effect [OF s]
  show ?case
  proof (cases q)
    case (Inl x)
    then show ?thesis using Cons.prems s one by (auto simp: andThen_Inl)
  next
    case (Inr c1)
    have rest: "for_each (index_event d) raws c1 db1 = (r, db')" using Cons.prems s Inr by (simp add: andThen_Inr)
    note two = Cons.IH [OF rest]
    show ?thesis
      using one two Inr recorded_mono [of d db1 raw db'] log_grows_trans [of db db1 db'] by auto
  qed
qed

text \<open>
  C17: replaying is harmless.  Once an event is recorded, persisting it again, whatever it decodes
  to, changes nothing at all and reports no projection; and after any batch has gone through,
  running the same batch again leaves the whole database exactly as it is.
\<close>

theorem replay_changes_nothing:
  assumes "for_each (index_event d) raws counts db = (Inr c, db')"
  shows "(\<forall>raw \<in> set raws. \<forall>e. decodeEvent (ix_codec d) raw = Inr e \<longrightarrow> persist d raw e db' = (Inr False, db'))
    \<and> snd (for_each (index_event d) raws counts' db') = db'"
proof
  have rec: "recorded d db' raw" if "raw \<in> set raws" for raw
    using index_events_effect [OF assms] that by blast
  show "\<forall>raw \<in> set raws. \<forall>e. decodeEvent (ix_codec d) raw = Inr e \<longrightarrow> persist d raw e db' = (Inr False, db')"
    using rec persist_recorded by (auto simp: recorded_def)
  have same: "snd (index_event d raw q db') = db'" if "raw \<in> set raws" for raw q
  proof -
    obtain n s u where q: "q = (n, s, u)" by (cases q)
    show ?thesis
    proof (cases "decodeEvent (ix_codec d) raw")
      case (Inl x)
      then show ?thesis unfolding q by (cases x) (simp_all add: index_event_def act_run)
    next
      case (Inr e)
      then have p: "persist d raw e db' = (Inr False, db')"
        using rec [OF that] persist_recorded by (simp add: recorded_def)
      show ?thesis
        using Inr unfolding q by (simp add: index_event_def act_run andThen_Inr [of "persist d raw e", OF p])
    qed
  qed
  show "snd (for_each (index_event d) raws counts' db') = db'"
    by (rule for_each_invariant [where I = "\<lambda>s. s = db'"]) (use same in auto)
qed

section \<open>Cursors\<close>

text \<open>The batch of a contract from its start to \<open>tip\<close> was fetched, and all of it is recorded.\<close>

definition caught_up :: "IndexerDeps \<Rightarrow> int \<Rightarrow> string \<Rightarrow> int option \<Rightarrow> Database \<Rightarrow> bool" where
  "caught_up d tip c stored db \<longleftrightarrow> cursorFor c db = Some tip \<and>
     (\<exists>raws. fetchEvents d c (start_from d tip stored) tip = Inr raws \<and> (\<forall>raw \<in> set raws. recorded d db raw))"

lemma index_contract_effect:
  assumes "index_contract d tip c acc db = (r, db')"
  shows "log_grows db db' \<and> (\<forall>c'. c' \<noteq> c \<longrightarrow> cursorFor c' db' = cursorFor c' db)
    \<and> (cursorFor c db' = cursorFor c db \<or> caught_up d tip c (cursorFor c db) db')
    \<and> (\<forall>x. r = Inr x \<longrightarrow> start_from d tip (cursorFor c db) \<le> tip \<longrightarrow> caught_up d tip c (cursorFor c db) db')"
proof -
  obtain lo q where acc: "acc = (lo, q)" by (cases acc)
  let ?from = "start_from d tip (cursorFor c db)"
  show ?thesis
  proof (cases "?from > tip")
    case True
    then have "db' = db" using assms unfolding acc by (simp add: index_contract_def act_simps Let_def)
    then show ?thesis using True by simp
  next
    case False
    show ?thesis
    proof (cases "fetchEvents d c ?from tip")
      case (Inl x)
      then have "db' = db \<and> r = Inl x" using assms False unfolding acc by (simp add: index_contract_def act_simps Let_def)
      then show ?thesis by simp
    next
      case (Inr raws)
      obtain z db1 where e: "for_each (index_event d) raws q db = (z, db1)" by (cases "for_each (index_event d) raws q db")
      note eff = index_events_effect [OF e]
      have run: "andThen (for_each (index_event d) raws q) (\<lambda>counts. andThen (saveCursor c tip) (\<lambda>_. ret (min lo ?from, counts))) db = (r, db')"
        using assms False Inr unfolding acc by (simp add: index_contract_def act_simps Let_def)
      show ?thesis
      proof (cases z)
        case (Inl x)
        then have "db' = db1 \<and> r = Inl x" using run e by (simp add: andThen_Inl)
        then show ?thesis using eff by (auto simp: cursorFor_def)
      next
        case (Inr y)
        then have db': "db' = db1\<lparr>db_cursors := upsert_row c tip (\<lambda>_. tip) (db_cursors db1)\<rparr>"
          using run e by (simp add: andThen_Inr saveCursor_def act_simps)
        have cur: "cursorFor c db' = Some tip" "\<forall>c'. c' \<noteq> c \<longrightarrow> cursorFor c' db' = cursorFor c' db"
          using eff by (simp_all add: db' cursorFor_def find_upsert_row split: option.split)
        have g1: "log_grows db1 db'" by (simp add: db' log_grows_def links_ok_def transfers_keyed_def)
        have g: "log_grows db db'" using eff g1 log_grows_trans by blast
        have "\<forall>raw \<in> set raws. recorded d db1 raw" using eff Inr by blast
        then have "\<forall>raw \<in> set raws. recorded d db' raw" using g1 recorded_mono by blast
        then have "caught_up d tip c (cursorFor c db) db'"
          using \<open>fetchEvents d c ?from tip = Inr raws\<close> cur(1) by (simp add: caught_up_def)
        then show ?thesis using g cur(2) by blast
      qed
    qed
  qed
qed

lemma caught_up_mono: "caught_up d tip c s db \<Longrightarrow> log_grows db db' \<Longrightarrow> cursorFor c db' = cursorFor c db \<Longrightarrow> caught_up d tip c s db'"
  by (auto simp: caught_up_def intro: recorded_mono)

text \<open>What indexing did to a contract's cursor; \<open>finished\<close> says that no contract's indexing failed.\<close>

definition advanced :: "IndexerDeps \<Rightarrow> int \<Rightarrow> string \<Rightarrow> bool \<Rightarrow> Database \<Rightarrow> Database \<Rightarrow> bool" where
  "advanced d tip c finished db db' \<longleftrightarrow>
     (cursorFor c db' = cursorFor c db \<or> caught_up d tip c (cursorFor c db) db')
     \<and> (finished \<longrightarrow> start_from d tip (cursorFor c db) \<le> tip \<longrightarrow> caught_up d tip c (cursorFor c db) db')"

lemma advanced_grows:
  "advanced d tip c finished db db1 \<Longrightarrow> log_grows db1 db' \<Longrightarrow> cursorFor c db' = cursorFor c db1
     \<Longrightarrow> finished' \<longrightarrow> finished \<Longrightarrow> advanced d tip c finished' db db'"
  using caught_up_mono [of d tip c "cursorFor c db" db1 db'] by (auto simp: advanced_def)

lemma advanced_from:
  "advanced d tip c finished db1 db' \<Longrightarrow> cursorFor c db1 = cursorFor c db \<Longrightarrow> advanced d tip c finished db db'"
  by (simp add: advanced_def)

lemma index_contracts_advanced:
  assumes "for_each (index_contract d tip) cs acc db = (r, db')" "distinct cs"
  shows "log_grows db db' \<and> (\<forall>c. c \<notin> set cs \<longrightarrow> cursorFor c db' = cursorFor c db)
    \<and> (\<forall>c \<in> set cs. advanced d tip c (\<exists>x. r = Inr x) db db')"
  using assms
proof (induction cs arbitrary: acc db)
  case Nil
  then show ?case by (simp add: ret_run_iff)
next
  case (Cons c cs)
  obtain q db1 where s: "index_contract d tip c acc db = (q, db1)" by (cases "index_contract d tip c acc db")
  have g1: "log_grows db db1" and o1: "\<And>c'. c' \<noteq> c \<Longrightarrow> cursorFor c' db1 = cursorFor c' db"
    and one: "advanced d tip c (\<exists>x. q = Inr x) db db1"
    using index_contract_effect [OF s] unfolding advanced_def by blast+
  show ?case
  proof (cases q)
    case (Inl x)
    then have "db' = db1" "r = Inl x" using Cons.prems s by (auto simp: andThen_Inl)
    moreover have "advanced d tip c' False db db1" if "c' \<in> set cs" for c'
      using o1 [of c'] that Cons.prems(2) by (auto simp: advanced_def)
    ultimately show ?thesis using g1 o1 one Inl by auto
  next
    case (Inr acc1)
    have rest: "for_each (index_contract d tip) cs acc1 db1 = (r, db')" using Cons.prems s Inr by (simp add: andThen_Inr)
    have dc: "distinct cs" "c \<notin> set cs" using Cons.prems(2) by simp_all
    have g2: "log_grows db1 db'" and o2: "\<And>c'. c' \<notin> set cs \<Longrightarrow> cursorFor c' db' = cursorFor c' db1"
      and two: "\<And>c'. c' \<in> set cs \<Longrightarrow> advanced d tip c' (\<exists>x. r = Inr x) db1 db'"
      using Cons.IH [OF rest dc(1)] by blast+
    have "advanced d tip c (\<exists>x. r = Inr x) db db'"
      using advanced_grows [OF one g2 o2 [OF dc(2)]] Inr by blast
    moreover have "advanced d tip c' (\<exists>x. r = Inr x) db db'" if "c' \<in> set cs" for c'
      by (rule advanced_from [OF two [OF that] o1]) (use that dc(2) in auto)
    ultimately show ?thesis using log_grows_trans [OF g1 g2] o1 o2 by auto
  qed
qed

lemma index_contracts_effect:
  assumes "for_each (index_contract d tip) cs acc db = (r, db')" "distinct cs"
  shows "log_grows db db' \<and> (\<forall>c. c \<notin> set cs \<longrightarrow> cursorFor c db' = cursorFor c db)
    \<and> (\<forall>c \<in> set cs. cursorFor c db' = cursorFor c db \<or> caught_up d tip c (cursorFor c db) db')
    \<and> (\<forall>x. r = Inr x \<longrightarrow> (\<forall>c \<in> set cs. start_from d tip (cursorFor c db) \<le> tip \<longrightarrow> caught_up d tip c (cursorFor c db) db'))"
  using index_contracts_advanced [OF assms] unfolding advanced_def by blast

lemma tick_effect:
  assumes "tick d db = (r, db')" "latestLedger d = Inr tip"
  obtains q where "for_each (index_contract d tip) (CONTRACT_IDS (ix_env d)) (tip, (0, 0, 0)) db = (q, db')"
    "(\<exists>x. r = Inr x) \<longleftrightarrow> (\<exists>x. q = Inr x)"
proof -
  obtain q db1 where q: "for_each (index_contract d tip) (CONTRACT_IDS (ix_env d)) (tip, (0, 0, 0)) db = (q, db1)"
    by (cases "for_each (index_contract d tip) (CONTRACT_IDS (ix_env d)) (tip, (0, 0, 0)) db")
  have "db' = db1 \<and> ((\<exists>x. r = Inr x) \<longleftrightarrow> (\<exists>x. q = Inr x))"
  proof (cases q)
    case (Inl x)
    then have "tick d db = (Inl x, db1)" using q by (simp add: tick_def assms(2) act_simps andThen_def)
    then show ?thesis using assms(1) Inl by simp
  next
    case (Inr y)
    obtain lo a b c where y: "y = (lo, a, b, c)" by (cases y)
    have "\<exists>z. tick d db = (Inr z, db1)" using q Inr y by (simp add: tick_def assms(2) act_simps andThen_def)
    then show ?thesis using assms(1) Inr by auto
  qed
  note e = conjunct1 [OF this] conjunct2 [OF this]
  show thesis by (rule that [of q]) (use q e(1) in simp, rule e(2))
qed

text \<open>
  C4: a cursor never runs ahead of the log.  However a tick ends, no recorded event is lost, and
  the cursor of every contract either stayed where it was or stands at the tip with the whole
  fetched batch recorded, every event that decodes; when the tick returns, every contract that
  had ledgers to read is at the tip.
\<close>

theorem cursor_never_runs_ahead:
  assumes "tick d db = (r, db')" "latestLedger d = Inr tip" "distinct (CONTRACT_IDS (ix_env d))"
  shows "(\<forall>k e. find_unique (db_events db) k = Some e \<longrightarrow> find_unique (db_events db') k = Some e)
    \<and> (\<forall>c \<in> set (CONTRACT_IDS (ix_env d)). cursorFor c db' = cursorFor c db \<or> caught_up d tip c (cursorFor c db) db')
    \<and> ((\<exists>x. r = Inr x) \<longrightarrow> (\<forall>c \<in> set (CONTRACT_IDS (ix_env d)).
         start_from d tip (cursorFor c db) \<le> tip \<longrightarrow> caught_up d tip c (cursorFor c db) db'))"
proof -
  obtain q where q: "for_each (index_contract d tip) (CONTRACT_IDS (ix_env d)) (tip, (0, 0, 0)) db = (q, db')"
    "(\<exists>x. r = Inr x) \<longleftrightarrow> (\<exists>x. q = Inr x)"
    by (rule tick_effect [OF assms(1,2)])
  note eff = index_contracts_effect [OF q(1) assms(3)]
  have "\<forall>k e. find_unique (db_events db) k = Some e \<longrightarrow> find_unique (db_events db') k = Some e"
    using conjunct1 [OF eff] unfolding log_grows_def by (rule conjunct1)
  moreover have "\<forall>c \<in> set (CONTRACT_IDS (ix_env d)). cursorFor c db' = cursorFor c db \<or> caught_up d tip c (cursorFor c db) db'"
    using eff by blast
  moreover have "\<forall>x. q = Inr x \<longrightarrow> (\<forall>c \<in> set (CONTRACT_IDS (ix_env d)).
         start_from d tip (cursorFor c db) \<le> tip \<longrightarrow> caught_up d tip c (cursorFor c db) db')"
    using eff by blast
  ultimately show ?thesis using q(2) by blast
qed

definition sample_indexer :: IndexerDeps where
  "sample_indexer = \<lparr>ix_env = sample_env\<lparr>env_CONTRACT_ESCROW := ''CE'', env_CONTRACT_AGENT_REGISTRY := ''CR'',
       env_CONTRACT_COMPLIANCE_HOOK := ''CC'', env_CONTRACT_LIQUIDITY_POOL := ''CL'', env_INDEXER_START_LEDGER := FromLedger 10\<rparr>,
     ix_codec = sample_codec, ix_legacyDate = (\<lambda>_. None), ix_getLatestLedger = Inr 50,
     ix_getEvents = (\<lambda>c f t n. Inr []), ix_now = 0\<rparr>"

lemma sample_indexer_ids: "CONTRACT_IDS (ix_env sample_indexer) = [''CE'', ''CR'', ''CC'', ''CL'']"
  by (simp add: CONTRACT_IDS_def sample_indexer_def)

lemma sample_indexer_tick: "\<exists>x. fst (tick sample_indexer empty_database) = Inr x"
proof -
  have f: "fetchEvents sample_indexer c 10 50 = Inr []" for c by (simp add: fetchEvents_def sample_indexer_def)
  have one: "index_contract sample_indexer 50 c (lo, n) db = (Inr (min lo 10, n), snd (saveCursor c 50 db))"
    if "cursorFor c db = None" for c lo n db
  proof -
    have "start_from sample_indexer 50 None = 10" by (simp add: start_from_def sample_indexer_def)
    then show ?thesis using that f by (simp add: index_contract_def act_simps Let_def saveCursor_def)
  qed
  have cur: "cursorFor c (snd (saveCursor c' t db)) = (if c = c' then Some t else cursorFor c db)" for c c' t db
    by (simp add: cursorFor_def saveCursor_def act_simps find_upsert_row split: option.split)
  have none: "cursorFor c empty_database = None" for c by (simp add: cursorFor_def empty_database_def find_unique_def)
  have tip: "latestLedger sample_indexer = Inr 50" by (simp add: latestLedger_def sample_indexer_def)
  show ?thesis
    unfolding tick_def sample_indexer_ids tip by (simp add: act_simps andThen_def one cur none)
qed

theorem cursor_never_runs_ahead_witness:
  "cursorFor ''CL'' (snd (tick sample_indexer empty_database)) = Some 50"
proof -
  obtain r db' where run: "tick sample_indexer empty_database = (r, db')" by (cases "tick sample_indexer empty_database")
  have tip: "latestLedger sample_indexer = Inr 50" by (simp add: latestLedger_def sample_indexer_def)
  have d: "distinct (CONTRACT_IDS (ix_env sample_indexer))" by (simp add: sample_indexer_ids)
  have s: "start_from sample_indexer 50 (cursorFor ''CL'' empty_database) \<le> 50"
    by (simp add: start_from_def sample_indexer_def cursorFor_def empty_database_def find_unique_def)
  show ?thesis
    using cursor_never_runs_ahead [OF run tip d] sample_indexer_tick s unfolding run
    by (auto simp: caught_up_def sample_indexer_ids)
qed

text \<open>
  the log never dangles.  Starting from a database whose recorded events refer to existing
  transfers, which are stored under their own identifiers, the same holds after any number of
  turns of the polling loop, whatever the node answers and wherever a tick stops.
\<close>

theorem log_never_dangles:
  "links_ok db \<longrightarrow> links_ok (run ds db)"
proof (induction ds arbitrary: db)
  case Nil
  then show ?case by simp
next
  case (Cons d ds)
  have "log_grows db (snd (tick d db))"
  proof (cases "latestLedger d")
    case (Inl x)
    then show ?thesis by (simp add: tick_def act_simps)
  next
    case (Inr tip)
    obtain r db' where run: "tick d db = (r, db')" by (cases "tick d db")
    obtain q where q: "for_each (index_contract d tip) (CONTRACT_IDS (ix_env d)) (tip, (0, 0, 0)) db = (q, db')"
      by (rule tick_effect [OF run Inr])
    have step: "log_grows db (snd (index_contract d tip c acc s))" if "log_grows db s" for c acc s
      using that index_contract_effect [of d tip c acc s "fst (index_contract d tip c acc s)" "snd (index_contract d tip c acc s)"]
        log_grows_trans by auto
    have "log_grows db (snd (for_each (index_contract d tip) (CONTRACT_IDS (ix_env d)) (tip, (0, 0, 0)) db))"
      by (rule for_each_invariant [where I = "log_grows db"]) (use step in auto)
    then show ?thesis by (simp add: q run)
  qed
  then show ?case using Cons.IH [of "snd (tick d db)"] by (simp add: log_grows_def)
qed

theorem log_never_dangles_witness: "links_ok (run [sample_indexer, sample_indexer] empty_database)"
proof -
  have "links_ok empty_database" by (simp add: links_ok_def transfers_keyed_def empty_database_def find_unique_def)
  then show ?thesis using log_never_dangles by blast
qed

section \<open>Where the indexer falls short\<close>

lemma fetchEvents_index:
  assumes "\<forall>c f t n es. ix_getEvents d c f t n = Inr es \<longrightarrow> length es \<le> n"
    and "fetchEvents d c f t = Inr raws" "raw \<in> set raws"
  shows "fst (event_key_of raw) = c \<and> snd (snd (event_key_of raw)) < FETCH_LIMIT"
proof -
  obtain es where es: "ix_getEvents d c f t FETCH_LIMIT = Inr es" "raws = map (\<lambda>(i, e). raw_event c i e) (enumerate 0 es)"
    using assms(2) by (auto simp: fetchEvents_def result_simps)
  then have "length es \<le> FETCH_LIMIT" using assms(1) by blast
  then show ?thesis using assms(3) es(2) by (auto simp: event_key_of_def raw_event_def in_set_enumerate_eq)
qed

lemma index_contract_keys:
  assumes "\<forall>c f t n es. ix_getEvents d c f t n = Inr es \<longrightarrow> length es \<le> n" "200 \<le> i"
  shows "find_unique (db_events (snd (index_contract d tip c acc db))) (c', l, i) = find_unique (db_events db) (c', l, i)"
proof -
  obtain lo q where acc: "acc = (lo, q)" by (cases acc)
  let ?from = "start_from d tip (cursorFor c db)"
  show ?thesis
  proof (cases "?from > tip")
    case True
    then show ?thesis unfolding acc by (simp add: index_contract_def act_simps Let_def)
  next
    case False
    show ?thesis
    proof (cases "fetchEvents d c ?from tip")
      case (Inl x)
      then show ?thesis using False unfolding acc by (simp add: index_contract_def act_simps Let_def)
    next
      case (Inr raws)
      obtain z db1 where e: "for_each (index_event d) raws q db = (z, db1)" by (cases "for_each (index_event d) raws q db")
      have "event_key_of raw \<noteq> (c', l, i)" if "raw \<in> set raws" for raw
        using fetchEvents_index [OF assms(1) Inr that] assms(2) by (auto simp: FETCH_LIMIT_def)
      then have "(c', l, i) \<notin> event_key_of ` set raws" by fastforce
      then have "find_unique (db_events db1) (c', l, i) = find_unique (db_events db) (c', l, i)"
        using index_events_effect [OF e] by blast
      then show ?thesis
        using False Inr e unfolding acc
        by (cases z) (simp_all add: index_contract_def act_simps Let_def andThen_Inr andThen_Inl saveCursor_def)
    qed
  qed
qed

text \<open>
  C37: events past the fetch limit are lost.  If the node honours the limit of a request, a tick
  that returns never records an event at a position beyond it, and yet it leaves the cursor at
  the tip, so the next request of the contract starts after it and the rest of the range is
  never asked for again.
\<close>

theorem events_past_the_limit_are_lost:
  assumes "tick d db = (Inr x, db')" "latestLedger d = Inr tip" "distinct (CONTRACT_IDS (ix_env d))"
    and "c \<in> set (CONTRACT_IDS (ix_env d))" "start_from d tip (cursorFor c db) \<le> tip"
    and "\<forall>c f t n es. ix_getEvents d c f t n = Inr es \<longrightarrow> length es \<le> n"
  shows "(\<forall>l i. 200 \<le> i \<longrightarrow> find_unique (db_events db') (c, l, i) = find_unique (db_events db) (c, l, i))
    \<and> (\<forall>d' tip'. start_from d' tip' (cursorFor c db') = tip + 1)"
proof -
  obtain q where q: "for_each (index_contract d tip) (CONTRACT_IDS (ix_env d)) (tip, (0, 0, 0)) db = (q, db')"
    "(\<exists>y. Inr x = (Inr y :: failure + IndexerTickResult)) \<longleftrightarrow> (\<exists>x. q = Inr x)"
    by (rule tick_effect [OF assms(1,2)])
  have "\<forall>l i. 200 \<le> i \<longrightarrow> find_unique (db_events (snd (for_each (index_contract d tip) (CONTRACT_IDS (ix_env d)) (tip, (0, 0, 0)) db))) (c, l, i)
      = find_unique (db_events db) (c, l, i)"
    by (rule for_each_invariant [where I = "\<lambda>s. \<forall>l i. 200 \<le> i \<longrightarrow> find_unique (db_events s) (c, l, i) = find_unique (db_events db) (c, l, i)"])
      (simp_all add: index_contract_keys [OF assms(6)])
  moreover have "caught_up d tip c (cursorFor c db) db'"
    using index_contracts_effect [OF q(1) assms(3)] q(2) assms(4,5) by blast
  ultimately show ?thesis by (simp add: q(1) caught_up_def start_from_def)
qed

theorem events_past_the_limit_are_lost_witness:
  "start_from sample_indexer 60 (cursorFor ''CE'' (snd (tick sample_indexer empty_database))) = 51"
proof -
  obtain x db' where run: "tick sample_indexer empty_database = (Inr x, db')"
    using sample_indexer_tick by (metis prod.collapse)
  have tip: "latestLedger sample_indexer = Inr 50" by (simp add: latestLedger_def sample_indexer_def)
  have d: "distinct (CONTRACT_IDS (ix_env sample_indexer))" "''CE'' \<in> set (CONTRACT_IDS (ix_env sample_indexer))"
    by (simp_all add: sample_indexer_ids)
  have s: "start_from sample_indexer 50 (cursorFor ''CE'' empty_database) \<le> 50"
    by (simp add: start_from_def sample_indexer_def cursorFor_def empty_database_def find_unique_def)
  have n: "\<forall>c f t n es. ix_getEvents sample_indexer c f t n = Inr es \<longrightarrow> length es \<le> n" by (simp add: sample_indexer_def)
  show ?thesis using events_past_the_limit_are_lost [OF run tip d s n] unfolding run by simp
qed

text \<open>
  a status change is never projected.  The registry's statuses are fieldless enum variants,
  which decode to one-element arrays; for the event of a change between any two of them the
  projection reports no change and leaves the database as it is.
\<close>

theorem agent_status_never_projected:
  assumes "decodeEvent codec raw = Inr e" "de_kind e = Kind EK_agent_status_changed"
    and "decodeXdr codec (rw_valueXdr raw) = Inr (NArray [NArray [NString old], NArray [NString new]])"
  shows "project d raw e db = (Inr False, db)"
proof -
  have "map_of (de_payload e) ''value'' = Some (JArr [JArr [JStr old], JArr [JStr new]])"
  proof -
    obtain v where v: "decodeXdr codec (rw_valueXdr raw) = Inr v"
        "decode_payload codec (de_kind e) v = Inr (de_payload e, de_transferId e)"
      by (rule decodeEvent_Inr [OF assms(1)])
    have "decode_payload codec (Kind EK_agent_status_changed) v = Inr ([(''value'', normalise v)], None)"
      by (simp add: decode_payload_def)
    then have "de_payload e = [(''value'', normalise v)]" using v(2) assms(2) by simp
    then show ?thesis using v(1) assms(3) by auto
  qed
  then show ?thesis using assms(2) by (simp add: project_def projectAgentStatus_def Let_def act_run)
qed

theorem agent_status_never_projected_witness:
  "\<exists>e. decodeEvent (sample_codec\<lparr>cd_fromXDR := (\<lambda>s. Inr (if s = ''v'' then NArray [NArray [NString ''Authorized''], NArray [NString ''Suspended'']]
       else NString s))\<rparr>) (sample_event [''agent_st'', ''GAGENT'']) = Inr e
     \<and> project sample_indexer (sample_event [''agent_st'', ''GAGENT'']) e tight_db = (Inr False, tight_db)"
proof -
  let ?c = "sample_codec\<lparr>cd_fromXDR := (\<lambda>s. Inr (if s = ''v'' then NArray [NArray [NString ''Authorized''], NArray [NString ''Suspended'']]
       else NString s))\<rparr>"
  let ?r = "sample_event [''agent_st'', ''GAGENT'']"
  have k: "kind_of ''agent_st'' = Some (Kind EK_agent_status_changed)" by code_simp
  have v: "decodeXdr ?c (rw_valueXdr ?r) = Inr (NArray [NArray [NString ''Authorized''], NArray [NString ''Suspended'']])"
    by (simp add: decodeXdr_def sample_event_def)
  have "\<exists>e. decodeEvent ?c ?r = Inr e \<and> de_kind e = Kind EK_agent_status_changed"
    by (simp add: decodeEvent_def sample_event_def decodeXdr_def k decode_payload_def)
  then show ?thesis using agent_status_never_projected [OF _ _ v] by blast
qed

text \<open>
  replaying a creation reopens a settled transfer.  The creation projection of a known
  transfer, whatever its status, sets it back to \<open>PENDING\<close> and keeps everything else; only the
  key of the event in the log, which contains its position in one response, guards against it.
\<close>

theorem replayed_creation_reopens:
  assumes "projectTransferCreated d raw e db = (Inr True, db')" "payload_int ''id'' (de_payload e) = Inr i"
    and "find_unique (db_transfers db) i = Some t"
  shows "find_unique (db_transfers db') i = Some (t\<lparr>tr_status := TR_PENDING, tr_createTxHash := Some (rw_txHash raw)\<rparr>)
    \<and> (\<forall>j. j \<noteq> i \<longrightarrow> find_unique (db_transfers db') j = find_unique (db_transfers db) j)"
  using assms unfolding projectTransferCreated_def
  by (auto simp: act_iffs result_simps find_upsert_row split: option.splits)

lemma sample_closed: "\<exists>t. closed_at (d\<lparr>ix_legacyDate := (\<lambda>_. Some 1)\<rparr>) (sample_event topics) = Inr t"
proof -
  have "date_parse (\<lambda>_. Some 1) ''2026-01-01T00:00:00.000Z'' \<noteq> None" by code_simp
  then show ?thesis by (auto simp: closed_at_def sample_event_def)
qed

definition settled_transfer :: Transfer where
  "settled_transfer = \<lparr>tr_id = 7, tr_senderId = ''u1'', tr_agentId = None, tr_corridorId = ''NGN_LAG'', tr_amount = 100,
     tr_fee = 2, tr_payout = 98, tr_tokenAddress = ''CT'', tr_claimHash = ''ab'', tr_expiry = 0, tr_status = TR_CLAIMED,
     tr_createdAt = 0, tr_settledAt = Some 5, tr_claimedBy = None, tr_createTxHash = None, tr_settleTxHash = Some ''tx9''\<rparr>"

definition creation_event :: DecodedEvent where
  "creation_event = \<lparr>de_kind = Kind EK_transfer_created, de_topic = ''tr_create'', de_subjects = [''GUSER'', ''NGN_LAG''],
     de_payload = [(''id'', JStr ''7''), (''amount'', JStr ''100''), (''token'', JStr ''CT''), (''claimHash'', JStr ''ab''),
       (''expiry'', JStr ''5'')], de_transferId = Some 7\<rparr>"

definition settled_database :: Database where
  "settled_database = (w_db sample_world)\<lparr>db_transfers := [(7, settled_transfer)]\<rparr>"

theorem replayed_creation_reopens_witness:
  "map_option tr_status (find_unique (db_transfers (snd (projectTransferCreated
      (sample_indexer\<lparr>ix_legacyDate := (\<lambda>_. Some 1)\<rparr>) (sample_event [])
      creation_event settled_database))) 7) = Some TR_PENDING"
proof -
  let ?d = "sample_indexer\<lparr>ix_legacyDate := (\<lambda>_. Some 1)\<rparr>"
  have ints: "is_int_text ''7''" "int_text_val ''7'' = 7" "is_int_text ''100''" "is_int_text ''5''" "int_text_val ''5'' = 5"
    by code_simp+
  have i: "payload_int ''id'' (de_payload creation_event) = Inr 7"
    by (simp add: payload_int_def creation_event_def ints)
  obtain t where t: "closed_at ?d (sample_event []) = Inr t" using sample_closed by blast
  have run: "\<exists>db'. projectTransferCreated ?d (sample_event []) creation_event settled_database = (Inr True, db')"
    by (simp add: projectTransferCreated_def i act_simps t)
      (simp add: t creation_event_def payload_int_def ints valid_date_def subject_def settled_database_def sample_world_def sample_db_def
        empty_database_def find_first_def find_unique_def act_simps)
  then obtain db' where r: "projectTransferCreated ?d (sample_event []) creation_event settled_database = (Inr True, db')" by blast
  have f: "find_unique (db_transfers settled_database) 7 = Some settled_transfer"
    by (simp add: settled_database_def find_unique_def)
  show ?thesis using replayed_creation_reopens [OF r i f] unfolding r by simp
qed

theorem replay_changes_nothing_witness:
  "\<exists>db'. for_each (index_event (sample_indexer\<lparr>ix_legacyDate := (\<lambda>_. Some 1)\<rparr>)) [sample_event [''region'']] (0, 0, 0) empty_database = (Inr (1, 0, 0), db')
     \<and> length (db_events db') = 1
     \<and> snd (for_each (index_event (sample_indexer\<lparr>ix_legacyDate := (\<lambda>_. Some 1)\<rparr>)) [sample_event [''region'']] (0, 0, 0) db') = db'"
proof -
  let ?d = "sample_indexer\<lparr>ix_legacyDate := (\<lambda>_. Some 1)\<rparr>" and ?r = "sample_event [''region'']"
  obtain t where t: "closed_at ?d ?r = Inr t" using sample_closed by blast
  have k: "kind_of ''region'' = Some (Kind EK_region_configured)" by code_simp
  obtain e where e: "decodeEvent (ix_codec ?d) ?r = Inr e" "de_kind e = Kind EK_region_configured" "de_transferId e = None"
    by (simp add: decodeEvent_def sample_event_def sample_indexer_def sample_codec_def decodeXdr_def k decode_payload_def)
  have p: "project ?d ?r e empty_database = (Inr False, empty_database)" by (simp add: project_def e act_run)
  have "\<exists>db2. record_event ?d ?r e empty_database = (Inr (), db2) \<and> length (db_events db2) = 1"
    by (simp add: record_event_def act_simps e linkableTransferId_def t statement_def create_event_def dangling_def event_row_def
        create_row_def find_unique_def empty_database_def result_simps)
  then obtain db2 where db2: "record_event ?d ?r e empty_database = (Inr (), db2)" "length (db_events db2) = 1" by blast
  have q: "persist ?d ?r e empty_database = (Inr False, db2)"
    by (simp add: persist_def andThen_Inr [of "project ?d ?r e", OF p] andThen_Inr [of "record_event ?d ?r e", OF db2(1)] act_run)
      (simp add: act_simps empty_database_def find_unique_def andThen_Inr [of "project ?d ?r e", OF p [unfolded empty_database_def]]
        andThen_Inr [of "record_event ?d ?r e", OF db2(1) [unfolded empty_database_def]])
  have "index_event ?d ?r (0, 0, 0) empty_database = (Inr (1, 0, 0), db2)"
    using e(1) by (simp add: index_event_def andThen_Inr [of "persist ?d ?r e", OF q] act_run)
  then have run: "\<exists>db'. for_each (index_event ?d) [?r] (0, 0, 0) empty_database = (Inr (1, 0, 0), db') \<and> length (db_events db') = 1"
    using db2(2) by (simp add: andThen_Inr [of "index_event ?d ?r (0, 0, 0)"] act_run)
  then obtain db' where db': "for_each (index_event ?d) [?r] (0, 0, 0) empty_database = (Inr (1, 0, 0), db')" "length (db_events db') = 1"
    by blast
  then show ?thesis using replay_changes_nothing [OF db'(1), of "(0, 0, 0)"] by blast
qed

end
