(* ===== verification/LiquidityApi.thy ===== *)
theory LiquidityApi
  imports TopUps
begin

text \<open>
  \<open>backend/src/agent-liquidity/router.ts\<close>: the endpoints over positions, alerts and top-up
  requests.  Where a handler spreads a whole database row into its response, the rendering of
  the row's columns is an argument (\<open>agentColumns\<close>, \<open>regionColumns\<close>, \<open>topUpColumns\<close>,
  \<open>alertColumns\<close>); the keys a handler sets itself come after them and override them.
\<close>

section \<open>Schemas\<close>

record ProposeBody =
  pb_agentId :: string
  pb_regionId :: string
  pb_amount :: string
  pb_reason :: string
  pb_requestedBy :: string

definition proposeSchema :: "json \<Rightarrow> ProposeBody option" where
  "proposeSchema v =
     (case (required uuid_string ''agentId'' v, required (string_len 2 12) ''regionId'' v,
            required amount_string ''amount'' v, required (string_len 4 500) ''reason'' v,
            required (string_min 1) ''requestedBy'' v) of
        (Some a, Some g, Some n, Some r, Some b) \<Rightarrow>
          Some \<lparr>pb_agentId = a, pb_regionId = g, pb_amount = n, pb_reason = r, pb_requestedBy = b\<rparr>
      | _ \<Rightarrow> None)"

definition decisionSchema :: "json \<Rightarrow> (bool \<times> string \<times> string option) option" where
  "decisionSchema v =
     (case (required jbool ''approved'' v, required (string_min 1) ''approvedBy'' v, optional (string_len 0 500) ''note'' v) of
        (Some a, Some b, Some n) \<Rightarrow> Some (a, b, n)
      | _ \<Rightarrow> None)"

section \<open>Rows\<close>

text \<open>The columns of a request and of an alert as a response carries them, \<open>decimal\<close> being the text of a decimal column.\<close>

definition topUp_entries :: "(int \<Rightarrow> string) \<Rightarrow> TopUpRequest \<Rightarrow> (string \<times> json) list" where
  "topUp_entries decimal r = [
     (''id'', JStr (tu_id r)), (''agentId'', JStr (tu_agentId r)), (''regionId'', JStr (tu_regionId r)),
     (''amountRequested'', JStr (decimal (tu_amountRequested r))), (''reason'', JStr (tu_reason r)),
     (''status'', JStr (topUpStatusName (tu_status r))), (''requestedBy'', JStr (tu_requestedBy r)),
     (''approvedBy'', opt_json JStr (tu_approvedBy r)), (''decisionNote'', opt_json JStr (tu_decisionNote r)),
     (''txHash'', opt_json JStr (tu_txHash r)), (''failureReason'', opt_json JStr (tu_failureReason r)),
     (''createdAt'', JStr (toISOString (tu_createdAt r))), (''decidedAt'', opt_json (\<lambda>t. JStr (toISOString t)) (tu_decidedAt r)),
     (''executedAt'', opt_json (\<lambda>t. JStr (toISOString t)) (tu_executedAt r))]"

definition alert_entries :: "AgentFloatAlert \<Rightarrow> (string \<times> json) list" where
  "alert_entries a = [
     (''id'', JStr (al_id a)), (''agentId'', JStr (al_agentId a)), (''regionId'', JStr (al_regionId a)),
     (''kind'', JStr (al_kind a)), (''thresholdBps'', JNum (al_thresholdBps a)), (''observedBps'', JNum (al_observedBps a)),
     (''status'', JStr (alertStatusName (al_status a))), (''createdAt'', JStr (toISOString (al_createdAt a))),
     (''resolvedAt'', opt_json (\<lambda>t. JStr (toISOString t)) (al_resolvedAt a))]"

text \<open>The included agent, as the tracking endpoints select it.\<close>

definition agent_summary :: "Agent \<Rightarrow> (string \<times> json) list" where
  "agent_summary a = [(''id'', JStr (ag_id a)), (''tradingName'', opt_json JStr (ag_tradingName a)), (''legalName'', JStr (ag_legalName a))]"

section \<open>Handlers\<close>

definition spread :: "(string \<times> json) list \<Rightarrow> (string \<times> json) list \<Rightarrow> json" where
  "spread base own = JObj (foldl (\<lambda>es (k, v). obj_set k v es) base own)"

definition exposures_of :: "string \<Rightarrow> Database \<Rightarrow> AgentExposure list" where
  "exposures_of agentId db = find_many (\<lambda>e. ex_agentId e = agentId) (db_exposures db)"

definition get_agent :: "(Database \<Rightarrow> Agent \<Rightarrow> (string \<times> json) list) \<Rightarrow> string \<Rightarrow> (Database, Response) act" where
  "get_agent agentColumns ident =
     andThen (get_state (\<lambda>db. db)) (\<lambda>db.
     andThen (found (find_unique (db_agents db) ident) (AppErr (notFound ''agent'' ident))) (\<lambda>agent.
     let bond = ag_bondAmount agent;
         drawn = sum_list (map ex_drawnAmount (exposures_of ident db)) in
     ret (res_json (spread (agentColumns db agent) [
       (''bondAmount'', JStr (show_int bond)),
       (''totalDrawn'', JStr (show_int drawn)),
       (''collateralRatioBps'', JNum 15000),
       (''requiredBond'', JStr (show_int (tdiv (drawn * 15000) 10000)))]))))"

definition agentsQuery :: "(string \<Rightarrow> jsnum) \<Rightarrow> json \<Rightarrow> (string option \<times> string option \<times> int) option" where
  "agentsQuery numberOf q =
     (case (optional jstring ''regionId'' q,
            optional (string_enum [''PENDING'', ''AUTHORIZED'', ''SUSPENDED'', ''REVOKED'']) ''status'' q,
            query_int numberOf 1 200 50 ''limit'' q) of
        (Some r, Some s, Some l) \<Rightarrow> Some (r, s, l)
      | _ \<Rightarrow> None)"

definition matches_opt :: "string option \<Rightarrow> string \<Rightarrow> bool" where
  "matches_opt m s = (case nonempty m of None \<Rightarrow> True | Some t \<Rightarrow> s = t)"

definition get_agents ::
  "(json \<Rightarrow> json) \<Rightarrow> (string \<Rightarrow> jsnum) \<Rightarrow> (Database \<Rightarrow> Agent \<Rightarrow> (string \<times> json) list) \<Rightarrow> json \<Rightarrow> (Database, Response) act" where
  "get_agents issues numberOf agentColumns query =
     andThen (found (agentsQuery numberOf query) (AppErr (validationFailed [(''issues'', issues query)]))) (\<lambda>(region, status, limit).
     andThen (get_state (\<lambda>db. db)) (\<lambda>db.
     ret (res_json (JObj [(''agents'', JArr (map (\<lambda>a. JObj (agentColumns db a))
       (take (nat limit) (newest_first ag_registeredAt (find_many
         (\<lambda>a. matches_opt region (ag_regionId a) \<and> matches_opt status (agentStatusName (ag_status a))) (db_agents db))))))]))))"

definition sweepSchema :: "json \<Rightarrow> string option" where
  "sweepSchema v = required (string_len 2 12) ''regionId'' v"

definition post_sweep :: "(json \<Rightarrow> json) \<Rightarrow> Env \<Rightarrow> (nat \<Rightarrow> string) \<Rightarrow> int \<Rightarrow> json \<Rightarrow> (Database, Response) act" where
  "post_sweep issues env fresh now body =
     andThen (found (sweepSchema body) (AppErr (validationFailed [(''issues'', issues body)]))) (\<lambda>regionId.
     andThen (sweepRegion env fresh now regionId) (\<lambda>(evaluated, opened).
     ret (res_json (JObj [(''evaluated'', JNum (int evaluated)), (''opened'', JNum (int opened))]))))"

definition alertsQuery :: "(string \<Rightarrow> jsnum) \<Rightarrow> json \<Rightarrow> (string \<times> int) option" where
  "alertsQuery numberOf q =
     (case (optional (string_enum [''OPEN'', ''ACKNOWLEDGED'', ''RESOLVED'']) ''status'' q, query_int numberOf 1 200 50 ''limit'' q) of
        (Some s, Some l) \<Rightarrow> Some (option_or s ''OPEN'', l)
      | _ \<Rightarrow> None)"

definition get_alerts ::
  "(json \<Rightarrow> json) \<Rightarrow> (string \<Rightarrow> jsnum) \<Rightarrow> (Database \<Rightarrow> AgentFloatAlert \<Rightarrow> (string \<times> json) list) \<Rightarrow> json \<Rightarrow> (Database, Response) act" where
  "get_alerts issues numberOf alertColumns query =
     andThen (found (alertsQuery numberOf query) (AppErr (validationFailed [(''issues'', issues query)]))) (\<lambda>(status, limit).
     andThen (get_state (\<lambda>db. db)) (\<lambda>db.
     ret (res_json (JObj [(''alerts'', JArr (map (\<lambda>a. JObj (alertColumns db a))
       (take (nat limit) (newest_first al_createdAt (find_many (\<lambda>a. alertStatusName (al_status a) = status) (db_alerts db))))))]))))"

definition post_topUp ::
  "(json \<Rightarrow> json) \<Rightarrow> (TopUpRequest \<Rightarrow> (string \<times> json) list) \<Rightarrow> LiquidityDeps \<Rightarrow> json \<Rightarrow> (World, Response) act" where
  "post_topUp issues topUpColumns d body =
     andThen (found (proposeSchema body) (AppErr (validationFailed [(''issues'', issues body)]))) (\<lambda>b.
     andThen (of_result (toStroops (pb_amount b))) (\<lambda>amount.
     andThen (proposeTopUp d \<lparr>pt_agentId = pb_agentId b, pt_regionId = pb_regionId b, pt_amount = amount,
         pt_reason = pb_reason b, pt_requestedBy = pb_requestedBy b\<rparr>) (\<lambda>request.
     ret (res_status_json 201 (JObj (topUpColumns request))))))"

definition topUpsQuery :: "(string \<Rightarrow> jsnum) \<Rightarrow> json \<Rightarrow> (string option \<times> int) option" where
  "topUpsQuery numberOf q =
     (case (optional (string_enum [''PENDING'', ''APPROVED'', ''REJECTED'', ''EXECUTED'', ''FAILED'']) ''status'' q,
            query_int numberOf 1 200 50 ''limit'' q) of
        (Some s, Some l) \<Rightarrow> Some (s, l)
      | _ \<Rightarrow> None)"

definition get_topUps ::
  "(json \<Rightarrow> json) \<Rightarrow> (string \<Rightarrow> jsnum) \<Rightarrow> (Database \<Rightarrow> TopUpRequest \<Rightarrow> (string \<times> json) list) \<Rightarrow> json \<Rightarrow> (Database, Response) act" where
  "get_topUps issues numberOf topUpColumns query =
     andThen (found (topUpsQuery numberOf query) (AppErr (validationFailed [(''issues'', issues query)]))) (\<lambda>(status, limit).
     andThen (get_state (\<lambda>db. db)) (\<lambda>db.
     ret (res_json (JObj [(''requests'', JArr (map (\<lambda>r. JObj (topUpColumns db r))
       (take (nat limit) (newest_first tu_createdAt (find_many (\<lambda>r. matches_opt status (topUpStatusName (tu_status r))) (db_topUps db))))))]))))"

definition post_decision ::
  "(json \<Rightarrow> json) \<Rightarrow> (TopUpRequest \<Rightarrow> (string \<times> json) list) \<Rightarrow> LiquidityDeps \<Rightarrow> string \<Rightarrow> json \<Rightarrow> (World, Response) act" where
  "post_decision issues topUpColumns d ident body =
     andThen (found (decisionSchema body) (AppErr (validationFailed [(''issues'', issues body)]))) (\<lambda>(approved, approvedBy, note).
     andThen (decideTopUp d \<lparr>dt_requestId = ident, dt_approved = approved, dt_approvedBy = approvedBy, dt_note = nonempty note\<rparr>) (\<lambda>updated.
     ret (res_json (JObj (topUpColumns updated)))))"

definition post_execute :: "LiquidityDeps \<Rightarrow> string \<Rightarrow> (World, Response) act" where
  "post_execute d ident =
     andThen (executeTopUp d ident) (\<lambda>out.
     ret (res_json (JObj ((case xo_txHash out of None \<Rightarrow> [] | Some h \<Rightarrow> [(''txHash'', JStr h)]) @ [(''status'', JStr (xo_status out))]))))"

text \<open>
  The overview takes its figures from the newest snapshot of the pool.  What it calls the
  utilisation cap is the snapshot's utilisation.
\<close>

definition latest_snapshot :: "string \<Rightarrow> Database \<Rightarrow> PoolSnapshot option" where
  "latest_snapshot regionId db = (case newest_first ps_capturedAt (find_many (\<lambda>p. ps_regionId p = regionId) (db_snapshots db)) of
     [] \<Rightarrow> None | p # _ \<Rightarrow> Some p)"

definition pool_json :: "PoolSnapshot option \<Rightarrow> json" where
  "pool_json latest =
     (let deposited = (case latest of None \<Rightarrow> 0 | Some p \<Rightarrow> ps_totalDeposited p);
          drawn = (case latest of None \<Rightarrow> 0 | Some p \<Rightarrow> ps_totalDrawn p);
          utilizationBps = (if deposited > 0 then tdiv (drawn * 10000) deposited else 0) in
      JObj [
        (''totalDeposited'', JStr (show_int deposited)),
        (''totalDrawn'', JStr (show_int drawn)),
        (''available'', JStr (show_int (deposited - drawn))),
        (''utilizationBps'', JNum utilizationBps),
        (''utilizationCapBps'', JNum (case latest of None \<Rightarrow> 0 | Some p \<Rightarrow> ps_utilizationBps p)),
        (''capturedAt'', opt_json (\<lambda>p. JStr (toISOString (ps_capturedAt p))) latest),
        (''stale'', JBool (latest = None))])"

definition get_region_overview :: "(Region \<Rightarrow> (string \<times> json) list) \<Rightarrow> string \<Rightarrow> (Database, Response) act" where
  "get_region_overview regionColumns regionId =
     andThen (get_state (\<lambda>db. db)) (\<lambda>db.
     let exposure = map ex_drawnAmount (find_many (\<lambda>e. ex_regionId e = regionId) (db_exposures db)) in
     andThen (found (find_unique (db_regions db) regionId) (AppErr (notFound ''region'' regionId))) (\<lambda>region.
     ret (res_json (JObj [
       (''region'', JObj (regionColumns region)),
       (''pool'', pool_json (latest_snapshot regionId db)),
       (''agentExposureTotal'', JStr (show_int (sum_list exposure)))]))))"

end
