(* ===== verification/KycApi.thy ===== *)
theory KycApi
  imports Kyc
begin

text \<open>
  \<open>backend/src/kyc-orchestration/router.ts\<close>: the schemas of the verification endpoints and
  their handlers over the service of theory \<open>Kyc\<close>, with the provider webhook.
\<close>

section \<open>Schemas\<close>

definition documentSchema :: "json \<Rightarrow> VerificationDocument option" where
  "documentSchema v =
     (case (required (string_enum [''passport'', ''national_id'', ''drivers_license'']) ''type'' v,
            required (string_len 4 64) ''number'' v, required (string_len 2 2) ''countryCode'' v,
            required date_string ''expiresOn'' v) of
        (Some t, Some n, Some c, Some e) \<Rightarrow>
          Some \<lparr>vd_type = t, vd_number = n, vd_countryCode = c, vd_expiresOn = e\<rparr>
      | _ \<Rightarrow> None)"

definition addressSchema :: "json \<Rightarrow> Address option" where
  "addressSchema v =
     (case (required (string_min 1) ''line1'' v, required (string_min 1) ''city'' v,
            optional jstring ''postalCode'' v, required (string_len 2 2) ''countryCode'' v) of
        (Some l, Some c, Some p, Some k) \<Rightarrow> Some \<lparr>ad_line1 = l, ad_city = c, ad_postalCode = p, ad_countryCode = k\<rparr>
      | _ \<Rightarrow> None)"

text \<open>The body of a submission; the amount stays the text that passed the pattern.\<close>

record SubmitBody =
  sb_userId :: string
  sb_corridorId :: string
  sb_regionId :: string
  sb_amount :: string
  sb_fullName :: string
  sb_dateOfBirth :: string
  sb_countryCode :: string
  sb_document :: "VerificationDocument option"
  sb_address :: "Address option"
  sb_sourceOfFunds :: "string option"

definition submitSchema :: "json \<Rightarrow> SubmitBody option" where
  "submitSchema v =
     (case (required uuid_string ''userId'' v, required (string_len 2 12) ''corridorId'' v,
            required (string_len 2 12) ''regionId'' v, required amount_string ''amount'' v,
            required (string_len 2 200) ''fullName'' v) of
        (Some u, Some c, Some r, Some a, Some f) \<Rightarrow>
         (case (required date_string ''dateOfBirth'' v, required (string_len 2 2) ''countryCode'' v,
                optional documentSchema ''document'' v, optional addressSchema ''address'' v,
                optional (string_len 0 500) ''sourceOfFunds'' v) of
            (Some b, Some k, Some d, Some ad, Some s) \<Rightarrow>
              Some \<lparr>sb_userId = u, sb_corridorId = c, sb_regionId = r, sb_amount = a, sb_fullName = f,
                    sb_dateOfBirth = b, sb_countryCode = k, sb_document = d, sb_address = ad, sb_sourceOfFunds = s\<rparr>
          | _ \<Rightarrow> None)
      | _ \<Rightarrow> None)"

definition preflightSchema :: "json \<Rightarrow> (string \<times> string) option" where
  "preflightSchema v = (case (required (string_len 2 12) ''corridorId'' v, required amount_string ''amount'' v) of
     (Some c, Some a) \<Rightarrow> Some (c, a) | _ \<Rightarrow> None)"

definition revocationSchema :: "json \<Rightarrow> (string \<times> string) option" where
  "revocationSchema v =
     (case (required jstring ''subjectAddress'' v, required (string_len 2 64) ''reason'' v) of
        (Some s, Some r) \<Rightarrow> if startsWith s ''G'' then Some (s, r) else None
      | _ \<Rightarrow> None)"

section \<open>Handlers\<close>

definition post_kyc_preflight :: "(json \<Rightarrow> json) \<Rightarrow> json \<Rightarrow> (Database, Response) act" where
  "post_kyc_preflight issues body =
     andThen (found (preflightSchema body) (AppErr (validationFailed [(''issues'', issues body)]))) (\<lambda>(corridorId, text).
     andThen (get_state db_corridors) (\<lambda>corridors.
     andThen (found (find_unique corridors corridorId) (AppErr (notFound ''corridor'' corridorId))) (\<lambda>corridor.
     andThen (of_result (toStroops text)) (\<lambda>amount.
     ret (res_json (JObj [
       (''corridorId'', JStr (co_id corridor)),
       (''requiredTier'', JStr (if amount \<le> co_tier1Max corridor then ''NONE''
          else if amount \<le> co_tier2Max corridor then ''STANDARD'' else ''ENHANCED'')),
       (''tiers'', JObj [
          (''tier1Max'', JStr (show_int (co_tier1Max corridor))),
          (''tier2Max'', JStr (show_int (co_tier2Max corridor))),
          (''dailyLimit'', JStr (show_int (co_dailyLimit corridor)))])]))))))"

definition submit_input :: "SubmitBody \<Rightarrow> int \<Rightarrow> SubmitVerificationInput" where
  "submit_input b amount = \<lparr>sv_userId = sb_userId b, sv_regionId = sb_regionId b, sv_amount = amount,
     sv_corridorId = sb_corridorId b, sv_fullName = sb_fullName b, sv_dateOfBirth = sb_dateOfBirth b,
     sv_countryCode = sb_countryCode b, sv_document = sb_document b, sv_address = sb_address b,
     sv_sourceOfFunds = nonempty (sb_sourceOfFunds b)\<rparr>"

text \<open>A key whose value is \<open>undefined\<close> is absent from the response.\<close>

definition present :: "string \<Rightarrow> ('a \<Rightarrow> json) \<Rightarrow> 'a option \<Rightarrow> (string \<times> json) list" where
  "present k f m = (case m of None \<Rightarrow> [] | Some a \<Rightarrow> [(k, f a)])"

definition submit_output_json :: "SubmitVerificationOutput \<Rightarrow> json" where
  "submit_output_json out = JObj ([
     (''attestationId'', JStr (so_attestationId out)),
     (''outcome'', JStr (outcomeName (so_outcome out))),
     (''tier'', JStr (providerTierName (so_tier out))),
     (''reasons'', JArr (map JStr (so_reasons out)))]
     @ present ''requiredInput'' (\<lambda>rs. JArr (map JStr rs)) (so_requiredInput out)
     @ present ''txHash'' JStr (so_txHash out)
     @ present ''attestationHash'' JStr (so_attestationHash out))"

definition post_kyc_verifications :: "(json \<Rightarrow> json) \<Rightarrow> KycDeps \<Rightarrow> json \<Rightarrow> (World, Response) act" where
  "post_kyc_verifications issues d body =
     andThen (found (submitSchema body) (AppErr (validationFailed [(''issues'', issues body)]))) (\<lambda>b.
     andThen (of_result (toStroops (sb_amount b))) (\<lambda>amount.
     andThen (submitVerification d (submit_input b amount)) (\<lambda>out.
     ret (res_status_json (if so_outcome out = VO_APPROVED then 201 else 202) (submit_output_json out)))))"

text \<open>
  The webhook body arrives as text under its content type and as a parsed value otherwise.
  \<open>refFilter\<close> is what the database client makes of a reference that is not a string.
\<close>

datatype RequestBody = TextBody string | ParsedBody json

definition raw_body :: "RequestBody \<Rightarrow> string" where
  "raw_body b = (case b of TextBody s \<Rightarrow> s | ParsedBody v \<Rightarrow> stringify v)"

definition reference_matches ::
  "(json \<Rightarrow> failure + (string option \<Rightarrow> bool)) \<Rightarrow> json \<Rightarrow> failure + (string option \<Rightarrow> bool)" where
  "reference_matches refFilter ref = (case jstring ref of Some s \<Rightarrow> Inr (\<lambda>r. r = Some s) | None \<Rightarrow> refFilter ref)"

definition webhook_status :: "json \<Rightarrow> AttestationStatus" where
  "webhook_status outcome =
     (if outcome = JStr ''APPROVED'' then AS_ACTIVE else if outcome = JStr ''REJECTED'' then AS_REVOKED else AS_PENDING)"

text \<open>\<open>event.reasons.join(',')\<close> is only evaluated for a rejection, and is a method of arrays.\<close>

definition webhook_update :: "int \<Rightarrow> WebhookEvent \<Rightarrow> failure + (KycAttestation \<Rightarrow> KycAttestation)" where
  "webhook_update now event =
     (if we_outcome event = JStr ''REJECTED''
      then (case jarray (we_reasons event) of
         None \<Rightarrow> Inl (PlainErr ''TypeError'')
       | Some rs \<Rightarrow> Inr (\<lambda>r. r\<lparr>ka_status := AS_REVOKED, ka_revokedAt := Some now,
             ka_revokeReason := Some (join_on (CHR '','') (js_join rs))\<rparr>))
      else Inr (\<lambda>r. r\<lparr>ka_status := webhook_status (we_outcome event)\<rparr>))"

definition webhook_write :: "int \<Rightarrow> WebhookEvent \<Rightarrow> KycAttestation list \<Rightarrow> (Database, Response) act" where
  "webhook_write now event rows =
     (case rows of
        [] \<Rightarrow> ret (res_json (JObj [(''accepted'', JBool True), (''matched'', JBool False)]))
      | record # _ \<Rightarrow>
         andThen (of_result (webhook_update now event)) (\<lambda>change.
         andThen (statement (\<lambda>db. rbind (update_row (ka_id record) change (db_attestations db))
             (\<lambda>t. Inr (db\<lparr>db_attestations := t\<rparr>)))) (\<lambda>_.
         ret (res_json (JObj [(''accepted'', JBool True), (''matched'', JBool True), (''outcome'', we_outcome event)])))))"

definition post_kyc_webhook ::
  "(json \<Rightarrow> failure + (string option \<Rightarrow> bool)) \<Rightarrow> ProviderSetup \<Rightarrow> Env \<Rightarrow> (string \<times> IdVerificationProvider) list \<Rightarrow>
   int \<Rightarrow> string \<Rightarrow> (string \<Rightarrow> string option) \<Rightarrow> RequestBody \<Rightarrow> (Database, Response) act" where
  "post_kyc_webhook refFilter su env cache now providerId headers body =
     andThen (of_result (fst (getProvider su env providerId cache))) (\<lambda>provider.
     andThen (guard (pv_verifyWebhookSignature provider headers (raw_body body))
         (AppErr (unauthorized ''invalid webhook signature''))) (\<lambda>_.
     andThen (of_result (pv_parseWebhook provider now (raw_body body))) (\<lambda>event.
     andThen (of_result (reference_matches refFilter (we_providerRef event))) (\<lambda>P.
     andThen (get_state (\<lambda>db. newest_first ka_createdAt (find_many (\<lambda>r. P (ka_providerRef r)) (db_attestations db)))) (\<lambda>rows.
     webhook_write now event rows)))))"

definition revoke_output_json :: "RevokeOutput \<Rightarrow> json" where
  "revoke_output_json out = JObj (present ''txHash'' JStr (ro_txHash out) @ [(''affected'', JNum (int (ro_affected out)))])"

definition post_kyc_revocations :: "(json \<Rightarrow> json) \<Rightarrow> KycDeps \<Rightarrow> json \<Rightarrow> (World, Response) act" where
  "post_kyc_revocations issues d body =
     andThen (found (revocationSchema body) (AppErr (validationFailed [(''issues'', issues body)]))) (\<lambda>(subjectAddress, reason).
     andThen (revokeForSubject d subjectAddress reason) (\<lambda>out.
     ret (res_json (revoke_output_json out))))"

definition attestationQuery :: "(string \<Rightarrow> jsnum) \<Rightarrow> json \<Rightarrow> (string option \<times> string option \<times> int) option" where
  "attestationQuery numberOf q =
     (case (optional (string_enum [''PENDING'', ''ACTIVE'', ''EXPIRED'', ''REVOKED'']) ''status'' q,
            optional jstring ''regionId'' q, query_int numberOf 1 200 50 ''limit'' q) of
        (Some s, Some r, Some l) \<Rightarrow> Some (s, r, l)
      | _ \<Rightarrow> None)"

definition attestation_json :: "KycAttestation \<Rightarrow> json" where
  "attestation_json r = JObj [
     (''id'', JStr (ka_id r)), (''userId'', JStr (ka_userId r)), (''tier'', JStr (tierName (ka_tier r))),
     (''status'', JStr (attestationStatusName (ka_status r))), (''regionId'', JStr (ka_regionId r)),
     (''providerId'', JStr (ka_providerId r)), (''issuedAt'', JStr (toISOString (ka_issuedAt r))),
     (''expiresAt'', JStr (toISOString (ka_expiresAt r))),
     (''revokedAt'', opt_json (\<lambda>t. JStr (toISOString t)) (ka_revokedAt r))]"

text \<open>An empty \<open>regionId\<close> is no filter; the rows are read before the sweep runs.\<close>

definition attestation_rows :: "string option \<times> string option \<times> int \<Rightarrow> Database \<Rightarrow> KycAttestation list" where
  "attestation_rows q db = (case q of (status, region, limit) \<Rightarrow>
     take (nat limit) (newest_first ka_createdAt (find_many
       (\<lambda>r. (case status of None \<Rightarrow> True | Some s \<Rightarrow> attestationStatusName (ka_status r) = s)
          \<and> (case nonempty region of None \<Rightarrow> True | Some g \<Rightarrow> ka_regionId r = g)) (db_attestations db))))"

definition get_kyc_attestations ::
  "(json \<Rightarrow> json) \<Rightarrow> (string \<Rightarrow> jsnum) \<Rightarrow> int \<Rightarrow> json \<Rightarrow> (Database, Response) act" where
  "get_kyc_attestations issues numberOf now query =
     andThen (found (attestationQuery numberOf query) (AppErr (validationFailed [(''issues'', issues query)]))) (\<lambda>q.
     andThen (get_state (attestation_rows q)) (\<lambda>rows.
     andThen (expireStaleAttestations now) (\<lambda>n.
     ret (res_json (JObj [(''attestations'', JArr (map attestation_json rows)), (''expiresSweepable'', JNum (int n))])))))"

definition get_kyc_config :: "Env \<Rightarrow> failure + IdVerificationProvider \<Rightarrow> failure + Response" where
  "get_kyc_config env provider = rbind provider (\<lambda>p.
     Inr (res_json (JObj [
       (''provider'', JStr (pv_id p)),
       (''supportedTiers'', JArr (map (\<lambda>t. JStr (tierName (toVerificationTier t))) (pv_supportedTiers p))),
       (''enhancedDueDiligence'', JBool (pv_supportsEnhancedDueDiligence p)),
       (''attestationTtlDays'', JNum (env_KYC_ATTESTATION_TTL_DAYS env)),
       (''webhookSignatureRequired'', JBool (env_KYC_PROVIDER_WEBHOOK_SECRET env \<noteq> None))])))"

section \<open>The preflight and the submission agree\<close>

text \<open>
  the tier the preflight endpoint announces is the tier a submission enforces.  A body with a
  well-formed corridor and amount always converts, an unknown corridor is a 404, and for a known
  one the announced name is the one of the tier \<open>requiredTierFor\<close> computes for the converted
  amount; no table is written.
\<close>

theorem preflight_announces_enforced_tier:
  assumes "preflightSchema body = Some (corridorId, amount_text)"
  shows "\<exists>amount. toStroops amount_text = Inr amount \<and> 0 \<le> amount \<and>
    (case find_unique (db_corridors db) corridorId of
       None \<Rightarrow> post_kyc_preflight issues body db = (Inl (AppErr (notFound ''corridor'' corridorId)), db)
     | Some c \<Rightarrow> (\<exists>res t. post_kyc_preflight issues body db = (Inr res, db) \<and> requiredTierFor corridorId amount db = (Inr t, db)
         \<and> res_status res = 200 \<and> jget ''requiredTier'' (res_body res) = Some (JStr (tierName t))))"
proof -
  have "is_amount_text amount_text"
    using assms by (auto simp: preflightSchema_def required_def amount_string_def split: option.splits if_splits)
  then obtain n where n: "toStroops amount_text = Inr n" "0 \<le> n" using amount_text_converts by blast
  show ?thesis
    using assms n
    by (auto simp: post_kyc_preflight_def act_simps requiredTierFor_def requiredTier_def res_json_def jget_def
        split: option.splits)
qed

theorem preflight_announces_enforced_tier_witness:
  "jget ''requiredTier'' (res_body (projr (fst (post_kyc_preflight (\<lambda>_. JNull)
      (JObj [(''corridorId'', JStr ''NGN_LAG''), (''amount'', JStr ''150'')]) sample_db)))) = Some (JStr ''STANDARD'')"
proof -
  let ?body = "JObj [(''corridorId'', JStr ''NGN_LAG''), (''amount'', JStr ''150'')]"
  have p: "preflightSchema ?body = Some (''NGN_LAG'', ''150'')" by code_simp
  have n: "toStroops ''150'' = Inr 1500000000" by code_simp
  show ?thesis
    using preflight_announces_enforced_tier [OF p, where db = sample_db and issues = "\<lambda>_. JNull"] n
    by (auto simp: sample_db_def empty_database_def find_unique_def requiredTierFor_def act_simps requiredTier_def sample_corridor_def)
qed

section \<open>The webhook\<close>

text \<open>A cache that holds only what the constructor would build again.\<close>

definition cache_ok :: "ProviderSetup \<Rightarrow> Env \<Rightarrow> (string \<times> IdVerificationProvider) list \<Rightarrow> bool" where
  "cache_ok su env cache \<longleftrightarrow> (\<forall>i p. map_of cache i = Some p \<longrightarrow> fst (getProvider su env i []) = Inr p)"

lemma cache_ok_Nil: "cache_ok su env []"
  by (simp add: cache_ok_def)

lemma getProvider_remembers:
  "getProvider su env i cache = (x, c) \<Longrightarrow> c = cache \<or> (\<exists>p. x = Inr p \<and> c = (i, p) # cache)"
  by (auto simp: getProvider_def Let_def split: option.splits if_splits)

lemma getProvider_fresh: "map_of cache i = None \<Longrightarrow> fst (getProvider su env i cache) = fst (getProvider su env i [])"
  by (simp add: getProvider_def Let_def split: option.split)

lemma getProvider_hit: "map_of cache i = Some p \<Longrightarrow> getProvider su env i cache = (Inr p, cache)"
  by (simp add: getProvider_def)

lemma getProvider_cached:
  assumes "cache_ok su env cache"
  shows "fst (getProvider su env i cache) = fst (getProvider su env i []) \<and> cache_ok su env (snd (getProvider su env i cache))"
proof (cases "map_of cache i")
  case None
  obtain x c where g: "getProvider su env i cache = (x, c)" by (cases "getProvider su env i cache")
  have f: "fst (getProvider su env i []) = x" using getProvider_fresh [OF None, of su env] g by simp
  show ?thesis
    using getProvider_remembers [OF g] f assms unfolding g cache_ok_def by (auto split: if_split_asm)
next
  case (Some p)
  then show ?thesis using assms getProvider_hit [OF Some] by (simp add: cache_ok_def)
qed

lemma getProvider_verifies:
  assumes "fst (getProvider su env i []) = Inr p" "pv_verifyWebhookSignature p h b"
  shows "\<exists>k. env_KYC_PROVIDER_WEBHOOK_SECRET env = Some k \<and> k \<noteq> [] \<and> h ''x-provider-signature'' = Some (su_hmac su k b)"
proof -
  have "webhook_signature_ok (su_hmac su) (env_KYC_PROVIDER_WEBHOOK_SECRET env) h b"
    using assms by (auto simp: getProvider_def Let_def MockIdVerificationProvider_def HttpIdVerificationProvider_def
        split: if_splits option.splits)
  then show ?thesis by (auto simp: webhook_signature_ok_iff)
qed


text \<open>A revoked attestation, and a signed approval of its verification.\<close>

definition sample_revoked :: KycAttestation where
  "sample_revoked = (attestation_row (sample_kyc sample_result) (sample_input 1) sample_result)
     \<lparr>ka_id := ''att-1'', ka_status := AS_REVOKED, ka_tier := NONE, ka_providerRef := Some ''r1''\<rparr>"

definition sample_revoked_db :: Database where
  "sample_revoked_db = empty_database\<lparr>db_attestations := [(''att-1'', sample_revoked)]\<rparr>"

definition sample_approval :: json where
  "sample_approval = JObj [(''providerRef'', JStr ''r1''), (''outcome'', JStr ''APPROVED'')]"

definition sample_setup :: ProviderSetup where
  "sample_setup = \<lparr>su_hmac = (\<lambda>k m. k @ m), su_legacyDate = (\<lambda>_. None),
     su_fetch = (\<lambda>_. Fetched 503 None), su_reference = ''ref''\<rparr>"


end
