(* ===== verification/TransfersApi.thy ===== *)
theory TransfersApi
  imports IndexerProofs LiquidityApi KycApi
begin

text \<open>
  \<open>backend/src/transfers/router.ts\<close>: the tracking endpoints over the read model.  The column
  \<open>updatedAt\<close>, which the database maintains, and the included rows of other tables are
  arguments of the rendering.
\<close>

section \<open>Rendering\<close>

definition date_json :: "int \<Rightarrow> json" where
  "date_json t = JStr (toISOString t)"

text \<open>\<open>serialiseTransfer\<close>: the stored row with the identifier and the amounts as strings.\<close>

definition serialiseTransfer :: "(int \<Rightarrow> json) \<Rightarrow> Transfer \<Rightarrow> (string \<times> json) list" where
  "serialiseTransfer updatedAt t = [
     (''id'', JStr (show_int (tr_id t))),
     (''senderId'', JStr (tr_senderId t)),
     (''agentId'', opt_json JStr (tr_agentId t)),
     (''corridorId'', JStr (tr_corridorId t)),
     (''amount'', JStr (show_int (tr_amount t))),
     (''fee'', JStr (show_int (tr_fee t))),
     (''payout'', JStr (show_int (tr_payout t))),
     (''tokenAddress'', JStr (tr_tokenAddress t)),
     (''claimHash'', JStr (tr_claimHash t)),
     (''expiry'', date_json (tr_expiry t)),
     (''status'', JStr (transferStatusName (tr_status t))),
     (''createdAt'', date_json (tr_createdAt t)),
     (''settledAt'', opt_json date_json (tr_settledAt t)),
     (''claimedBy'', opt_json JStr (tr_claimedBy t)),
     (''createTxHash'', opt_json JStr (tr_createTxHash t)),
     (''settleTxHash'', opt_json JStr (tr_settleTxHash t)),
     (''updatedAt'', updatedAt (tr_id t))]"

section \<open>Handlers\<close>

definition listQuerySchema :: "(string \<Rightarrow> jsnum) \<Rightarrow> json \<Rightarrow> (string option \<times> string option \<times> string option \<times> int) option" where
  "listQuerySchema numberOf q =
     (case (optional uuid_string ''senderId'' q, optional (string_len 2 12) ''corridorId'' q,
            optional (string_enum [''PENDING'', ''CLAIMED'', ''REFUNDED'', ''CANCELLED'']) ''status'' q,
            query_int numberOf 1 200 50 ''limit'' q) of
        (Some s, Some c, Some t, Some l) \<Rightarrow> Some (s, c, t, l)
      | _ \<Rightarrow> None)"

text \<open>The cursor furthest behind, with the instant its row was written.\<close>

definition indexer_json :: "(string \<Rightarrow> json) \<Rightarrow> Database \<Rightarrow> json" where
  "indexer_json cursorUpdatedAt db = (case sort_key snd (db_cursors db) of
     [] \<Rightarrow> JObj [(''lastLedger'', JNull), (''updatedAt'', JNull)]
   | (c, l) # _ \<Rightarrow> JObj [(''lastLedger'', JNum l), (''updatedAt'', cursorUpdatedAt c)])"

definition get_transfers ::
  "(json \<Rightarrow> json) \<Rightarrow> (string \<Rightarrow> jsnum) \<Rightarrow> (int \<Rightarrow> json) \<Rightarrow> (string \<Rightarrow> json) \<Rightarrow> (Database \<Rightarrow> Transfer \<Rightarrow> (string \<times> json) list) \<Rightarrow>
   json \<Rightarrow> (Database, Response) act" where
  "get_transfers issues numberOf updatedAt cursorUpdatedAt relations query =
     andThen (found (listQuerySchema numberOf query) (AppErr (validationFailed [(''issues'', issues query)]))) (\<lambda>(sender, corridor, status, limit).
     andThen (get_state (\<lambda>db. db)) (\<lambda>db.
     ret (res_json (JObj [
       (''transfers'', JArr (map (\<lambda>t. JObj (serialiseTransfer updatedAt t @ relations db t))
          (take (nat limit) (newest_first tr_createdAt (find_many
             (\<lambda>t. matches_opt sender (tr_senderId t) \<and> matches_opt corridor (tr_corridorId t)
                \<and> matches_opt status (transferStatusName (tr_status t))) (db_transfers db)))))),
       (''indexer'', indexer_json cursorUpdatedAt db)]))))"

definition find_transfer :: "string \<Rightarrow> (Database, Transfer) act" where
  "find_transfer ident =
     andThen (guard (is_digit_text ident) (AppErr (validationFailed [(''id'', JStr ''expected a numeric transfer id'')]))) (\<lambda>_.
     andThen (get_state db_transfers) (\<lambda>transfers.
     found (find_unique transfers (digits_val ident)) (AppErr (notFound ''transfer'' ident))))"

text \<open>The events of a transfer in ledger order; a row whose \<open>transferId\<close> is set cannot be written as JSON.\<close>

definition events_of :: "int \<Rightarrow> Database \<Rightarrow> ChainEvent list" where
  "events_of i db = sort_key ce_ledger (sort_key ce_eventIndex (find_many (\<lambda>e. ce_transferId e = Some i) (db_events db)))"

definition event_json :: "(ChainEvent \<Rightarrow> (string \<times> json) list) \<Rightarrow> ChainEvent \<Rightarrow> failure + json" where
  "event_json eventColumns e = (case ce_transferId e of Some i \<Rightarrow> Inl bigint_error | None \<Rightarrow> Inr (JObj (eventColumns e)))"

definition timeline_json :: "ChainEvent \<Rightarrow> json" where
  "timeline_json e = JObj [(''topic'', JStr (ce_topic e)), (''ledger'', JNum (ce_ledger e)), (''txHash'', JStr (ce_txHash e)),
     (''occurredAt'', date_json (ce_occurredAt e))]"

definition get_transfer_status ::
  "(int \<Rightarrow> json) \<Rightarrow> (ChainEvent \<Rightarrow> (string \<times> json) list) \<Rightarrow> (Database \<Rightarrow> Transfer \<Rightarrow> (string \<times> json) list) \<Rightarrow> int \<Rightarrow> string \<Rightarrow> (Database, Response) act" where
  "get_transfer_status updatedAt eventColumns relations now ident =
     andThen (find_transfer ident) (\<lambda>transfer.
     andThen (get_state (\<lambda>db. db)) (\<lambda>db.
     let expired = (tr_status transfer = TR_PENDING \<and> tr_expiry transfer < now);
         events = events_of (digits_val ident) db in
     andThen (of_result (result_map (event_json eventColumns) events)) (\<lambda>rows.
     ret (res_json (JObj (serialiseTransfer updatedAt transfer @ relations db transfer @ [
       (''events'', JArr rows),
       (''expired'', JBool expired),
       (''refundable'', JBool expired),
       (''timeline'', JArr (map timeline_json events))]))))))"

definition get_receipt :: "string \<Rightarrow> (Database, Response) act" where
  "get_receipt ident =
     andThen (find_transfer ident) (\<lambda>transfer.
     andThen (get_state db_agents) (\<lambda>agents.
     let agent = (case tr_agentId transfer of None \<Rightarrow> None | Some a \<Rightarrow> find_unique agents a) in
     ret (res_json (JObj [
       (''transferId'', JStr (show_int (tr_id transfer))),
       (''status'', JStr (transferStatusName (tr_status transfer))),
       (''amount'', JStr (fromStroops (tr_amount transfer))),
       (''fee'', JStr (fromStroops (tr_fee transfer))),
       (''payout'', JStr (fromStroops (tr_payout transfer))),
       (''corridor'', JStr (tr_corridorId transfer)),
       (''agent'', opt_json (\<lambda>a. JObj [(''id'', JStr (ag_id a)), (''name'', JStr (option_or (ag_tradingName a) (ag_legalName a)))]) agent),
       (''createdAt'', date_json (tr_createdAt transfer)),
       (''settledAt'', opt_json date_json (tr_settledAt transfer)),
       (''claimHash'', JStr (tr_claimHash transfer)),
       (''settleTxHash'', opt_json JStr (tr_settleTxHash transfer))]))))"

definition post_transfer_preflight :: "(json \<Rightarrow> json) \<Rightarrow> json \<Rightarrow> (Database, Response) act" where
  "post_transfer_preflight issues body =
     andThen (found (preflightSchema body) (AppErr (validationFailed [(''issues'', issues body)]))) (\<lambda>(corridorId, text).
     andThen (get_state db_corridors) (\<lambda>corridors.
     andThen (found (find_unique corridors corridorId) (AppErr (notFound ''corridor'' corridorId))) (\<lambda>corridor.
     andThen (of_result (toStroops text)) (\<lambda>amount.
     ret (res_json (JObj [
       (''corridorId'', JStr (co_id corridor)),
       (''amountStroops'', JStr (show_int amount)),
       (''requiredTier'', JStr (if amount \<le> co_tier1Max corridor then ''NONE''
          else if amount \<le> co_tier2Max corridor then ''STANDARD'' else ''ENHANCED'')),
       (''withinDailyLimit'', JBool (amount \<le> co_dailyLimit corridor)),
       (''active'', JBool (co_active corridor))]))))))"

section \<open>The status of an indexed transfer\<close>

lemma events_of_Nil_iff: "events_of i db = [] \<longleftrightarrow> find_many (\<lambda>e. ce_transferId e = Some i) (db_events db) = []"
proof -
  have "set (events_of i db) = set (find_many (\<lambda>e. ce_transferId e = Some i) (db_events db))" by (simp add: events_of_def)
  then show ?thesis by (metis set_empty)
qed

lemma events_of_linked: "e \<in> set (events_of i db) \<Longrightarrow> ce_transferId e = Some i"
  by (auto simp: events_of_def find_many_def)

lemma status_throws:
  assumes "is_digit_text ident" "find_unique (db_transfers db) (digits_val ident) = Some t" "events_of (digits_val ident) db \<noteq> []"
  shows "get_transfer_status u c r now ident db = (Inl bigint_error, db)"
proof -
  obtain e es where es: "events_of (digits_val ident) db = e # es" using assms(3) by (cases "events_of (digits_val ident) db") auto
  then have "ce_transferId e = Some (digits_val ident)" using events_of_linked [of e "digits_val ident" db] by simp
  then have "result_map (event_json c) (events_of (digits_val ident) db) = Inl bigint_error" by (simp add: es event_json_def)
  then show ?thesis using assms(1,2) by (simp add: get_transfer_status_def find_transfer_def andThen_def guard_def get_state_def found_def Let_def of_result_def)
qed

text \<open>
  C38: the status endpoint fails for every transfer the indexer recorded.  For a known transfer
  it answers exactly while no event is linked to it; and once \<open>persist\<close> has recorded an event of
  the transfer, the response holds a \<open>BigInt\<close>, and the request throws.
\<close>

theorem status_of_indexed_transfer_throws:
  assumes "persist d raw e db = (Inr b, db')" "find_unique (db_events db) (event_key_of raw) = None"
    and "links_ok db" "de_transferId e = Some (digits_val ident)" "is_digit_text ident"
    and "find_unique (db_transfers db') (digits_val ident) = Some t"
  shows "get_transfer_status updatedAt eventColumns relations now ident db' = (Inl bigint_error, db')"
proof -
  obtain c db1 where p: "project d raw e db = (Inr c, db1)" and rec: "record_event d raw e db1 = (Inr (), db')"
    using assms(1,2) by (auto simp: persist_def act_simps andThen_iff ret_run_iff)
  have k: "transfers_keyed db1" using project_projects [OF p] assms(3) by (auto simp: projects_def links_ok_def)
  have tr: "db_transfers db' = db_transfers db1" using record_event_effect [OF rec] by blast
  have link: "linkableTransferId (de_transferId e) db1 = Some (digits_val ident)"
    using k assms(4,6) tr by (simp add: linkableTransferId_def transfers_keyed_def)
  obtain closed where cl: "closed_at d raw = Inr closed"
    using rec by (cases "closed_at d raw") (simp_all add: record_event_def act_simps)
  have "create_event (event_key_of raw) (event_row d raw e (Some (digits_val ident)) closed) db1 = Inr db'"
    using rec cl link by (simp add: record_event_def act_simps statement_Inr_iff)
  then have "find_many (\<lambda>x. ce_transferId x = Some (digits_val ident)) (db_events db') \<noteq> []"
    by (auto simp: create_event_def result_simps create_row_Inr_iff event_row_def find_many_def split: if_splits)
  then have "events_of (digits_val ident) db' \<noteq> []" by (simp add: events_of_Nil_iff)
  then show ?thesis by (rule status_throws [OF assms(5,6)])
qed

definition settlement_event :: DecodedEvent where
  "settlement_event = \<lparr>de_kind = Kind EK_transfer_cancelled, de_topic = ''tr_cancel'', de_subjects = [],
     de_payload = [(''id'', JStr ''7'')], de_transferId = Some 7\<rparr>"

theorem status_of_indexed_transfer_throws_witness:
  "\<exists>db'. get_transfer_status (\<lambda>_. JNull) (\<lambda>_. []) (\<lambda>_ _. []) 0 ''7'' db' = (Inl bigint_error, db') \<and> length (db_events db') = 1"
proof -
  let ?d = "sample_indexer\<lparr>ix_legacyDate := (\<lambda>_. Some 1)\<rparr>" and ?r = "sample_event []"
  obtain t where t: "closed_at ?d ?r = Inr t" using sample_closed by blast
  have ints: "is_int_text ''7''" "int_text_val ''7'' = 7" by code_simp+
  have digits: "is_digit_text ''7''" "digits_val ''7'' = 7" by code_simp+
  have e: "de_kind settlement_event = Kind EK_transfer_cancelled" "de_transferId settlement_event = Some 7"
    "payload_int ''id'' (de_payload settlement_event) = Inr 7"
    by (simp_all add: settlement_event_def payload_int_def ints)
  have f: "find_unique (db_transfers settled_database) 7 = Some settled_transfer" by (simp add: settled_database_def find_unique_def)
  have "\<exists>db1. project ?d ?r settlement_event settled_database = (Inr True, db1) \<and> db_events db1 = []
      \<and> find_unique (db_transfers db1) 7 \<noteq> None"
    by (simp add: project_def e projectTransferSettled_def Let_def act_simps f t on_transfers_def statement_def update_row_def modify_row_def result_simps find_unique_def)
      (simp add: settled_database_def sample_world_def sample_db_def empty_database_def)
  then obtain db1 where db1: "project ?d ?r settlement_event settled_database = (Inr True, db1)" "db_events db1 = []"
    "find_unique (db_transfers db1) 7 \<noteq> None" by blast
  have "transfers_keyed settled_database" by (simp add: transfers_keyed_def settled_database_def find_unique_def settled_transfer_def)
  then have "transfers_keyed db1" using project_projects [OF db1(1)] by (simp add: projects_def)
  then have link7: "linkableTransferId (Some 7) db1 = Some 7" using db1(3) by (auto simp: linkableTransferId_def transfers_keyed_def)
  have "\<exists>db2. record_event ?d ?r settlement_event db1 = (Inr (), db2) \<and> length (db_events db2) = 1 \<and> db_transfers db2 = db_transfers db1"
    using db1(2,3) by (simp add: record_event_def act_simps e link7 t statement_def create_event_def dangling_def event_row_def create_row_def find_unique_def result_simps)
  then obtain db2 where db2: "record_event ?d ?r settlement_event db1 = (Inr (), db2)" "length (db_events db2) = 1" "db_transfers db2 = db_transfers db1" by blast
  have n: "find_unique (db_events settled_database) (event_key_of ?r) = None"
    by (simp add: settled_database_def sample_world_def sample_db_def empty_database_def find_unique_def)
  have run: "\<exists>db'. persist ?d ?r settlement_event settled_database = (Inr True, db') \<and> length (db_events db') = 1
      \<and> find_unique (db_transfers db') 7 \<noteq> None"
    using db1(3) db2(2,3) by (simp add: persist_def act_simps n andThen_Inr [of "project ?d ?r settlement_event", OF db1(1)]
        andThen_Inr [of "record_event ?d ?r settlement_event", OF db2(1)])
  then obtain db' tr where p: "persist ?d ?r settlement_event settled_database = (Inr True, db')" "length (db_events db') = 1"
    "find_unique (db_transfers db') (digits_val ''7'') = Some tr" unfolding digits(2) by blast
  have l: "links_ok settled_database"
    by (simp add: links_ok_def transfers_keyed_def settled_database_def settled_transfer_def sample_world_def sample_db_def empty_database_def find_unique_def)
  have link: "de_transferId settlement_event = Some (digits_val ''7'')" by (simp add: e digits)
  show ?thesis
    using status_of_indexed_transfer_throws [OF p(1) n l link digits(1) p(3), of "\<lambda>_. JNull" "\<lambda>_. []" "\<lambda>_ _. []" 0] p(2) by blast
qed

end
