(* ===== verification/Middleware.thy ===== *)
theory Middleware
  imports Effects Constants Env
begin

text \<open>
  \<open>backend/src/api/middleware.ts\<close> and the readiness route of \<open>server.ts\<close>: request identifiers, the
  mapping of errors to responses, the rate limiter and the request timeout.
\<close>

section \<open>Request context\<close>

definition word_char :: "char \<Rightarrow> bool" where
  "word_char c \<longleftrightarrow> is_digit c \<or> (CHR ''a'' \<le> c \<and> c \<le> CHR ''z'') \<or> (CHR ''A'' \<le> c \<and> c \<le> CHR ''Z'') \<or> c = CHR ''_''"

text \<open>\<open>/^[\w-]{8,64}$/\<close>.\<close>

definition is_request_id :: "string \<Rightarrow> bool" where
  "is_request_id s \<longleftrightarrow> 8 \<le> length s \<and> length s \<le> 64 \<and> list_all (\<lambda>c. word_char c \<or> c = CHR ''-'') s"

definition requestContext :: "string \<Rightarrow> string option \<Rightarrow> string" where
  "requestContext randomUUID incoming = (case incoming of
     Some s \<Rightarrow> if is_request_id s then s else randomUUID
   | None \<Rightarrow> randomUUID)"

section \<open>Errors\<close>

text \<open>
  What may reach the handler: an error of the code base, an issue list of the schema library,
  or anything else, of which only three properties are looked at.
\<close>

record ForeignError =
  fe_status :: "int option"
  fe_statusCode :: "int option"
  fe_type :: "string option"
  fe_message :: string

datatype thrownError = Failure failure | ZodFailure json | Foreign ForeignError

record BodyParserError =
  bp_status :: int
  bp_type :: string

definition asBodyParserError :: "ForeignError \<Rightarrow> BodyParserError option" where
  "asBodyParserError candidate =
     (let status = (case fe_status candidate of Some s \<Rightarrow> Some s | None \<Rightarrow> fe_statusCode candidate) in
      case status of
        None \<Rightarrow> None
      | Some s \<Rightarrow> if s < 400 \<or> s \<ge> 500 then None
          else Some \<lparr>bp_status = s, bp_type = option_or (fe_type candidate) ''request.rejected''\<rparr>)"

definition bodyErrorMessage :: "int \<Rightarrow> string \<times> string" where
  "bodyErrorMessage status =
     (if status = 413 then (''PAYLOAD_TOO_LARGE'', ''Request body is too large.'')
      else if status = 415 then (''UNSUPPORTED_MEDIA_TYPE'', ''Unsupported content type.'')
      else if status = 400 then (''MALFORMED_BODY'', ''Request body could not be parsed.'')
      else (''REQUEST_REJECTED'', ''Request was rejected.''))"

definition app_error_response :: "AppError \<Rightarrow> string \<Rightarrow> Response" where
  "app_error_response e requestId = res_status_json (ae_status e) (JObj [(''error'', JObj [
     (''code'', JStr (errorCodeName (ae_code e))), (''message'', JStr (ae_message e)),
     (''details'', JObj (ae_details e)), (''requestId'', JStr requestId)])])"

definition internal_response :: "string \<Rightarrow> Response" where
  "internal_response requestId = res_status_json 500 (JObj [(''error'', JObj [
     (''code'', JStr ''INTERNAL''), (''message'', JStr ''An internal error occurred.''), (''requestId'', JStr requestId)])])"

definition errorHandler :: "string \<Rightarrow> thrownError \<Rightarrow> Response" where
  "errorHandler requestId error = (case error of
     Failure (AppErr e) \<Rightarrow> app_error_response e requestId
   | Failure (PlainErr m) \<Rightarrow> internal_response requestId
   | ZodFailure issues \<Rightarrow> app_error_response (validationFailed [(''issues'', issues)]) requestId
   | Foreign candidate \<Rightarrow>
      (case asBodyParserError candidate of
         Some b \<Rightarrow> (let (code, message) = bodyErrorMessage (bp_status b)
            in res_status_json (nat (bp_status b)) (JObj [(''error'', JObj [
                 (''code'', JStr code), (''message'', JStr message), (''requestId'', JStr requestId)])]))
       | None \<Rightarrow> internal_response requestId))"

text \<open>A handler's rejection is passed on to the error handler; its effects stay.\<close>

definition asyncHandler :: "string \<Rightarrow> ('s, Response) act \<Rightarrow> 's \<Rightarrow> Response \<times> 's" where
  "asyncHandler requestId handler s = (case handler s of
     (Inr res, s') \<Rightarrow> (res, s')
   | (Inl e, s') \<Rightarrow> (errorHandler requestId (Failure e), s'))"

definition notFoundHandler :: "string \<Rightarrow> string \<Rightarrow> Response" where
  "notFoundHandler req_method req_path = res_status_json 404 (JObj [(''error'', JObj [
     (''code'', JStr ''NOT_FOUND''), (''message'', JStr (''No route for '' @ req_method @ '' '' @ req_path))])])"

text \<open>What a caller can see of an error that is not the code base's own.\<close>

definition visible :: "ForeignError \<Rightarrow> int option" where
  "visible e = map_option bp_status (asBodyParserError e)"

text \<open>
  internal errors are opaque.  The response to an error that is no \<open>AppError\<close> depends only on
  the request identifier and, for a body rejected with a 4xx status, on that status: neither a
  message nor a type of the error reaches the client, and everything else is the fixed 500.
\<close>

theorem internal_errors_are_opaque:
  "errorHandler requestId (Failure (PlainErr m)) = internal_response requestId
   \<and> (visible e = visible e' \<longrightarrow> errorHandler requestId (Foreign e) = errorHandler requestId (Foreign e'))
   \<and> (visible e = None \<longrightarrow> errorHandler requestId (Foreign e) = internal_response requestId)
   \<and> (\<forall>s. visible e = Some s \<longrightarrow> 400 \<le> s \<and> s < 500 \<and> int (res_status (errorHandler requestId (Foreign e))) = s)"
  by (auto simp: errorHandler_def visible_def asBodyParserError_def Let_def res_status_json_def split: option.splits if_splits prod.splits)

theorem internal_errors_are_opaque_witness:
  "errorHandler ''r1'' (Foreign \<lparr>fe_status = Some 400, fe_statusCode = None, fe_type = Some ''entity.parse.failed'', fe_message = ''Ada Obi''\<rparr>)
   = errorHandler ''r1'' (Foreign \<lparr>fe_status = None, fe_statusCode = Some 400, fe_type = None, fe_message = ''passport A123''\<rparr>)"
  by (rule internal_errors_are_opaque [THEN conjunct2, THEN conjunct1, rule_format])
    (simp add: visible_def asBodyParserError_def)

section \<open>Rate limit\<close>

text \<open>A client's entry: requests counted in its window, and when the window ends.\<close>

type_synonym hits = "string \<Rightarrow> (int \<times> int) option"

datatype verdict = Allowed int | Limited int

definition rateLimit :: "int \<Rightarrow> int \<Rightarrow> string option \<Rightarrow> int \<Rightarrow> hits \<Rightarrow> verdict \<times> hits" where
  "rateLimit windowMs max_requests ip now hits =
     (let key = option_or ip ''unknown'' in
      case hits key of
        None \<Rightarrow> (Allowed (max_requests - 1), hits(key \<mapsto> (1, now + windowMs)))
      | Some (count, resetAt) \<Rightarrow>
          if resetAt \<le> now then (Allowed (max_requests - 1), hits(key \<mapsto> (1, now + windowMs)))
          else if count + 1 > max_requests
          then (Limited (ceil_seconds (resetAt - now)), hits(key \<mapsto> (count + 1, resetAt)))
          else (Allowed (max_requests - (count + 1)), hits(key \<mapsto> (count + 1, resetAt))))"

text \<open>The requests of a log, each with its client and time, and how many of one client pass.\<close>

fun allowed_count :: "int \<Rightarrow> int \<Rightarrow> string \<Rightarrow> (string option \<times> int) list \<Rightarrow> hits \<Rightarrow> int" where
  "allowed_count w m key [] hits = 0"
| "allowed_count w m key ((ip, now) # log) hits =
     (case rateLimit w m ip now hits of (v, hits') \<Rightarrow>
       (if option_or ip ''unknown'' = key \<and> (\<exists>n. v = Allowed n) then 1 else 0) + allowed_count w m key log hits')"

text \<open>What is left of the current window.\<close>

definition left_over :: "int \<Rightarrow> (int \<times> int) option \<Rightarrow> int" where
  "left_over m e = (case e of None \<Rightarrow> 0 | Some (c, r) \<Rightarrow> max 0 (m - c))"

lemma rateLimit_other: "option_or ip ''unknown'' \<noteq> key \<Longrightarrow> snd (rateLimit w m ip now hits) key = hits key"
  by (auto simp: rateLimit_def Let_def split: option.splits prod.splits)

lemma allowed_closed:
  assumes "hits key = Some (c, r)" "list_all (\<lambda>(ip, now). now < r) log"
  shows "allowed_count w m key log hits \<le> left_over m (hits key)"
  using assms
proof (induction log arbitrary: hits c)
  case Nil
  then show ?case by (simp add: left_over_def)
next
  case (Cons p log)
  obtain ip now where p: "p = (ip, now)" by (cases p)
  have now: "now < r" and rest: "list_all (\<lambda>(ip, now). now < r) log" using Cons.prems(2) p by auto
  show ?case
  proof (cases "option_or ip ''unknown'' = key")
    case True
    have "allowed_count w m key log (hits(key \<mapsto> (c + 1, r))) \<le> left_over m (Some (c + 1, r))"
      using Cons.IH [of "hits(key \<mapsto> (c + 1, r))" "c + 1", OF _ rest] by (simp only: fun_upd_same simp_thms)
    then show ?thesis
      using True Cons.prems(1) now p by (auto simp: rateLimit_def Let_def left_over_def max_def split: if_splits)
  next
    case False
    obtain v h where h: "rateLimit w m ip now hits = (v, h)" by (cases "rateLimit w m ip now hits")
    have "h key = hits key" using rateLimit_other [OF False, of w m now hits] h by simp
    then show ?thesis using Cons.IH [of h c] Cons.prems(1) rest False h p by simp
  qed
qed

lemma allowed_open:
  assumes "1 \<le> m" "list_all (\<lambda>(ip, now). t \<le> now \<and> now < t + w) log"
  shows "allowed_count w m key log hits \<le> left_over m (hits key) + m"
  using assms(2)
proof (induction log arbitrary: hits)
  case Nil
  then show ?case using assms(1) by (simp add: left_over_def split: option.split prod.split)
next
  case (Cons p log)
  obtain ip now where p: "p = (ip, now)" by (cases p)
  have now: "t \<le> now" "now < t + w" and rest: "list_all (\<lambda>(ip, now). t \<le> now \<and> now < t + w) log" using Cons.prems p by auto
  show ?case
  proof (cases "option_or ip ''unknown'' = key")
    case False
    obtain v h where h: "rateLimit w m ip now hits = (v, h)" by (cases "rateLimit w m ip now hits")
    have "h key = hits key" using rateLimit_other [OF False, of w m now hits] h by simp
    then show ?thesis using Cons.IH [of h] rest False h p by simp
  next
    case True
    have in_new: "list_all (\<lambda>(ip, n). n < now + w) log" using rest now(1) by (auto simp: list_all_iff)
    have new: "allowed_count w m key log (hits(key \<mapsto> (1, now + w))) \<le> m - 1"
      using allowed_closed [of "hits(key \<mapsto> (1, now + w))" key 1 "now + w" log w m] in_new assms(1) by (simp add: left_over_def)
    have nn: "0 \<le> left_over m (hits key)" by (simp add: left_over_def split: option.split prod.split)
    show ?thesis
    proof (cases "hits key")
      case None
      then show ?thesis using True p new nn by (simp add: rateLimit_def Let_def)
    next
      case (Some e)
      obtain c r where e: "e = (c, r)" by (cases e)
      have old: "allowed_count w m key log (hits(key \<mapsto> (c + 1, r))) \<le> left_over m (Some (c + 1, r)) + m"
        using Cons.IH [of "hits(key \<mapsto> (c + 1, r))", OF rest] by (simp only: fun_upd_same)
      consider "r \<le> now" | "now < r" "m < c + 1" | "now < r" "c + 1 \<le> m" by linarith
      then show ?thesis
      proof cases
        case 1
        then show ?thesis using True p new nn Some e by (simp add: rateLimit_def Let_def)
      next
        case 2
        then show ?thesis using True p nn old Some e by (simp add: rateLimit_def Let_def left_over_def)
      next
        case 3
        then show ?thesis using True p old Some e by (simp add: rateLimit_def Let_def left_over_def)
      qed
    qed
  qed
qed

text \<open>
  C12: the limit holds.  While the window of a client is open, no more of its requests pass than
  the budget has left; and in any stretch of time no longer than a window, however the windows
  fall and whatever other clients do, at most twice the budget passes.
\<close>

theorem rate_limit_holds:
  assumes "1 \<le> m"
  shows "(\<forall>c r. hits key = Some (c, r) \<longrightarrow> list_all (\<lambda>(ip, now). now < r) log \<longrightarrow> allowed_count w m key log hits \<le> max 0 (m - c))
    \<and> (\<forall>t. list_all (\<lambda>(ip, now). t \<le> now \<and> now < t + w) log \<longrightarrow>
         (\<forall>c r. hits key = Some (c, r) \<longrightarrow> 0 \<le> c) \<longrightarrow> allowed_count w m key log hits \<le> 2 * m)"
proof (intro conjI allI impI)
  fix c r assume "hits key = Some (c, r)" "list_all (\<lambda>(ip, now). now < r) log"
  then show "allowed_count w m key log hits \<le> max 0 (m - c)" using allowed_closed [of hits key c r log w m] by (simp add: left_over_def)
next
  fix t assume log: "list_all (\<lambda>(ip, now). t \<le> now \<and> now < t + w) log" and c: "\<forall>c r. hits key = Some (c, r) \<longrightarrow> 0 \<le> c"
  have "left_over m (hits key) \<le> m" using assms c by (auto simp: left_over_def split: option.splits)
  then show "allowed_count w m key log hits \<le> 2 * m" using allowed_open [OF assms log, of key hits] by simp
qed

theorem rate_limit_holds_witness:
  "allowed_count 60000 2 ''1.2.3.4'' [(Some ''1.2.3.4'', 10), (None, 11), (Some ''1.2.3.4'', 12), (Some ''1.2.3.4'', 13), (Some ''1.2.3.4'', 14), (Some ''1.2.3.4'', 15)] (\<lambda>_. None) \<le> 4"
  using rate_limit_holds [of 2 "\<lambda>_. None" "''1.2.3.4''"
      "[(Some ''1.2.3.4'', 10), (None, 11), (Some ''1.2.3.4'', 12), (Some ''1.2.3.4'', 13), (Some ''1.2.3.4'', 14), (Some ''1.2.3.4'', 15)]" 60000]
  by (force intro: exI)

section \<open>Timeout and readiness\<close>

text \<open>The events of one request as the timer sees them, and the response that goes out.\<close>

datatype request_event = Respond Response | TimerFires

definition timeout_response :: Response where
  "timeout_response = res_status_json 504 (JObj [(''error'', JObj [(''code'', JStr ''TIMEOUT''), (''message'', JStr ''Request timed out.'')])])"

fun timeout :: "Response option \<Rightarrow> request_event list \<Rightarrow> Response option" where
  "timeout sent [] = sent"
| "timeout sent (TimerFires # es) = timeout (case sent of None \<Rightarrow> Some timeout_response | Some r \<Rightarrow> Some r) es"
| "timeout sent (Respond r # es) = timeout (case sent of None \<Rightarrow> Some r | Some s \<Rightarrow> Some s) es"

definition get_readyz :: "Env \<Rightarrow> Response" where
  "get_readyz env = res_json (JObj [
     (''status'', JStr ''ready''),
     (''network'', JStr (env_STELLAR_NETWORK env)),
     (''networkLabel'', JStr (option_or (map_of NETWORK_LABELS (env_STELLAR_NETWORK env)) (env_STELLAR_NETWORK env))),
     (''contracts'', JObj [
        (''escrow'', JStr (env_CONTRACT_ESCROW env)),
        (''agentRegistry'', JStr (env_CONTRACT_AGENT_REGISTRY env)),
        (''complianceHook'', JStr (env_CONTRACT_COMPLIANCE_HOOK env)),
        (''liquidityPool'', JStr (env_CONTRACT_LIQUIDITY_POOL env))]),
     (''limits'', JObj [(''maxFeeBps'', JNum MAX_FEE_BPS)]),
     (''kycProvider'', JStr (env_KYC_PROVIDER env))])"

end
