(* ===== verification/ConsoleContract.thy ===== *)
theory ConsoleContract
  imports Endpoints Quoting TransfersApi Middleware
begin

text \<open>
  The contract between the console and the backend: \<open>backend_answer\<close> is the backend's handler
  behind each of the console's reads, with every row rendered in full, and the theorem says that the
  console can read what it answers.
\<close>

section \<open>Rows in full\<close>

text \<open>
  What the database knows beyond the model's records: the text of a decimal column, the instants it
  maintains, and the columns no service reads.
\<close>

record Columns =
  cl_decimal :: "int \<Rightarrow> string"
  cl_createdAt :: "string \<Rightarrow> int"
  cl_updatedAt :: "string \<Rightarrow> int"
  cl_settlementAddress :: "string \<Rightarrow> string"
  cl_bondTxHash :: "string \<Rightarrow> string option"
  cl_contactEmail :: "string \<Rightarrow> string option"
  cl_contactPhone :: "string \<Rightarrow> string option"
  cl_slashCount :: "string \<Rightarrow> int"
  cl_exposureId :: "string \<Rightarrow> string \<Rightarrow> string"

definition iso :: "int \<Rightarrow> json" where
  "iso t = JStr (toISOString t)"

definition row_dates :: "Columns \<Rightarrow> string \<Rightarrow> (string \<times> json) list" where
  "row_dates cl i = [(''createdAt'', iso (cl_createdAt cl i)), (''updatedAt'', iso (cl_updatedAt cl i))]"

definition exposure_entries :: "Columns \<Rightarrow> AgentExposure \<Rightarrow> (string \<times> json) list" where
  "exposure_entries cl x = [
     (''id'', JStr (cl_exposureId cl (ex_agentId x) (ex_regionId x))), (''agentId'', JStr (ex_agentId x)),
     (''regionId'', JStr (ex_regionId x)), (''drawnAmount'', JStr (cl_decimal cl (ex_drawnAmount x)))]
     @ row_dates cl (cl_exposureId cl (ex_agentId x) (ex_regionId x))"

definition agent_entries :: "Columns \<Rightarrow> Database \<Rightarrow> Agent \<Rightarrow> (string \<times> json) list" where
  "agent_entries cl db a = [
     (''id'', JStr (ag_id a)), (''stellarAddress'', JStr (ag_stellarAddress a)),
     (''settlementAddress'', JStr (cl_settlementAddress cl (ag_id a))), (''legalName'', JStr (ag_legalName a)),
     (''tradingName'', opt_json JStr (ag_tradingName a)), (''regionId'', JStr (ag_regionId a)),
     (''status'', JStr (agentStatusName (ag_status a))), (''bondAmount'', JStr (cl_decimal cl (ag_bondAmount a))),
     (''bondTxHash'', opt_json JStr (cl_bondTxHash cl (ag_id a))), (''contactEmail'', opt_json JStr (cl_contactEmail cl (ag_id a))),
     (''contactPhone'', opt_json JStr (cl_contactPhone cl (ag_id a))), (''registeredAt'', iso (ag_registeredAt a)),
     (''authorizedAt'', opt_json iso (ag_authorizedAt a)), (''suspendedAt'', opt_json iso (ag_suspendedAt a)),
     (''revokedAt'', opt_json iso (ag_revokedAt a)), (''slashCount'', JNum (cl_slashCount cl (ag_id a))),
     (''updatedAt'', iso (cl_updatedAt cl (ag_id a))),
     (''exposure'', JArr (map (\<lambda>x. JObj (exposure_entries cl x)) (exposures_of (ag_id a) db)))]"

text \<open>The list counts an agent's alerts, the detail includes its region and its unresolved alerts.\<close>

definition listed_agent :: "Columns \<Rightarrow> Database \<Rightarrow> Agent \<Rightarrow> (string \<times> json) list" where
  "listed_agent cl db a = agent_entries cl db a
     @ [(''_count'', JObj [(''alerts'', JNum (int (length (find_many (\<lambda>x. al_agentId x = ag_id a) (db_alerts db)))))])]"

definition detailed_agent :: "Columns \<Rightarrow> Database \<Rightarrow> Agent \<Rightarrow> (string \<times> json) list" where
  "detailed_agent cl db a = agent_entries cl db a
     @ [(''alerts'', JArr (map (\<lambda>x. JObj (alert_entries x))
          (newest_first al_createdAt (find_many (\<lambda>x. al_agentId x = ag_id a \<and> al_status x \<noteq> AL_RESOLVED) (db_alerts db)))))]
     @ (case find_unique (db_regions db) (ag_regionId a) of
          None \<Rightarrow> [] | Some r \<Rightarrow> [(''region'', JObj (region_entries (cl_decimal cl) (row_dates cl) r))])"

text \<open>A relation whose foreign key is required has a row; the rendering leaves it out otherwise.\<close>

definition agent_relation :: "(Agent \<Rightarrow> (string \<times> json) list) \<Rightarrow> Database \<Rightarrow> string \<Rightarrow> (string \<times> json) list" where
  "agent_relation columns db i = (case find_unique (db_agents db) i of None \<Rightarrow> [] | Some a \<Rightarrow> [(''agent'', JObj (columns a))])"

definition transfer_relations :: "Database \<Rightarrow> Transfer \<Rightarrow> (string \<times> json) list" where
  "transfer_relations db t =
     (case find_unique (db_corridors db) (tr_corridorId t) of None \<Rightarrow> []
      | Some c \<Rightarrow> [(''corridor'', JObj [(''id'', JStr (co_id c)), (''destCurrency'', JStr (co_destCurrency c))])])
   @ (case tr_agentId t of None \<Rightarrow> [(''agent'', JNull)] | Some i \<Rightarrow> agent_relation agent_summary db i)"

section \<open>The handlers behind the reads\<close>

record Backend =
  bk_columns :: Columns
  bk_issues :: "json \<Rightarrow> json"
  bk_numberOf :: "string \<Rightarrow> jsnum"
  bk_env :: Env
  bk_provider :: "failure + IdVerificationProvider"
  bk_now :: int

text \<open>\<open>q\<close> is the query string as the framework parsed it.\<close>

fun backend_answer :: "Backend \<Rightarrow> json \<Rightarrow> endpoint \<Rightarrow> (Database, Response) act" where
  "backend_answer b q KycConfig = of_result (get_kyc_config (bk_env b) (bk_provider b))"
| "backend_answer b q (Agents _ _ _) = get_agents (bk_issues b) (bk_numberOf b) (listed_agent (bk_columns b)) q"
| "backend_answer b q (AgentById i) = get_agent (detailed_agent (bk_columns b)) i"
| "backend_answer b q (Alerts _) = get_alerts (bk_issues b) (bk_numberOf b)
     (\<lambda>db x. alert_entries x @ agent_relation (\<lambda>a. agent_summary a @ [(''regionId'', JStr (ag_regionId a))]) db (al_agentId x)) q"
| "backend_answer b q (TopUps _) = get_topUps (bk_issues b) (bk_numberOf b)
     (\<lambda>db r. topUp_entries (cl_decimal (bk_columns b)) r @ agent_relation agent_summary db (tu_agentId r)) q"
| "backend_answer b q (PoolHealth i) =
     get_region_overview (region_entries (cl_decimal (bk_columns b)) (row_dates (bk_columns b))) i"
| "backend_answer b q (Attestations _ _ _) = get_kyc_attestations (bk_issues b) (bk_numberOf b) (bk_now b) q"
| "backend_answer b q (Transfers _ _ _) = get_transfers (bk_issues b) (bk_numberOf b)
     (\<lambda>i. iso (cl_updatedAt (bk_columns b) (show_int i))) (\<lambda>c. iso (cl_updatedAt (bk_columns b) c)) transfer_relations q"
| "backend_answer b q Corridors =
     get_corridors (cl_decimal (bk_columns b)) (row_dates (bk_columns b)) (row_dates (bk_columns b))"
| "backend_answer b q (ComplianceTiers i) = get_compliance_tiers i"

section \<open>What the wire carries\<close>

definition rows :: "('k, 'r) table \<Rightarrow> 'r set" where
  "rows t = snd ` set t"

text \<open>
  The integer columns are 32 bits wide and a table has fewer rows than a double can count; an alert
  has one of the three kinds the monitor opens; no pool is drawn beyond its deposits.
\<close>

definition int32 :: "int \<Rightarrow> bool" where
  "int32 n \<longleftrightarrow> - (2 ^ 31) \<le> n \<and> n < 2 ^ 31"

definition alert_ok :: "AgentFloatAlert \<Rightarrow> bool" where
  "alert_ok a \<longleftrightarrow> int32 (al_thresholdBps a) \<and> int32 (al_observedBps a)
     \<and> al_kind a \<in> {''FLOAT_LOW'', ''COLLATERAL_TIGHT'', ''POOL_UTILIZATION_HIGH''}"

definition columns_ok :: "Backend \<Rightarrow> Database \<Rightarrow> bool" where
  "columns_ok b db \<longleftrightarrow>
     (\<forall>c \<in> rows (db_corridors db). int32 (co_spreadBps c))
     \<and> (\<forall>r \<in> rows (db_regions db). int32 (rg_maxAgents r))
     \<and> (\<forall>a \<in> rows (db_alerts db). alert_ok a)
     \<and> (\<forall>l \<in> rows (db_cursors db). int32 l)
     \<and> (\<forall>p \<in> rows (db_snapshots db). int32 (ps_utilizationBps p) \<and> 0 \<le> ps_totalDrawn p \<and> ps_totalDrawn p \<le> ps_totalDeposited p)
     \<and> length (db_attestations db) \<le> 2 ^ 53 - 1 \<and> length (db_alerts db) \<le> 2 ^ 53 - 1
     \<and> (\<forall>i. int32 (cl_slashCount (bk_columns b) i)) \<and> int32 (env_KYC_ATTESTATION_TTL_DAYS (bk_env b))"

definition readable :: "schema \<Rightarrow> json \<Rightarrow> bool" where
  "readable s v \<longleftrightarrow> json_wf v \<and> fits s v"

lemma int32_safe: "int32 n \<Longrightarrow> \<bar>n\<bar> \<le> MAX_SAFE_INTEGER"
  by (auto simp: int32_def MAX_SAFE_INTEGER_def)

lemma readable_array:
  "readable (ZArray s) (JArr vs) \<longleftrightarrow> (\<forall>v \<in> set vs. readable s v)"
  by (auto simp: readable_def elems_wf_iff)

lemma readable_object:
  "readable (ZObject fs) (JObj es) \<longleftrightarrow> distinct (map fst es) \<and> members_wf es \<and> fits_fields fs es"
  by (simp add: readable_def)

lemma find_many_rows: "r \<in> set (find_many P t) \<Longrightarrow> r \<in> rows t"
  by (auto simp: find_many_def rows_def)

lemma find_unique_row: "find_unique t k = Some r \<Longrightarrow> r \<in> rows t"
  by (force simp: find_unique_def rows_def dest!: map_of_SomeD)

section \<open>Each row is readable\<close>

lemmas row_defs = region_entries_def corridor_entries_def row_dates_def iso_def [abs_def] date_json_def [abs_def]
  exposure_entries_def agent_summary_def topUp_entries_def alert_entries_def attestation_json_def serialiseTransfer_def

text \<open>A nullable text column.\<close>

lemma opt_text [simp]:
  "opt_json JStr m = JNull \<or> (\<exists>s. opt_json JStr m = JStr s)" "json_wf (opt_json JStr m)"
  "opt_json (\<lambda>t. JStr (g t)) n = JNull \<or> (\<exists>s. opt_json (\<lambda>t. JStr (g t)) n = JStr s)" "json_wf (opt_json (\<lambda>t. JStr (g t)) n)"
  by (simp_all add: opt_json_def split: option.split)

text \<open>The names a column of an enumeration has.\<close>

lemma names_known [simp]:
  "tierName t = ''NONE'' \<or> tierName t = ''STANDARD'' \<or> tierName t = ''ENHANCED''"
  "attestationStatusName a = ''PENDING'' \<or> attestationStatusName a = ''ACTIVE'' \<or> attestationStatusName a = ''EXPIRED''
     \<or> attestationStatusName a = ''REVOKED''"
  "agentStatusName g = ''PENDING'' \<or> agentStatusName g = ''AUTHORIZED'' \<or> agentStatusName g = ''SUSPENDED'' \<or> agentStatusName g = ''REVOKED''"
  "topUpStatusName u = ''PENDING'' \<or> topUpStatusName u = ''APPROVED'' \<or> topUpStatusName u = ''REJECTED'' \<or> topUpStatusName u = ''EXECUTED''
     \<or> topUpStatusName u = ''FAILED''"
  "transferStatusName x = ''PENDING'' \<or> transferStatusName x = ''CLAIMED'' \<or> transferStatusName x = ''REFUNDED'' \<or> transferStatusName x = ''CANCELLED''"
  "alertStatusName l = ''OPEN'' \<or> alertStatusName l = ''ACKNOWLEDGED'' \<or> alertStatusName l = ''RESOLVED''"
  by (cases t, simp_all) (cases a, simp_all, cases g, simp_all, cases u, simp_all, cases x, simp_all, cases l, simp_all)

lemmas readable_simps = readable_def int32_safe

lemma region_readable:
  "int32 (rg_maxAgents r) \<Longrightarrow> readable region_schema (JObj (region_entries d (row_dates cl) r))"
  by (simp add: readable_simps region_schema_def row_defs)

lemma corridor_readable:
  assumes "int32 (co_spreadBps c)" "readable region_schema (JObj region)"
  shows "readable corridor_schema (JObj (corridor_entries (row_dates cl) region c))"
  using assms unfolding readable_def by (simp add: corridor_schema_def row_defs int32_safe)

lemma attestation_readable: "readable attestation_schema (attestation_json r)"
  by (simp add: readable_simps attestation_schema_def TIERS_def row_defs)


lemma relation_cases:
  obtains "agent_relation f db i = []" | a where "agent_relation f db i = [(''agent'', JObj (f a))]"
  by (cases "find_unique (db_agents db) i") (auto simp: agent_relation_def)

lemma topUp_readable: "readable top_up_schema (JObj (topUp_entries d r @ agent_relation agent_summary db i))"
  by (rule relation_cases [of agent_summary db i]) (simp_all add: readable_simps top_up_schema_def row_defs)

lemma alert_readable:
  assumes "alert_ok x"
  shows "readable alert_schema (JObj (alert_entries x
    @ agent_relation (\<lambda>a. agent_summary a @ [(''regionId'', JStr (ag_regionId a))]) db i))"
  by (rule relation_cases [of "\<lambda>a. agent_summary a @ [(''regionId'', JStr (ag_regionId a))]" db i])
    (use assms in \<open>simp_all add: alert_ok_def readable_simps alert_schema_def row_defs\<close>)

lemma transfer_relation_cases:
  obtains c where "transfer_relations db t = c @ [(''agent'', JNull)]" "c = [] \<or> (\<exists>a b. c = [(''corridor'', JObj [(''id'', JStr a), (''destCurrency'', JStr b)])])"
  | c f where "transfer_relations db t = c @ f" "c = [] \<or> (\<exists>a b. c = [(''corridor'', JObj [(''id'', JStr a), (''destCurrency'', JStr b)])])"
      "f = [] \<or> (\<exists>a. f = [(''agent'', JObj (agent_summary a))])"
proof -
  let ?c = "case find_unique (db_corridors db) (tr_corridorId t) of None \<Rightarrow> []
      | Some c \<Rightarrow> [(''corridor'', JObj [(''id'', JStr (co_id c)), (''destCurrency'', JStr (co_destCurrency c))])]"
  have c: "?c = [] \<or> (\<exists>a b. ?c = [(''corridor'', JObj [(''id'', JStr a), (''destCurrency'', JStr b)])])"
    by (cases "find_unique (db_corridors db) (tr_corridorId t)") auto
  show thesis
  proof (cases "tr_agentId t")
    case None
    then show ?thesis using that(1) [OF _ c] by (simp add: transfer_relations_def)
  next
    case (Some i)
    have "agent_relation agent_summary db i = [] \<or> (\<exists>a. agent_relation agent_summary db i = [(''agent'', JObj (agent_summary a))])"
      by (rule relation_cases [of agent_summary db i]) auto
    then show ?thesis using that(2) [OF _ c] Some by (simp add: transfer_relations_def)
  qed
qed

lemma transfer_readable:
  "readable transfer_schema (JObj (serialiseTransfer (\<lambda>i. iso (f i)) t @ transfer_relations db t))"
  by (rule transfer_relation_cases [of db t]; elim disjE exE; simp add: readable_simps transfer_schema_def row_defs)

lemma exposure_readable:
  "readable (ZObject [(''id'', ZString), (''regionId'', ZString), (''drawnAmount'', ZString)]) (JObj (exposure_entries cl x))"
  by (simp add: readable_simps row_defs)

lemma exposures_readable:
  "elems_wf (map (\<lambda>x. JObj (exposure_entries cl x)) xs)"
  "\<forall>v \<in> set (map (\<lambda>x. JObj (exposure_entries cl x)) xs).
     fits (ZObject [(''id'', ZString), (''regionId'', ZString), (''drawnAmount'', ZString)]) v"
  using exposure_readable unfolding readable_def by (auto simp: elems_wf_iff simp del: fits.simps json_wf.simps)

lemma alerts_wf:
  assumes "\<forall>x \<in> set xs. alert_ok x"
  shows "elems_wf (map (\<lambda>x. JObj (alert_entries x)) xs)"
  using assms by (auto simp: elems_wf_iff row_defs alert_ok_def int32_safe)

lemma agent_readable:
  assumes "int32 (cl_slashCount cl (ag_id a))"
  shows "readable agent_schema (JObj (agent_entries cl db a))"
  using assms exposures_readable(1) by (simp add: readable_simps agent_schema_def row_defs agent_entries_def)

lemma listed_agent_readable:
  assumes "int32 (cl_slashCount cl (ag_id a))" "length (db_alerts db) \<le> 2 ^ 53 - 1"
  shows "readable agent_schema (JObj (listed_agent cl db a))"
proof -
  have "length (find_many (\<lambda>x. al_agentId x = ag_id a) (db_alerts db)) \<le> length (db_alerts db)"
    by (simp add: find_many_def)
  then have "int (length (find_many (\<lambda>x. al_agentId x = ag_id a) (db_alerts db))) \<le> MAX_SAFE_INTEGER"
    using assms(2) by (simp add: MAX_SAFE_INTEGER_def)
  then show ?thesis
    using assms(1) exposures_readable(1) by (simp add: readable_simps agent_schema_def row_defs agent_entries_def listed_agent_def)
qed

lemma spread_wf:
  assumes "distinct (map fst base)" "members_wf base" "members_wf own"
  shows "json_wf (spread base own)"
proof -
  have "distinct (map fst (foldl (\<lambda>es (k, v). obj_set k v es) base own)) \<and> members_wf (foldl (\<lambda>es (k, v). obj_set k v es) base own)"
    using assms by (induction own arbitrary: base) (auto simp: distinct_obj_set members_wf_set)
  then show ?thesis by (simp add: spread_def)
qed

lemma detailed_agent_readable:
  assumes slash: "int32 (cl_slashCount cl (ag_id a))"
    and alerts: "\<forall>x \<in> rows (db_alerts db). alert_ok x"
    and regions: "\<forall>r \<in> rows (db_regions db). int32 (rg_maxAgents r)"
  shows "readable agent_detail_schema (spread (detailed_agent cl db a)
    [(''bondAmount'', JStr b), (''totalDrawn'', JStr t), (''collateralRatioBps'', JNum 15000), (''requiredBond'', JStr q)])"
proof -
  let ?alerts = "newest_first al_createdAt (find_many (\<lambda>x. al_agentId x = ag_id a \<and> al_status x \<noteq> AL_RESOLVED) (db_alerts db))"
  have wf: "elems_wf (map (\<lambda>x. JObj (alert_entries x)) ?alerts)"
    by (rule alerts_wf) (use alerts in \<open>auto dest: find_many_rows\<close>)
  have small: "\<bar>15000::int\<bar> \<le> MAX_SAFE_INTEGER" by (simp add: MAX_SAFE_INTEGER_def)
  obtain rs where e: "detailed_agent cl db a = agent_entries cl db a @ [(''alerts'', JArr (map (\<lambda>x. JObj (alert_entries x)) ?alerts))] @ rs"
    and rs: "rs = [] \<or> (\<exists>es. rs = [(''region'', JObj es)] \<and> readable region_schema (JObj es))"
  proof (cases "find_unique (db_regions db) (ag_regionId a)")
    case None
    then show ?thesis using that [of "[]"] by (simp add: detailed_agent_def)
  next
    case (Some r)
    have "readable region_schema (JObj (region_entries (cl_decimal cl) (row_dates cl) r))"
      by (rule region_readable) (use regions find_unique_row [OF Some] in blast)
    then show ?thesis
      using that [of "[(''region'', JObj (region_entries (cl_decimal cl) (row_dates cl) r))]"] Some by (simp add: detailed_agent_def)
  qed
  note facts = exposures_readable wf slash small
  show ?thesis unfolding readable_def e
  proof (intro conjI spread_wf)
    show "fits agent_detail_schema (spread (agent_entries cl db a @ [(''alerts'', JArr (map (\<lambda>x. JObj (alert_entries x)) ?alerts))] @ rs)
        [(''bondAmount'', JStr b), (''totalDrawn'', JStr t), (''collateralRatioBps'', JNum 15000), (''requiredBond'', JStr q)])"
      using facts rs by (elim disjE exE conjE)
        (simp_all add: readable_def spread_def agent_detail_schema_def agent_schema_def extend_with_def agent_entries_def row_defs)
  qed (use facts rs in \<open>elim disjE exE conjE; simp add: readable_def agent_entries_def row_defs int32_safe\<close>)+
qed

section \<open>Each answer is readable\<close>

lemma list_readable:
  assumes "\<forall>v \<in> set vs. readable s v"
  shows "readable (ZObject [(k, ZArray s)]) (JObj [(k, JArr vs)])"
  using assms by (auto simp: readable_def elems_wf_iff)

lemma selected_rows: "r \<in> set (take n (newest_first at (find_many P t))) \<Longrightarrow> r \<in> rows t"
  by (auto dest!: in_set_takeD find_many_rows)

lemma agents_answer:
  assumes "get_agents issues numberOf (listed_agent cl) q db = (Inr res, db')"
    and "\<forall>i. int32 (cl_slashCount cl i)" "length (db_alerts db) \<le> 2 ^ 53 - 1"
  shows "readable agents_schema (res_body res)"
  using assms unfolding agents_schema_def
  by (auto simp: get_agents_def andThen_Inr_iff get_state_iff found_Inr_iff ret_iff res_json_def split: prod.splits
      intro!: list_readable listed_agent_readable)

lemma alerts_answer:
  assumes "get_alerts issues numberOf (\<lambda>db x. alert_entries x
      @ agent_relation (\<lambda>a. agent_summary a @ [(''regionId'', JStr (ag_regionId a))]) db (al_agentId x)) q db = (Inr res, db')"
    and "\<forall>a \<in> rows (db_alerts db). alert_ok a"
  shows "readable alerts_schema (res_body res)"
  using assms unfolding alerts_schema_def
  by (auto simp: get_alerts_def andThen_Inr_iff get_state_iff found_Inr_iff ret_iff res_json_def split: prod.splits
      intro!: list_readable alert_readable dest!: selected_rows)

lemma topUps_answer:
  assumes "get_topUps issues numberOf (\<lambda>db r. topUp_entries d r @ agent_relation agent_summary db (tu_agentId r)) q db = (Inr res, db')"
  shows "readable top_ups_schema (res_body res)"
  using assms unfolding top_ups_schema_def
  by (auto simp: get_topUps_def andThen_Inr_iff get_state_iff found_Inr_iff ret_iff res_json_def split: prod.splits
      intro!: list_readable topUp_readable)

lemma compliance_tiers_answer:
  assumes "get_compliance_tiers i db = (Inr res, db')" "res_status res = 200"
    and "\<forall>c \<in> rows (db_corridors db). int32 (co_spreadBps c)"
  shows "readable compliance_tiers_schema (res_body res)"
  using assms find_unique_row [of "db_corridors db" i]
  by (auto simp: get_compliance_tiers_def andThen_Inr_iff get_state_iff ret_iff res_json_def res_status_json_def
      readable_simps compliance_tiers_schema_def TIERS_def split: option.splits)

lemma kyc_config_answer:
  assumes "get_kyc_config env provider = Inr res" "int32 (env_KYC_ATTESTATION_TTL_DAYS env)"
  shows "readable kyc_config_schema (res_body res)"
  using assms unfolding kyc_config_schema_def TIERS_def
  by (auto simp: get_kyc_config_def result_simps res_json_def readable_simps elems_wf_iff)

lemma agent_answer:
  assumes "get_agent (detailed_agent cl) i db = (Inr res, db')"
    and "\<forall>i. int32 (cl_slashCount cl i)" "\<forall>x \<in> rows (db_alerts db). alert_ok x" "\<forall>r \<in> rows (db_regions db). int32 (rg_maxAgents r)"
  shows "readable agent_detail_schema (res_body res)"
  using assms
  by (auto simp: get_agent_def andThen_Inr_iff get_state_iff found_Inr_iff ret_iff Let_def res_json_def
      simp del: fits.simps json_wf.simps intro!: detailed_agent_readable)

lemma result_map_member: "result_map f xs = Inr ys \<Longrightarrow> y \<in> set ys \<Longrightarrow> \<exists>x \<in> set xs. f x = Inr y"
  unfolding result_map_Inr_iff list_all2_conv_all_nth by (metis in_set_conv_nth)

lemma corridors_answer:
  assumes "get_corridors d (row_dates cl) (row_dates cl') db = (Inr res, db')"
    and c: "\<forall>c \<in> rows (db_corridors db). int32 (co_spreadBps c)" and r: "\<forall>r \<in> rows (db_regions db). int32 (rg_maxAgents r)"
  shows "readable corridors_schema (res_body res)"
proof -
  obtain js where js: "result_map (corridor_json d (row_dates cl) (row_dates cl') db) (find_many (\<lambda>_. True) (db_corridors db)) = Inr js"
    and res: "res_body res = JObj [(''corridors'', JArr js)]"
    using assms(1) by (auto simp: get_corridors_def andThen_Inr_iff get_state_iff of_result_iff ret_iff res_json_def)
  have "readable corridor_schema v" if member: "v \<in> set js" for v
  proof -
    obtain k where k: "k \<in> set (find_many (\<lambda>_. True) (db_corridors db))"
      and v: "corridor_json d (row_dates cl) (row_dates cl') db k = Inr v"
      using result_map_member [OF js member] by blast
    then obtain g where g: "find_unique (db_regions db) (co_regionId k) = Some g"
      and e: "v = JObj (corridor_entries (row_dates cl) (region_entries d (row_dates cl') g) k)"
      by (auto simp: corridor_json_def split: option.splits)
    show ?thesis unfolding e
      by (intro corridor_readable region_readable) (use c r find_many_rows [OF k] find_unique_row [OF g] in auto)
  qed
  then show ?thesis unfolding res corridors_schema_def by (intro list_readable ballI)
qed

text \<open>An answer of several fields, and the two that need arithmetic: what the sweep counts and the pool's utilisation.\<close>

lemma attestations_answer:
  assumes "get_kyc_attestations issues numberOf now q db = (Inr res, db')" "length (db_attestations db) \<le> 2 ^ 53 - 1"
  shows "readable attestations_schema (res_body res)"
proof -
  obtain rs n where res: "res_body res = JObj [(''attestations'', JArr (map attestation_json rs)), (''expiresSweepable'', JNum (int n))]"
    and n: "n \<le> length (db_attestations db)"
    using assms(1)
    by (auto simp: get_kyc_attestations_def expireStaleAttestations_def Let_def andThen_Inr_iff get_state_iff modify_state_iff found_Inr_iff
        ret_iff res_json_def count_rows_def find_many_def)
  have n': "\<bar>int n\<bar> \<le> MAX_SAFE_INTEGER" using n assms(2) by (simp add: MAX_SAFE_INTEGER_def)
  show ?thesis unfolding res attestations_schema_def
    using attestation_readable n' by (simp add: readable_def elems_wf_iff)
qed

lemma indexer_readable:
  assumes "\<forall>l \<in> rows (db_cursors db). int32 l"
  shows "readable (ZObject [(''lastLedger'', ZNullable ZNumber), (''updatedAt'', ZNullable ZString)]) (indexer_json (\<lambda>c. iso (f c)) db)"
proof (cases "sort_key snd (db_cursors db)")
  case Nil
  then show ?thesis by (simp add: indexer_json_def readable_def)
next
  case (Cons p ps)
  have "p \<in> set (db_cursors db)" using arg_cong [where f = set, OF Cons] by auto
  then have "int32 (snd p)" using assms by (auto simp: rows_def)
  then show ?thesis by (cases p) (simp add: indexer_json_def Cons readable_def int32_safe iso_def)
qed

lemma transfers_answer:
  assumes "get_transfers issues numberOf (\<lambda>i. iso (g i)) (\<lambda>c. iso (f c)) transfer_relations q db = (Inr res, db')"
    and "\<forall>l \<in> rows (db_cursors db). int32 l"
  shows "readable transfers_schema (res_body res)"
proof -
  obtain ts where res: "res_body res = JObj [
      (''transfers'', JArr (map (\<lambda>t. JObj (serialiseTransfer (\<lambda>i. iso (g i)) t @ transfer_relations db t)) ts)),
      (''indexer'', indexer_json (\<lambda>c. iso (f c)) db)]"
    using assms(1) by (auto simp: get_transfers_def andThen_Inr_iff get_state_iff found_Inr_iff ret_iff res_json_def split: prod.splits)
  show ?thesis unfolding res transfers_schema_def
    using transfer_readable indexer_readable [OF assms(2), of f]
    by (auto simp: readable_def elems_wf_iff simp del: fits.simps(4))
qed

lemma utilisation_bounds: "0 \<le> drawn \<Longrightarrow> drawn \<le> deposited \<Longrightarrow> 0 < deposited \<Longrightarrow> \<bar>tdiv (drawn * 10000) deposited\<bar> \<le> MAX_SAFE_INTEGER"
proof -
  assume a: "0 \<le> drawn" "drawn \<le> deposited" "0 < deposited"
  have "drawn * 10000 div deposited \<le> deposited * 10000 div deposited" using a by (intro zdiv_mono1) simp_all
  also have "\<dots> = 10000" using a(3) by simp
  finally have "drawn * 10000 div deposited \<le> 10000" .
  moreover have "0 \<le> drawn * 10000 div deposited" using a by (simp add: pos_imp_zdiv_nonneg_iff)
  ultimately show ?thesis using a by (simp add: MAX_SAFE_INTEGER_def)
qed

lemma pool_readable:
  assumes "\<forall>p. latest = Some p \<longrightarrow> int32 (ps_utilizationBps p) \<and> 0 \<le> ps_totalDrawn p \<and> ps_totalDrawn p \<le> ps_totalDeposited p"
  shows "readable (ZObject [(''totalDeposited'', ZString), (''totalDrawn'', ZString), (''available'', ZString), (''utilizationBps'', ZNumber),
        (''utilizationCapBps'', ZNumber), (''capturedAt'', ZNullable ZString), (''stale'', ZBoolean)]) (pool_json latest)"
proof (cases latest)
  case None
  then show ?thesis by (simp add: pool_json_def readable_def MAX_SAFE_INTEGER_def) (rule exI, rule TrueI)
next
  case (Some p)
  have z: "\<bar>0::int\<bar> \<le> MAX_SAFE_INTEGER" by (simp add: MAX_SAFE_INTEGER_def)
  have u: "\<bar>if 0 < ps_totalDeposited p then tdiv (ps_totalDrawn p * 10000) (ps_totalDeposited p) else 0\<bar> \<le> MAX_SAFE_INTEGER"
    using assms Some utilisation_bounds [of "ps_totalDrawn p" "ps_totalDeposited p"] z by simp
  show ?thesis using assms Some u by (simp add: pool_json_def readable_def int32_safe Let_def) (rule exI [of _ False], simp)
qed

lemma pool_answer:
  assumes run: "get_region_overview (region_entries d (row_dates cl)) i db = (Inr res, db')"
    and p: "\<forall>p \<in> rows (db_snapshots db). int32 (ps_utilizationBps p) \<and> 0 \<le> ps_totalDrawn p \<and> ps_totalDrawn p \<le> ps_totalDeposited p"
    and r: "\<forall>r \<in> rows (db_regions db). int32 (rg_maxAgents r)"
  shows "readable pool_health_schema (res_body res)"
proof -
  obtain region exposure where region: "find_unique (db_regions db) i = Some region"
    and res: "res_body res = JObj [(''region'', JObj (region_entries d (row_dates cl) region)),
       (''pool'', pool_json (latest_snapshot i db)), (''agentExposureTotal'', JStr exposure)]"
    using run by (auto simp: get_region_overview_def Let_def andThen_Inr_iff get_state_iff found_Inr_iff ret_iff res_json_def)
  have "q \<in> rows (db_snapshots db)" if "latest_snapshot i db = Some q" for q
    using that find_many_rows newest_first_hd by (fastforce simp: latest_snapshot_def split: list.splits)
  then have pool: "readable (ZObject [(''totalDeposited'', ZString), (''totalDrawn'', ZString), (''available'', ZString), (''utilizationBps'', ZNumber),
        (''utilizationCapBps'', ZNumber), (''capturedAt'', ZNullable ZString), (''stale'', ZBoolean)]) (pool_json (latest_snapshot i db))"
    by (intro pool_readable) (use p in blast)
  have reg: "readable region_schema (JObj (region_entries d (row_dates cl) region))"
    by (rule region_readable) (use r find_unique_row [OF region] in blast)
  show ?thesis unfolding res pool_health_schema_def
    using reg pool unfolding readable_def by (simp del: fits.simps add: fits.simps(1,8))
qed

lemma answer_readable:
  assumes "backend_answer b q e db = (Inr res, db')" "res_status res = 200" "columns_ok b db"
  shows "readable (endpoint_schema e) (res_body res)"
proof -
  have c: "\<forall>c \<in> rows (db_corridors db). int32 (co_spreadBps c)" "\<forall>r \<in> rows (db_regions db). int32 (rg_maxAgents r)"
    "\<forall>a \<in> rows (db_alerts db). alert_ok a" "\<forall>l \<in> rows (db_cursors db). int32 l"
    "\<forall>p \<in> rows (db_snapshots db). int32 (ps_utilizationBps p) \<and> 0 \<le> ps_totalDrawn p \<and> ps_totalDrawn p \<le> ps_totalDeposited p"
    "length (db_attestations db) \<le> 2 ^ 53 - 1" "length (db_alerts db) \<le> 2 ^ 53 - 1"
    "\<forall>i. int32 (cl_slashCount (bk_columns b) i)" "int32 (env_KYC_ATTESTATION_TTL_DAYS (bk_env b))"
    using assms(3) unfolding columns_ok_def by blast+
  note run = assms(1)
  show ?thesis
  proof (cases e)
    case KycConfig
    then show ?thesis using run c(9) by (auto simp: of_result_iff intro: kyc_config_answer)
  next
    case (Agents x y z)
    then show ?thesis using run agents_answer [OF _ c(8,7)] by simp
  next
    case (AgentById i)
    then show ?thesis using run agent_answer [OF _ c(8,3,2)] by simp
  next
    case (Alerts x)
    then show ?thesis using run alerts_answer [OF _ c(3)] by simp
  next
    case (TopUps x)
    then show ?thesis using run topUps_answer by simp
  next
    case (PoolHealth i)
    then show ?thesis using run pool_answer [OF _ c(5,2)] by simp
  next
    case (Attestations x y z)
    then show ?thesis using run attestations_answer [OF _ c(6)] by simp
  next
    case (Transfers x y z)
    then show ?thesis using run transfers_answer [OF _ c(4)] by simp
  next
    case Corridors
    then show ?thesis using run corridors_answer [OF _ c(1,2)] by simp
  next
    case (ComplianceTiers i)
    then show ?thesis using run compliance_tiers_answer [OF _ assms(2) c(1)] by simp
  qed
qed

lemma request_readable:
  assumes "fetch (client_base env @ path) = Inr (200, stringify v)" "readable s v"
  shows "\<exists>w. request texts env fetch path s = Loaded w \<and> parse s v = Some w"
proof -
  have wf: "json_wf v" and fit: "fits s v" using assms(2) by (simp_all add: readable_def)
  have "stringify v \<noteq> []" using length_stringify_pos [OF wf] by simp
  moreover obtain w where "parse s v = Some w" using parse_iff_fits(1) [of s v] fit by blast
  ultimately show ?thesis by (simp add: request_def assms(1) json_parse_stringify [OF wf])
qed

section \<open>The console reads the backend\<close>

text \<open>
  C23: the console can read whatever the backend answers.  For each of its reads and every query, when
  the backend's handler answers with 200 on rows whose columns have their declared ranges and the
  answer arrives as it was written, the console loads data: the answer's own values, only declared
  fields at every level, and nothing that a second validation would change.
\<close>

theorem console_reads_the_backend:
  assumes "backend_answer b q e db = (Inr res, db')" "res_status res = 200" "columns_ok b db"
    and "fetch (client_base env @ ''/api/v1'' @ endpoint_path e) = Inr (res_status res, stringify (res_body res))"
  shows "\<exists>w. read_endpoint texts env fetch e = Loaded w \<and> parse (endpoint_schema e) (res_body res) = Some w
    \<and> part_of w (res_body res) \<and> parse (endpoint_schema e) w = Some w"
proof -
  obtain w where w: "read_endpoint texts env fetch e = Loaded w" "parse (endpoint_schema e) (res_body res) = Some w"
    using request_readable [where fetch = fetch and env = env and path = "''/api/v1'' @ endpoint_path e", OF assms(4) [unfolded assms(2)] answer_readable [OF assms(1-3)]]
    by (auto simp: read_endpoint_def apiGet_def)
  then show ?thesis using parse_part_of(1) [OF w(2)] parse_idem(1) [OF w(2) endpoint_schema_ok] by blast
qed

text \<open>The readiness panel reads \<open>/readyz\<close>, which lies outside the API's prefix.\<close>

lemma console_reads_readiness:
  assumes "fetch (client_base env @ ''/readyz'') = Inr (res_status (get_readyz e), stringify (res_body (get_readyz e)))"
  shows "\<exists>w. read_readiness texts env fetch = Loaded w \<and> parse readiness_schema (res_body (get_readyz e)) = Some w"
proof -
  have "readable readiness_schema (res_body (get_readyz e))"
    by (simp add: readable_def readiness_schema_def get_readyz_def res_json_def MAX_FEE_BPS_def MAX_SAFE_INTEGER_def)
  moreover have "fetch (client_base env @ ''/readyz'') = Inr (200, stringify (res_body (get_readyz e)))"
    using assms by (simp add: get_readyz_def res_json_def)
  ultimately show ?thesis unfolding read_readiness_def apiGetRoot_def
    using request_readable [where fetch = fetch and env = env and path = "''/readyz''"] by blast
qed

definition contract_backend :: Backend where
  "contract_backend = \<lparr>bk_columns = \<lparr>cl_decimal = show_int, cl_createdAt = \<lambda>_. 0, cl_updatedAt = \<lambda>_. 1000, cl_settlementAddress = \<lambda>i. i,
       cl_bondTxHash = \<lambda>_. None, cl_contactEmail = \<lambda>_. None, cl_contactPhone = \<lambda>_. None, cl_slashCount = \<lambda>_. 0,
       cl_exposureId = \<lambda>a r. a @ r\<rparr>,
     bk_issues = \<lambda>v. v, bk_numberOf = \<lambda>t. NotInteger t, bk_env = sample_env, bk_provider = Inl (PlainErr []), bk_now = 0\<rparr>"

definition contract_db :: Database where
  "contract_db = sample_db\<lparr>db_regions := [(''NG_LAG'', \<lparr>rg_id = ''NG_LAG'', rg_displayName = ''Lagos'', rg_countryCode = ''NG'',
     rg_currency = ''NGN'', rg_minBond = 5000, rg_maxAgents = 0, rg_active = True\<rparr>)]\<rparr>"

theorem console_reads_the_backend_witness:
  "\<exists>res w. backend_answer contract_backend JNull Corridors contract_db = (Inr res, contract_db)
     \<and> read_endpoint \<lparr>pt_syntax = \<lambda>_. [], pt_schema = \<lambda>_ _. []\<rparr> (\<lambda>_. None) (\<lambda>_. Inr (200, stringify (res_body res))) Corridors = Loaded w
     \<and> part_of w (res_body res)"
proof -
  have run: "\<exists>res. backend_answer contract_backend JNull Corridors contract_db = (Inr res, contract_db) \<and> res_status res = 200"
    by (simp add: get_corridors_def act_simps contract_db_def sample_db_def empty_database_def find_many_def corridor_json_def
        find_unique_def sample_corridor_def result_simps res_json_def)
  then obtain res where res: "backend_answer contract_backend JNull Corridors contract_db = (Inr res, contract_db)" "res_status res = 200"
    by blast
  have ttl: "int32 (env_KYC_ATTESTATION_TTL_DAYS sample_env)"
    by (simp add: sample_env_def env_value_def sample_raw_env_def int_var_def int32_def)
  have ok: "columns_ok contract_backend contract_db"
    using ttl by (simp add: columns_ok_def contract_backend_def contract_db_def sample_db_def empty_database_def rows_def int32_def sample_corridor_def)
  show ?thesis
    using console_reads_the_backend [OF res ok, of "\<lambda>_. Inr (200, stringify (res_body res))" "\<lambda>_. None"
        "\<lparr>pt_syntax = \<lambda>_. [], pt_schema = \<lambda>_ _. []\<rparr>"] res by auto
qed

end
