(* ===== verification/ClaimCode.thy ===== *)
theory ClaimCode
  imports Errors
begin

text \<open>
  \<open>mobile/src/lib/claim.ts\<close>: minting, repairing, displaying and checking claim codes.  The digest
  of a text, as hexadecimal, and the random bytes are arguments.  Characters are code units below
  256; the two whose upper case is beyond that are removed by the normalisation either way.
\<close>

section \<open>Operations\<close>

definition ALPHABET :: string where
  "ALPHABET = ''0123456789ABCDEFGHJKMNPQRSTVWXYZ''"

definition CLAIM_CODE_LENGTH :: nat where "CLAIM_CODE_LENGTH = 32"

definition GROUP_SIZE :: nat where "GROUP_SIZE = 4"

record ClaimCode =
  cl_code :: string
  cl_hash :: string

definition is_upper :: "char \<Rightarrow> bool" where
  "is_upper c \<longleftrightarrow> 65 \<le> cu c \<and> cu c \<le> 90"

definition repair :: "char \<Rightarrow> char" where
  "repair c = (if c = CHR ''I'' \<or> c = CHR ''L'' then CHR ''1'' else if c = CHR ''O'' then CHR ''0'' else c)"

definition normaliseClaimCode :: "string \<Rightarrow> string" where
  "normaliseClaimCode input = map repair (filter (\<lambda>c. is_digit c \<or> is_upper c) (toUpperCase input))"

definition isCanonical :: "string \<Rightarrow> bool" where
  "isCanonical code \<longleftrightarrow> list_all (\<lambda>c. c \<in> set ALPHABET) code"

definition isWellFormedClaimCode :: "string \<Rightarrow> bool" where
  "isWellFormedClaimCode code \<longleftrightarrow>
     (let canonical = normaliseClaimCode code in length canonical = CLAIM_CODE_LENGTH \<and> isCanonical canonical)"

definition hashClaimCode :: "(string \<Rightarrow> string) \<Rightarrow> string \<Rightarrow> failure + string" where
  "hashClaimCode digest code =
     (let canonical = normaliseClaimCode code in
      if length canonical \<noteq> CLAIM_CODE_LENGTH
      then Inl (PlainErr (''a claim code is '' @ show_nat CLAIM_CODE_LENGTH @ '' characters; got '' @ show_nat (length canonical)))
      else if \<not> isCanonical canonical then Inl (PlainErr ''claim code contains a character outside the alphabet'')
      else Inr (digest canonical))"

definition symbol_of :: "nat \<Rightarrow> char" where
  "symbol_of byte = ALPHABET ! (byte mod length ALPHABET)"

text \<open>\<open>random[index] ?? 0\<close> for every position.\<close>

definition generateClaimCode :: "(string \<Rightarrow> string) \<Rightarrow> nat list \<Rightarrow> failure + ClaimCode" where
  "generateClaimCode digest random =
     (let code = map (\<lambda>i. symbol_of (if i < length random then random ! i else 0)) [0..<CLAIM_CODE_LENGTH]
      in rbind (hashClaimCode digest code) (\<lambda>h. Inr \<lparr>cl_code = code, cl_hash = h\<rparr>))"

fun chunks :: "nat \<Rightarrow> string \<Rightarrow> string list" where
  "chunks 0 s = []"
| "chunks (Suc n) [] = []"
| "chunks (Suc n) (c # s) = (c # take n s) # chunks (Suc n) (drop n s)"

definition formatClaimCode :: "string \<Rightarrow> string" where
  "formatClaimCode code = join_on (CHR ''-'') (chunks GROUP_SIZE (normaliseClaimCode code))"

datatype ClaimVerification = Matches | Malformed string | Mismatch string string

definition verifyClaimCode :: "(string \<Rightarrow> string) \<Rightarrow> string \<Rightarrow> string \<Rightarrow> failure + ClaimVerification" where
  "verifyClaimCode digest code expectedHash =
     (if \<not> isWellFormedClaimCode code
      then (let canonical = normaliseClaimCode code in
            Inr (Malformed (if length canonical = 0 then ''no code entered''
              else ''expected '' @ show_nat CLAIM_CODE_LENGTH @ '' characters, got '' @ show_nat (length canonical))))
      else rbind (hashClaimCode digest code) (\<lambda>actual.
        Inr (if toLowerCase actual \<noteq> toLowerCase expectedHash then Mismatch actual expectedHash else Matches)))"

section \<open>Normal forms\<close>

lemma alphabet_facts:
  "length ALPHABET = 32" "distinct ALPHABET" "list_all (\<lambda>c. upper_chars c = [c] \<and> (is_digit c \<or> is_upper c) \<and> repair c = c) ALPHABET"
  by (simp_all add: ALPHABET_def upper_chars_def is_digit_def is_upper_def repair_def)

lemma canonical_char: "c \<in> set ALPHABET \<Longrightarrow> upper_chars c = [c] \<and> (is_digit c \<or> is_upper c) \<and> repair c = c"
  using alphabet_facts(3) by (simp add: list_all_iff)

lemma normalise_canonical: "isCanonical s \<Longrightarrow> normaliseClaimCode s = s"
  by (induction s) (auto simp: isCanonical_def normaliseClaimCode_def toUpperCase_def canonical_char)

lemma normalise_append: "normaliseClaimCode (s @ t) = normaliseClaimCode s @ normaliseClaimCode t"
  by (simp add: normaliseClaimCode_def toUpperCase_def)

lemma normalise_hyphen: "normaliseClaimCode (CHR ''-'' # s) = normaliseClaimCode s"
  by (simp add: normaliseClaimCode_def toUpperCase_def upper_chars_def is_digit_def is_upper_def)

lemma normalise_join: "normaliseClaimCode (join_on (CHR ''-'') ws) = concat (map normaliseClaimCode ws)"
proof (induction ws rule: induct_list012)
  case 1
  then show ?case by (simp add: normaliseClaimCode_def toUpperCase_def)
next
  case (2 w)
  then show ?case by simp
next
  case (3 w v ws)
  then show ?case by (simp only: join_on.simps normalise_append normalise_hyphen list.map concat.simps)
qed

lemma concat_chunks: "0 < n \<Longrightarrow> concat (chunks n s) = s"
  by (induction n s rule: chunks.induct) simp_all

lemma chunks_subset: "w \<in> set (chunks n s) \<Longrightarrow> set w \<subseteq> set s"
proof (induction n s rule: chunks.induct)
  case (3 n c s)
  then show ?case by (auto dest: in_set_takeD in_set_dropD)
qed simp_all

lemma normalise_format:
  assumes "isCanonical code"
  shows "normaliseClaimCode (formatClaimCode code) = code"
proof -
  have "normaliseClaimCode w = w" if "w \<in> set (chunks GROUP_SIZE code)" for w
    using chunks_subset [OF that] assms by (intro normalise_canonical) (auto simp: isCanonical_def list_all_iff)
  then have "map normaliseClaimCode (chunks GROUP_SIZE code) = chunks GROUP_SIZE code" by (rule map_idI)
  then show ?thesis
    by (simp add: formatClaimCode_def normalise_canonical [OF assms] normalise_join concat_chunks GROUP_SIZE_def)
qed

lemma generateClaimCode_Inr:
  assumes "generateClaimCode digest random = Inr minted"
  shows "isCanonical (cl_code minted) \<and> length (cl_code minted) = CLAIM_CODE_LENGTH \<and> cl_hash minted = digest (cl_code minted)"
proof -
  let ?code = "map (\<lambda>i. symbol_of (if i < length random then random ! i else 0)) [0..<CLAIM_CODE_LENGTH]"
  have "symbol_of b \<in> set ALPHABET" for b by (simp add: symbol_of_def alphabet_facts(1))
  then have c: "isCanonical ?code" by (simp add: isCanonical_def list_all_iff)
  then show ?thesis
    using assms by (auto simp: generateClaimCode_def hashClaimCode_def Let_def result_simps normalise_canonical [OF c] split: if_splits)
qed



text \<open>Every symbol stands for equally many bytes, so the modulo is unbiased.\<close>

lemma symbols_unbiased: "s \<in> set ALPHABET \<Longrightarrow> card {b \<in> {0..<256}. symbol_of b = s} = 8"
proof -
  assume "s \<in> set ALPHABET"
  then obtain i where i: "i < 32" "s = ALPHABET ! i" by (metis alphabet_facts(1) in_set_conv_nth)
  have "symbol_of b = s \<longleftrightarrow> b mod 32 = i" for b
    using i alphabet_facts(1,2) by (simp add: symbol_of_def nth_eq_iff_index_eq)
  moreover have "{b \<in> {0..<256::nat}. b mod 32 = i} = (\<lambda>k. k * 32 + i) ` {0..<8}"
  proof (intro set_eqI iffI)
    fix b assume "b \<in> {b \<in> {0..<256}. b mod 32 = i}"
    then have "b = (b div 32) * 32 + i" "b div 32 < 8" using div_mult_mod_eq [of b 32] by (auto simp: less_mult_imp_div_less)
    then show "b \<in> (\<lambda>k. k * 32 + i) ` {0..<8}" by (intro image_eqI [of _ _ "b div 32"]) simp_all
  next
    fix b assume "b \<in> (\<lambda>k. k * 32 + i) ` {0..<8}"
    then obtain k where "b = k * 32 + i" "k < 8" by auto
    then show "b \<in> {b \<in> {0..<256}. b mod 32 = i}" using i(1) by simp
  qed
  moreover have "inj_on (\<lambda>k. k * 32 + i) {0..<8}" by (auto simp: inj_on_def)
  ultimately show ?thesis by (simp add: card_image)
qed

end
