(* ===== verification/Stellar.thy ===== *)
theory Stellar
  imports Decoder
begin

text \<open>
  \<open>scripts/src/stellar.ts\<close>: the path every write of a deployment takes (simulate, assemble, sign,
  submit, poll), and the helpers on top of it.  The network is the record \<open>Network\<close> of its answers,
  which may depend on everything submitted so far; key and address handling and the encoding of
  values are the record \<open>Library\<close>.  What a run did is the list of operations it submitted and the
  files it wrote.  Progress messages are left out; a long dash in an error message is written as
  its UTF-8 bytes.
\<close>

section \<open>Network and library\<close>

datatype Op =
    UploadContractWasm string
  | CreateCustomContract string string string
  | Invoke string string "Sc list"

type_synonym history = "Op list list"

record Run =
  run_sent :: history
  run_files :: "string \<rightharpoonup> string"

text \<open>The status of a transaction; a failed one carries its diagnostic events as Latin-1 text.\<close>

datatype outcome = Confirmed int | FailedOnChain "string list" | NotFoundYet

text \<open>
  An answer \<open>Inl\<close> is a transport error.  \<open>nw_assemble\<close> is what assembling a transaction from a
  simulation throws, \<open>nw_no_value\<close> what decoding a missing return value throws.
\<close>

record Network =
  nw_getAccount :: "history \<Rightarrow> string \<Rightarrow> string + unit"
  nw_simulate :: "history \<Rightarrow> Op list \<Rightarrow> string + simulation"
  nw_assemble :: "simulation \<Rightarrow> string option"
  nw_send :: "history \<Rightarrow> string + sent"
  nw_getTransaction :: "history \<Rightarrow> string \<Rightarrow> nat \<Rightarrow> string + outcome"
  nw_no_value :: string

text \<open>
  \<open>lib_keypair\<close> gives the public key of a secret, \<open>lib_encode\<close> what building a contract value throws,
  \<open>lib_contract\<close> what naming a contract throws, \<open>lib_random\<close> the random bytes drawn.
\<close>

record Library =
  lib_keypair :: "string \<Rightarrow> string + string"
  lib_sha256 :: "string \<Rightarrow> string"
  lib_encodeContract :: "string \<Rightarrow> string"
  lib_encode :: "Sc \<Rightarrow> string option"
  lib_contract :: "string \<Rightarrow> string option"
  lib_random :: "history \<Rightarrow> string"

record DeployContext =
  ctx_rpcUrl :: string
  ctx_allowHttp :: bool
  ctx_admin :: string
  ctx_networkPassphrase :: string
  ctx_dryRun :: bool

definition createContext :: "Library \<Rightarrow> string \<Rightarrow> string \<Rightarrow> string \<Rightarrow> bool \<Rightarrow> failure + DeployContext" where
  "createContext lib rpcUrl adminSecret networkPassphrase dryRun = (case lib_keypair lib adminSecret of
     Inl cause \<Rightarrow> Inl (PlainErr (''ADMIN_SECRET_KEY is not a valid Stellar secret key (expected an S... StrKey). '' @ cause))
   | Inr admin \<Rightarrow> Inr \<lparr>ctx_rpcUrl = rpcUrl, ctx_allowHttp = startsWith rpcUrl ''http://'', ctx_admin = admin,
       ctx_networkPassphrase = networkPassphrase, ctx_dryRun = dryRun\<rparr>)"

definition wasmHash :: "Library \<Rightarrow> string \<Rightarrow> string" where
  "wasmHash lib wasm = bytes_to_hex (lib_sha256 lib wasm)"

section \<open>Submission\<close>

text \<open>A question to the network: its answer, or its transport error thrown.\<close>

definition ask :: "(history \<Rightarrow> string + 'a) \<Rightarrow> (Run, 'a) act" where
  "ask q w = (case q (run_sent w) of Inl m \<Rightarrow> (Inl (PlainErr m), w) | Inr a \<Rightarrow> (Inr a, w))"

definition thrown :: "string option \<Rightarrow> failure + unit" where
  "thrown m = (case m of None \<Rightarrow> Inr () | Some e \<Rightarrow> Inl (PlainErr e))"

text \<open>\<open>/Error\(Contract, #(\d+)\)/\<close>: the digits of the leftmost match.\<close>

definition contract_error_here :: "string \<Rightarrow> string option" where
  "contract_error_here s =
     (let digits = takeWhile is_digit (drop (length ''Error(Contract, #'') s);
          rest = dropWhile is_digit (drop (length ''Error(Contract, #'') s) in
      if startsWith s ''Error(Contract, #'' \<and> digits \<noteq> [] \<and> startsWith rest '')'' then Some digits else None)"

fun contract_error :: "string \<Rightarrow> string option" where
  "contract_error [] = None"
| "contract_error (c # s) = (case contract_error_here (c # s) of Some d \<Rightarrow> Some d | None \<Rightarrow> contract_error s)"

definition describeFailure :: "string list \<Rightarrow> string" where
  "describeFailure events =
     (let text = join_on (CHR 0x0A) events in
      if str_includes text ''failed account authentication'' \<or> str_includes text ''require_auth'' then
        ''  the contract rejected the signer: a `require_auth` in this call was not satisfied.'' @ [CHR 0x0A]
      @ ''  Submit it with the account the call names '' @ [CHR 0xE2, CHR 0x80, CHR 0x94] @ '' a transfer'' @ [CHR 0x27] @ ''s sender, an agent being'' @ [CHR 0x0A]
      @ ''  registered, the operator for an admin call '' @ [CHR 0xE2, CHR 0x80, CHR 0x94] @ '' not with whichever key the context holds.''
      else case contract_error text of
        Some d \<Rightarrow> ''  the contract refused: Error(Contract, #'' @ d @ ''). See docs/contracts.md for the code.''
      | None \<Rightarrow> ''  no diagnosis could be read from '' @ show_nat (length events) @ '' diagnostic event(s); inspect the hash above.'')"

definition POLL_INTERVAL_MS :: nat where "POLL_INTERVAL_MS = 1000"

definition DEPLOY_POLL_ATTEMPTS :: nat where "DEPLOY_POLL_ATTEMPTS = 60"

text \<open>The polling loop from attempt \<open>a\<close> with \<open>n\<close> attempts left; unlike the backend's, running out is an error.\<close>

fun poll :: "Network \<Rightarrow> string \<Rightarrow> string \<Rightarrow> nat \<Rightarrow> nat \<Rightarrow> (Run, int) act" where
  "poll net hash label a 0 = throw (PlainErr (label @ '' was submitted as '' @ hash @ '' but did not confirm within ''
     @ show_nat (DEPLOY_POLL_ATTEMPTS * POLL_INTERVAL_MS div 1000) @ ''s. Check the hash before retrying '' @ [CHR 0xE2, CHR 0x80, CHR 0x94]
     @ '' resubmitting could deploy a second instance.''))"
| "poll net hash label a (Suc n) =
     andThen (ask (\<lambda>h. nw_getTransaction net h hash a)) (\<lambda>response.
       case response of
         Confirmed ledger \<Rightarrow> ret ledger
       | FailedOnChain events \<Rightarrow> throw (PlainErr (label @ '' failed on-chain: '' @ hash @ [CHR 0x0A] @ describeFailure events))
       | NotFoundYet \<Rightarrow> poll net hash label (Suc a) n)"

definition simulated_value :: "Network \<Rightarrow> string \<Rightarrow> simulation \<Rightarrow> failure + native option" where
  "simulated_value net message simulation = (case simulation of
     SimulationError e \<Rightarrow> Inl (PlainErr (message @ e))
   | SimulationSuccess None \<Rightarrow> Inl (PlainErr (nw_no_value net))
   | SimulationSuccess (Some v) \<Rightarrow> Inr (Some v)
   | SimulationOther \<Rightarrow> Inr None)"

definition accepted :: "string \<Rightarrow> sent \<Rightarrow> failure + string" where
  "accepted label s = (case s of SentError e \<Rightarrow> Inl (PlainErr (label @ '' was rejected: '' @ e)) | Sent hash \<Rightarrow> Inr hash)"

definition submitOperations :: "Network \<Rightarrow> DeployContext \<Rightarrow> Op list \<Rightarrow> string \<Rightarrow> (Run, string \<times> native option) act" where
  "submitOperations net ctx operations label =
     andThen (ask (\<lambda>h. nw_getAccount net h (ctx_admin ctx))) (\<lambda>_.
     andThen (ask (\<lambda>h. nw_simulate net h operations)) (\<lambda>simulation.
     andThen (of_result (simulated_value net (label @ '' failed during simulation: '') simulation)) (\<lambda>returnValue.
     andThen (of_result (thrown (nw_assemble net simulation))) (\<lambda>_.
     andThen (modify_state (run_sent_update (\<lambda>h. h @ [operations]))) (\<lambda>_.
     andThen (ask (nw_send net)) (\<lambda>s.
     andThen (of_result (accepted label s)) (\<lambda>hash.
     andThen (poll net hash label 0 DEPLOY_POLL_ATTEMPTS) (\<lambda>ledger. ret (hash, returnValue)))))))))"

section \<open>Contracts\<close>

definition uploadWasm :: "Library \<Rightarrow> Network \<Rightarrow> DeployContext \<Rightarrow> string \<Rightarrow> string \<Rightarrow> (Run, string) act" where
  "uploadWasm lib net ctx contractName wasm =
     (let hash = wasmHash lib wasm in
      if ctx_dryRun ctx then ret hash
      else andThen (submitOperations net ctx [UploadContractWasm wasm] (''upload '' @ contractName)) (\<lambda>_. ret hash))"

definition deployed_id :: "string \<Rightarrow> native option \<Rightarrow> failure + string" where
  "deployed_id contractName contractId =
     (let refuse = (\<lambda>t. Inl (PlainErr (contractName @ '' deployment did not return a contract address (got '' @ t @ '').''))) in
      case contractId of
        Some (NString s) \<Rightarrow> if startsWith s ''C'' then Inr s else refuse ''string''
      | Some v \<Rightarrow> refuse (typeof v)
      | None \<Rightarrow> refuse ''undefined'')"

definition deployContract :: "Library \<Rightarrow> Network \<Rightarrow> DeployContext \<Rightarrow> string \<Rightarrow> string \<Rightarrow> (Run, string) act" where
  "deployContract lib net ctx contractName hash =
     (if ctx_dryRun ctx then ret (lib_encodeContract lib (lib_sha256 lib (''dry-run:'' @ contractName)))
      else
        andThen (get_state (\<lambda>w. lib_random lib (run_sent w))) (\<lambda>salt.
        andThen (submitOperations net ctx [CreateCustomContract (ctx_admin ctx) (hex_to_bytes hash) salt] (''deploy '' @ contractName))
          (\<lambda>(_, contractId). of_result (deployed_id contractName contractId))))"

definition call :: "Library \<Rightarrow> Network \<Rightarrow> DeployContext \<Rightarrow> string \<Rightarrow> string \<Rightarrow> Sc list \<Rightarrow> string \<Rightarrow> (Run, native option) act" where
  "call lib net ctx contractId method args name =
     (if ctx_dryRun ctx then ret None
      else
        andThen (of_result (thrown (lib_contract lib contractId))) (\<lambda>_.
        andThen (submitOperations net ctx [Invoke contractId method args] name) (\<lambda>(_, returnValue). ret returnValue)))"

definition readContract :: "Library \<Rightarrow> Network \<Rightarrow> DeployContext \<Rightarrow> string \<Rightarrow> string \<Rightarrow> Sc list \<Rightarrow> (Run, native option) act" where
  "readContract lib net ctx contractId method args =
     andThen (ask (\<lambda>h. nw_getAccount net h (ctx_admin ctx))) (\<lambda>_.
     andThen (of_result (thrown (lib_contract lib contractId))) (\<lambda>_.
     andThen (ask (\<lambda>h. nw_simulate net h [Invoke contractId method args])) (\<lambda>simulation.
     of_result (simulated_value net (method @ '' on '' @ contractId @ '' failed: '') simulation))))"

section \<open>Arguments\<close>

text \<open>Building a value throws what the library throws; a list of arguments is built from left to right.\<close>

definition scv :: "Library \<Rightarrow> Sc \<Rightarrow> failure + Sc" where
  "scv lib v = (case lib_encode lib v of None \<Rightarrow> Inr v | Some e \<Rightarrow> Inl (PlainErr e))"

definition arguments :: "Library \<Rightarrow> Sc list \<Rightarrow> failure + Sc list" where
  "arguments lib vs = result_map (scv lib) vs"

definition call_with :: "Library \<Rightarrow> Network \<Rightarrow> DeployContext \<Rightarrow> string \<Rightarrow> string \<Rightarrow> Sc list \<Rightarrow> string \<Rightarrow> (Run, native option) act" where
  "call_with lib net ctx contractId method vs label =
     andThen (of_result (arguments lib vs)) (\<lambda>args. call lib net ctx contractId method args label)"

definition read_with :: "Library \<Rightarrow> Network \<Rightarrow> DeployContext \<Rightarrow> string \<Rightarrow> string \<Rightarrow> Sc list \<Rightarrow> (Run, native option) act" where
  "read_with lib net ctx contractId method vs =
     andThen (of_result (arguments lib vs)) (\<lambda>args. readContract lib net ctx contractId method args)"

section \<open>Effects\<close>

lemma andThen_ask [act_simps]:
  "andThen (ask q) f w = (case q (run_sent w) of Inl m \<Rightarrow> (Inl (PlainErr m), w) | Inr a \<Rightarrow> f a w)"
  by (simp add: andThen_def ask_def split: sum.splits)

lemma ask_run_iff: "ask q w = (r, w') \<longleftrightarrow> w' = w \<and> r = (case q (run_sent w) of Inl m \<Rightarrow> Inl (PlainErr m) | Inr a \<Rightarrow> Inr a)"
  by (auto simp: ask_def split: sum.splits)

lemma ask_Inr_iff: "ask q w = (Inr a, w') \<longleftrightarrow> w' = w \<and> q (run_sent w) = Inr a"
  by (auto simp: ask_def split: sum.splits)

lemma ask_state [simp]: "snd (ask q w) = w"
  by (simp add: ask_def split: sum.splits)

lemma poll_state: "poll net hash label a n w = (r, w') \<Longrightarrow> w' = w"
proof (induction n arbitrary: a)
  case (Suc n)
  then show ?case
    by (cases "nw_getTransaction net (run_sent w) hash a")
      (auto simp: andThen_def ask_def act_run split: outcome.splits)
qed (simp add: act_run)

text \<open>
  Polling returns exactly when some attempt within the limit finds the transaction confirmed and all
  attempts before it found nothing.
\<close>

lemma poll_Inr_iff:
  "poll net hash label a n w = (Inr ledger, w') \<longleftrightarrow> w' = w \<and> (\<exists>k < n.
     (\<forall>i < k. nw_getTransaction net (run_sent w) hash (a + i) = Inr NotFoundYet)
     \<and> nw_getTransaction net (run_sent w) hash (a + k) = Inr (Confirmed ledger))"
proof (induction n arbitrary: a)
  case (Suc n)
  let ?q = "nw_getTransaction net (run_sent w) hash"
  have split: "(\<exists>k < Suc n. (\<forall>i < k. ?q (a + i) = Inr NotFoundYet) \<and> ?q (a + k) = Inr (Confirmed ledger)) \<longleftrightarrow>
      ?q a = Inr (Confirmed ledger) \<or> ?q a = Inr NotFoundYet
        \<and> (\<exists>k < n. (\<forall>i < k. ?q (Suc a + i) = Inr NotFoundYet) \<and> ?q (Suc a + k) = Inr (Confirmed ledger))"
    by (simp add: Ex_less_Suc2 All_less_Suc2) blast
  show ?case
  proof (cases "?q a")
    case (Inr response)
    then show ?thesis unfolding split using Suc.IH [of "Suc a"]
      by (cases response) (auto simp: andThen_ask act_simps)
  qed (unfold split, simp add: andThen_ask)
qed simp

definition settles :: "Network \<Rightarrow> history \<Rightarrow> string \<Rightarrow> bool" where
  "settles net h hash \<longleftrightarrow> (\<exists>n ledger. n < DEPLOY_POLL_ATTEMPTS \<and> (\<forall>i < n. nw_getTransaction net h hash i = Inr NotFoundYet)
     \<and> nw_getTransaction net h hash n = Inr (Confirmed ledger))"

lemma poll_settles_iff:
  "(\<exists>ledger. poll net hash label 0 DEPLOY_POLL_ATTEMPTS w = (Inr ledger, w')) \<longleftrightarrow> w' = w \<and> settles net (run_sent w) hash"
  by (auto simp: poll_Inr_iff settles_def)

text \<open>What a submission did: it submitted its operations and only those, or nothing.\<close>

definition confirmed :: "Network \<Rightarrow> history \<Rightarrow> bool" where
  "confirmed net h \<longleftrightarrow> (\<exists>hash. nw_send net h = Inr (Sent hash) \<and> settles net h hash)"

definition simulated :: "Network \<Rightarrow> history \<Rightarrow> Op list \<Rightarrow> native option \<Rightarrow> bool" where
  "simulated net h ops v \<longleftrightarrow> (\<exists>s. nw_simulate net h ops = Inr s \<and>
     ((\<exists>u. s = SimulationSuccess (Some u) \<and> v = Some u) \<or> s = SimulationOther \<and> v = None))"

lemma simulated_value_Inr_iff:
  "simulated_value net m s = Inr v \<longleftrightarrow> (\<exists>u. s = SimulationSuccess (Some u) \<and> v = Some u) \<or> s = SimulationOther \<and> v = None"
  by (auto simp: simulated_value_def split: simulation.splits option.splits)

lemma accepted_Inr_iff: "accepted label s = Inr hash \<longleftrightarrow> s = Sent hash"
  by (simp add: accepted_def split: sent.splits)

lemma submitOperations_Inr_iff:
  "submitOperations net ctx ops label w = (Inr (hash, v), w') \<longleftrightarrow>
     nw_getAccount net (run_sent w) (ctx_admin ctx) = Inr ()
     \<and> (\<exists>s. nw_simulate net (run_sent w) ops = Inr s \<and> nw_assemble net s = None
          \<and> ((\<exists>u. s = SimulationSuccess (Some u) \<and> v = Some u) \<or> s = SimulationOther \<and> v = None))
     \<and> nw_send net (run_sent w @ [ops]) = Inr (Sent hash) \<and> settles net (run_sent w @ [ops]) hash
     \<and> w' = w\<lparr>run_sent := run_sent w @ [ops]\<rparr>"
proof -
  let ?w = "run_sent_update (\<lambda>h. h @ [ops]) w"
  have t: "thrown m = Inr () \<longleftrightarrow> m = None" for m by (simp add: thrown_def split: option.splits)
  have u: "?w = w\<lparr>run_sent := run_sent w @ [ops]\<rparr>" by (cases w) simp
  have p: "(\<exists>ledger. poll net h label 0 DEPLOY_POLL_ATTEMPTS ?w = (Inr ledger, w'')) \<longleftrightarrow> w'' = ?w \<and> settles net (run_sent w @ [ops]) h"
    for h w'' by (simp add: poll_settles_iff)
  show ?thesis
    unfolding submitOperations_def andThen_Inr_iff ask_Inr_iff of_result_iff ret_iff modify_state_iff
      accepted_Inr_iff simulated_value_Inr_iff u [symmetric]
    using p by (auto simp: t)
qed

lemma submitOperations_Inr:
  assumes "submitOperations net ctx ops label w = (Inr (hash, v), w')"
  shows "w' = w\<lparr>run_sent := run_sent w @ [ops]\<rparr>" "simulated net (run_sent w) ops v"
    "confirmed net (run_sent w @ [ops])"
  using assms unfolding submitOperations_Inr_iff simulated_def confirmed_def by blast+

lemma submitOperations_state:
  assumes "submitOperations net ctx ops label w = (r, w')"
  shows "w' = w \<or> w' = w\<lparr>run_sent := run_sent w @ [ops]\<rparr>"
proof -
  let ?w = "run_sent_update (\<lambda>h. h @ [ops]) w"
  have "w' = w \<or> w' = ?w"
    using assms unfolding submitOperations_def act_iffs ask_run_iff by (auto dest: poll_state)
  then show ?thesis by (cases w) auto
qed

section \<open>Successful steps\<close>

text \<open>
  \<open>ran\<close>: from \<open>w\<close> exactly the transactions \<open>ops\<close> were submitted, in this order, each confirmed
  before the next, with every argument accepted by the library; no file changed.
\<close>

definition leaves :: "Sc \<Rightarrow> Sc list" where
  "leaves v = (case v of ScMap es \<Rightarrow> map snd es | _ \<Rightarrow> [v])"

definition encoded :: "Library \<Rightarrow> Op \<Rightarrow> bool" where
  "encoded lib operation = (case operation of
     Invoke contractId method args \<Rightarrow> list_all (\<lambda>v. list_all (\<lambda>u. lib_encode lib u = None) (leaves v)) args
   | _ \<Rightarrow> True)"

definition ran :: "Library \<Rightarrow> Network \<Rightarrow> Run \<Rightarrow> Op list list \<Rightarrow> Run \<Rightarrow> bool" where
  "ran lib net w ops w' \<longleftrightarrow> w' = w\<lparr>run_sent := run_sent w @ ops\<rparr> \<and> list_all (list_all (encoded lib)) ops
     \<and> (\<forall>n. 0 < n \<and> n \<le> length ops \<longrightarrow> confirmed net (run_sent w @ take n ops))"

lemma ran_none [simp]: "ran lib net w [] w' \<longleftrightarrow> w' = w"
  by (cases w) (auto simp: ran_def)

lemma ran_append:
  assumes "ran lib net w a w'" "ran lib net w' b w''"
  shows "ran lib net w (a @ b) w''"
proof -
  have "confirmed net (run_sent w @ take n (a @ b))" if n: "0 < n" "n \<le> length a + length b" for n
  proof (cases "n \<le> length a")
    case True
    then show ?thesis using assms(1) n by (simp add: ran_def)
  next
    case False
    then have "confirmed net (run_sent w' @ take (n - length a) b)" using assms(2) n by (simp add: ran_def)
    moreover have "run_sent w' = run_sent w @ a" using assms(1) by (simp add: ran_def)
    ultimately show ?thesis using False by simp
  qed
  then show ?thesis using assms by (cases w) (simp add: ran_def)
qed

lemma ran_for_each:
  assumes "\<And>x b s b' s'. x \<in> set xs \<Longrightarrow> f x b s = (Inr b', s') \<Longrightarrow> ran lib net s (ops x) s'"
    and "for_each f xs b s = (Inr b', s')"
  shows "ran lib net s (concat (map ops xs)) s'"
  using assms
proof (induction xs arbitrary: b s)
  case (Cons x xs)
  then obtain c t where step: "f x b s = (Inr c, t)" and rest: "for_each f xs c t = (Inr b', s')"
    by (auto simp: andThen_Inr_iff)
  have "ran lib net s (ops x) t" using Cons.prems(1) step by simp
  moreover have "ran lib net t (concat (map ops xs)) s'" using Cons.IH Cons.prems(1) rest by simp
  ultimately show ?case using ran_append by simp
qed simp

lemma arguments_Inr_iff: "arguments lib vs = Inr args \<longleftrightarrow> args = vs \<and> list_all (\<lambda>v. lib_encode lib v = None) vs"
  by (induction vs arbitrary: args) (auto simp: arguments_def scv_def result_simps split: option.splits)

lemma list_all_leaves:
  assumes "list_all (\<lambda>v. lib_encode lib v = None) vs" "\<And>v. v \<in> set vs \<Longrightarrow> leaves v = [v]"
  shows "list_all (\<lambda>v. list_all (\<lambda>u. lib_encode lib u = None) (leaves v)) vs"
  using assms by (simp add: list_all_iff)

lemma submitOperations_ran:
  assumes "submitOperations net ctx ops label w = (Inr (hash, v), w')" "list_all (encoded lib) ops"
  shows "ran lib net w [ops] w'"
proof -
  have "confirmed net (run_sent w @ [ops])" by (rule submitOperations_Inr(3) [OF assms(1)])
  then have "confirmed net (run_sent w @ take n [ops])" if "0 < n \<and> n \<le> length [ops]" for n
    using that by (cases n) simp_all
  then show ?thesis using submitOperations_Inr(1) [OF assms(1)] assms(2) unfolding ran_def by simp
qed

lemma call_ran:
  assumes "call lib net ctx contractId method args label w = (Inr v, w')" "\<not> ctx_dryRun ctx"
    and "list_all (\<lambda>v. list_all (\<lambda>u. lib_encode lib u = None) (leaves v)) args"
  shows "ran lib net w [[Invoke contractId method args]] w'"
  using assms by (auto simp: call_def andThen_Inr_iff encoded_def intro: submitOperations_ran)

lemma call_with_ran:
  assumes "call_with lib net ctx contractId method vs label w = (Inr v, w')" "\<not> ctx_dryRun ctx"
    and "\<And>v. v \<in> set vs \<Longrightarrow> leaves v = [v]"
  shows "ran lib net w [[Invoke contractId method vs]] w'"
proof -
  have e: "list_all (\<lambda>v. lib_encode lib v = None) vs" and c: "call lib net ctx contractId method vs label w = (Inr v, w')"
    using assms(1) by (auto simp: call_with_def andThen_Inr_iff arguments_Inr_iff)
  show ?thesis by (rule call_ran [OF c assms(2) list_all_leaves [OF e assms(3)]])
qed

lemma uploadWasm_ran:
  assumes "uploadWasm lib net ctx name wasm w = (Inr hash, w')" "\<not> ctx_dryRun ctx"
  shows "hash = wasmHash lib wasm \<and> ran lib net w [[UploadContractWasm wasm]] w'"
  using assms by (auto simp: uploadWasm_def andThen_Inr_iff Let_def encoded_def intro: submitOperations_ran)

lemma deployContract_ran:
  assumes "deployContract lib net ctx name hash w = (Inr contractId, w')" "\<not> ctx_dryRun ctx"
  shows "ran lib net w [[CreateCustomContract (ctx_admin ctx) (hex_to_bytes hash) (lib_random lib (run_sent w))]] w'
    \<and> simulated net (run_sent w) [CreateCustomContract (ctx_admin ctx) (hex_to_bytes hash) (lib_random lib (run_sent w))]
        (Some (NString contractId))"
proof -
  obtain h v where sub: "submitOperations net ctx
      [CreateCustomContract (ctx_admin ctx) (hex_to_bytes hash) (lib_random lib (run_sent w))] (''deploy '' @ name) w = (Inr (h, v), w')"
    and "deployed_id name v = Inr contractId"
    using assms by (auto simp: deployContract_def andThen_Inr_iff)
  then have v: "v = Some (NString contractId)"
    by (auto simp: deployed_id_def Let_def split: option.splits native.splits if_splits)
  show ?thesis
    using submitOperations_ran [OF sub] submitOperations_Inr(2) [OF sub] v by (simp add: encoded_def)
qed

text \<open>A read changes nothing, and its value is what the network simulates.\<close>

lemma readContract_Inr:
  assumes "readContract lib net ctx contractId method args w = (Inr v, w')"
  shows "w' = w \<and> simulated net (run_sent w) [Invoke contractId method args] v"
  using assms
  by (auto simp: readContract_def andThen_Inr_iff ask_Inr_iff simulated_def simulated_value_Inr_iff)

lemma read_with_Inr:
  assumes "read_with lib net ctx contractId method vs w = (Inr v, w')"
  shows "w' = w \<and> simulated net (run_sent w) [Invoke contractId method vs] v"
  using assms by (auto simp: read_with_def andThen_Inr_iff arguments_Inr_iff dest: readContract_Inr)

section \<open>Frames\<close>

text \<open>\<open>keeps_files\<close>: a step that writes no file, however it ends.\<close>

abbreviation same_files :: "Run \<Rightarrow> Run \<Rightarrow> bool" where
  "same_files w w' \<equiv> run_files w' = run_files w"

abbreviation keeps_files :: "(Run, 'a) act \<Rightarrow> bool" where
  "keeps_files m \<equiv> preserves same_files m"

named_theorems keeps \<open>steps that write no file\<close>

lemma same_files_order: "reflp same_files" "transp same_files"
  by (simp_all add: reflp_def transp_def)

lemma keeps_files_basic [keeps]: "keeps_files (ask q)"
  by (simp add: preserves_def)

lemmas keeps_files_steps [keeps] =
  preserves_basic [OF same_files_order(1)] preserves_andThen [OF same_files_order(2)] preserves_for_each [OF same_files_order]

lemma keeps_files_submit [keeps]: "keeps_files (submitOperations net ctx ops label)"
  unfolding preserves_def
proof
  fix w
  show "run_files (snd (submitOperations net ctx ops label w)) = run_files w"
    using submitOperations_state [of net ctx ops label w "fst (submitOperations net ctx ops label w)"
        "snd (submitOperations net ctx ops label w)"] by auto
qed

lemma keeps_files_case_option [keeps]:
  "keeps_files a \<Longrightarrow> (\<And>x. keeps_files (b x)) \<Longrightarrow> keeps_files (case m of None \<Rightarrow> a | Some x \<Rightarrow> b x)"
  by (cases m) simp_all

lemma keeps_files_helpers [keeps]:
  "keeps_files (uploadWasm lib net ctx name wasm)" "keeps_files (deployContract lib net ctx name hash)"
  "keeps_files (call_with lib net ctx contractId method vs label)" "keeps_files (read_with lib net ctx contractId method vs)"
  by (auto simp: uploadWasm_def Let_def deployContract_def call_with_def call_def read_with_def readContract_def
      intro!: keeps)

text \<open>A dry run asks the network nothing.\<close>

lemma dry_steps:
  assumes "ctx_dryRun ctx"
  shows "uploadWasm lib net ctx name wasm = ret (wasmHash lib wasm)"
    "deployContract lib net ctx name hash = ret (lib_encodeContract lib (lib_sha256 lib (''dry-run:'' @ name)))"
    "call lib net ctx contractId method args label = ret None"
    "call_with lib net ctx contractId method vs label = andThen (of_result (arguments lib vs)) (\<lambda>_. ret None)"
  using assms by (simp_all add: uploadWasm_def deployContract_def call_def call_with_def Let_def)

end
