(* ===== verification/DeployPlan.thy ===== *)
theory DeployPlan
  imports Seed Contracts JsonRoundtrip
begin

text \<open>
  \<open>scripts/src/env.ts\<close>: the environment and the configuration file a deployment starts from, with
  the consistency checks between their records.  Address validation, the file system, the
  wording of the schema library and the integer a number with a fraction or an exponent denotes
  (\<open>num\<close>, nothing when it denotes none) are parameters.
\<close>

section \<open>Environment\<close>

record DeployEnv =
  de_STELLAR_NETWORK :: string
  de_SOROBAN_RPC_URL :: string
  de_STELLAR_NETWORK_PASSPHRASE :: string
  de_ADMIN_SECRET_KEY :: string
  de_TREASURY_PUBLIC_KEY :: string
  de_ATTESTER_PUBLIC_KEY :: string
  de_TOKEN_CONTRACT :: string
  de_DEPLOY_CONFIG :: string

text \<open>The validity tests of addresses and keys, and of URLs.\<close>

record KeyTests =
  kt_contract :: "string \<Rightarrow> bool"
  kt_publicKey :: "string \<Rightarrow> bool"
  kt_secretKey :: "string \<Rightarrow> bool"
  kt_url :: "string \<Rightarrow> bool"

definition tested_var :: "(string \<Rightarrow> bool) \<Rightarrow> raw_env \<Rightarrow> string \<Rightarrow> string option" where
  "tested_var test src k = (case src k of None \<Rightarrow> None | Some v \<Rightarrow> if test v then Some v else None)"

definition deploy_env_issues :: "KeyTests \<Rightarrow> raw_env \<Rightarrow> string list" where
  "deploy_env_issues keys src = map fst (filter (\<lambda>(k, valid). \<not> valid) [
     (''STELLAR_NETWORK'', enum_var STELLAR_NETWORKS ''testnet'' src ''STELLAR_NETWORK'' \<noteq> None),
     (''SOROBAN_RPC_URL'', tested_var (kt_url keys) src ''SOROBAN_RPC_URL'' \<noteq> None),
     (''STELLAR_NETWORK_PASSPHRASE'', nonempty_var src ''STELLAR_NETWORK_PASSPHRASE'' \<noteq> None),
     (''ADMIN_SECRET_KEY'', tested_var (kt_secretKey keys) src ''ADMIN_SECRET_KEY'' \<noteq> None),
     (''TREASURY_PUBLIC_KEY'', tested_var (kt_publicKey keys) src ''TREASURY_PUBLIC_KEY'' \<noteq> None),
     (''ATTESTER_PUBLIC_KEY'', tested_var (kt_publicKey keys) src ''ATTESTER_PUBLIC_KEY'' \<noteq> None),
     (''TOKEN_CONTRACT'', tested_var (kt_contract keys) src ''TOKEN_CONTRACT'' \<noteq> None)])"

definition deploy_env_value :: "raw_env \<Rightarrow> DeployEnv" where
  "deploy_env_value src = (let v = (\<lambda>k. option_or (src k) []) in
     \<lparr>de_STELLAR_NETWORK = option_or (src ''STELLAR_NETWORK'') ''testnet'', de_SOROBAN_RPC_URL = v ''SOROBAN_RPC_URL'',
      de_STELLAR_NETWORK_PASSPHRASE = v ''STELLAR_NETWORK_PASSPHRASE'', de_ADMIN_SECRET_KEY = v ''ADMIN_SECRET_KEY'',
      de_TREASURY_PUBLIC_KEY = v ''TREASURY_PUBLIC_KEY'', de_ATTESTER_PUBLIC_KEY = v ''ATTESTER_PUBLIC_KEY'',
      de_TOKEN_CONTRACT = v ''TOKEN_CONTRACT'', de_DEPLOY_CONFIG = option_or (src ''DEPLOY_CONFIG'') ''scripts/config/testnet.json''\<rparr>)"

definition parseDeployEnv :: "KeyTests \<Rightarrow> (raw_env \<Rightarrow> string \<Rightarrow> string) \<Rightarrow> raw_env \<Rightarrow> string + DeployEnv" where
  "parseDeployEnv keys message src =
     (if deploy_env_issues keys src = [] then Inr (deploy_env_value src)
      else Inl (''Invalid deployment configuration:'' @ [CHR 0x0A]
        @ join_text [CHR 0x0A] (map (\<lambda>k. ''  - '' @ k @ '': '' @ message src k) (deploy_env_issues keys src))))"

section \<open>Configuration file\<close>

record RegionPlan =
  rp_id :: string
  rp_displayName :: string
  rp_countryCode :: string
  rp_currency :: string
  rp_minBond :: string
  rp_maxAgents :: int
  rp_utilizationCapBps :: int

record CorridorPlan =
  cp_id :: string
  cp_regionId :: string
  cp_sourceCurrency :: string
  cp_destCurrency :: string
  cp_tier1Max :: string
  cp_tier2Max :: string
  cp_dailyLimit :: string
  cp_spreadBps :: int

record TierPlan =
  tp_corridorId :: string
  tp_tier1Max :: string
  tp_tier2Max :: string
  tp_enhancedDailyLimit :: string

record DeployPlan =
  dp_regions :: "RegionPlan list"
  dp_corridors :: "CorridorPlan list"
  dp_complianceTiers :: "TierPlan list"
  dp_feeBps :: int
  dp_maxExpirySecs :: int
  dp_collateralRatioBps :: int
  dp_defaultUtilizationCapBps :: int

definition digits_string :: "json \<Rightarrow> string option" where
  "digits_string v = (case jstring v of Some s \<Rightarrow> if is_digit_text s then Some s else None | None \<Rightarrow> None)"

definition int_of :: "(string \<Rightarrow> int option) \<Rightarrow> json \<Rightarrow> int option" where
  "int_of num v = (case v of JNum n \<Rightarrow> Some n | JReal t \<Rightarrow> num t | _ \<Rightarrow> None)"

definition int_between :: "(string \<Rightarrow> int option) \<Rightarrow> int \<Rightarrow> int option \<Rightarrow> json \<Rightarrow> int option" where
  "int_between num lo hi v = (case int_of num v of
     Some n \<Rightarrow> if lo \<le> n \<and> (case hi of None \<Rightarrow> True | Some h \<Rightarrow> n \<le> h) then Some n else None
   | None \<Rightarrow> None)"

definition region_plan :: "(string \<Rightarrow> int option) \<Rightarrow> json \<Rightarrow> RegionPlan option" where
  "region_plan num v =
     (case (required (string_len 2 12) ''id'' v, required (string_min 2) ''displayName'' v,
            required (string_len 2 2) ''countryCode'' v, required (string_len 3 4) ''currency'' v,
            required digits_string ''minBond'' v, required (int_between num 0 None) ''maxAgents'' v,
            required (int_between num 0 (Some 10000)) ''utilizationCapBps'' v) of
        (Some i, Some d, Some c, Some k, Some b, Some m, Some u) \<Rightarrow>
          Some \<lparr>rp_id = i, rp_displayName = d, rp_countryCode = c, rp_currency = k, rp_minBond = b, rp_maxAgents = m,
            rp_utilizationCapBps = u\<rparr>
      | _ \<Rightarrow> None)"

definition corridor_plan :: "(string \<Rightarrow> int option) \<Rightarrow> json \<Rightarrow> CorridorPlan option" where
  "corridor_plan num v =
     (case (required (string_len 2 12) ''id'' v, required (string_len 2 12) ''regionId'' v,
            required (string_len 3 4) ''sourceCurrency'' v, required (string_len 3 4) ''destCurrency'' v,
            required digits_string ''tier1Max'' v, required digits_string ''tier2Max'' v,
            required digits_string ''dailyLimit'' v, required (int_between num 0 (Some 2000)) ''spreadBps'' v) of
        (Some i, Some r, Some s, Some d, Some t1, Some t2, Some l, Some b) \<Rightarrow>
          Some \<lparr>cp_id = i, cp_regionId = r, cp_sourceCurrency = s, cp_destCurrency = d, cp_tier1Max = t1,
            cp_tier2Max = t2, cp_dailyLimit = l, cp_spreadBps = b\<rparr>
      | _ \<Rightarrow> None)"

definition tier_plan :: "json \<Rightarrow> TierPlan option" where
  "tier_plan v =
     (case (required (string_len 2 12) ''corridorId'' v, required digits_string ''tier1Max'' v,
            required digits_string ''tier2Max'' v, required digits_string ''enhancedDailyLimit'' v) of
        (Some i, Some t1, Some t2, Some l) \<Rightarrow>
          Some \<lparr>tp_corridorId = i, tp_tier1Max = t1, tp_tier2Max = t2, tp_enhancedDailyLimit = l\<rparr>
      | _ \<Rightarrow> None)"

definition nonempty_array :: "(json \<Rightarrow> 'a option) \<Rightarrow> json \<Rightarrow> 'a list option" where
  "nonempty_array f v = (case array_of f v of Some (x # xs) \<Rightarrow> Some (x # xs) | _ \<Rightarrow> None)"

definition escrow_plan :: "(string \<Rightarrow> int option) \<Rightarrow> json \<Rightarrow> (int \<times> int) option" where
  "escrow_plan num v = (case (required (int_between num 0 (Some 10000)) ''feeBps'' v, required (int_between num 1 None) ''maxExpirySecs'' v) of
     (Some f, Some m) \<Rightarrow> Some (f, m) | _ \<Rightarrow> None)"

definition pool_plan :: "(string \<Rightarrow> int option) \<Rightarrow> json \<Rightarrow> (int \<times> int) option" where
  "pool_plan num v = (case (required (int_between num 10000 (Some 100000)) ''collateralRatioBps'' v,
       required (int_between num 0 (Some 10000)) ''defaultUtilizationCapBps'' v) of
     (Some c, Some u) \<Rightarrow> Some (c, u) | _ \<Rightarrow> None)"

definition configSchema :: "(string \<Rightarrow> int option) \<Rightarrow> json \<Rightarrow> DeployPlan option" where
  "configSchema num v =
     (case (required (nonempty_array (region_plan num)) ''regions'' v, required (nonempty_array (corridor_plan num)) ''corridors'' v,
            required (nonempty_array tier_plan) ''complianceTiers'' v, required (escrow_plan num) ''escrow'' v,
            required (pool_plan num) ''liquidityPool'' v) of
        (Some rs, Some cs, Some ts, Some (fee, expiry), Some (ratio, cap)) \<Rightarrow>
          Some \<lparr>dp_regions = rs, dp_corridors = cs, dp_complianceTiers = ts, dp_feeBps = fee, dp_maxExpirySecs = expiry,
            dp_collateralRatioBps = ratio, dp_defaultUtilizationCapBps = cap\<rparr>
      | _ \<Rightarrow> None)"

section \<open>Consistency\<close>

definition corridor_problems :: "string set \<Rightarrow> CorridorPlan \<Rightarrow> string list" where
  "corridor_problems regionIds c =
     (if cp_regionId c \<in> regionIds then [] else [''corridor '' @ cp_id c @ '' names unknown region '' @ cp_regionId c])
   @ (if digits_val (cp_tier1Max c) > digits_val (cp_tier2Max c) then [''corridor '' @ cp_id c @ '' has tier1Max above tier2Max''] else [])
   @ (if digits_val (cp_tier2Max c) > digits_val (cp_dailyLimit c) then [''corridor '' @ cp_id c @ '' has tier2Max above dailyLimit''] else [])"

definition tier_problems :: "string set \<Rightarrow> TierPlan \<Rightarrow> string list" where
  "tier_problems corridorIds t =
     (if tp_corridorId t \<in> corridorIds then [] else [''compliance tier config names unknown corridor '' @ tp_corridorId t])"

definition missing_tiers :: "TierPlan list \<Rightarrow> CorridorPlan \<Rightarrow> string list" where
  "missing_tiers tiers c =
     (if list_ex (\<lambda>t. tp_corridorId t = cp_id c) tiers then [] else [''corridor '' @ cp_id c @ '' has no compliance tier configuration''])"

definition problems :: "DeployPlan \<Rightarrow> string list" where
  "problems config =
     (let regionIds = set (map rp_id (dp_regions config)); corridorIds = set (map cp_id (dp_corridors config)) in
      concat (map (corridor_problems regionIds) (dp_corridors config))
    @ concat (map (tier_problems corridorIds) (dp_complianceTiers config))
    @ concat (map (missing_tiers (dp_complianceTiers config)) (dp_corridors config)))"

definition loadDeployConfig :: "(string \<Rightarrow> int option) \<Rightarrow> Texts \<Rightarrow> (string \<Rightarrow> string + string) \<Rightarrow> string \<Rightarrow> string + DeployPlan" where
  "loadDeployConfig num texts readFile absolute =
     (let unreadable = (\<lambda>cause. Inl (''Could not read deployment config at '' @ absolute
            @ ''. Copy scripts/config/testnet.example.json to scripts/config/testnet.json first. ('' @ cause @ '')'')) in
      case readFile absolute of
        Inl cause \<Rightarrow> unreadable cause
      | Inr text \<Rightarrow>
         (case json_parse text of
            None \<Rightarrow> unreadable (tx_cause texts text)
          | Some raw \<Rightarrow>
             (case configSchema num raw of
                None \<Rightarrow> Inl (''Invalid deployment config at '' @ absolute @ '':'' @ [CHR 0x0A]
                  @ join_text [CHR 0x0A] (map (\<lambda>(path, message). ''  - '' @ join_text ''.'' path @ '': '' @ message) (tx_issues texts raw)))
              | Some config \<Rightarrow>
                  if problems config \<noteq> []
                  then Inl (''Deployment config is internally inconsistent:'' @ [CHR 0x0A]
                    @ join_text [CHR 0x0A] (map (\<lambda>p. ''  - '' @ p) (problems config)))
                  else Inr config)))"

section \<open>What an accepted configuration guarantees\<close>

text \<open>The specification of consistency.\<close>

definition consistent :: "DeployPlan \<Rightarrow> bool" where
  "consistent config \<longleftrightarrow>
     (\<forall>c \<in> set (dp_corridors config).
        (\<exists>r \<in> set (dp_regions config). rp_id r = cp_regionId c)
        \<and> digits_val (cp_tier1Max c) \<le> digits_val (cp_tier2Max c) \<and> digits_val (cp_tier2Max c) \<le> digits_val (cp_dailyLimit c)
        \<and> (\<exists>t \<in> set (dp_complianceTiers config). tp_corridorId t = cp_id c))
     \<and> (\<forall>t \<in> set (dp_complianceTiers config). \<exists>c \<in> set (dp_corridors config). cp_id c = tp_corridorId t)"

lemma corridor_problems_Nil_iff:
  "corridor_problems ids c = [] \<longleftrightarrow>
     cp_regionId c \<in> ids \<and> digits_val (cp_tier1Max c) \<le> digits_val (cp_tier2Max c)
     \<and> digits_val (cp_tier2Max c) \<le> digits_val (cp_dailyLimit c)"
  by (simp add: corridor_problems_def)

lemma tier_problems_Nil_iff: "tier_problems ids t = [] \<longleftrightarrow> tp_corridorId t \<in> ids"
  by (simp add: tier_problems_def)

lemma missing_tiers_Nil_iff:
  "missing_tiers tiers c = [] \<longleftrightarrow> (\<exists>t \<in> set tiers. tp_corridorId t = cp_id c)"
  by (simp add: missing_tiers_def list_ex_iff)

lemma concat_map_Nil_iff: "concat (map f xs) = [] \<longleftrightarrow> (\<forall>x \<in> set xs. f x = [])"
  by simp

lemma in_image_iff: "y \<in> f ` A \<longleftrightarrow> (\<exists>x \<in> A. f x = y)"
  by auto

lemma problems_Nil_iff: "problems config = [] \<longleftrightarrow> consistent config"
  unfolding problems_def Let_def append_is_Nil_conv concat_map_Nil_iff corridor_problems_Nil_iff
    tier_problems_Nil_iff missing_tiers_Nil_iff set_map in_image_iff consistent_def
  by blast

lemma loadDeployConfig_Inr_iff:
  "loadDeployConfig num texts readFile absolute = Inr config \<longleftrightarrow>
     (\<exists>text raw. readFile absolute = Inr text \<and> json_parse text = Some raw \<and> configSchema num raw = Some config)
     \<and> consistent config"
  by (auto simp: loadDeployConfig_def Let_def problems_Nil_iff split: sum.splits option.splits if_splits)

section \<open>The bands that reach the contract\<close>

text \<open>The thresholds a tier entry becomes on chain.\<close>

definition tier_thresholds :: "TierPlan \<Rightarrow> TierThresholds" where
  "tier_thresholds t = \<lparr>tt_corridor_id = tp_corridorId t, tt_tier1_max = digits_val (tp_tier1Max t),
     tt_tier2_max = digits_val (tp_tier2Max t), tt_daily_limit = digits_val (tp_enhancedDailyLimit t)\<rparr>"

definition sample_plan_json :: "string \<Rightarrow> string \<Rightarrow> json" where
  "sample_plan_json t1 t2 = JObj [
     (''regions'', JArr [JObj [(''id'', JStr ''NG_LAG''), (''displayName'', JStr ''Lagos''), (''countryCode'', JStr ''NG''),
        (''currency'', JStr ''NGN''), (''minBond'', JStr ''5000''), (''maxAgents'', JNum 0), (''utilizationCapBps'', JNum 8000)]]),
     (''corridors'', JArr [JObj [(''id'', JStr ''NGN_LAG''), (''regionId'', JStr ''NG_LAG''), (''sourceCurrency'', JStr ''USD''),
        (''destCurrency'', JStr ''NGN''), (''tier1Max'', JStr ''500''), (''tier2Max'', JStr ''5000''), (''dailyLimit'', JStr ''9000''),
        (''spreadBps'', JNum 75)]]),
     (''complianceTiers'', JArr [JObj [(''corridorId'', JStr ''NGN_LAG''), (''tier1Max'', JStr t1), (''tier2Max'', JStr t2),
        (''enhancedDailyLimit'', JStr ''9000'')]]),
     (''escrow'', JObj [(''feeBps'', JNum 200), (''maxExpirySecs'', JNum 604800)]),
     (''liquidityPool'', JObj [(''collateralRatioBps'', JNum 15000), (''defaultUtilizationCapBps'', JNum 8000)])]"

definition sample_plan :: "string \<Rightarrow> string \<Rightarrow> DeployPlan" where
  "sample_plan t1 t2 = \<lparr>
     dp_regions = [\<lparr>rp_id = ''NG_LAG'', rp_displayName = ''Lagos'', rp_countryCode = ''NG'', rp_currency = ''NGN'',
       rp_minBond = ''5000'', rp_maxAgents = 0, rp_utilizationCapBps = 8000\<rparr>],
     dp_corridors = [\<lparr>cp_id = ''NGN_LAG'', cp_regionId = ''NG_LAG'', cp_sourceCurrency = ''USD'', cp_destCurrency = ''NGN'',
       cp_tier1Max = ''500'', cp_tier2Max = ''5000'', cp_dailyLimit = ''9000'', cp_spreadBps = 75\<rparr>],
     dp_complianceTiers = [\<lparr>tp_corridorId = ''NGN_LAG'', tp_tier1Max = t1, tp_tier2Max = t2, tp_enhancedDailyLimit = ''9000''\<rparr>],
     dp_feeBps = 200, dp_maxExpirySecs = 604800, dp_collateralRatioBps = 15000, dp_defaultUtilizationCapBps = 8000\<rparr>"

lemma sample_plan_schema:
  assumes "is_digit_text t1" "is_digit_text t2"
  shows "configSchema num (sample_plan_json t1 t2) = Some (sample_plan t1 t2)"
proof -
  have d: "is_digit_text ''5000''" "is_digit_text ''500''" "is_digit_text ''9000''" by code_simp+
  show ?thesis
    using assms d
    by (simp add: configSchema_def sample_plan_json_def sample_plan_def required_def jget_def nonempty_array_def array_of_def
        region_plan_def corridor_plan_def tier_plan_def escrow_plan_def pool_plan_def string_len_def string_min_def
        digits_string_def int_between_def int_of_def)
qed

lemma sample_plan_consistent: "consistent (sample_plan t1 t2)"
proof -
  have "digits_val ''500'' = 500" "digits_val ''5000'' = 5000" "digits_val ''9000'' = 9000" by code_simp+
  then show ?thesis by (simp add: consistent_def sample_plan_def)
qed

lemma sample_plan_accepted:
  assumes "is_digit_text t1" "is_digit_text t2" "readFile absolute = Inr (stringify (sample_plan_json t1 t2))"
    and "json_wf (sample_plan_json t1 t2)"
  shows "loadDeployConfig num texts readFile absolute = Inr (sample_plan t1 t2)"
  using assms sample_plan_schema sample_plan_consistent json_parse_stringify
  unfolding loadDeployConfig_Inr_iff by metis

text \<open>
  C40: a deployment configuration is accepted exactly when the file can be read, is JSON of the
  schema, and its records agree: every corridor names a listed region, has ordered limits and a
  tier entry, and every tier entry names a listed corridor.  The bands of the tier entries, which
  are the ones sent to the chain, are not compared with anything: some accepted configuration
  carries thresholds the compliance contract refuses.
\<close>

theorem accepted_configs_are_consistent:
  "(loadDeployConfig num texts readFile absolute = Inr config \<longleftrightarrow>
     (\<exists>text raw. readFile absolute = Inr text \<and> json_parse text = Some raw \<and> configSchema num raw = Some config)
     \<and> consistent config)
   \<and> (\<exists>text accepted. loadDeployConfig num texts (\<lambda>_. Inr text) absolute = Inr accepted
        \<and> (\<exists>t \<in> set (dp_complianceTiers accepted). \<not> thresholds_is_valid (tier_thresholds t)))"
proof
  show "loadDeployConfig num texts readFile absolute = Inr config \<longleftrightarrow>
     (\<exists>text raw. readFile absolute = Inr text \<and> json_parse text = Some raw \<and> configSchema num raw = Some config)
     \<and> consistent config"
    by (rule loadDeployConfig_Inr_iff)
next
  have "json_wf (sample_plan_json ''700'' ''600'')" "is_digit_text ''700''" "is_digit_text ''600''" by code_simp+
  then have "loadDeployConfig num texts (\<lambda>_. Inr (stringify (sample_plan_json ''700'' ''600''))) absolute
      = Inr (sample_plan ''700'' ''600'')"
    by (intro sample_plan_accepted) simp_all
  moreover have "digits_val ''700'' = 700" "digits_val ''600'' = 600" by code_simp+
  then have "\<exists>t \<in> set (dp_complianceTiers (sample_plan ''700'' ''600'')). \<not> thresholds_is_valid (tier_thresholds t)"
    by (simp add: sample_plan_def tier_thresholds_def thresholds_is_valid_def)
  ultimately show "\<exists>text accepted. loadDeployConfig num texts (\<lambda>_. Inr text) absolute = Inr accepted
      \<and> (\<exists>t \<in> set (dp_complianceTiers accepted). \<not> thresholds_is_valid (tier_thresholds t))"
    by (intro exI conjI)
qed

end
