(* ===== verification/Deploy.thy ===== *)
theory Deploy
  imports Stellar DeployPlan
begin

text \<open>
  \<open>scripts/src/deploy-contracts.ts\<close>: uploading, instantiating, initializing, wiring, configuring
  and verifying the four contracts, and writing their addresses.  Progress messages are left out.
\<close>

section \<open>Parameters\<close>

text \<open>
  What the script takes from its host: the libraries, \<open>path.resolve\<close>, the repository root, the
  message of a failed read, and the clock.  The files are those of the run.
\<close>

record Host =
  ho_lib :: Library
  ho_keys :: KeyTests
  ho_message :: "raw_env \<Rightarrow> string \<Rightarrow> string"
  ho_num :: "string \<Rightarrow> int option"
  ho_texts :: Texts
  ho_codec :: Codec
  ho_resolve :: "string \<Rightarrow> string \<Rightarrow> string"
  ho_root :: string
  ho_readError :: "string \<Rightarrow> string"
  ho_now :: int

definition CONTRACTS :: "(string \<times> string) list" where
  "CONTRACTS = [(''agent-registry'', ''agent_registry.wasm''), (''compliance-hook'', ''compliance_hook.wasm''),
     (''liquidity-pool'', ''liquidity_pool.wasm''), (''remit-escrow'', ''remit_escrow.wasm'')]"

definition ARTIFACT_DIR :: "Host \<Rightarrow> string" where
  "ARTIFACT_DIR host = ho_resolve host (ho_root host) ''contracts/target/wasm32v1-none/release''"

record Addresses =
  ad_agentRegistry :: string
  ad_complianceHook :: string
  ad_liquidityPool :: string
  ad_remitEscrow :: string

record Arguments =
  ar_dryRun :: bool
  ar_force :: bool

definition parseArgs :: "string list \<Rightarrow> Arguments" where
  "parseArgs argv = \<lparr>ar_dryRun = ''--dry-run'' \<in> set argv, ar_force = ''--force'' \<in> set argv\<rparr>"

definition readFile :: "Host \<Rightarrow> (string \<rightharpoonup> string) \<Rightarrow> string \<Rightarrow> string + string" where
  "readFile host files path = (case files path of None \<Rightarrow> Inl (ho_readError host path) | Some t \<Rightarrow> Inr t)"

definition loadArtifact :: "Host \<Rightarrow> (string \<rightharpoonup> string) \<Rightarrow> string \<Rightarrow> failure + string" where
  "loadArtifact host files fileName =
     (let path = ho_resolve host (ARTIFACT_DIR host) fileName in
      case readFile host files path of
        Inl cause \<Rightarrow> Inl (PlainErr (''Missing Wasm artifact at '' @ path @ ''. Run `npm run build:contracts` first. ('' @ cause @ '')''))
      | Inr wasm \<Rightarrow> Inr wasm)"

definition assertSafeTarget :: "string \<Rightarrow> bool \<Rightarrow> failure + unit" where
  "assertSafeTarget network force = require (\<not> (network = ''mainnet'' \<and> \<not> force))
     (PlainErr ''Refusing to deploy to mainnet without --force. Check the RPC URL and the admin key first: an immutable contract deployed to a mistyped endpoint is not recoverable.'')"

section \<open>Upload and instances\<close>

definition deploy_one ::
  "Host \<Rightarrow> Network \<Rightarrow> DeployContext \<Rightarrow> string \<times> string \<Rightarrow> (string \<rightharpoonup> string) \<Rightarrow> (Run, string \<rightharpoonup> string) act" where
  "deploy_one host net ctx contract instances =
     andThen (get_state run_files) (\<lambda>files.
     andThen (of_result (loadArtifact host files (snd contract))) (\<lambda>wasm.
     andThen (uploadWasm (ho_lib host) net ctx (fst contract) wasm) (\<lambda>hash.
     andThen (deployContract (ho_lib host) net ctx (fst contract) hash) (\<lambda>contractId.
     ret (instances(fst contract \<mapsto> contractId))))))"

definition addresses_of :: "(string \<rightharpoonup> string) \<Rightarrow> failure + Addresses" where
  "addresses_of instances =
     (case (instances ''agent-registry'', instances ''compliance-hook'', instances ''liquidity-pool'', instances ''remit-escrow'') of
        (Some r, Some h, Some p, Some e) \<Rightarrow>
          Inr \<lparr>ad_agentRegistry = r, ad_complianceHook = h, ad_liquidityPool = p, ad_remitEscrow = e\<rparr>
      | _ \<Rightarrow> Inl (PlainErr ''One or more contracts did not deploy; refusing to continue.''))"

section \<open>Initialize, wire, configure\<close>

definition initialize_contracts ::
  "Host \<Rightarrow> Network \<Rightarrow> DeployContext \<Rightarrow> DeployEnv \<Rightarrow> DeployPlan \<Rightarrow> Addresses \<Rightarrow> (Run, native option) act" where
  "initialize_contracts host net ctx env config ids =
     (let admin = ctx_admin ctx; invoke = call_with (ho_lib host) net ctx in
      andThen (invoke (ad_agentRegistry ids) ''initialize''
        [ScAddress admin, ScAddress (de_TOKEN_CONTRACT env), ScAddress (de_TREASURY_PUBLIC_KEY env)]
        ''agent-registry.initialize'') (\<lambda>_.
      andThen (invoke (ad_complianceHook ids) ''initialize'' [ScAddress admin] ''compliance-hook.initialize'') (\<lambda>_.
      andThen (invoke (ad_liquidityPool ids) ''initialize''
        [ScAddress admin, ScAddress (ad_agentRegistry ids), ScAddress (de_TOKEN_CONTRACT env),
         ScU32 (dp_collateralRatioBps config), ScU32 (dp_defaultUtilizationCapBps config)]
        ''liquidity-pool.initialize'') (\<lambda>_.
      invoke (ad_remitEscrow ids) ''initialize''
        [ScAddress admin, ScAddress (ad_agentRegistry ids), ScAddress (ad_complianceHook ids),
         ScAddress (de_TREASURY_PUBLIC_KEY env), ScU32 (dp_feeBps config), ScU64 (dp_maxExpirySecs config)]
        ''remit-escrow.initialize''))))"

definition wire_contracts ::
  "Host \<Rightarrow> Network \<Rightarrow> DeployContext \<Rightarrow> DeployEnv \<Rightarrow> Addresses \<Rightarrow> (Run, native option) act" where
  "wire_contracts host net ctx env ids =
     (let invoke = call_with (ho_lib host) net ctx in
      andThen (invoke (ad_complianceHook ids) ''set_escrow'' [ScAddress (ad_remitEscrow ids)] ''compliance-hook.set_escrow'') (\<lambda>_.
      invoke (ad_complianceHook ids) ''set_operator'' [ScAddress (de_ATTESTER_PUBLIC_KEY env), ScBool True]
        ''compliance-hook.set_operator(attester)''))"

definition configure_region ::
  "Host \<Rightarrow> Network \<Rightarrow> DeployContext \<Rightarrow> Addresses \<Rightarrow> RegionPlan \<Rightarrow> unit \<Rightarrow> (Run, unit) act" where
  "configure_region host net ctx ids region _ =
     (let invoke = call_with (ho_lib host) net ctx in
      andThen (invoke (ad_agentRegistry ids) ''add_region''
        [ScSymbol (rp_id region), ScI128 (digits_val (rp_minBond region)), ScU32 (rp_maxAgents region)]
        (''agent-registry.add_region('' @ rp_id region @ '')'')) (\<lambda>_.
      andThen (invoke (ad_liquidityPool ids) ''open_region''
        [ScSymbol (rp_id region), ScU32 (rp_utilizationCapBps region)]
        (''liquidity-pool.open_region('' @ rp_id region @ '')'')) (\<lambda>_.
      ret ())))"

definition configure_corridor ::
  "Host \<Rightarrow> Network \<Rightarrow> DeployContext \<Rightarrow> Addresses \<Rightarrow> CorridorPlan \<Rightarrow> unit \<Rightarrow> (Run, unit) act" where
  "configure_corridor host net ctx ids corridor _ =
     andThen (call_with (ho_lib host) net ctx (ad_agentRegistry ids) ''map_corridor''
       [ScSymbol (cp_id corridor), ScSymbol (cp_regionId corridor)]
       (''agent-registry.map_corridor('' @ cp_id corridor @ '')'')) (\<lambda>_. ret ())"

text \<open>The fields are built first, then the struct of them.\<close>

definition tier_fields :: "TierPlan \<Rightarrow> Sc list" where
  "tier_fields tier = [ScSymbol (tp_corridorId tier), ScI128 (digits_val (tp_tier1Max tier)),
     ScI128 (digits_val (tp_tier2Max tier)), ScI128 (digits_val (tp_enhancedDailyLimit tier))]"

definition tier_struct :: "Sc list \<Rightarrow> Sc" where
  "tier_struct vs = struct (zip [''corridor_id'', ''tier1_max'', ''tier2_max'', ''daily_limit''] vs)"

definition configure_tier ::
  "Host \<Rightarrow> Network \<Rightarrow> DeployContext \<Rightarrow> Addresses \<Rightarrow> TierPlan \<Rightarrow> unit \<Rightarrow> (Run, unit) act" where
  "configure_tier host net ctx ids tier _ =
     andThen (of_result (arguments (ho_lib host) (tier_fields tier))) (\<lambda>vs.
     andThen (call (ho_lib host) net ctx (ad_complianceHook ids) ''set_tier_thresholds'' [tier_struct vs]
       (''compliance-hook.set_tier_thresholds('' @ tp_corridorId tier @ '')'')) (\<lambda>_. ret ()))"

definition configure_contracts ::
  "Host \<Rightarrow> Network \<Rightarrow> DeployContext \<Rightarrow> DeployPlan \<Rightarrow> Addresses \<Rightarrow> (Run, unit) act" where
  "configure_contracts host net ctx config ids =
     andThen (for_each (configure_region host net ctx ids) (dp_regions config) ()) (\<lambda>_.
     andThen (for_each (configure_corridor host net ctx ids) (dp_corridors config) ()) (\<lambda>_.
     for_each (configure_tier host net ctx ids) (dp_complianceTiers config) ()))"

section \<open>Verification\<close>

text \<open>\<open>v?.[k]\<close> of a decoded struct; \<open>Some NUndefined\<close> and \<open>None\<close> are both \<open>undefined\<close>.\<close>

definition native_member :: "string \<Rightarrow> native option \<Rightarrow> native option" where
  "native_member k v = (case v of Some (NObject es) \<Rightarrow> map_of es k | _ \<Rightarrow> None)"

definition native_missing :: "native option \<Rightarrow> bool" where
  "native_missing v \<longleftrightarrow> v \<in> {None, Some NUndefined, Some NNull}"

definition optional_string :: "Codec \<Rightarrow> native option \<Rightarrow> string" where
  "optional_string codec v = native_string codec (option_or v NUndefined)"

definition fail_unless :: "bool \<Rightarrow> string \<Rightarrow> (Run, unit) act" where
  "fail_unless p message = guard p (PlainErr message)"

definition verify_escrow :: "Host \<Rightarrow> Network \<Rightarrow> DeployContext \<Rightarrow> DeployPlan \<Rightarrow> Addresses \<Rightarrow> (Run, unit) act" where
  "verify_escrow host net ctx config ids =
     andThen (read_with (ho_lib host) net ctx (ad_remitEscrow ids) ''escrow_config'' []) (\<lambda>escrowConfig.
     andThen (fail_unless (native_member ''agent_registry'' escrowConfig = Some (NString (ad_agentRegistry ids)))
       ''Escrow is not pointed at the registry that was just deployed.'') (\<lambda>_.
     andThen (fail_unless (native_member ''compliance_hook'' escrowConfig = Some (NString (ad_complianceHook ids)))
       ''Escrow is not pointed at the compliance hook that was just deployed.'') (\<lambda>_.
     fail_unless (native_member ''fee_bps'' escrowConfig = Some (NNumber (dp_feeBps config)))
       (''Escrow fee is '' @ optional_string (ho_codec host) (native_member ''fee_bps'' escrowConfig) @ '', expected ''
        @ show_int (dp_feeBps config) @ ''.''))))"

definition verify_region :: "Host \<Rightarrow> Network \<Rightarrow> DeployContext \<Rightarrow> Addresses \<Rightarrow> RegionPlan \<Rightarrow> unit \<Rightarrow> (Run, unit) act" where
  "verify_region host net ctx ids region _ =
     andThen (read_with (ho_lib host) net ctx (ad_agentRegistry ids) ''get_region'' [ScSymbol (rp_id region)]) (\<lambda>registered.
     fail_unless (\<not> native_missing registered) (''Region '' @ rp_id region @ '' was not registered on the registry.''))"

definition open_regions :: "Codec \<Rightarrow> native option \<Rightarrow> string list" where
  "open_regions codec poolRegions = (case poolRegions of Some (NArray vs) \<Rightarrow> map (native_string codec) vs | _ \<Rightarrow> [])"

definition verify_tier :: "Host \<Rightarrow> Network \<Rightarrow> DeployContext \<Rightarrow> Addresses \<Rightarrow> TierPlan \<Rightarrow> unit \<Rightarrow> (Run, unit) act" where
  "verify_tier host net ctx ids tier _ =
     (let text = (\<lambda>stored k. optional_string (ho_codec host) (native_member k stored)) in
      andThen (read_with (ho_lib host) net ctx (ad_complianceHook ids) ''get_tier_thresholds'' [ScSymbol (tp_corridorId tier)]) (\<lambda>stored.
      andThen (fail_unless (\<not> native_missing stored)
        (''No tier thresholds were stored for corridor '' @ tp_corridorId tier @ ''.'')) (\<lambda>_.
      andThen (fail_unless (text stored ''tier1_max'' = tp_tier1Max tier)
        (''Corridor '' @ tp_corridorId tier @ '': tier1_max stored as '' @ text stored ''tier1_max'' @ '', expected ''
          @ tp_tier1Max tier @ ''.'')) (\<lambda>_.
      fail_unless (text stored ''daily_limit'' = tp_enhancedDailyLimit tier)
        (''Corridor '' @ tp_corridorId tier @ '': daily_limit stored as '' @ text stored ''daily_limit'' @ '', expected ''
          @ tp_enhancedDailyLimit tier @ ''.'')))))"

definition verify_contracts ::
  "Host \<Rightarrow> Network \<Rightarrow> DeployContext \<Rightarrow> DeployPlan \<Rightarrow> Addresses \<Rightarrow> (Run, unit) act" where
  "verify_contracts host net ctx config ids =
     andThen (verify_escrow host net ctx config ids) (\<lambda>_.
     andThen (for_each (verify_region host net ctx ids) (dp_regions config) ()) (\<lambda>_.
     andThen (read_with (ho_lib host) net ctx (ad_liquidityPool ids) ''list_pool_regions'' []) (\<lambda>poolRegions.
     andThen (for_each (\<lambda>region _. fail_unless (rp_id region \<in> set (open_regions (ho_codec host) poolRegions))
         (''Region '' @ rp_id region @ '' has no pool: agents there could not draw float.'')) (dp_regions config) ()) (\<lambda>_.
     for_each (verify_tier host net ctx ids) (dp_complianceTiers config) ()))))"

section \<open>The addresses file\<close>

text \<open>\<open>JSON.stringify(v, null, 2)\<close>, with the current indentation.\<close>

fun pretty :: "nat \<Rightarrow> json \<Rightarrow> string" and pretty_items :: "nat \<Rightarrow> json list \<Rightarrow> string"
  and pretty_members :: "nat \<Rightarrow> (string \<times> json) list \<Rightarrow> string" where
  "pretty i (JArr (v # vs)) = ''['' @ [CHR 0x0A] @ pretty_items (i + 2) (v # vs) @ [CHR 0x0A] @ replicate i (CHR '' '') @ '']''"
| "pretty i (JObj (e # es)) = ''{'' @ [CHR 0x0A] @ pretty_members (i + 2) (e # es) @ [CHR 0x0A] @ replicate i (CHR '' '') @ ''}''"
| "pretty i v = stringify v"
| "pretty_items i [] = []"
| "pretty_items i (v # vs) = replicate i (CHR '' '') @ pretty i v @ (if vs = [] then [] else '','' @ [CHR 0x0A] @ pretty_items i vs)"
| "pretty_members i [] = []"
| "pretty_members i ((k, v) # es) = replicate i (CHR '' '') @ quote_str k @ '': '' @ pretty i v
     @ (if es = [] then [] else '','' @ [CHR 0x0A] @ pretty_members i es)"

definition DeployedAddresses :: "Host \<Rightarrow> DeployContext \<Rightarrow> DeployEnv \<Rightarrow> DeployPlan \<Rightarrow> Addresses \<Rightarrow> json" where
  "DeployedAddresses host ctx env config ids = JObj [
     (''network'', JStr (de_STELLAR_NETWORK env)),
     (''networkPassphrase'', JStr (de_STELLAR_NETWORK_PASSPHRASE env)),
     (''deployedAt'', JStr (toISOString (ho_now host))),
     (''deployer'', JStr (ctx_admin ctx)),
     (''admin'', JStr (ctx_admin ctx)),
     (''treasury'', JStr (de_TREASURY_PUBLIC_KEY env)),
     (''attester'', JStr (de_ATTESTER_PUBLIC_KEY env)),
     (''token'', JStr (de_TOKEN_CONTRACT env)),
     (''contracts'', JObj [
        (''agentRegistry'', JStr (ad_agentRegistry ids)), (''complianceHook'', JStr (ad_complianceHook ids)),
        (''liquidityPool'', JStr (ad_liquidityPool ids)), (''remitEscrow'', JStr (ad_remitEscrow ids))]),
     (''configuration'', JObj [
        (''feeBps'', JNum (dp_feeBps config)), (''maxExpirySecs'', JNum (dp_maxExpirySecs config)),
        (''collateralRatioBps'', JNum (dp_collateralRatioBps config)),
        (''defaultUtilizationCapBps'', JNum (dp_defaultUtilizationCapBps config)),
        (''regions'', JArr (map (JStr \<circ> rp_id) (dp_regions config))),
        (''corridors'', JArr (map (JStr \<circ> cp_id) (dp_corridors config)))])]"

definition write_file :: "string \<Rightarrow> string \<Rightarrow> (Run, unit) act" where
  "write_file path text = modify_state (run_files_update (\<lambda>files. files(path \<mapsto> text)))"

section \<open>The script\<close>

definition deploy_contracts ::
  "Host \<Rightarrow> Network \<Rightarrow> DeployContext \<Rightarrow> DeployEnv \<Rightarrow> DeployPlan \<Rightarrow> (Run, Addresses) act" where
  "deploy_contracts host net ctx env config =
     andThen (for_each (deploy_one host net ctx) CONTRACTS Map.empty) (\<lambda>instances.
     andThen (of_result (addresses_of instances)) (\<lambda>ids.
     andThen (initialize_contracts host net ctx env config ids) (\<lambda>_.
     andThen (wire_contracts host net ctx env ids) (\<lambda>_.
     andThen (configure_contracts host net ctx config ids) (\<lambda>_.
     andThen (if ctx_dryRun ctx then ret () else verify_contracts host net ctx config ids) (\<lambda>_.
     ret ids))))))"

definition addressesPath :: "Host \<Rightarrow> string" where
  "addressesPath host = ho_resolve host (ho_root host) ''deployed-addresses.json''"

text \<open>The output step: a dry run only shows what it would have written.\<close>

definition finish :: "Host \<Rightarrow> DeployContext \<Rightarrow> DeployEnv \<Rightarrow> DeployPlan \<Rightarrow> Addresses \<Rightarrow> (Run, json) act" where
  "finish host ctx env config ids =
     (let output = DeployedAddresses host ctx env config ids in
      if ctx_dryRun ctx then ret output
      else andThen (write_file (addressesPath host) (pretty 0 output @ [CHR 0x0A])) (\<lambda>_. ret output))"

definition plain_error :: "string + 'a \<Rightarrow> failure + 'a" where
  "plain_error r = (case r of Inl m \<Rightarrow> Inl (PlainErr m) | Inr a \<Rightarrow> Inr a)"

definition deploy_main :: "Host \<Rightarrow> Network \<Rightarrow> raw_env \<Rightarrow> string list \<Rightarrow> (Run, json) act" where
  "deploy_main host net source argv =
     (let args = parseArgs argv in
      andThen (of_result (plain_error (parseDeployEnv (ho_keys host) (ho_message host) source))) (\<lambda>env.
      andThen (get_state run_files) (\<lambda>files.
      andThen (of_result (plain_error (loadDeployConfig (ho_num host) (ho_texts host) (readFile host files)
        (ho_resolve host (ho_root host) (de_DEPLOY_CONFIG env))))) (\<lambda>config.
      andThen (of_result (createContext (ho_lib host) (de_SOROBAN_RPC_URL env) (de_ADMIN_SECRET_KEY env)
        (de_STELLAR_NETWORK_PASSPHRASE env) (ar_dryRun args))) (\<lambda>ctx.
      andThen (of_result (assertSafeTarget (de_STELLAR_NETWORK env) (ar_force args))) (\<lambda>_.
      andThen (guard (\<not> (\<not> ar_dryRun args \<and> \<not> ar_force args \<and> files (addressesPath host) \<noteq> None))
        (PlainErr (addressesPath host @ '' already exists, so this deployment would create a *second* set ''
           @ ''of contracts and repoint the backend at them. Deploying is not reversible. ''
           @ ''Pass --force if that is intended, or move the existing file aside first.''))) (\<lambda>_.
      andThen (deploy_contracts host net ctx env config) (\<lambda>ids.
      finish host ctx env config ids))))))))"

end
