(* ===== verification/DeployProofs.thy ===== *)
theory DeployProofs
  imports Deploy
begin

text \<open>
  What a deployment does: the plan it carries out, the types of its calls, what it leaves behind
  when it fails, and what a dry run leaves alone.
\<close>

section \<open>The plan\<close>

text \<open>A planned call, with the interface of the contract it goes to.\<close>

type_synonym abi = "(string \<times> ScType list) list"

definition planned :: "abi \<Rightarrow> string \<Rightarrow> string \<Rightarrow> Sc list \<Rightarrow> abi \<times> Call" where
  "planned abi contractId method args =
     (abi, \<lparr>cl_contractId = contractId, cl_method = method, cl_args = args, cl_signer = None\<rparr>)"

definition operation_of :: "abi \<times> Call \<Rightarrow> Op list" where
  "operation_of p = [Invoke (cl_contractId (snd p)) (cl_method (snd p)) (cl_args (snd p))]"

definition initialize_plan :: "string \<Rightarrow> DeployEnv \<Rightarrow> DeployPlan \<Rightarrow> Addresses \<Rightarrow> (abi \<times> Call) list" where
  "initialize_plan admin env config ids = [
     planned registry_abi (ad_agentRegistry ids) ''initialize''
       [ScAddress admin, ScAddress (de_TOKEN_CONTRACT env), ScAddress (de_TREASURY_PUBLIC_KEY env)],
     planned compliance_abi (ad_complianceHook ids) ''initialize'' [ScAddress admin],
     planned liquidity_abi (ad_liquidityPool ids) ''initialize''
       [ScAddress admin, ScAddress (ad_agentRegistry ids), ScAddress (de_TOKEN_CONTRACT env),
        ScU32 (dp_collateralRatioBps config), ScU32 (dp_defaultUtilizationCapBps config)],
     planned escrow_abi (ad_remitEscrow ids) ''initialize''
       [ScAddress admin, ScAddress (ad_agentRegistry ids), ScAddress (ad_complianceHook ids),
        ScAddress (de_TREASURY_PUBLIC_KEY env), ScU32 (dp_feeBps config), ScU64 (dp_maxExpirySecs config)]]"

definition wiring_plan :: "DeployEnv \<Rightarrow> Addresses \<Rightarrow> (abi \<times> Call) list" where
  "wiring_plan env ids = [
     planned compliance_abi (ad_complianceHook ids) ''set_escrow'' [ScAddress (ad_remitEscrow ids)],
     planned compliance_abi (ad_complianceHook ids) ''set_operator'' [ScAddress (de_ATTESTER_PUBLIC_KEY env), ScBool True]]"

definition region_plan_calls :: "Addresses \<Rightarrow> RegionPlan \<Rightarrow> (abi \<times> Call) list" where
  "region_plan_calls ids r = [
     planned registry_abi (ad_agentRegistry ids) ''add_region''
       [ScSymbol (rp_id r), ScI128 (digits_val (rp_minBond r)), ScU32 (rp_maxAgents r)],
     planned liquidity_abi (ad_liquidityPool ids) ''open_region'' [ScSymbol (rp_id r), ScU32 (rp_utilizationCapBps r)]]"

definition corridor_plan_calls :: "Addresses \<Rightarrow> CorridorPlan \<Rightarrow> (abi \<times> Call) list" where
  "corridor_plan_calls ids c = [
     planned registry_abi (ad_agentRegistry ids) ''map_corridor'' [ScSymbol (cp_id c), ScSymbol (cp_regionId c)]]"

definition tier_plan_calls :: "Addresses \<Rightarrow> TierPlan \<Rightarrow> (abi \<times> Call) list" where
  "tier_plan_calls ids t = (let b = tier_thresholds t in [
     planned compliance_abi (ad_complianceHook ids) ''set_tier_thresholds''
       [ScMap [(''corridor_id'', ScSymbol (tt_corridor_id b)), (''daily_limit'', ScI128 (tt_daily_limit b)),
          (''tier1_max'', ScI128 (tt_tier1_max b)), (''tier2_max'', ScI128 (tt_tier2_max b))]]])"

definition planned_calls :: "string \<Rightarrow> DeployEnv \<Rightarrow> DeployPlan \<Rightarrow> Addresses \<Rightarrow> (abi \<times> Call) list" where
  "planned_calls admin env config ids =
     initialize_plan admin env config ids @ wiring_plan env ids
   @ concat (map (region_plan_calls ids) (dp_regions config))
   @ concat (map (corridor_plan_calls ids) (dp_corridors config))
   @ concat (map (tier_plan_calls ids) (dp_complianceTiers config))"

section \<open>Instances\<close>

text \<open>One instance: the bytes of the artifact, the salt drawn, and the address the network gave it.\<close>

record Instance =
  in_wasm :: string
  in_salt :: string
  in_address :: string

definition instance_plan :: "Library \<Rightarrow> string \<Rightarrow> Instance \<Rightarrow> Op list list" where
  "instance_plan lib admin i =
     [[UploadContractWasm (in_wasm i)], [CreateCustomContract admin (lib_sha256 lib (in_wasm i)) (in_salt i)]]"

fun instances_made ::
  "Host \<Rightarrow> Network \<Rightarrow> string \<Rightarrow> (string \<rightharpoonup> string) \<Rightarrow> history \<Rightarrow> (string \<times> string) list \<Rightarrow> Instance list \<Rightarrow> bool" where
  "instances_made host net admin files h [] [] = True"
| "instances_made host net admin files h (c # cs) (i # ins) =
     (files (ho_resolve host (ARTIFACT_DIR host) (snd c)) = Some (in_wasm i)
      \<and> simulated net (h @ [[UploadContractWasm (in_wasm i)]])
          [CreateCustomContract admin (lib_sha256 (ho_lib host) (in_wasm i)) (in_salt i)] (Some (NString (in_address i)))
      \<and> instances_made host net admin files (h @ instance_plan (ho_lib host) admin i) cs ins)"
| "instances_made host net admin files h _ _ = False"

lemma instances_made_length: "instances_made host net admin files h cs ins \<Longrightarrow> length ins = length cs"
  by (induction host net admin files h cs ins rule: instances_made.induct) simp_all

lemma loadArtifact_Inr:
  "loadArtifact host files name = Inr wasm \<Longrightarrow> files (ho_resolve host (ARTIFACT_DIR host) name) = Some wasm"
  by (auto simp: loadArtifact_def readFile_def Let_def split: option.splits)

lemma deploy_one_Inr:
  assumes "deploy_one host net ctx c m w = (Inr m', w')" "\<not> ctx_dryRun ctx"
  obtains i where "m' = m(fst c \<mapsto> in_address i)"
    "instances_made host net (ctx_admin ctx) (run_files w) (run_sent w) [c] [i]"
    "ran (ho_lib host) net w (instance_plan (ho_lib host) (ctx_admin ctx) i) w'"
proof -
  let ?lib = "ho_lib host" and ?admin = "ctx_admin ctx"
  obtain wasm hash t contractId where a: "loadArtifact host (run_files w) (snd c) = Inr wasm"
    and u: "uploadWasm ?lib net ctx (fst c) wasm w = (Inr hash, t)"
    and d: "deployContract ?lib net ctx (fst c) hash t = (Inr contractId, w')"
    and m: "m' = m(fst c \<mapsto> contractId)"
    using assms(1) by (auto simp: deploy_one_def andThen_Inr_iff)
  define i where "i = \<lparr>in_wasm = wasm, in_salt = lib_random ?lib (run_sent t), in_address = contractId\<rparr>"
  have up: "ran ?lib net w [[UploadContractWasm wasm]] t" and h: "hex_to_bytes hash = lib_sha256 ?lib wasm"
    using uploadWasm_ran [OF u assms(2)] by (simp_all add: wasmHash_def)
  have t: "run_sent t = run_sent w @ [[UploadContractWasm wasm]]" using up by (simp add: ran_def)
  note dep = deployContract_ran [OF d assms(2), unfolded h]
  have r: "ran ?lib net w (instance_plan ?lib ?admin i) w'"
    using ran_append [OF up, of _ w'] dep by (simp add: instance_plan_def i_def)
  have "instances_made host net ?admin (run_files w) (run_sent w) [c] [i]"
    using loadArtifact_Inr [OF a] dep by (simp add: i_def t)
  moreover have "m' = m(fst c \<mapsto> in_address i)" using m by (simp add: i_def)
  ultimately show thesis using that r by blast
qed

definition add_instance :: "(string \<rightharpoonup> string) \<Rightarrow> (string \<times> string) \<times> Instance \<Rightarrow> string \<rightharpoonup> string" where
  "add_instance m p = m(fst (fst p) \<mapsto> in_address (snd p))"

lemma deploy_all_Inr:
  assumes "for_each (deploy_one host net ctx) cs m w = (Inr m', w')" "\<not> ctx_dryRun ctx"
  shows "\<exists>ins. m' = foldl add_instance m (zip cs ins)
    \<and> instances_made host net (ctx_admin ctx) (run_files w) (run_sent w) cs ins
    \<and> ran (ho_lib host) net w (concat (map (instance_plan (ho_lib host) (ctx_admin ctx)) ins)) w'"
  using assms(1)
proof (induction cs arbitrary: m w)
  case Nil
  then show ?case by (intro exI [of _ "[]"]) simp
next
  case (Cons c cs)
  obtain m1 t where step: "deploy_one host net ctx c m w = (Inr m1, t)" and rest: "for_each (deploy_one host net ctx) cs m1 t = (Inr m', w')"
    using Cons.prems by (auto simp: andThen_Inr_iff)
  from deploy_one_Inr [OF step assms(2)] obtain i where i: "m1 = m(fst c \<mapsto> in_address i)"
    "instances_made host net (ctx_admin ctx) (run_files w) (run_sent w) [c] [i]"
    "ran (ho_lib host) net w (instance_plan (ho_lib host) (ctx_admin ctx) i) t" .
  have t: "run_files t = run_files w" "run_sent t = run_sent w @ instance_plan (ho_lib host) (ctx_admin ctx) i"
    using i(3) by (simp_all add: ran_def)
  from Cons.IH [OF rest] obtain ins where r: "m' = foldl add_instance m1 (zip cs ins)"
    "instances_made host net (ctx_admin ctx) (run_files t) (run_sent t) cs ins"
    "ran (ho_lib host) net t (concat (map (instance_plan (ho_lib host) (ctx_admin ctx)) ins)) w'"
    by blast
  have "m' = foldl add_instance m (zip (c # cs) (i # ins))" using r(1) i(1) by (simp add: add_instance_def)
  moreover have "instances_made host net (ctx_admin ctx) (run_files w) (run_sent w) (c # cs) (i # ins)"
    using i(2) r(2) by (simp add: t)
  moreover have "ran (ho_lib host) net w (concat (map (instance_plan (ho_lib host) (ctx_admin ctx)) (i # ins))) w'"
    using ran_append [OF i(3) r(3)] by simp
  ultimately show ?case by blast
qed

text \<open>The instances of the four contracts, by name.\<close>

lemma addresses_of_four:
  "addresses_of (foldl add_instance Map.empty (zip CONTRACTS [a, b, c, d]))
   = Inr \<lparr>ad_agentRegistry = in_address a, ad_complianceHook = in_address b, ad_liquidityPool = in_address c,
       ad_remitEscrow = in_address d\<rparr>"
proof -
  let ?m = "Map.empty(''agent-registry'' \<mapsto> in_address a, ''compliance-hook'' \<mapsto> in_address b,
      ''liquidity-pool'' \<mapsto> in_address c, ''remit-escrow'' \<mapsto> in_address d)"
  have m: "foldl add_instance Map.empty (zip CONTRACTS [a, b, c, d]) = ?m"
    by (simp only: CONTRACTS_def zip_Cons_Cons zip_Nil foldl_Cons foldl_Nil add_instance_def fst_conv snd_conv)
  have "?m ''agent-registry'' = Some (in_address a)" "?m ''compliance-hook'' = Some (in_address b)"
      "?m ''liquidity-pool'' = Some (in_address c)" "?m ''remit-escrow'' = Some (in_address d)"
    by (simp_all only: fun_upd_apply) simp_all
  then show ?thesis unfolding m addresses_of_def by simp
qed

lemma four_instances:
  assumes "instances_made host net admin files h CONTRACTS ins"
  obtains a b c d where "ins = [a, b, c, d]"
proof -
  have "length ins = Suc (Suc (Suc (Suc 0)))" using instances_made_length [OF assms] by (simp add: CONTRACTS_def)
  then show thesis using that by (auto simp: length_Suc_conv)
qed

lemma deploy_four:
  assumes "for_each (deploy_one host net ctx) CONTRACTS Map.empty w = (Inr m, w')" "\<not> ctx_dryRun ctx"
  obtains ins ids where "addresses_of m = Inr ids"
    "instances_made host net (ctx_admin ctx) (run_files w) (run_sent w) CONTRACTS ins"
    "map in_address ins = [ad_agentRegistry ids, ad_complianceHook ids, ad_liquidityPool ids, ad_remitEscrow ids]"
    "ran (ho_lib host) net w (concat (map (instance_plan (ho_lib host) (ctx_admin ctx)) ins)) w'"
proof -
  from deploy_all_Inr [OF assms] obtain ins where
    i: "m = foldl add_instance Map.empty (zip CONTRACTS ins)"
    "instances_made host net (ctx_admin ctx) (run_files w) (run_sent w) CONTRACTS ins"
    "ran (ho_lib host) net w (concat (map (instance_plan (ho_lib host) (ctx_admin ctx)) ins)) w'"
    by blast
  from four_instances [OF i(2)] obtain a b c d where four: "ins = [a, b, c, d]" .
  have "map in_address ins = [in_address a, in_address b, in_address c, in_address d]" by (simp add: four)
  with that [OF addresses_of_four [of a b c d, folded four, folded i(1)] i(2) _ i(3)] show thesis by simp
qed

section \<open>Calls\<close>

text \<open>A call whose arguments are no structs.\<close>

lemma plain_call:
  assumes "call_with lib net ctx contractId method vs label w = (Inr v, w')" "\<not> ctx_dryRun ctx"
    and "list_all (\<lambda>v. leaves v = [v]) vs"
  shows "ran lib net w [operation_of (planned abi contractId method vs)] w'"
  using call_with_ran [OF assms(1,2)] assms(3) by (simp add: operation_of_def planned_def list_all_iff)

lemma ran_Cons: "ran lib net w [x] t \<Longrightarrow> ran lib net t xs w' \<Longrightarrow> ran lib net w (x # xs) w'"
  using ran_append [of lib net w "[x]" t xs w'] by simp

lemma call_then_ran:
  assumes "andThen (call_with lib net ctx contractId method vs label) f w = (Inr v, w')" "\<not> ctx_dryRun ctx"
    and "\<And>r t. f r t = (Inr v, w') \<Longrightarrow> ran lib net t ops w'"
    and "list_all (\<lambda>v. leaves v = [v]) vs"
  shows "ran lib net w (operation_of (planned abi contractId method vs) # ops) w'"
proof -
  obtain r t where c: "call_with lib net ctx contractId method vs label w = (Inr r, t)" "f r t = (Inr v, w')"
    using assms(1) by (auto simp: andThen_Inr_iff)
  show ?thesis by (rule ran_Cons [OF plain_call [OF c(1) assms(2,4)] assms(3) [OF c(2)]])
qed

lemma plain_leaves [simp]:
  "leaves (ScAddress a) = [ScAddress a]" "leaves (ScSymbol s) = [ScSymbol s]" "leaves (ScI128 n) = [ScI128 n]"
  "leaves (ScU32 n) = [ScU32 n]" "leaves (ScU64 n) = [ScU64 n]" "leaves (ScBool b) = [ScBool b]"
  by (simp_all add: leaves_def)

lemma initialize_ran:
  assumes "initialize_contracts host net ctx env config ids w = (Inr v, w')" "\<not> ctx_dryRun ctx"
  shows "ran (ho_lib host) net w (map operation_of (initialize_plan (ctx_admin ctx) env config ids)) w'"
  unfolding initialize_plan_def list.map
  using assms(1) unfolding initialize_contracts_def Let_def
  by (elim call_then_ran [OF _ assms(2)] plain_call [OF _ assms(2)]) simp_all

lemma wire_ran:
  assumes "wire_contracts host net ctx env ids w = (Inr v, w')" "\<not> ctx_dryRun ctx"
  shows "ran (ho_lib host) net w (map operation_of (wiring_plan env ids)) w'"
  unfolding wiring_plan_def list.map
  using assms(1) unfolding wire_contracts_def Let_def
  by (elim call_then_ran [OF _ assms(2)] plain_call [OF _ assms(2)]) simp_all

lemma region_ran:
  assumes "configure_region host net ctx ids r u w = (Inr v, w')" "\<not> ctx_dryRun ctx"
  shows "ran (ho_lib host) net w (map operation_of (region_plan_calls ids r)) w'"
  unfolding region_plan_calls_def list.map
  using assms(1) unfolding configure_region_def Let_def
  by (elim call_then_ran [OF _ assms(2)] plain_call [OF _ assms(2)]) simp_all

lemma corridor_ran:
  assumes "configure_corridor host net ctx ids c u w = (Inr v, w')" "\<not> ctx_dryRun ctx"
  shows "ran (ho_lib host) net w (map operation_of (corridor_plan_calls ids c)) w'"
  unfolding corridor_plan_calls_def list.map
  using assms(1) unfolding configure_corridor_def
  by (elim call_then_ran [OF _ assms(2)] plain_call [OF _ assms(2)]) simp_all

text \<open>The struct of the fields is the map the contract expects, with its keys in order.\<close>

lemma tier_struct_fields:
  "tier_struct (tier_fields t) = (let b = tier_thresholds t in
     ScMap [(''corridor_id'', ScSymbol (tt_corridor_id b)), (''daily_limit'', ScI128 (tt_daily_limit b)),
       (''tier1_max'', ScI128 (tt_tier1_max b)), (''tier2_max'', ScI128 (tt_tier2_max b))])"
  by (simp add: tier_struct_def tier_fields_def struct_def sorted_threshold_fields tier_thresholds_def Let_def)

lemma tier_ran:
  assumes "configure_tier host net ctx ids t u w = (Inr v, w')" "\<not> ctx_dryRun ctx"
  shows "ran (ho_lib host) net w (map operation_of (tier_plan_calls ids t)) w'"
proof -
  obtain r where e: "list_all (\<lambda>v. lib_encode (ho_lib host) v = None) (tier_fields t)"
    and c: "call (ho_lib host) net ctx (ad_complianceHook ids) ''set_tier_thresholds'' [tier_struct (tier_fields t)]
       (''compliance-hook.set_tier_thresholds('' @ tp_corridorId t @ '')'') w = (Inr r, w')"
    using assms(1) by (auto simp: configure_tier_def andThen_Inr_iff arguments_Inr_iff)
  have "list_all (\<lambda>u. lib_encode (ho_lib host) u = None) (leaves (tier_struct (tier_fields t)))"
    using e unfolding tier_struct_fields by (simp add: Let_def leaves_def tier_fields_def tier_thresholds_def)
  with call_ran [OF c assms(2)] show ?thesis
    by (simp add: tier_plan_calls_def operation_of_def planned_def tier_struct_fields Let_def)
qed

lemma map_concat_map: "map f (concat (map g xs)) = concat (map (\<lambda>x. map f (g x)) xs)"
  by (induction xs) simp_all

lemma configure_ran:
  assumes "configure_contracts host net ctx config ids w = (Inr v, w')" "\<not> ctx_dryRun ctx"
  shows "ran (ho_lib host) net w (map operation_of (concat (map (region_plan_calls ids) (dp_regions config))
     @ concat (map (corridor_plan_calls ids) (dp_corridors config))
     @ concat (map (tier_plan_calls ids) (dp_complianceTiers config)))) w'"
proof -
  obtain u1 w1 u2 w2 where r: "for_each (configure_region host net ctx ids) (dp_regions config) () w = (Inr u1, w1)"
    and c: "for_each (configure_corridor host net ctx ids) (dp_corridors config) () w1 = (Inr u2, w2)"
    and t: "for_each (configure_tier host net ctx ids) (dp_complianceTiers config) () w2 = (Inr v, w')"
    using assms(1) by (auto simp: configure_contracts_def andThen_Inr_iff)
  have "ran (ho_lib host) net w (concat (map (\<lambda>r. map operation_of (region_plan_calls ids r)) (dp_regions config))) w1"
    by (rule ran_for_each [OF _ r]) (rule region_ran [OF _ assms(2)])
  moreover have "ran (ho_lib host) net w1 (concat (map (\<lambda>c. map operation_of (corridor_plan_calls ids c)) (dp_corridors config))) w2"
    by (rule ran_for_each [OF _ c]) (rule corridor_ran [OF _ assms(2)])
  moreover have "ran (ho_lib host) net w2 (concat (map (\<lambda>t. map operation_of (tier_plan_calls ids t)) (dp_complianceTiers config))) w'"
    by (rule ran_for_each [OF _ t]) (rule tier_ran [OF _ assms(2)])
  ultimately show ?thesis unfolding map_append map_concat_map by (blast intro: ran_append)
qed

section \<open>Reading back\<close>

text \<open>What the network must answer, after everything was submitted, for a deployment to be reported.\<close>

definition reads_back :: "Host \<Rightarrow> Network \<Rightarrow> DeployPlan \<Rightarrow> Addresses \<Rightarrow> history \<Rightarrow> bool" where
  "reads_back host net config ids h \<longleftrightarrow>
     (\<exists>v. simulated net h [Invoke (ad_remitEscrow ids) ''escrow_config'' []] v
        \<and> native_member ''agent_registry'' v = Some (NString (ad_agentRegistry ids))
        \<and> native_member ''compliance_hook'' v = Some (NString (ad_complianceHook ids))
        \<and> native_member ''fee_bps'' v = Some (NNumber (dp_feeBps config)))
     \<and> (\<forall>r \<in> set (dp_regions config). \<exists>v. simulated net h [Invoke (ad_agentRegistry ids) ''get_region'' [ScSymbol (rp_id r)]] v
        \<and> \<not> native_missing v)
     \<and> (\<exists>v. simulated net h [Invoke (ad_liquidityPool ids) ''list_pool_regions'' []] v
        \<and> rp_id ` set (dp_regions config) \<subseteq> set (open_regions (ho_codec host) v))
     \<and> (\<forall>t \<in> set (dp_complianceTiers config). \<exists>v.
          simulated net h [Invoke (ad_complianceHook ids) ''get_tier_thresholds'' [ScSymbol (tp_corridorId t)]] v
        \<and> \<not> native_missing v \<and> optional_string (ho_codec host) (native_member ''tier1_max'' v) = tp_tier1Max t
        \<and> optional_string (ho_codec host) (native_member ''daily_limit'' v) = tp_enhancedDailyLimit t)"

lemma for_each_checks:
  assumes "\<And>x b b' s'. x \<in> set xs \<Longrightarrow> f x b s = (Inr b', s') \<Longrightarrow> s' = s \<and> P x"
    and "for_each f xs b s = (Inr b', s')"
  shows "s' = s \<and> (\<forall>x \<in> set xs. P x)"
  using assms
proof (induction xs arbitrary: b)
  case (Cons x xs)
  then obtain c t where step: "f x b s = (Inr c, t)" and rest: "for_each f xs c t = (Inr b', s')"
    by (auto simp: andThen_Inr_iff)
  have "x \<in> set (x # xs)" by simp
  from Cons.prems(1) [OF this step] have t: "t = s" "P x" by simp_all
  from Cons.IH [OF Cons.prems(1) rest [unfolded t(1)]] t(2) show ?case by simp
qed simp

lemma fail_unless_Inr_iff: "fail_unless p m s = (Inr u, s') \<longleftrightarrow> p \<and> s' = s"
  by (simp add: fail_unless_def)

lemma read_then:
  assumes "andThen (read_with lib net ctx contractId method vs) f w = (Inr u, w')"
  obtains v where "simulated net (run_sent w) [Invoke contractId method vs] v" "f v w = (Inr u, w')"
proof -
  obtain v t where r: "read_with lib net ctx contractId method vs w = (Inr v, t)" "f v t = (Inr u, w')"
    using assms by (auto simp: andThen_Inr_iff)
  have "t = w" "simulated net (run_sent w) [Invoke contractId method vs] v" using read_with_Inr [OF r(1)] by simp_all
  with r(2) that show thesis by blast
qed

lemma check_then:
  "andThen (fail_unless p m) f s = (Inr u, s') \<longleftrightarrow> p \<and> f () s = (Inr u, s')"
  by (auto simp: andThen_Inr_iff fail_unless_Inr_iff)

lemma verify_escrow_Inr:
  "verify_escrow host net ctx config ids w = (Inr u, w') \<Longrightarrow>
     w' = w \<and> (\<exists>v. simulated net (run_sent w) [Invoke (ad_remitEscrow ids) ''escrow_config'' []] v
        \<and> native_member ''agent_registry'' v = Some (NString (ad_agentRegistry ids))
        \<and> native_member ''compliance_hook'' v = Some (NString (ad_complianceHook ids))
        \<and> native_member ''fee_bps'' v = Some (NNumber (dp_feeBps config)))"
  unfolding verify_escrow_def by (erule read_then) (auto simp: check_then fail_unless_Inr_iff)

lemma verify_region_Inr:
  "verify_region host net ctx ids r u w = (Inr u', w') \<Longrightarrow>
     w' = w \<and> (\<exists>v. simulated net (run_sent w) [Invoke (ad_agentRegistry ids) ''get_region'' [ScSymbol (rp_id r)]] v
        \<and> \<not> native_missing v)"
  unfolding verify_region_def by (erule read_then) (auto simp: fail_unless_Inr_iff)

lemma verify_tier_Inr:
  "verify_tier host net ctx ids t u w = (Inr u', w') \<Longrightarrow>
     w' = w \<and> (\<exists>v. simulated net (run_sent w) [Invoke (ad_complianceHook ids) ''get_tier_thresholds'' [ScSymbol (tp_corridorId t)]] v
        \<and> \<not> native_missing v \<and> optional_string (ho_codec host) (native_member ''tier1_max'' v) = tp_tier1Max t
        \<and> optional_string (ho_codec host) (native_member ''daily_limit'' v) = tp_enhancedDailyLimit t)"
  unfolding verify_tier_def Let_def by (erule read_then) (auto simp: check_then fail_unless_Inr_iff)

lemma verify_reads_back:
  assumes "verify_contracts host net ctx config ids w = (Inr u, w')"
  shows "w' = w \<and> reads_back host net config ids (run_sent w)"
proof -
  obtain u1 w1 u2 w2 v w3 u4 w4 where e: "verify_escrow host net ctx config ids w = (Inr u1, w1)"
    and r: "for_each (verify_region host net ctx ids) (dp_regions config) () w1 = (Inr u2, w2)"
    and p: "read_with (ho_lib host) net ctx (ad_liquidityPool ids) ''list_pool_regions'' [] w2 = (Inr v, w3)"
    and q: "for_each (\<lambda>region _. fail_unless (rp_id region \<in> set (open_regions (ho_codec host) v))
         (''Region '' @ rp_id region @ '' has no pool: agents there could not draw float.'')) (dp_regions config) () w3 = (Inr u4, w4)"
    and t: "for_each (verify_tier host net ctx ids) (dp_complianceTiers config) () w4 = (Inr u, w')"
    using assms unfolding verify_contracts_def andThen_Inr_iff by blast
  have w1: "w1 = w" using verify_escrow_Inr [OF e] by simp
  have r': "w2 = w1 \<and> (\<forall>r \<in> set (dp_regions config). \<exists>v.
      simulated net (run_sent w1) [Invoke (ad_agentRegistry ids) ''get_region'' [ScSymbol (rp_id r)]] v \<and> \<not> native_missing v)"
    by (rule for_each_checks [OF _ r]) (rule verify_region_Inr)
  have p': "w3 = w2" "simulated net (run_sent w2) [Invoke (ad_liquidityPool ids) ''list_pool_regions'' []] v"
    using read_with_Inr [OF p] by simp_all
  have q': "w4 = w3 \<and> (\<forall>region \<in> set (dp_regions config). rp_id region \<in> set (open_regions (ho_codec host) v))"
    by (rule for_each_checks [OF _ q]) (simp add: fail_unless_Inr_iff)
  have t': "w' = w4 \<and> (\<forall>t \<in> set (dp_complianceTiers config). \<exists>v.
          simulated net (run_sent w4) [Invoke (ad_complianceHook ids) ''get_tier_thresholds'' [ScSymbol (tp_corridorId t)]] v
        \<and> \<not> native_missing v \<and> optional_string (ho_codec host) (native_member ''tier1_max'' v) = tp_tier1Max t
        \<and> optional_string (ho_codec host) (native_member ''daily_limit'' v) = tp_enhancedDailyLimit t)"
    by (rule for_each_checks [OF _ t]) (rule verify_tier_Inr)
  have same: "w2 = w" "w3 = w" "w4 = w" "w' = w" using w1 r' p'(1) q' t' by simp_all
  have "\<exists>v. simulated net (run_sent w) [Invoke (ad_liquidityPool ids) ''list_pool_regions'' []] v
        \<and> rp_id ` set (dp_regions config) \<subseteq> set (open_regions (ho_codec host) v)"
    using p'(2) q' same(1) by blast
  then show ?thesis
    using verify_escrow_Inr [OF e] r' t' unfolding reads_back_def same w1 by simp
qed

section \<open>A whole deployment\<close>

definition whole_plan :: "Library \<Rightarrow> string \<Rightarrow> DeployEnv \<Rightarrow> DeployPlan \<Rightarrow> Instance list \<Rightarrow> Addresses \<Rightarrow> Op list list" where
  "whole_plan lib admin env config ins ids =
     concat (map (instance_plan lib admin) ins) @ map operation_of (planned_calls admin env config ids)"

lemma deploy_contracts_Inr:
  assumes "deploy_contracts host net ctx env config w = (Inr ids, w')" "\<not> ctx_dryRun ctx"
  obtains ins where "instances_made host net (ctx_admin ctx) (run_files w) (run_sent w) CONTRACTS ins"
    "map in_address ins = [ad_agentRegistry ids, ad_complianceHook ids, ad_liquidityPool ids, ad_remitEscrow ids]"
    "ran (ho_lib host) net w (whole_plan (ho_lib host) (ctx_admin ctx) env config ins ids) w'"
    "reads_back host net config ids (run_sent w')"
proof -
  obtain m w1 v2 w2 v3 w3 v4 w4 u where f: "for_each (deploy_one host net ctx) CONTRACTS Map.empty w = (Inr m, w1)"
    and a: "addresses_of m = Inr ids"
    and i: "initialize_contracts host net ctx env config ids w1 = (Inr v2, w2)"
    and wi: "wire_contracts host net ctx env ids w2 = (Inr v3, w3)"
    and co: "configure_contracts host net ctx config ids w3 = (Inr v4, w4)"
    and ve: "verify_contracts host net ctx config ids w4 = (Inr u, w')"
    using assms unfolding deploy_contracts_def andThen_Inr_iff of_result_iff ret_iff by auto
  from deploy_four [OF f assms(2)] a obtain ins where
    ins: "instances_made host net (ctx_admin ctx) (run_files w) (run_sent w) CONTRACTS ins"
    "map in_address ins = [ad_agentRegistry ids, ad_complianceHook ids, ad_liquidityPool ids, ad_remitEscrow ids]"
    "ran (ho_lib host) net w (concat (map (instance_plan (ho_lib host) (ctx_admin ctx)) ins)) w1"
    by (metis sum.inject(2))
  note calls = ran_append [OF initialize_ran [OF i assms(2)] ran_append [OF wire_ran [OF wi assms(2)] configure_ran [OF co assms(2)]]]
  have "ran (ho_lib host) net w (whole_plan (ho_lib host) (ctx_admin ctx) env config ins ids) w4"
    using ran_append [OF ins(3) calls] by (simp add: whole_plan_def planned_calls_def)
  with that [OF ins(1,2)] verify_reads_back [OF ve] show thesis by simp
qed

lemma plain_error_Inr_iff: "plain_error r = Inr a \<longleftrightarrow> r = Inr a"
  by (auto simp: plain_error_def split: sum.splits)

lemma createContext_Inr:
  "createContext lib url secret passphrase dry = Inr ctx \<Longrightarrow> lib_keypair lib secret = Inr (ctx_admin ctx) \<and> ctx_dryRun ctx = dry"
  by (auto simp: createContext_def split: sum.splits)

text \<open>The configuration a run finds.\<close>

definition config_of :: "Host \<Rightarrow> (string \<rightharpoonup> string) \<Rightarrow> DeployEnv \<Rightarrow> string + DeployPlan" where
  "config_of host files env = loadDeployConfig (ho_num host) (ho_texts host) (readFile host files)
     (ho_resolve host (ho_root host) (de_DEPLOY_CONFIG env))"

text \<open>A run that returns got past every check and came out of \<open>deploy_contracts\<close>.\<close>

lemma deploy_main_Inr:
  assumes "deploy_main host net source argv w = (Inr output, w')"
  obtains env config ctx ids t where
    "parseDeployEnv (ho_keys host) (ho_message host) source = Inr env" "config_of host (run_files w) env = Inr config"
    "createContext (ho_lib host) (de_SOROBAN_RPC_URL env) (de_ADMIN_SECRET_KEY env) (de_STELLAR_NETWORK_PASSPHRASE env)
       (''--dry-run'' \<in> set argv) = Inr ctx"
    "de_STELLAR_NETWORK env = ''mainnet'' \<longrightarrow> ''--force'' \<in> set argv"
    "''--dry-run'' \<in> set argv \<or> ''--force'' \<in> set argv \<or> run_files w (addressesPath host) = None"
    "deploy_contracts host net ctx env config w = (Inr ids, t)" "output = DeployedAddresses host ctx env config ids"
    "w' = (if ''--dry-run'' \<in> set argv then t
       else t\<lparr>run_files := (run_files t)(addressesPath host \<mapsto> pretty 0 output @ [CHR 0x0A])\<rparr>)"
proof -
  from assms obtain env config ctx ids t u where
    e: "parseDeployEnv (ho_keys host) (ho_message host) source = Inr env" and c: "config_of host (run_files w) env = Inr config"
    and x: "createContext (ho_lib host) (de_SOROBAN_RPC_URL env) (de_ADMIN_SECRET_KEY env) (de_STELLAR_NETWORK_PASSPHRASE env)
       (''--dry-run'' \<in> set argv) = Inr ctx"
    and s: "assertSafeTarget (de_STELLAR_NETWORK env) (''--force'' \<in> set argv) = Inr u"
    and g: "\<not> (''--dry-run'' \<notin> set argv \<and> ''--force'' \<notin> set argv \<and> run_files w (addressesPath host) \<noteq> None)"
    and d: "deploy_contracts host net ctx env config w = (Inr ids, t)"
    and l: "finish host ctx env config ids t = (Inr output, w')"
    unfolding deploy_main_def config_of_def parseArgs_def Let_def Arguments.select_convs andThen_Inr_iff of_result_iff
      get_state_iff guard_Inr_iff plain_error_Inr_iff by clarify blast
  have dry: "ctx_dryRun ctx = (''--dry-run'' \<in> set argv)" using createContext_Inr [OF x] by simp
  have out: "output = DeployedAddresses host ctx env config ids"
    using l by (cases "ctx_dryRun ctx") (simp_all add: finish_def Let_def write_file_def act_simps)
  have fin: "w' = (if ''--dry-run'' \<in> set argv then t
       else t\<lparr>run_files := (run_files t)(addressesPath host \<mapsto> pretty 0 output @ [CHR 0x0A])\<rparr>)"
    using l unfolding dry [symmetric] out
    by (cases t; cases "ctx_dryRun ctx") (simp_all add: finish_def Let_def write_file_def act_simps)
  have safe: "de_STELLAR_NETWORK env = ''mainnet'' \<longrightarrow> ''--force'' \<in> set argv"
    using s by (auto simp: assertSafeTarget_def)
  show thesis using that [OF e c x safe _ d out fin] g by blast
qed

lemma deployment_plan:
  assumes "deploy_main host net source argv w = (Inr output, w')" "''--dry-run'' \<notin> set argv"
  shows "\<exists>env config ctx ids ins.
      parseDeployEnv (ho_keys host) (ho_message host) source = Inr env
    \<and> config_of host (run_files w) env = Inr config
    \<and> lib_keypair (ho_lib host) (de_ADMIN_SECRET_KEY env) = Inr (ctx_admin ctx)
    \<and> (de_STELLAR_NETWORK env = ''mainnet'' \<or> run_files w (addressesPath host) \<noteq> None \<longrightarrow> ''--force'' \<in> set argv)
    \<and> instances_made host net (ctx_admin ctx) (run_files w) (run_sent w) CONTRACTS ins
    \<and> map in_address ins = [ad_agentRegistry ids, ad_complianceHook ids, ad_liquidityPool ids, ad_remitEscrow ids]
    \<and> run_sent w' = run_sent w @ whole_plan (ho_lib host) (ctx_admin ctx) env config ins ids
    \<and> (\<forall>n. length (run_sent w) < n \<and> n \<le> length (run_sent w') \<longrightarrow> confirmed net (take n (run_sent w')))
    \<and> reads_back host net config ids (run_sent w')
    \<and> output = DeployedAddresses host ctx env config ids
    \<and> run_files w' = (run_files w)(addressesPath host \<mapsto> pretty 0 output @ [CHR 0x0A])"
proof -
  from assms(1) obtain env config ctx ids t where
    m: "parseDeployEnv (ho_keys host) (ho_message host) source = Inr env" "config_of host (run_files w) env = Inr config"
    and x: "createContext (ho_lib host) (de_SOROBAN_RPC_URL env) (de_ADMIN_SECRET_KEY env) (de_STELLAR_NETWORK_PASSPHRASE env)
       (''--dry-run'' \<in> set argv) = Inr ctx"
    and g: "de_STELLAR_NETWORK env = ''mainnet'' \<longrightarrow> ''--force'' \<in> set argv"
      "''--dry-run'' \<in> set argv \<or> ''--force'' \<in> set argv \<or> run_files w (addressesPath host) = None"
    and d: "deploy_contracts host net ctx env config w = (Inr ids, t)"
    and out: "output = DeployedAddresses host ctx env config ids"
    and fin: "w' = (if ''--dry-run'' \<in> set argv then t
       else t\<lparr>run_files := (run_files t)(addressesPath host \<mapsto> pretty 0 output @ [CHR 0x0A])\<rparr>)"
    by (rule deploy_main_Inr)
  have key: "lib_keypair (ho_lib host) (de_ADMIN_SECRET_KEY env) = Inr (ctx_admin ctx)" and nd: "\<not> ctx_dryRun ctx"
    using createContext_Inr [OF x] assms(2) by simp_all
  from deploy_contracts_Inr [OF d nd] obtain ins where
    ins: "instances_made host net (ctx_admin ctx) (run_files w) (run_sent w) CONTRACTS ins"
      "map in_address ins = [ad_agentRegistry ids, ad_complianceHook ids, ad_liquidityPool ids, ad_remitEscrow ids]"
    and r: "ran (ho_lib host) net w (whole_plan (ho_lib host) (ctx_admin ctx) env config ins ids) t"
    and b: "reads_back host net config ids (run_sent t)" .
  have w': "run_sent w' = run_sent t" "run_files w' = (run_files w)(addressesPath host \<mapsto> pretty 0 output @ [CHR 0x0A])"
    using fin r assms(2) by (simp_all add: ran_def)
  have sent: "run_sent t = run_sent w @ whole_plan (ho_lib host) (ctx_admin ctx) env config ins ids"
    using r by (simp add: ran_def)
  have conf: "confirmed net (take n (run_sent t))" if "length (run_sent w) < n" "n \<le> length (run_sent t)" for n
  proof -
    have "confirmed net (run_sent w @ take (n - length (run_sent w)) (whole_plan (ho_lib host) (ctx_admin ctx) env config ins ids))"
      using r that unfolding ran_def by (simp add: sent)
    then show ?thesis using that by (simp add: sent)
  qed
  have guards: "de_STELLAR_NETWORK env = ''mainnet'' \<or> run_files w (addressesPath host) \<noteq> None \<longrightarrow> ''--force'' \<in> set argv"
    using g assms(2) by auto
  show ?thesis
    using m key guards ins sent conf b out w' by (intro exI conjI) (auto simp only:)
qed

section \<open>Types of the calls\<close>

lemma all_some_elements: "all_some f vs = Some rs \<Longrightarrow> r \<in> set rs \<Longrightarrow> \<exists>v. f v = Some r"
  by (induction vs arbitrary: rs) (auto split: option.splits)

lemma nonempty_array_elements:
  assumes "required (nonempty_array f) k raw = Some rs" "r \<in> set rs"
  shows "\<exists>v. f v = Some r"
proof -
  obtain vs where "all_some f vs = Some rs"
    using assms(1) by (auto simp: required_def nonempty_array_def array_of_def split: option.splits json.splits list.splits)
  from all_some_elements [OF this assms(2)] show ?thesis .
qed

lemma region_plan_bounds:
  assumes "region_plan num v = Some r"
  shows "length (rp_id r) \<le> 12 \<and> is_digit_text (rp_minBond r) \<and> 0 \<le> rp_maxAgents r
    \<and> 0 \<le> rp_utilizationCapBps r \<and> rp_utilizationCapBps r \<le> 10000"
  using assms
  by (auto simp: region_plan_def required_def string_len_def int_between_def digits_string_def split: option.splits if_splits)

lemma tier_plan_bounds:
  assumes "tier_plan v = Some t"
  shows "is_digit_text (tp_tier1Max t) \<and> is_digit_text (tp_tier2Max t) \<and> is_digit_text (tp_enhancedDailyLimit t)"
  using assms by (auto simp: tier_plan_def required_def digits_string_def split: option.splits if_splits)

lemma corridor_plan_bounds: "corridor_plan num v = Some c \<Longrightarrow> length (cp_id c) \<le> 12"
  by (auto simp: corridor_plan_def required_def string_len_def split: option.splits if_splits)

lemma configSchema_parts:
  assumes "configSchema num raw = Some config"
  shows "required (nonempty_array (region_plan num)) ''regions'' raw = Some (dp_regions config)"
    "required (nonempty_array (corridor_plan num)) ''corridors'' raw = Some (dp_corridors config)"
    "required (nonempty_array tier_plan) ''complianceTiers'' raw = Some (dp_complianceTiers config)"
    "required (escrow_plan num) ''escrow'' raw = Some (dp_feeBps config, dp_maxExpirySecs config)"
    "required (pool_plan num) ''liquidityPool'' raw = Some (dp_collateralRatioBps config, dp_defaultUtilizationCapBps config)"
  using assms by (auto simp: configSchema_def split: option.splits)

lemma schema_scalars:
  assumes "configSchema num raw = Some config"
  shows "0 \<le> dp_feeBps config" "dp_feeBps config \<le> 10000" "1 \<le> dp_maxExpirySecs config"
    "0 \<le> dp_collateralRatioBps config" "dp_collateralRatioBps config \<le> 100000"
    "0 \<le> dp_defaultUtilizationCapBps config" "dp_defaultUtilizationCapBps config \<le> 10000"
  using configSchema_parts(4,5) [OF assms]
  by (auto simp: required_def escrow_plan_def pool_plan_def int_between_def split: option.splits if_splits)

text \<open>What the schema leaves open: the alphabet of the identifiers and the size of four numbers.\<close>

definition representable :: "DeployPlan \<Rightarrow> bool" where
  "representable config \<longleftrightarrow>
     (\<forall>r \<in> set (dp_regions config). list_all symbol_char (rp_id r) \<and> digits_val (rp_minBond r) < 2 ^ 127 \<and> rp_maxAgents r < 2 ^ 32)
     \<and> (\<forall>c \<in> set (dp_corridors config). list_all symbol_char (cp_id c))
     \<and> (\<forall>t \<in> set (dp_complianceTiers config). digits_val (tp_tier1Max t) < 2 ^ 127 \<and> digits_val (tp_tier2Max t) < 2 ^ 127
          \<and> digits_val (tp_enhancedDailyLimit t) < 2 ^ 127)
     \<and> dp_maxExpirySecs config < 2 ^ 64"

lemma digits_in_i128: "is_digit_text s \<Longrightarrow> digits_val s < 2 ^ 127 \<Longrightarrow> in_i128 (digits_val s)"
  using digits_val_nonneg [of s] by (simp add: in_i128_def is_digit_text_def)

abbreviation typed :: "abi \<times> Call \<Rightarrow> bool" where
  "typed p \<equiv> conforms (fst p) (snd p)"

lemmas abi_defs = conforms_def planned_def registry_abi_def compliance_abi_def liquidity_abi_def escrow_abi_def

lemma schema_region:
  assumes "configSchema num raw = Some config" "representable config" "r \<in> set (dp_regions config)"
  shows "is_symbol (rp_id r)" "in_i128 (digits_val (rp_minBond r))" "0 \<le> rp_maxAgents r" "rp_maxAgents r < 2 ^ 32"
    "0 \<le> rp_utilizationCapBps r" "rp_utilizationCapBps r \<le> 10000"
proof -
  obtain v where "region_plan num v = Some r"
    using nonempty_array_elements [OF configSchema_parts(1) [OF assms(1)] assms(3)] by blast
  note b = region_plan_bounds [OF this]
  have f: "list_all symbol_char (rp_id r)" "digits_val (rp_minBond r) < 2 ^ 127" "rp_maxAgents r < 2 ^ 32"
    using assms(2,3) by (simp_all add: representable_def)
  show "is_symbol (rp_id r)" using b f(1) by (simp add: is_symbol_def)
  show "in_i128 (digits_val (rp_minBond r))" using b f(2) by (simp add: digits_in_i128)
  show "0 \<le> rp_maxAgents r" "rp_maxAgents r < 2 ^ 32" "0 \<le> rp_utilizationCapBps r" "rp_utilizationCapBps r \<le> 10000"
    using b f(3) by simp_all
qed

lemma schema_corridor:
  assumes "configSchema num raw = Some config" "representable config" "c \<in> set (dp_corridors config)"
  shows "is_symbol (cp_id c)"
proof -
  obtain v where "corridor_plan num v = Some c"
    using nonempty_array_elements [OF configSchema_parts(2) [OF assms(1)] assms(3)] by blast
  from corridor_plan_bounds [OF this] show ?thesis using assms(2,3) by (simp add: is_symbol_def representable_def)
qed

lemma schema_tier:
  assumes "configSchema num raw = Some config" "representable config" "t \<in> set (dp_complianceTiers config)"
  shows "in_i128 (tt_tier1_max (tier_thresholds t))" "in_i128 (tt_tier2_max (tier_thresholds t))"
    "in_i128 (tt_daily_limit (tier_thresholds t))"
proof -
  obtain v where "tier_plan v = Some t"
    using nonempty_array_elements [OF configSchema_parts(3) [OF assms(1)] assms(3)] by blast
  note b = tier_plan_bounds [OF this]
  show "in_i128 (tt_tier1_max (tier_thresholds t))" "in_i128 (tt_tier2_max (tier_thresholds t))"
    "in_i128 (tt_daily_limit (tier_thresholds t))"
    using b assms(2,3) digits_in_i128 by (simp_all add: tier_thresholds_def representable_def)
qed

lemma initialize_typed:
  assumes "configSchema num raw = Some config" "representable config"
  shows "list_all typed (initialize_plan admin env config ids)"
  using schema_scalars [OF assms(1)] assms(2)
  by (simp add: initialize_plan_def abi_defs representable_def)

lemma wiring_typed: "list_all typed (wiring_plan env ids)"
  by (simp add: wiring_plan_def abi_defs)

lemma regions_typed:
  assumes "configSchema num raw = Some config" "representable config" "r \<in> set (dp_regions config)"
  shows "list_all typed (region_plan_calls ids r)"
  using schema_region [OF assms] by (simp add: region_plan_calls_def abi_defs)

lemma corridors_typed:
  assumes "configSchema num raw = Some config" "representable config" "consistent config" "c \<in> set (dp_corridors config)"
  shows "list_all typed (corridor_plan_calls ids c)"
proof -
  obtain r where "r \<in> set (dp_regions config)" "rp_id r = cp_regionId c"
    using assms(3,4) by (auto simp: consistent_def)
  then have "is_symbol (cp_regionId c)" using schema_region(1) [OF assms(1,2)] by metis
  then show ?thesis using schema_corridor [OF assms(1,2,4)] by (simp add: corridor_plan_calls_def abi_defs)
qed

lemma tiers_typed:
  assumes "configSchema num raw = Some config" "representable config" "consistent config" "t \<in> set (dp_complianceTiers config)"
  shows "list_all typed (tier_plan_calls ids t)"
proof -
  obtain c where "c \<in> set (dp_corridors config)" "cp_id c = tt_corridor_id (tier_thresholds t)"
    using assms(3,4) by (auto simp: consistent_def tier_thresholds_def)
  then have "is_symbol (tt_corridor_id (tier_thresholds t))" using schema_corridor [OF assms(1,2)] by metis
  then show ?thesis
    using schema_tier [OF assms(1,2,4)]
    by (simp add: tier_plan_calls_def Let_def abi_defs TierThresholds_fields_def sorted_threshold_fields)
qed

lemma planned_typed:
  assumes "configSchema num raw = Some config" "representable config" "consistent config"
  shows "list_all typed (planned_calls admin env config ids)"
  unfolding planned_calls_def list_all_append list_all_iff [of _ "concat _"] set_concat
  using initialize_typed [OF assms(1,2)] wiring_typed regions_typed [OF assms(1,2)] corridors_typed [OF assms]
    tiers_typed [OF assms]
  by (fastforce simp: list_all_iff)

section \<open>Failures and dry runs\<close>

lemma keeps_files_deploy_one: "keeps_files (deploy_one host net ctx c m)"
  unfolding deploy_one_def by (intro keeps)

lemma keeps_files_call [keeps]: "keeps_files (call lib net ctx contractId method args label)"
  by (auto simp: call_def intro!: keeps)

lemma keeps_files_fail_unless [keeps]: "keeps_files (fail_unless p m)"
  unfolding fail_unless_def by (intro keeps)

lemma keeps_files_phases:
  "keeps_files (initialize_contracts host net ctx env config ids)" "keeps_files (wire_contracts host net ctx env ids)"
  "keeps_files (configure_contracts host net ctx config ids)" "keeps_files (verify_contracts host net ctx config ids)"
  unfolding initialize_contracts_def wire_contracts_def configure_contracts_def configure_region_def configure_corridor_def
    configure_tier_def verify_contracts_def verify_escrow_def verify_region_def verify_tier_def Let_def
  by (intro keeps)+

lemma keeps_files_deploy_contracts: "keeps_files (deploy_contracts host net ctx env config)"
  unfolding deploy_contracts_def
  by (intro keeps keeps_files_deploy_one keeps_files_phases) (auto intro: keeps keeps_files_phases)

text \<open>A run that throws either did nothing at all, or threw inside \<open>deploy_contracts\<close>.\<close>

lemma finish_returns: "finish host ctx env config ids t \<noteq> (Inl e, w')"
  by (simp add: finish_def Let_def write_file_def act_simps)

lemma deploy_main_Inl:
  assumes "deploy_main host net source argv w = (Inl e, w')"
  shows "w' = w \<or> (\<exists>env config ctx. deploy_contracts host net ctx env config w = (Inl e, w')
    \<and> ctx_dryRun ctx = (''--dry-run'' \<in> set argv)
    \<and> (''--dry-run'' \<in> set argv \<or> ''--force'' \<in> set argv \<or> run_files w (addressesPath host) = None))"
proof (rule ccontr)
  assume no: "\<not> ?thesis"
  obtain env config and ctx :: DeployContext where
    c: "createContext (ho_lib host) (de_SOROBAN_RPC_URL env) (de_ADMIN_SECRET_KEY env) (de_STELLAR_NETWORK_PASSPHRASE env)
       (''--dry-run'' \<in> set argv) = Inr ctx"
    and g: "\<not> (''--dry-run'' \<notin> set argv \<and> ''--force'' \<notin> set argv \<and> run_files w (addressesPath host) \<noteq> None)"
    and d: "deploy_contracts host net ctx env config w = (Inl e, w')"
    using assms no
    unfolding deploy_main_def parseArgs_def Let_def Arguments.select_convs andThen_Inl_iff of_result_iff
      get_state_iff guard_Inr_iff guard_Inl_iff by (auto simp: finish_returns)
  show False using no d createContext_Inr [OF c] g by blast
qed

section \<open>Dry runs\<close>

abbreviation idle :: "(Run, 'a) act \<Rightarrow> bool" where
  "idle m \<equiv> preserves (\<lambda>w w'. w' = w) m"

lemma unchanged_order: "reflp (\<lambda>w w' :: Run. w' = w)" "transp (\<lambda>w w' :: Run. w' = w)"
  by (simp_all add: reflp_def transp_def)

lemmas idles = preserves_basic [OF unchanged_order(1)] preserves_andThen [OF unchanged_order(2)]
  preserves_for_each [OF unchanged_order]

text \<open>In a dry run every phase is the same whatever the network, and idle.\<close>

lemma dry_configure:
  assumes "ctx_dryRun ctx"
  shows "configure_region host net ctx = configure_region host net' ctx"
    "configure_corridor host net ctx = configure_corridor host net' ctx"
    "configure_tier host net ctx = configure_tier host net' ctx"
  by (intro ext, simp add: configure_region_def configure_corridor_def configure_tier_def Let_def dry_steps [OF assms])+

lemma dry_phases:
  assumes "ctx_dryRun ctx"
  shows "deploy_one host net ctx = deploy_one host net' ctx"
    "initialize_contracts host net ctx = initialize_contracts host net' ctx"
    "wire_contracts host net ctx = wire_contracts host net' ctx"
    "configure_contracts host net ctx = configure_contracts host net' ctx"
  by (intro ext, simp add: deploy_one_def initialize_contracts_def wire_contracts_def configure_contracts_def
      dry_configure [OF assms, of host net net'] Let_def dry_steps [OF assms])+

lemma dry_idle:
  assumes "ctx_dryRun ctx"
  shows "idle (deploy_one host net ctx c m)" "idle (initialize_contracts host net ctx env config ids)"
    "idle (wire_contracts host net ctx env ids)" "idle (configure_contracts host net ctx config ids)"
  unfolding deploy_one_def initialize_contracts_def wire_contracts_def configure_contracts_def
    configure_region_def configure_corridor_def configure_tier_def Let_def dry_steps [OF assms]
  by (intro idles)+

lemma dry_deploy_contracts:
  assumes "ctx_dryRun ctx"
  shows "deploy_contracts host net ctx env config = deploy_contracts host net' ctx env config"
    "idle (deploy_contracts host net ctx env config)"
proof -
  show "deploy_contracts host net ctx env config = deploy_contracts host net' ctx env config"
    unfolding deploy_contracts_def using assms dry_phases [OF assms, of host net net'] by simp
  show "idle (deploy_contracts host net ctx env config)"
    unfolding deploy_contracts_def using assms by (simp add: idles dry_idle)
qed

lemma andThen_cong: "(\<And>a s'. m s = (Inr a, s') \<Longrightarrow> f a s' = g a s') \<Longrightarrow> andThen m f s = andThen m g s"
  by (simp add: andThen_def split: prod.splits sum.splits)

lemma dry_run_ignores_network:
  assumes "''--dry-run'' \<in> set argv"
  shows "deploy_main host net source argv w = deploy_main host net' source argv w"
  unfolding deploy_main_def Let_def
proof (intro andThen_cong, unfold of_result_iff)
  fix env :: DeployEnv and s1 files s2 and config :: DeployPlan and s3 and ctx :: DeployContext and s4 u s5 v s6
  assume "createContext (ho_lib host) (de_SOROBAN_RPC_URL env) (de_ADMIN_SECRET_KEY env) (de_STELLAR_NETWORK_PASSPHRASE env)
      (ar_dryRun (parseArgs argv)) = Inr ctx \<and> s4 = s3"
  then have "ctx_dryRun ctx" using assms createContext_Inr by (fastforce simp: parseArgs_def)
  then show "andThen (deploy_contracts host net ctx env config) (finish host ctx env config) s6
      = andThen (deploy_contracts host net' ctx env config) (finish host ctx env config) s6"
    using dry_deploy_contracts(1) [of ctx host net env config net'] by simp
qed

lemma dry_run_idle:
  assumes "''--dry-run'' \<in> set argv"
  shows "snd (deploy_main host net source argv w) = w"
proof -
  obtain r w' where run: "deploy_main host net source argv w = (r, w')" by fastforce
  have "w' = w"
  proof (cases r)
    case (Inl e)
    from deploy_main_Inl [OF run [unfolded this]] show ?thesis
      using assms dry_deploy_contracts(2) unfolding preserves_def by (metis snd_conv)
  next
    case (Inr out)
    from run [unfolded this] obtain env config ctx ids t where
      x: "createContext (ho_lib host) (de_SOROBAN_RPC_URL env) (de_ADMIN_SECRET_KEY env) (de_STELLAR_NETWORK_PASSPHRASE env)
        (''--dry-run'' \<in> set argv) = Inr ctx"
      and d: "deploy_contracts host net ctx env config w = (Inr ids, t)"
      and fin: "w' = (if ''--dry-run'' \<in> set argv then t
        else t\<lparr>run_files := (run_files t)(addressesPath host \<mapsto> pretty 0 out @ [CHR 0x0A])\<rparr>)"
      by (rule deploy_main_Inr)
    have "ctx_dryRun ctx" using createContext_Inr [OF x] assms by simp
    from dry_deploy_contracts(2) [OF this, of host net env config] have "t = w"
      using d unfolding preserves_def by (metis snd_conv)
    then show ?thesis using fin assms by simp
  qed
  then show ?thesis by (simp add: run)
qed

end
