(* ===== verification/DeployLiveness.thy ===== *)
theory DeployLiveness
  imports DeployProofs
begin

text \<open>
  When a deployment completes: against a network that answers, accepts and confirms what is submitted
  and afterwards holds what was configured, every phase returns.
\<close>

section \<open>Cooperation\<close>

definition cooperative :: "Library \<Rightarrow> Network \<Rightarrow> bool" where
  "cooperative lib net \<longleftrightarrow>
     (\<forall>h k. nw_getAccount net h k = Inr ())
     \<and> (\<forall>h ops. \<exists>v. nw_simulate net h ops = Inr (SimulationSuccess (Some v)))
     \<and> (\<forall>h admin hash salt. \<exists>s. nw_simulate net h [CreateCustomContract admin hash salt]
          = Inr (SimulationSuccess (Some (NString (CHR ''C'' # s)))))
     \<and> (\<forall>s. nw_assemble net s = None)
     \<and> (\<forall>h. \<exists>hash. nw_send net h = Inr (Sent hash) \<and> settles net h hash)
     \<and> (\<forall>v. lib_encode lib v = None) \<and> (\<forall>c. lib_contract lib c = None)"

text \<open>\<open>works F m\<close>: with the files \<open>F\<close>, the step returns and the files stay.\<close>

definition works :: "(string \<rightharpoonup> string) \<Rightarrow> (Run, 'a) act \<Rightarrow> bool" where
  "works F m \<longleftrightarrow> (\<forall>w. run_files w = F \<longrightarrow> (\<exists>a w'. m w = (Inr a, w') \<and> run_files w' = F))"

named_theorems working \<open>steps that return\<close>

lemma works_andThen [working]:
  assumes "works F m" "\<And>a. works F (f a)"
  shows "works F (andThen m f)"
  unfolding works_def
proof (intro allI impI)
  fix w :: Run assume "run_files w = F"
  then obtain a w' where "m w = (Inr a, w')" "run_files w' = F" using assms(1) by (auto simp: works_def)
  then show "\<exists>b w''. andThen m f w = (Inr b, w'') \<and> run_files w'' = F"
    using assms(2) [of a] by (simp add: works_def andThen_Inr)
qed

lemma works_ret [working]: "works F (ret a)"
  by (simp add: works_def ret_def)

lemma works_for_each [working]: "(\<And>x b. x \<in> set xs \<Longrightarrow> works F (f x b)) \<Longrightarrow> works F (for_each f xs b)"
  by (induction xs arbitrary: b) (simp_all add: working)

lemma cooperative_submit:
  assumes "cooperative lib net" "nw_simulate net (run_sent w) ops = Inr (SimulationSuccess (Some v))"
  shows "\<exists>hash. submitOperations net ctx ops label w = (Inr (hash, Some v), w\<lparr>run_sent := run_sent w @ [ops]\<rparr>)"
  using assms unfolding submitOperations_Inr_iff cooperative_def by blast

lemma cooperative_works [working]:
  assumes "cooperative lib net" "\<not> ctx_dryRun ctx"
  shows "works F (call lib net ctx contractId method args label)" "works F (call_with lib net ctx contractId method vs label)"
    "works F (uploadWasm lib net ctx name wasm)" "works F (deployContract lib net ctx name hash)"
    "works F (of_result (arguments lib vs))"
proof -
  have sub: "works F (submitOperations net ctx ops label)" for ops label
    unfolding works_def
  proof (intro allI impI)
    fix w :: Run assume "run_files w = F"
    moreover obtain v where "nw_simulate net (run_sent w) ops = Inr (SimulationSuccess (Some v))"
      using assms(1) unfolding cooperative_def by blast
    ultimately show "\<exists>a w'. submitOperations net ctx ops label w = (Inr a, w') \<and> run_files w' = F"
      using cooperative_submit [OF assms(1)] by fastforce
  qed
  have e: "lib_encode lib v = None" "lib_contract lib c = None" for v c using assms(1) by (simp_all add: cooperative_def)
  have ar: "works F (of_result (arguments lib vs))" for vs
    using arguments_Inr_iff [of lib vs vs] by (simp add: works_def of_result_def e list_all_iff)
  then show "works F (of_result (arguments lib vs))" .
  show call: "works F (call lib net ctx contractId method args label)" for args
  proof -
    have "works F (andThen (submitOperations net ctx [Invoke contractId method args] label) (\<lambda>(_, v). ret v))"
      by (rule works_andThen [OF sub]) (simp add: case_prod_unfold works_ret)
    moreover have "call lib net ctx contractId method args label
        = andThen (submitOperations net ctx [Invoke contractId method args] label) (\<lambda>(_, v). ret v)"
      using assms(2) by (intro ext) (simp add: call_def thrown_def e act_simps)
    ultimately show ?thesis by simp
  qed
  show "works F (call_with lib net ctx contractId method vs label)"
    unfolding call_with_def by (intro working ar call)
  show "works F (uploadWasm lib net ctx name wasm)"
    using assms(2) by (simp add: uploadWasm_def Let_def working sub)
  show "works F (deployContract lib net ctx name hash)"
    unfolding works_def
  proof (intro allI impI)
    fix w :: Run assume "run_files w = F"
    moreover obtain s where "nw_simulate net (run_sent w) [CreateCustomContract (ctx_admin ctx) (hex_to_bytes hash) (lib_random lib (run_sent w))]
        = Inr (SimulationSuccess (Some (NString (CHR ''C'' # s))))"
      using assms(1) unfolding cooperative_def by blast
    ultimately show "\<exists>a w'. deployContract lib net ctx name hash w = (Inr a, w') \<and> run_files w' = F"
      using cooperative_submit [OF assms(1), of w _ _ ctx "''deploy '' @ name"] assms(2)
      by (fastforce simp: deployContract_def act_simps andThen_Inr deployed_id_def startsWith_def)
  qed
qed

section \<open>Phases\<close>

lemma works_deploy_one:
  assumes "cooperative (ho_lib host) net" "\<not> ctx_dryRun ctx" "F (ho_resolve host (ARTIFACT_DIR host) (snd c)) \<noteq> None"
  shows "works F (deploy_one host net ctx c m)"
proof -
  obtain wasm where "F (ho_resolve host (ARTIFACT_DIR host) (snd c)) = Some wasm" using assms(3) by blast
  then have a: "loadArtifact host F (snd c) = Inr wasm" by (simp add: loadArtifact_def readFile_def Let_def)
  have rest: "works F (andThen (uploadWasm (ho_lib host) net ctx (fst c) wasm) (\<lambda>hash.
      andThen (deployContract (ho_lib host) net ctx (fst c) hash) (\<lambda>contractId. ret (m(fst c \<mapsto> contractId)))))"
    by (intro works_andThen cooperative_works [OF assms(1,2)] works_ret)
  show ?thesis
    unfolding works_def
  proof (intro allI impI)
    fix w :: Run assume "run_files w = F"
    then show "\<exists>a w'. deploy_one host net ctx c m w = (Inr a, w') \<and> run_files w' = F"
      using rest by (simp add: deploy_one_def act_simps a works_def)
  qed
qed

lemma works_phases:
  assumes "cooperative (ho_lib host) net" "\<not> ctx_dryRun ctx"
  shows "works F (initialize_contracts host net ctx env config ids)" "works F (wire_contracts host net ctx env ids)"
    "works F (configure_contracts host net ctx config ids)"
  unfolding initialize_contracts_def wire_contracts_def configure_contracts_def configure_region_def
    configure_corridor_def configure_tier_def Let_def
  by (intro works_andThen works_for_each works_ret cooperative_works [OF assms])+

lemma cooperative_read:
  assumes "cooperative lib net" "simulated net (run_sent w) [Invoke contractId method vs] v"
  shows "read_with lib net ctx contractId method vs w = (Inr v, w)"
proof -
  have e: "lib_encode lib u = None" "lib_contract lib c = None" "nw_getAccount net h k = Inr ()" for u c h k
    using assms(1) by (simp_all add: cooperative_def)
  have ar: "arguments lib vs = Inr vs" by (simp add: arguments_Inr_iff e list_all_iff)
  obtain u where "nw_simulate net (run_sent w) [Invoke contractId method vs] = Inr (SimulationSuccess (Some u))"
    using assms(1) unfolding cooperative_def by blast
  moreover from this have "v = Some u" using assms(2) by (auto simp: simulated_def)
  ultimately show ?thesis
    by (simp add: read_with_def readContract_def act_simps ar e thrown_def simulated_value_def)
qed

lemma read_run:
  assumes "cooperative lib net" "simulated net (run_sent w) [Invoke contractId method vs] v"
  shows "andThen (read_with lib net ctx contractId method vs) f w = f v w"
  by (rule andThen_Inr) (rule cooperative_read [OF assms])

lemma for_each_all: "(\<And>x. x \<in> set xs \<Longrightarrow> f x () s = (Inr (), s)) \<Longrightarrow> for_each f xs () s = (Inr (), s)"
  by (induction xs) (simp_all add: act_run andThen_Inr)

lemma fail_unless_run: "p \<Longrightarrow> andThen (fail_unless p m) f s = f () s" "p \<Longrightarrow> fail_unless p m s = (Inr (), s)"
  by (simp_all add: fail_unless_def act_simps guard_def)

lemma verification_passes:
  assumes "cooperative (ho_lib host) net" "reads_back host net config ids (run_sent w)"
  shows "verify_contracts host net ctx config ids w = (Inr (), w)"
proof -
  note read = read_run [OF assms(1)]
  obtain e where e: "simulated net (run_sent w) [Invoke (ad_remitEscrow ids) ''escrow_config'' []] e"
    "native_member ''agent_registry'' e = Some (NString (ad_agentRegistry ids))"
    "native_member ''compliance_hook'' e = Some (NString (ad_complianceHook ids))"
    "native_member ''fee_bps'' e = Some (NNumber (dp_feeBps config))"
    using assms(2) unfolding reads_back_def by blast
  obtain p where p: "simulated net (run_sent w) [Invoke (ad_liquidityPool ids) ''list_pool_regions'' []] p"
    "rp_id ` set (dp_regions config) \<subseteq> set (open_regions (ho_codec host) p)"
    using assms(2) unfolding reads_back_def by blast
  have escrow: "verify_escrow host net ctx config ids w = (Inr (), w)"
    unfolding verify_escrow_def by (simp add: read [OF e(1)] e(2-4) fail_unless_run)
  have regions: "for_each (verify_region host net ctx ids) (dp_regions config) () w = (Inr (), w)"
  proof (rule for_each_all)
    fix r assume "r \<in> set (dp_regions config)"
    then obtain v where "simulated net (run_sent w) [Invoke (ad_agentRegistry ids) ''get_region'' [ScSymbol (rp_id r)]] v"
      "\<not> native_missing v" using assms(2) unfolding reads_back_def by blast
    then show "verify_region host net ctx ids r () w = (Inr (), w)"
      unfolding verify_region_def by (simp add: read fail_unless_run)
  qed
  have pools: "for_each (\<lambda>region _. fail_unless (rp_id region \<in> set (open_regions (ho_codec host) p))
      (''Region '' @ rp_id region @ '' has no pool: agents there could not draw float.'')) (dp_regions config) () w = (Inr (), w)"
    by (rule for_each_all) (use p(2) in \<open>auto simp: fail_unless_run\<close>)
  have tiers: "for_each (verify_tier host net ctx ids) (dp_complianceTiers config) () w = (Inr (), w)"
  proof (rule for_each_all)
    fix t assume "t \<in> set (dp_complianceTiers config)"
    then obtain v where "simulated net (run_sent w) [Invoke (ad_complianceHook ids) ''get_tier_thresholds'' [ScSymbol (tp_corridorId t)]] v"
      "\<not> native_missing v" "optional_string (ho_codec host) (native_member ''tier1_max'' v) = tp_tier1Max t"
      "optional_string (ho_codec host) (native_member ''daily_limit'' v) = tp_enhancedDailyLimit t"
      using assms(2) unfolding reads_back_def by blast
    then show "verify_tier host net ctx ids t () w = (Inr (), w)"
      unfolding verify_tier_def Let_def by (simp add: read fail_unless_run)
  qed
  show ?thesis
    unfolding verify_contracts_def
    by (simp only: andThen_Inr [of "verify_escrow host net ctx config ids", OF escrow]
        andThen_Inr [of "for_each _ _ _", OF regions] read [OF p(1)] andThen_Inr [of "for_each _ _ _", OF pools] tiers)
qed

section \<open>The script\<close>

lemma deploy_contracts_completes:
  assumes coop: "cooperative (ho_lib host) net" "\<not> ctx_dryRun ctx"
    and artifacts: "\<forall>c \<in> set CONTRACTS. run_files w (ho_resolve host (ARTIFACT_DIR host) (snd c)) \<noteq> None"
    and answers: "\<And>ids ins. instances_made host net (ctx_admin ctx) (run_files w) (run_sent w) CONTRACTS ins \<Longrightarrow>
       map in_address ins = [ad_agentRegistry ids, ad_complianceHook ids, ad_liquidityPool ids, ad_remitEscrow ids] \<Longrightarrow>
       reads_back host net config ids (run_sent w @ whole_plan (ho_lib host) (ctx_admin ctx) env config ins ids)"
  shows "\<exists>ids w'. deploy_contracts host net ctx env config w = (Inr ids, w')"
proof -
  let ?F = "run_files w"
  have "works ?F (for_each (deploy_one host net ctx) CONTRACTS Map.empty)"
    using artifacts by (intro works_for_each works_deploy_one [OF coop]) blast
  then obtain m w1 where f: "for_each (deploy_one host net ctx) CONTRACTS Map.empty w = (Inr m, w1)" "run_files w1 = ?F"
    unfolding works_def by blast
  from deploy_four [OF f(1) coop(2)] obtain ins ids where a: "addresses_of m = Inr ids"
    and i: "instances_made host net (ctx_admin ctx) ?F (run_sent w) CONTRACTS ins"
    and ids: "map in_address ins = [ad_agentRegistry ids, ad_complianceHook ids, ad_liquidityPool ids, ad_remitEscrow ids]"
    and r1: "ran (ho_lib host) net w (concat (map (instance_plan (ho_lib host) (ctx_admin ctx)) ins)) w1" .
  obtain v2 w2 where c2: "initialize_contracts host net ctx env config ids w1 = (Inr v2, w2)" "run_files w2 = ?F"
    using works_phases(1) [OF coop] f(2) unfolding works_def by blast
  obtain v3 w3 where c3: "wire_contracts host net ctx env ids w2 = (Inr v3, w3)" "run_files w3 = ?F"
    using works_phases(2) [OF coop] c2(2) unfolding works_def by blast
  obtain v4 w4 where c4: "configure_contracts host net ctx config ids w3 = (Inr v4, w4)" "run_files w4 = ?F"
    using works_phases(3) [OF coop] c3(2) unfolding works_def by blast
  note calls = ran_append [OF initialize_ran [OF c2(1) coop(2)] ran_append [OF wire_ran [OF c3(1) coop(2)] configure_ran [OF c4(1) coop(2)]]]
  have "ran (ho_lib host) net w (whole_plan (ho_lib host) (ctx_admin ctx) env config ins ids) w4"
    using ran_append [OF r1 calls] by (simp add: whole_plan_def planned_calls_def)
  then have "run_sent w4 = run_sent w @ whole_plan (ho_lib host) (ctx_admin ctx) env config ins ids" by (simp add: ran_def)
  then have v: "verify_contracts host net ctx config ids w4 = (Inr (), w4)"
    using verification_passes [OF coop(1)] answers [OF i ids] by simp
  show ?thesis
    unfolding deploy_contracts_def andThen_Inr_iff of_result_iff ret_iff
    using f(1) a c2(1) c3(1) c4(1) v coop(2) by auto
qed

lemma deployment_completes:
  assumes coop: "cooperative (ho_lib host) net" and real: "''--dry-run'' \<notin> set argv"
    and env: "parseDeployEnv (ho_keys host) (ho_message host) source = Inr env"
    and config: "config_of host (run_files w) env = Inr config"
    and key: "lib_keypair (ho_lib host) (de_ADMIN_SECRET_KEY env) = Inr admin"
    and guards: "de_STELLAR_NETWORK env = ''mainnet'' \<or> run_files w (addressesPath host) \<noteq> None \<longrightarrow> ''--force'' \<in> set argv"
    and artifacts: "\<forall>c \<in> set CONTRACTS. run_files w (ho_resolve host (ARTIFACT_DIR host) (snd c)) \<noteq> None"
    and answers: "\<forall>ids ins. instances_made host net admin (run_files w) (run_sent w) CONTRACTS ins
       \<and> map in_address ins = [ad_agentRegistry ids, ad_complianceHook ids, ad_liquidityPool ids, ad_remitEscrow ids]
       \<longrightarrow> reads_back host net config ids (run_sent w @ whole_plan (ho_lib host) admin env config ins ids)"
  shows "\<exists>output w'. deploy_main host net source argv w = (Inr output, w')"
proof -
  define ctx where "ctx = \<lparr>ctx_rpcUrl = de_SOROBAN_RPC_URL env, ctx_allowHttp = startsWith (de_SOROBAN_RPC_URL env) ''http://'',
    ctx_admin = admin, ctx_networkPassphrase = de_STELLAR_NETWORK_PASSPHRASE env, ctx_dryRun = False\<rparr>"
  have c: "createContext (ho_lib host) (de_SOROBAN_RPC_URL env) (de_ADMIN_SECRET_KEY env) (de_STELLAR_NETWORK_PASSPHRASE env) False = Inr ctx"
    by (simp add: createContext_def key ctx_def)
  have "ctx_admin ctx = admin" "\<not> ctx_dryRun ctx" by (simp_all add: ctx_def)
  then obtain ids w1 where d: "deploy_contracts host net ctx env config w = (Inr ids, w1)"
    using deploy_contracts_completes [OF coop _ artifacts, of ctx config env] answers by auto
  obtain out w' where f: "finish host ctx env config ids w1 = (Inr out, w')"
    using finish_returns by (metis surj_pair sum.exhaust)
  have g: "''--force'' \<in> set argv \<or> run_files w (addressesPath host) = None" using guards by auto
  have "deploy_main host net source argv w = (Inr out, w')"
    using guards g real c d f
    by (simp add: deploy_main_def parseArgs_def act_simps env plain_error_def config [unfolded config_of_def] assertSafeTarget_def
        require_def andThen_Inr [of "deploy_contracts host net ctx env config", OF d])
  then show ?thesis by blast
qed

end
