(* ===== verification/DeployTheorems.thy ===== *)
theory DeployTheorems
  imports DeployLiveness
begin

text \<open>
  The theorems about deployments, with a concrete deployment against a network that accepts
  everything, on which they are exercised.
\<close>

section \<open>A sample deployment\<close>

definition sample_answer :: "Op list \<Rightarrow> native" where
  "sample_answer ops = (case ops of
     [CreateCustomContract admin hash salt] \<Rightarrow> NString (CHR ''C'' # hash)
   | [Invoke contractId method args] \<Rightarrow>
       if method = ''escrow_config'' then NObject [(''agent_registry'', NString ''Cr''), (''compliance_hook'', NString ''Ch''),
         (''fee_bps'', NNumber 200)]
       else if method = ''list_pool_regions'' then NArray [NString ''NG_LAG'']
       else if method = ''get_tier_thresholds'' then NObject [(''tier1_max'', NBigInt 500), (''daily_limit'', NBigInt 9000)]
       else NBool True
   | _ \<Rightarrow> NBytes [])"

definition sample_network :: Network where
  "sample_network = \<lparr>nw_getAccount = \<lambda>h k. Inr (), nw_simulate = \<lambda>h ops. Inr (SimulationSuccess (Some (sample_answer ops))),
     nw_assemble = \<lambda>s. None, nw_send = \<lambda>h. Inr (Sent ''h''), nw_getTransaction = \<lambda>h hash i. Inr (Confirmed 7), nw_no_value = []\<rparr>"

definition sample_library :: Library where
  "sample_library = \<lparr>lib_keypair = \<lambda>s. Inr ''GADMIN'', lib_sha256 = \<lambda>b. b, lib_encodeContract = \<lambda>b. b, lib_encode = \<lambda>v. None,
     lib_contract = \<lambda>c. None, lib_random = \<lambda>h. ''salt''\<rparr>"

definition sample_codec :: Codec where
  "sample_codec = \<lparr>cd_fromXDR = \<lambda>b. Inl [], cd_utf8 = \<lambda>b. b, cd_number = \<lambda>v. JNull\<rparr>"

definition sample_host :: Host where
  "sample_host = \<lparr>ho_lib = sample_library,
     ho_keys = \<lparr>kt_contract = \<lambda>s. True, kt_publicKey = \<lambda>s. True, kt_secretKey = \<lambda>s. True, kt_url = \<lambda>s. True\<rparr>,
     ho_message = \<lambda>src k. [], ho_num = \<lambda>t. None, ho_texts = \<lparr>tx_cause = \<lambda>t. [], tx_issues = \<lambda>v. []\<rparr>, ho_codec = sample_codec,
     ho_resolve = \<lambda>base path. path, ho_root = ''/'', ho_readError = \<lambda>p. ''ENOENT'', ho_now = 0\<rparr>"

definition sample_source :: raw_env where
  "sample_source = map_of [(''SOROBAN_RPC_URL'', ''http://r''), (''STELLAR_NETWORK_PASSPHRASE'', ''p''), (''ADMIN_SECRET_KEY'', ''S''),
     (''TREASURY_PUBLIC_KEY'', ''GT''), (''ATTESTER_PUBLIC_KEY'', ''GA''), (''TOKEN_CONTRACT'', ''CT'')]"

definition sample_env_value :: DeployEnv where
  "sample_env_value = \<lparr>de_STELLAR_NETWORK = ''testnet'', de_SOROBAN_RPC_URL = ''http://r'', de_STELLAR_NETWORK_PASSPHRASE = ''p'',
     de_ADMIN_SECRET_KEY = ''S'', de_TREASURY_PUBLIC_KEY = ''GT'', de_ATTESTER_PUBLIC_KEY = ''GA'', de_TOKEN_CONTRACT = ''CT'',
     de_DEPLOY_CONFIG = ''scripts/config/testnet.json''\<rparr>"

definition sample_start :: Run where
  "sample_start = \<lparr>run_sent = [], run_files = map_of [(''agent_registry.wasm'', ''r''), (''compliance_hook.wasm'', ''h''),
     (''liquidity_pool.wasm'', ''p''), (''remit_escrow.wasm'', ''e''),
     (''scripts/config/testnet.json'', stringify (sample_plan_json ''500'' ''5000''))]\<rparr>"

definition sample_ctx :: DeployContext where
  "sample_ctx = \<lparr>ctx_rpcUrl = ''http://r'', ctx_allowHttp = True, ctx_admin = ''GADMIN'', ctx_networkPassphrase = ''p'', ctx_dryRun = False\<rparr>"

lemma sample_host_simps [simp]:
  "ho_lib sample_host = sample_library" "ho_resolve sample_host a b = b" "ho_codec sample_host = sample_codec"
  "ho_num sample_host t = None" "ho_texts sample_host = \<lparr>tx_cause = \<lambda>t. [], tx_issues = \<lambda>v. []\<rparr>"
  "lib_sha256 sample_library b = b" "lib_encode sample_library v = None" "lib_contract sample_library c = None"
  "ctx_dryRun sample_ctx = False"
  by (simp_all add: sample_host_def sample_library_def sample_ctx_def)

lemma sample_parse: "parseDeployEnv (ho_keys sample_host) (ho_message sample_host) sample_source = Inr sample_env_value"
proof -
  have "deploy_env_issues (ho_keys sample_host) sample_source = []"
    by (simp add: deploy_env_issues_def sample_source_def sample_host_def enum_var_def tested_var_def nonempty_var_def
        STELLAR_NETWORKS_def)
  then show ?thesis
    by (simp add: parseDeployEnv_def deploy_env_value_def sample_source_def sample_env_value_def Let_def)
qed

lemma sample_config:
  "loadDeployConfig (ho_num sample_host) (ho_texts sample_host) (readFile sample_host (run_files sample_start)) ''scripts/config/testnet.json''
   = Inr (sample_plan ''500'' ''5000'')"
proof (rule sample_plan_accepted)
  show "is_digit_text ''500''" "is_digit_text ''5000''" "json_wf (sample_plan_json ''500'' ''5000'')" by code_simp+
  show "readFile sample_host (run_files sample_start) ''scripts/config/testnet.json'' = Inr (stringify (sample_plan_json ''500'' ''5000''))"
    by (simp add: readFile_def sample_start_def)
qed

lemma sample_context:
  "createContext sample_library ''http://r'' ''S'' ''p'' False = Inr sample_ctx"
proof -
  have "startsWith ''http://r'' ''http://''" by code_simp
  then show ?thesis by (simp add: createContext_def sample_library_def sample_ctx_def)
qed

lemma sample_network_simps [simp]:
  "nw_getAccount sample_network h k = Inr ()" "nw_simulate sample_network h ops = Inr (SimulationSuccess (Some (sample_answer ops)))"
  "nw_assemble sample_network s = None" "nw_send sample_network h = Inr (Sent ''h'')"
  "nw_getTransaction sample_network h hash i = Inr (Confirmed 7)"
  by (simp_all add: sample_network_def)

lemma sample_cooperative: "cooperative sample_library sample_network"
proof -
  have "settles sample_network h hash" for h hash
    unfolding settles_def by (intro exI [of _ 0] exI [of _ 7]) (simp add: DEPLOY_POLL_ATTEMPTS_def)
  then show ?thesis by (simp add: cooperative_def sample_answer_def)
qed

lemma sample_simulated: "simulated sample_network h ops v \<longleftrightarrow> v = Some (sample_answer ops)"
  by (auto simp: simulated_def)

lemma sample_artifacts:
  "\<forall>c \<in> set CONTRACTS. run_files sample_start (ho_resolve sample_host (ARTIFACT_DIR sample_host) (snd c)) \<noteq> None"
  by (simp add: CONTRACTS_def sample_start_def)

lemma sample_instances:
  assumes "instances_made sample_host sample_network ''GADMIN'' (run_files sample_start) [] CONTRACTS ins"
  shows "map in_address ins = [''Cr'', ''Ch'', ''Cp'', ''Ce'']"
proof -
  from four_instances [OF assms] obtain a b c d where four: "ins = [a, b, c, d]" .
  show ?thesis
    using assms unfolding four CONTRACTS_def
    by (simp add: sample_simulated sample_answer_def sample_start_def)
qed

lemma sample_answers:
  "sample_answer [Invoke c ''escrow_config'' args] = NObject [(''agent_registry'', NString ''Cr''), (''compliance_hook'', NString ''Ch''),
     (''fee_bps'', NNumber 200)]"
  "sample_answer [Invoke c ''list_pool_regions'' args] = NArray [NString ''NG_LAG'']"
  "sample_answer [Invoke c ''get_tier_thresholds'' args] = NObject [(''tier1_max'', NBigInt 500), (''daily_limit'', NBigInt 9000)]"
  "sample_answer [Invoke c ''get_region'' args] = NBool True"
  by (simp_all add: sample_answer_def)

lemma sample_reads_back:
  assumes "ad_agentRegistry ids = ''Cr''" "ad_complianceHook ids = ''Ch''"
  shows "reads_back sample_host sample_network (sample_plan ''500'' ''5000'') ids h"
proof -
  have texts: "show_int 500 = ''500''" "show_int 9000 = ''9000''" by (simp_all add: show_eval)
  show ?thesis
    unfolding reads_back_def sample_simulated ex_simps simp_thms
  proof (intro conjI ballI exI [of _ "Some _"] refl)
  qed (auto simp: sample_answers sample_plan_def assms native_member_def native_missing_def optional_string_def open_regions_def texts)
qed

lemma sample_after_plan:
  "\<forall>ids ins. instances_made sample_host sample_network ''GADMIN'' (run_files sample_start) (run_sent sample_start) CONTRACTS ins
      \<and> map in_address ins = [ad_agentRegistry ids, ad_complianceHook ids, ad_liquidityPool ids, ad_remitEscrow ids]
      \<longrightarrow> reads_back sample_host sample_network (sample_plan ''500'' ''5000'') ids (run_sent sample_start
          @ whole_plan (ho_lib sample_host) ''GADMIN'' sample_env_value (sample_plan ''500'' ''5000'') ins ids)"
proof -
  have "run_sent sample_start = []" by (simp add: sample_start_def)
  then show ?thesis using sample_instances sample_reads_back by fastforce
qed

lemma sample_run: "\<exists>output w'. deploy_main sample_host sample_network sample_source [] sample_start = (Inr output, w')"
proof (rule deployment_completes)
  show "cooperative (ho_lib sample_host) sample_network" by (simp add: sample_cooperative)
  show "parseDeployEnv (ho_keys sample_host) (ho_message sample_host) sample_source = Inr sample_env_value" by (rule sample_parse)
  show "config_of sample_host (run_files sample_start) sample_env_value = Inr (sample_plan ''500'' ''5000'')"
    using sample_config by (simp add: config_of_def sample_env_value_def)
  show "lib_keypair (ho_lib sample_host) (de_ADMIN_SECRET_KEY sample_env_value) = Inr ''GADMIN''"
    by (simp add: sample_library_def)
  show "de_STELLAR_NETWORK sample_env_value = ''mainnet'' \<or> run_files sample_start (addressesPath sample_host) \<noteq> None \<longrightarrow> ''--force'' \<in> set []"
    by (simp add: sample_env_value_def addressesPath_def sample_start_def)
qed (use sample_artifacts sample_after_plan in simp_all)

section \<open>Theorems\<close>

text \<open>
  C6: a deployment that succeeds got past its guards (forced on mainnet or over an existing file),
  and submitted exactly its plan, each transaction confirmed before the next: upload and instantiate
  every artifact, initialize the four contracts at the addresses the network gave, wire them, and
  configure every region, corridor and tier band; it then read the wiring back from the network, and
  wrote the addresses file and no other.
\<close>

theorem deployment_follows_its_plan:
  assumes "deploy_main host net source argv w = (Inr output, w')" "''--dry-run'' \<notin> set argv"
  shows "\<exists>env config ctx ids ins.
      parseDeployEnv (ho_keys host) (ho_message host) source = Inr env
    \<and> config_of host (run_files w) env = Inr config
    \<and> lib_keypair (ho_lib host) (de_ADMIN_SECRET_KEY env) = Inr (ctx_admin ctx)
    \<and> (de_STELLAR_NETWORK env = ''mainnet'' \<or> run_files w (addressesPath host) \<noteq> None \<longrightarrow> ''--force'' \<in> set argv)
    \<and> instances_made host net (ctx_admin ctx) (run_files w) (run_sent w) CONTRACTS ins
    \<and> map in_address ins = [ad_agentRegistry ids, ad_complianceHook ids, ad_liquidityPool ids, ad_remitEscrow ids]
    \<and> run_sent w' = run_sent w @ whole_plan (ho_lib host) (ctx_admin ctx) env config ins ids
    \<and> (\<forall>n. length (run_sent w) < n \<and> n \<le> length (run_sent w') \<longrightarrow> confirmed net (take n (run_sent w')))
    \<and> reads_back host net config ids (run_sent w')
    \<and> output = DeployedAddresses host ctx env config ids
    \<and> run_files w' = (run_files w)(addressesPath host \<mapsto> pretty 0 output @ [CHR 0x0A])"
  by (rule deployment_plan [OF assms])

theorem deployment_follows_its_plan_witness:
  "\<exists>env config ids ins. reads_back sample_host sample_network config ids
       (run_sent (snd (deploy_main sample_host sample_network sample_source [] sample_start)))
     \<and> run_sent (snd (deploy_main sample_host sample_network sample_source [] sample_start))
       = whole_plan sample_library ''GADMIN'' env config ins ids"
proof -
  obtain out w' where run: "deploy_main sample_host sample_network sample_source [] sample_start = (Inr out, w')"
    using sample_run by blast
  from deployment_follows_its_plan [OF run] obtain env config ids ins and ctx :: DeployContext where
    "lib_keypair sample_library (de_ADMIN_SECRET_KEY env) = Inr (ctx_admin ctx)"
    "run_sent w' = run_sent sample_start @ whole_plan sample_library (ctx_admin ctx) env config ins ids"
    "reads_back sample_host sample_network config ids (run_sent w')"
    by auto
  moreover have "run_sent sample_start = []" "lib_keypair sample_library k = Inr ''GADMIN''" for k
    by (simp_all add: sample_start_def sample_library_def)
  ultimately show ?thesis unfolding run snd_conv by auto
qed



text \<open>
  C7: a deployment that fails, wherever that is, has written no file.  A dry run changes nothing at
  all, and what it returns does not depend on the network.  Unless forced, a deployment never starts
  over an existing addresses file: it submits nothing, and fails.
\<close>

theorem deployments_leave_no_trace:
  "(deploy_main host net source argv w = (Inl e, w') \<longrightarrow> run_files w' = run_files w)
   \<and> (''--dry-run'' \<in> set argv \<longrightarrow> snd (deploy_main host net source argv w) = w
        \<and> fst (deploy_main host net source argv w) = fst (deploy_main host net' source argv w))
   \<and> (''--dry-run'' \<notin> set argv \<and> ''--force'' \<notin> set argv \<and> run_files w (addressesPath host) \<noteq> None
        \<longrightarrow> snd (deploy_main host net source argv w) = w \<and> (\<exists>f. fst (deploy_main host net source argv w) = Inl f))"
proof (intro conjI impI)
  assume f: "deploy_main host net source argv w = (Inl e, w')"
  from deploy_main_Inl [OF this] show "run_files w' = run_files w"
    using keeps_files_deploy_contracts unfolding preserves_def by (metis snd_conv)
next
  assume "''--dry-run'' \<in> set argv"
  then show "snd (deploy_main host net source argv w) = w"
    "fst (deploy_main host net source argv w) = fst (deploy_main host net' source argv w)"
    using dry_run_idle dry_run_ignores_network by metis+
next
  assume g: "''--dry-run'' \<notin> set argv \<and> ''--force'' \<notin> set argv \<and> run_files w (addressesPath host) \<noteq> None"
  obtain r s where run: "deploy_main host net source argv w = (r, s)" by fastforce
  have "s = w \<and> (\<exists>f. r = Inl f)"
  proof (cases r)
    case (Inl f)
    from deploy_main_Inl [OF run [unfolded this]] g Inl show ?thesis by auto
  next
    case (Inr out)
    from run [unfolded this] have "''--dry-run'' \<in> set argv \<or> ''--force'' \<in> set argv \<or> run_files w (addressesPath host) = None"
      by (rule deploy_main_Inr)
    then show ?thesis using g by auto
  qed
  then show "snd (deploy_main host net source argv w) = w" "\<exists>f. fst (deploy_main host net source argv w) = Inl f"
    by (simp_all add: run)
qed

theorem deployments_leave_no_trace_witness:
  "snd (deploy_main sample_host sample_network sample_source [''--dry-run''] sample_start) = sample_start"
  using deployments_leave_no_trace [of sample_host sample_network sample_source "[''--dry-run'']" sample_start] by simp



text \<open>
  C29: a submission returns exactly when the account, simulation and assembly succeed, the network
  takes the transaction, and one of the first sixty polls finds it confirmed with none before it
  failing; it then has submitted its operations once.  The backend's polling differs: after thirty
  polls without a result it reports success.
\<close>

theorem submission_returns_when_confirmed:
  "(submitOperations net ctx ops label w = (Inr (hash, v), w') \<longleftrightarrow>
     nw_getAccount net (run_sent w) (ctx_admin ctx) = Inr ()
     \<and> (\<exists>s. nw_simulate net (run_sent w) ops = Inr s \<and> nw_assemble net s = None
          \<and> ((\<exists>u. s = SimulationSuccess (Some u) \<and> v = Some u) \<or> s = SimulationOther \<and> v = None))
     \<and> nw_send net (run_sent w @ [ops]) = Inr (Sent hash)
     \<and> (\<exists>n ledger. n < 60 \<and> (\<forall>i < n. nw_getTransaction net (run_sent w @ [ops]) hash i = Inr NotFoundYet)
          \<and> nw_getTransaction net (run_sent w @ [ops]) hash n = Inr (Confirmed ledger))
     \<and> w' = w\<lparr>run_sent := run_sent w @ [ops]\<rparr>)
   \<and> ((\<forall>i < 30. rpc_getTransaction rpc hash i = Inr TxPending) \<longrightarrow> pollForResult rpc hash 0 POLL_ATTEMPTS = Inr 0)"
proof
  show "submitOperations net ctx ops label w = (Inr (hash, v), w') \<longleftrightarrow>
     nw_getAccount net (run_sent w) (ctx_admin ctx) = Inr ()
     \<and> (\<exists>s. nw_simulate net (run_sent w) ops = Inr s \<and> nw_assemble net s = None
          \<and> ((\<exists>u. s = SimulationSuccess (Some u) \<and> v = Some u) \<or> s = SimulationOther \<and> v = None))
     \<and> nw_send net (run_sent w @ [ops]) = Inr (Sent hash)
     \<and> (\<exists>n ledger. n < 60 \<and> (\<forall>i < n. nw_getTransaction net (run_sent w @ [ops]) hash i = Inr NotFoundYet)
          \<and> nw_getTransaction net (run_sent w @ [ops]) hash n = Inr (Confirmed ledger))
     \<and> w' = w\<lparr>run_sent := run_sent w @ [ops]\<rparr>"
    unfolding submitOperations_Inr_iff settles_def DEPLOY_POLL_ATTEMPTS_def ..
  show "(\<forall>i < 30. rpc_getTransaction rpc hash i = Inr TxPending) \<longrightarrow> pollForResult rpc hash 0 POLL_ATTEMPTS = Inr 0"
    using pollForResult_never_fails_pending [of 0 POLL_ATTEMPTS rpc hash] by (simp add: POLL_ATTEMPTS_def)
qed

theorem submission_returns_when_confirmed_witness:
  "pollForResult \<lparr>rpc_getAccount = \<lambda>k. Inr (), rpc_simulate = \<lambda>c. Inr SimulationOther, rpc_send = \<lambda>c. Inr (Sent ''h''),
     rpc_getTransaction = \<lambda>hash i. Inr TxPending\<rparr> ''h'' 0 POLL_ATTEMPTS = Inr 0"
proof -
  let ?rpc = "\<lparr>rpc_getAccount = \<lambda>k. Inr (), rpc_simulate = \<lambda>c. Inr SimulationOther, rpc_send = \<lambda>c. Inr (Sent ''h''),
     rpc_getTransaction = \<lambda>hash i. Inr TxPending\<rparr>"
  note both = submission_returns_when_confirmed [of sample_network sample_ctx "[]" "[]" sample_start "''h''" None sample_start ?rpc]
  have "\<forall>i < 30. rpc_getTransaction ?rpc ''h'' i = Inr TxPending" by simp
  then show ?thesis by (rule both [THEN conjunct2, THEN mp])
qed

end
