(* ===== verification/VerifyDeployment.thy ===== *)
theory VerifyDeployment
  imports DeployTheorems "HOL-Library.Multiset"
begin

text \<open>
  \<open>scripts/src/verify-deployment.ts\<close>: reading a deployment back from the network with nothing but
  the addresses file.  The file, whose shape the script does not check, is an argument; printing the
  report is left out, and the mark after a claim is the Boolean \<open>ck_ok\<close>.
\<close>

section \<open>Checks\<close>

record AddressesFile =
  af_network :: string
  af_token :: string
  af_admin :: string
  af_treasury :: string
  af_contracts :: Addresses
  af_feeBps :: int
  af_regions :: "string list"
  af_corridors :: "string list"

record Check =
  ck_subject :: string
  ck_claim :: string
  ck_ok :: bool

definition check :: "string \<Rightarrow> string \<Rightarrow> bool \<Rightarrow> Check" where
  "check subject claim ok = \<lparr>ck_subject = subject, ck_claim = claim, ck_ok = ok\<rparr>"

definition failures :: "Check list \<Rightarrow> string list" where
  "failures checks = map (\<lambda>c. ck_subject c @ '': '' @ ck_claim c) (filter (\<lambda>c. \<not> ck_ok c) checks)"

definition exit_code :: "Check list \<Rightarrow> nat" where
  "exit_code checks = (if failures checks = [] then 0 else 1)"

definition sameSet :: "Codec \<Rightarrow> native option \<Rightarrow> string list \<Rightarrow> bool" where
  "sameSet codec actual expected = (case actual of
     Some (NArray vs) \<Rightarrow>
       (let got = sort (map (native_string codec) vs); want = sort expected in
        length got = length want \<and> list_all (\<lambda>i. got ! i = want ! i) [0..<length got])
   | _ \<Rightarrow> False)"

definition answers_regions :: "native option \<Rightarrow> bool" where
  "answers_regions v \<longleftrightarrow> (case v of Some (NArray vs) \<Rightarrow> vs \<noteq> [] | _ \<Rightarrow> False)"

definition band_check :: "string \<Rightarrow> native option \<Rightarrow> Check" where
  "band_check corridor thresholds = check ''compliance-hook'' (''has tier bands for '' @ corridor) (\<not> native_missing thresholds)"

definition check_bands ::
  "Host \<Rightarrow> Network \<Rightarrow> DeployContext \<Rightarrow> AddressesFile \<Rightarrow> string \<Rightarrow> Check list \<Rightarrow> (Run, Check list) act" where
  "check_bands host net ctx addresses corridor checks =
     andThen (read_with (ho_lib host) net ctx (ad_complianceHook (af_contracts addresses)) ''get_tier_thresholds''
       [ScSymbol corridor]) (\<lambda>thresholds.
     ret (checks @ [band_check corridor thresholds]))"

definition escrow_checks :: "AddressesFile \<Rightarrow> native option \<Rightarrow> Check list" where
  "escrow_checks addresses escrowConfig =
     (let ids = af_contracts addresses in [
      check ''remit-escrow'' ''is initialized (escrow_config returns a value)'' (\<not> native_missing escrowConfig),
      check ''remit-escrow'' ''points at the registry in this file''
        (native_member ''agent_registry'' escrowConfig = Some (NString (ad_agentRegistry ids))),
      check ''remit-escrow'' ''points at the compliance hook in this file''
        (native_member ''compliance_hook'' escrowConfig = Some (NString (ad_complianceHook ids))),
      check ''remit-escrow'' (''charges the configured '' @ show_int (af_feeBps addresses) @ '' bps'')
        (native_member ''fee_bps'' escrowConfig = Some (NNumber (af_feeBps addresses))),
      check ''remit-escrow'' ''pays fees to the treasury in this file''
        (native_member ''treasury'' escrowConfig = Some (NString (af_treasury addresses)))])"

definition verify_deployment :: "Host \<Rightarrow> Network \<Rightarrow> DeployContext \<Rightarrow> AddressesFile \<Rightarrow> (Run, Check list) act" where
  "verify_deployment host net ctx addresses =
     (let ids = af_contracts addresses; query = read_with (ho_lib host) net ctx; same = sameSet (ho_codec host) in
      andThen (query (ad_agentRegistry ids) ''list_regions'' []) (\<lambda>regions.
      andThen (query (ad_complianceHook ids) ''list_corridors'' []) (\<lambda>corridors.
      andThen (for_each (check_bands host net ctx addresses) (af_corridors addresses) []) (\<lambda>bands.
      andThen (query (ad_liquidityPool ids) ''pool_config'' []) (\<lambda>poolConfig.
      andThen (query (ad_remitEscrow ids) ''escrow_config'' []) (\<lambda>escrowConfig.
      andThen (query (ad_remitEscrow ids) ''escrow_stats'' []) (\<lambda>stats.
      andThen (query (af_token addresses) ''decimals'' []) (\<lambda>decimals.
      ret ([check ''agent-registry'' ''responds to list_regions'' (answers_regions regions),
            check ''agent-registry'' (''has the configured regions ('' @ join_text '', '' (af_regions addresses) @ '')'')
              (same regions (af_regions addresses)),
            check ''compliance-hook'' (''has the configured corridors ('' @ join_text '', '' (af_corridors addresses) @ '')'')
              (same corridors (af_corridors addresses))]
         @ bands
         @ [check ''liquidity-pool'' ''is initialized (pool_config returns a value)'' (\<not> native_missing poolConfig)]
         @ escrow_checks addresses escrowConfig
         @ [check ''remit-escrow'' ''reports stats (a fresh deployment has none)'' (\<not> native_missing stats),
            check ''token (SAC)'' ''is live and answers decimals()'' (decimals \<notin> {None, Some NUndefined})])))))))))"

section \<open>What the checks mean\<close>

text \<open>Two lists pass the comparison exactly when they hold the same texts equally often.\<close>

lemma sorted_lists_agree:
  fixes got want :: "string list"
  shows "length (sort got) = length (sort want) \<and> list_all (\<lambda>i. sort got ! i = sort want ! i) [0..<length (sort got)]
    \<longleftrightarrow> mset got = mset want"
proof -
  have "length (sort got) = length (sort want) \<and> list_all (\<lambda>i. sort got ! i = sort want ! i) [0..<length (sort got)]
      \<longleftrightarrow> sort got = sort want"
    by (auto simp: list_all_iff intro: nth_equalityI) (metis length_sort)
  also have "\<dots> \<longleftrightarrow> mset got = mset want"
    by (metis mset_sort properties_for_sort sorted_sort)
  finally show ?thesis .
qed

lemma sameSet_iff:
  "sameSet codec actual expected \<longleftrightarrow>
     (\<exists>vs. actual = Some (NArray vs) \<and> mset (map (native_string codec) vs) = mset expected)"
proof (cases "\<exists>vs. actual = Some (NArray vs)")
  case True
  then obtain vs where "actual = Some (NArray vs)" by blast
  then show ?thesis
    unfolding sameSet_def Let_def sorted_lists_agree by (simp only: option.case native.case sorted_lists_agree) simp
next
  case False
  then show ?thesis by (auto simp: sameSet_def split: option.splits native.splits)
qed

text \<open>The value the network simulates for a read.\<close>

definition value_read :: "Network \<Rightarrow> history \<Rightarrow> string \<Rightarrow> string \<Rightarrow> Sc list \<Rightarrow> native option" where
  "value_read net h contractId method args =
     (case nw_simulate net h [Invoke contractId method args] of Inr (SimulationSuccess v) \<Rightarrow> v | _ \<Rightarrow> None)"

lemma cooperative_value:
  assumes "cooperative lib net"
  shows "simulated net h [Invoke c m args] v \<longleftrightarrow> v = value_read net h c m args"
proof -
  obtain u where "nw_simulate net h [Invoke c m args] = Inr (SimulationSuccess (Some u))"
    using assms unfolding cooperative_def by blast
  then show ?thesis by (auto simp: simulated_def value_read_def)
qed

lemma value_run:
  assumes "cooperative lib net"
  shows "andThen (read_with lib net ctx c m args) f w = f (value_read net (run_sent w) c m args) w"
  by (rule read_run [OF assms]) (simp add: cooperative_value [OF assms])

definition bands_of :: "Network \<Rightarrow> history \<Rightarrow> AddressesFile \<Rightarrow> Check list" where
  "bands_of net h a = map (\<lambda>c. band_check c
     (value_read net h (ad_complianceHook (af_contracts a)) ''get_tier_thresholds'' [ScSymbol c])) (af_corridors a)"

lemma bands_run:
  assumes "cooperative (ho_lib host) net"
  shows "for_each (check_bands host net ctx a) corridors checks w = (Inr (checks @ map (\<lambda>c. band_check c
     (value_read net (run_sent w) (ad_complianceHook (af_contracts a)) ''get_tier_thresholds'' [ScSymbol c])) corridors), w)"
proof (induction corridors arbitrary: checks)
  case (Cons c corridors)
  have "check_bands host net ctx a c checks w = (Inr (checks @ [band_check c
      (value_read net (run_sent w) (ad_complianceHook (af_contracts a)) ''get_tier_thresholds'' [ScSymbol c])]), w)"
    by (simp add: check_bands_def value_run [OF assms] act_run)
  then show ?case by (simp add: andThen_Inr [of "check_bands host net ctx a c checks"] Cons.IH)
qed (simp add: act_run)

lemma bands_then:
  assumes "cooperative (ho_lib host) net"
  shows "andThen (for_each (check_bands host net ctx a) (af_corridors a) []) f w = f (bands_of net (run_sent w) a) w"
  by (rule andThen_Inr) (simp add: bands_run [OF assms] bands_of_def)

text \<open>The specification: what the network must answer for every check to pass.\<close>

definition matches_file :: "Host \<Rightarrow> Network \<Rightarrow> AddressesFile \<Rightarrow> history \<Rightarrow> bool" where
  "matches_file host net a h \<longleftrightarrow>
     (let ids = af_contracts a; v = value_read net h; text = native_string (ho_codec host);
          escrow = v (ad_remitEscrow ids) ''escrow_config'' [] in
      (\<exists>vs. v (ad_agentRegistry ids) ''list_regions'' [] = Some (NArray vs) \<and> vs \<noteq> [] \<and> mset (map text vs) = mset (af_regions a))
      \<and> (\<exists>vs. v (ad_complianceHook ids) ''list_corridors'' [] = Some (NArray vs) \<and> mset (map text vs) = mset (af_corridors a))
      \<and> (\<forall>c \<in> set (af_corridors a). \<not> native_missing (v (ad_complianceHook ids) ''get_tier_thresholds'' [ScSymbol c]))
      \<and> \<not> native_missing (v (ad_liquidityPool ids) ''pool_config'' [])
      \<and> native_member ''agent_registry'' escrow = Some (NString (ad_agentRegistry ids))
      \<and> native_member ''compliance_hook'' escrow = Some (NString (ad_complianceHook ids))
      \<and> native_member ''fee_bps'' escrow = Some (NNumber (af_feeBps a))
      \<and> native_member ''treasury'' escrow = Some (NString (af_treasury a))
      \<and> \<not> native_missing (v (ad_remitEscrow ids) ''escrow_stats'' [])
      \<and> v (af_token a) ''decimals'' [] \<notin> {None, Some NUndefined})"

lemma failures_Nil_iff: "failures checks = [] \<longleftrightarrow> (\<forall>c \<in> set checks. ck_ok c)"
  by (auto simp: failures_def filter_empty_conv)

lemma member_not_missing: "native_member k v = Some u \<Longrightarrow> \<not> native_missing v"
  by (auto simp: native_member_def native_missing_def split: option.splits)

lemma regions_checks_iff:
  "answers_regions v \<and> sameSet codec v expected
   \<longleftrightarrow> (\<exists>vs. v = Some (NArray vs) \<and> vs \<noteq> [] \<and> mset (map (native_string codec) vs) = mset expected)"
proof (cases "\<exists>vs. v = Some (NArray vs)")
  case True
  then obtain vs where v: "v = Some (NArray vs)" by blast
  have "answers_regions v \<longleftrightarrow> vs \<noteq> []" by (simp add: answers_regions_def v)
  then show ?thesis unfolding sameSet_iff v by (simp only: option.inject native.inject) blast
next
  case False
  then have "\<not> sameSet codec v expected" unfolding sameSet_iff by blast
  then show ?thesis using False by blast
qed

definition report :: "Host \<Rightarrow> Network \<Rightarrow> AddressesFile \<Rightarrow> history \<Rightarrow> Check list" where
  "report host net a h =
     (let ids = af_contracts a; v = value_read net h; same = sameSet (ho_codec host) in
       [check ''agent-registry'' ''responds to list_regions'' (answers_regions (v (ad_agentRegistry ids) ''list_regions'' [])),
        check ''agent-registry'' (''has the configured regions ('' @ join_text '', '' (af_regions a) @ '')'')
          (same (v (ad_agentRegistry ids) ''list_regions'' []) (af_regions a)),
        check ''compliance-hook'' (''has the configured corridors ('' @ join_text '', '' (af_corridors a) @ '')'')
          (same (v (ad_complianceHook ids) ''list_corridors'' []) (af_corridors a))]
     @ bands_of net h a
     @ [check ''liquidity-pool'' ''is initialized (pool_config returns a value)''
          (\<not> native_missing (v (ad_liquidityPool ids) ''pool_config'' []))]
     @ escrow_checks a (v (ad_remitEscrow ids) ''escrow_config'' [])
     @ [check ''remit-escrow'' ''reports stats (a fresh deployment has none)''
          (\<not> native_missing (v (ad_remitEscrow ids) ''escrow_stats'' [])),
        check ''token (SAC)'' ''is live and answers decimals()'' (v (af_token a) ''decimals'' [] \<notin> {None, Some NUndefined})])"

lemma verify_deployment_run:
  assumes "cooperative (ho_lib host) net"
  shows "verify_deployment host net ctx a w = (Inr (report host net a (run_sent w)), w)"
  unfolding verify_deployment_def report_def Let_def value_run [OF assms] bands_then [OF assms] act_run ..

lemma check_ok [simp]: "ck_ok (check s c ok) = ok"
  by (simp add: check_def)

lemma escrow_checks_iff:
  "(\<forall>c \<in> set (escrow_checks a e). ck_ok c) \<longleftrightarrow>
     native_member ''agent_registry'' e = Some (NString (ad_agentRegistry (af_contracts a)))
     \<and> native_member ''compliance_hook'' e = Some (NString (ad_complianceHook (af_contracts a)))
     \<and> native_member ''fee_bps'' e = Some (NNumber (af_feeBps a))
     \<and> native_member ''treasury'' e = Some (NString (af_treasury a))"
  by (simp add: escrow_checks_def Let_def) (metis member_not_missing)

lemma bands_of_iff:
  "(\<forall>c \<in> set (bands_of net h a). ck_ok c) \<longleftrightarrow> (\<forall>c \<in> set (af_corridors a).
     \<not> native_missing (value_read net h (ad_complianceHook (af_contracts a)) ''get_tier_thresholds'' [ScSymbol c]))"
  by (simp add: bands_of_def band_check_def)

lemma report_passes_iff: "exit_code (report host net a h) = 0 \<longleftrightarrow> matches_file host net a h"
proof -
  have "exit_code (report host net a h) = 0 \<longleftrightarrow> (\<forall>c \<in> set (report host net a h). ck_ok c)"
    by (simp add: exit_code_def failures_Nil_iff)
  also have "\<dots> \<longleftrightarrow> matches_file host net a h"
    unfolding report_def matches_file_def Let_def set_append ball_Un escrow_checks_iff bands_of_iff regions_checks_iff [symmetric]
      sameSet_iff [of _ "value_read net h (ad_complianceHook _) _ _", symmetric]
    by simp
  finally show ?thesis .
qed

lemma cross_references_pass:
  assumes "cooperative (ho_lib host) net" "reads_back host net config (af_contracts a) h"
    and "c \<in> set (report host net a h)"
    and "ck_claim c \<in> {''points at the registry in this file'', ''points at the compliance hook in this file''}"
  shows "ck_ok c"
proof -
  let ?e = "value_read net h (ad_remitEscrow (af_contracts a)) ''escrow_config'' []"
  have e: "native_member ''agent_registry'' ?e = Some (NString (ad_agentRegistry (af_contracts a)))"
    "native_member ''compliance_hook'' ?e = Some (NString (ad_complianceHook (af_contracts a)))"
    using assms(2) unfolding reads_back_def cooperative_value [OF assms(1)] by blast+
  have "c \<in> set (escrow_checks a ?e)"
    using assms(3,4) by (auto simp: report_def Let_def bands_of_def band_check_def check_def)
  then show ?thesis using assms(4) e by (auto simp: escrow_checks_def Let_def check_def)
qed


definition sample_file :: AddressesFile where
  "sample_file = \<lparr>af_network = ''testnet'', af_token = ''CT'', af_admin = ''GADMIN'', af_treasury = ''GT'',
     af_contracts = \<lparr>ad_agentRegistry = ''Cr'', ad_complianceHook = ''Ch'', ad_liquidityPool = ''Cp'', ad_remitEscrow = ''Ce''\<rparr>,
     af_feeBps = 200, af_regions = [''NG_LAG''], af_corridors = [''NGN_LAG'']\<rparr>"


end
