(* ===== verification/Spec2Isabelle.thy ===== *)
theory Spec2Isabelle
  imports ConsoleContract Middleware ClaimCode VerifyDeployment
begin

text \<open>
  Verification of the TypeScript services of Soroban RemitBridge: the backend that prices transfers,
  verifies identities, watches agents' liquidity and indexes contract events; the operator console's
  doors; the claim codes of the mobile application; and the scripts that deploy the four contracts.

  \<^bold>\<open>Conventions.\<close>  A string is a list of code units below 256.  A fallible computation is a sum, \<open>Inl\<close>
  the error (\<open>failure\<close>, theory \<open>Errors\<close>: an \<open>AppError\<close> or a plain error with its message), \<open>Inr\<close> the
  value.  A step that also changes state is an \<open>act\<close> (theory \<open>Effects\<close>): it returns or throws, and what it
  wrote before a throw stays written, since the services use no transaction.  BigInts are \<open>int\<close> with
  truncating division; a JavaScript number the code computes with is an integer or known not to be one
  (\<open>jsnum\<close>).  Code that is not in the repository is an argument: digests, key derivation, the XDR and UTF-8
  codecs, the schema library's wording, HTTP answers, the RPC node, the clock, fresh identifiers.

  \<^bold>\<open>Foundations.\<close>  \<open>Prelude\<close> (sequencing, division, lists), \<open>JsString\<close> and \<open>JsDate\<close> (string and date
  primitives of the language, with their round trips), \<open>Json\<close> and \<open>JsonRoundtrip\<close> (values, rendering,
  parsing: parsing a rendering gives the value back), \<open>Base64\<close>, \<open>Canonical\<close> (the canonical serialisation,
  injective up to key order, and the locale \<open>mac_scheme\<close>), \<open>Zod\<close> (the schema combinators the routers
  use), \<open>Store\<close> (tables and the locale \<open>keyed_table\<close> of their laws, interpreted on the operations), \<open>Schema\<close>
  (\<open>backend/prisma/schema.prisma\<close>: one record per model, \<open>Database\<close> the tables), \<open>Env\<close>, \<open>Errors\<close>,
  \<open>Constants\<close> and \<open>Money\<close> (the files of those names under \<open>backend/src/config\<close> and \<open>backend/src/lib\<close>), and
  \<open>Contracts\<close>, the facts of the Rust contracts the services duplicate (fee, bond, tiers, errors, topics,
  entry points).  \<open>Money\<close> shows that \<open>applyBps\<close> is the contract's fee and that parsing and rendering of
  amounts are inverse.

  \<^bold>\<open>Quoting.\<close>  \<open>Horizon\<close> (\<open>quoting-service/oracle.ts\<close>, \<open>horizon-source.ts\<close>), \<open>Signer\<close> (\<open>signer.ts\<close>) and
  \<open>Quoting\<close> (\<open>service.ts\<close>, \<open>router.ts\<close>): a rate is the best usable path, a signature is accepted exactly
  when it is the one of the quote's other fields, and the figures of a stored quote add up.

  \<^bold>\<open>Identity verification.\<close>  \<open>Provider\<close> (\<open>kyc-orchestration/provider.ts\<close>, \<open>mock-provider.ts\<close>,
  \<open>http-provider.ts\<close>; the locale \<open>webhook_verifier\<close> is interpreted on both providers), \<open>Chain\<close>
  (\<open>soroban/rpc.ts\<close>, \<open>contracts.ts\<close>), \<open>Kyc\<close> (\<open>service.ts\<close>, with state \<open>World\<close>: the database and the calls
  submitted) and \<open>KycApi\<close> (\<open>router.ts\<close>): a submission publishes at most once and only an earned verdict,
  revocation goes to the chain first, the sweep expires exactly what has lapsed, a webhook writes one row
  and only when signed.

  \<^bold>\<open>Liquidity.\<close>  \<open>Liquidity\<close> and \<open>TopUps\<close> (\<open>agent-liquidity/service.ts\<close>) and \<open>LiquidityApi\<close> (\<open>router.ts\<close>):
  the capacity is the pool's headroom, a sweep opens each alert once, and requests move along an abstract
  life cycle, an inductive relation that sequences of service operations refine; interleaved executions,
  as explicit schedules of their two halves, draw twice.

  \<^bold>\<open>Indexing.\<close>  \<open>Decoder\<close> (\<open>event-indexer/decoder.ts\<close>), \<open>Indexer\<close> and \<open>IndexerProofs\<close> (\<open>indexer.ts\<close>,
  \<open>cli.ts\<close>), \<open>TransfersApi\<close> (\<open>transfers/router.ts\<close>): amounts are exact, a replay changes nothing, the cursor
  never runs ahead of what was handled.  The polling loop runs for a given number of turns; the theorems
  hold for every number.

  \<^bold>\<open>HTTP.\<close>  \<open>Middleware\<close> (\<open>api/middleware.ts\<close>, the readiness route of \<open>server.ts\<close>): error rendering, the rate
  limiter and its bound over any stretch of a window's length.

  \<^bold>\<open>Console.\<close>  \<open>OperatorSession\<close>, \<open>Throttle\<close>, \<open>Policy\<close>, \<open>Accounts\<close> (\<open>admin-web/src/lib/auth\<close>) and \<open>ConsoleApi\<close>
  (\<open>proxy.ts\<close> and the route handlers): a session lasts its lifetime, the throttle counts the failures of
  its window, and a mutation reaches the backend only under a session that may perform it.
  \<open>ConsoleClient\<close> (\<open>admin-web/src/lib/api.ts\<close>) and \<open>Endpoints\<close> (\<open>endpoints.ts\<close>) are the console's reads: a
  schema is a datatype whose parser keeps declared fields, and every failure is a result.
  \<open>ConsoleContract\<close> puts the backend's handlers behind them, with their rows rendered in full: what a
  handler answers, the console can read.

  \<^bold>\<open>Claim codes.\<close>  \<open>ClaimCode\<close> (\<open>mobile/src/lib/claim.ts\<close>): a code survives grouping, case and look-alike
  letters.

  \<^bold>\<open>Deployment.\<close>  \<open>Seed\<close> (\<open>config/deploy-config.ts\<close>, \<open>prisma/seed.ts\<close>; the locale \<open>overwriting\<close> is
  interpreted on regions and corridors), \<open>DeployPlan\<close> (\<open>scripts/src/env.ts\<close>), \<open>Stellar\<close> (\<open>stellar.ts\<close>),
  \<open>Deploy\<close> (\<open>deploy-contracts.ts\<close>), \<open>DeployProofs\<close>, \<open>DeployLiveness\<close>, \<open>DeployTheorems\<close> and \<open>VerifyDeployment\<close>
  (\<open>verify-deployment.ts\<close>).  The state \<open>Run\<close> is what was submitted and the files; the network's answers may
  depend on all that was submitted before.  A successful deployment carries out exactly its plan, which
  is written down independently of the script; a failed one writes no file; a dry run asks the network
  nothing; and against a network that confirms in time the script returns.

  \<^bold>\<open>Bounds.\<close>  Loops over data are structural.  The polling loops have the source's own limits, thirty
  attempts in the backend and sixty in the scripts, and running out is an outcome of the model.  The JSON
  parser recurses on fuel of twice the length of its text plus one, which every parse of a rendering is
  proved to stay within.

  \<^bold>\<open>Not modelled.\<close>  \<open>api/openapi.ts\<close> (a constant document), the logger, the database client, process start
  and shutdown, the user interfaces (\<open>.tsx\<close>), the display formatting of the console, the fetch wrapper and formatting of
  the mobile application, key storage of the mobile platform, \<open>create-test-token.ts\<close> and \<open>smoke-test.ts\<close>
  (operator scripts over the modelled submission path), and the bodies of the Rust contracts.  Within the
  modelled parts the following is left out: progress messages and logs; columns maintained by the
  database (\<open>updatedAt\<close>) and the rendering of decimal columns, which are arguments where a response shows
  them; the order of rows with equal sort keys, taken as insertion order; several readings of the clock
  within one console request, taken as one; and text beyond Latin-1: a message with such a character
  carries a transliteration, which the theory concerned states.
\<close>

end
